(* ===== verification/MR_Prelude.thy ===== *)
theory MR_Prelude
  imports Complex_Main "HOL-Library.List_Lexorder" "HOL-Library.Char_ord"
begin

text \<open>
  Shared vocabulary of the development: the representation of timestamps, JavaScript
  truthiness of optional strings, the error value of a failed request, and the generic
  facts on list chunks, filters and sums that the component theories rely on.

  \<^item> A timestamp of the program is an ISO-8601 string. The program uses it in three
    ways: as an opaque string (\<open>!==\<close>, SQL text comparison), through
    \<open>new Date(s).getTime()\<close> (milliseconds), and through SQLite's
    \<open>strftime('%s', s)\<close> (whole seconds). A \<open>stamp\<close> carries the text together with
    the millisecond value the platform's parser assigns to it; the parser itself is not
    part of the repository and is not modelled.
  \<^item> Text comparison is the lexicographic order of \<open>HOL-Library.List_Lexorder\<close> over
    the byte order of \<open>HOL-Library.Char_ord\<close>, which is SQLite's BINARY collation.
  \<^item> \<open>mr_defs\<close> collects the definitions a proof by evaluation unfolds.
  \<^item> \<open>at_minute\<close> builds the timestamps of the worked examples: minute \<open>m\<close> after
    a fixed origin, with a text that grows with \<open>m\<close>.
\<close>

named_theorems mr_defs "definitions unfolded when a model is evaluated"

type_synonym ident = int

record stamp =
  iso :: string
  millis :: int

definition epoch_seconds :: "stamp \<Rightarrow> int" where
  "epoch_seconds s = millis s div 1000"

definition minutes_between :: "stamp \<Rightarrow> stamp \<Rightarrow> rat" where
  "minutes_between start stop = of_int (epoch_seconds stop - epoch_seconds start) / 60"

definition truthy :: "string option \<Rightarrow> bool" where
  "truthy s = (case s of None \<Rightarrow> False | Some str \<Rightarrow> str \<noteq> [])"

definition at_minute :: "int \<Rightarrow> stamp" where
  "at_minute m = \<lparr>iso = ''T+'' @ replicate (nat m) CHR ''m'', millis = 60000 * m\<rparr>"

datatype fetch_error = RequestFailed

definition chunk :: "nat \<Rightarrow> nat \<Rightarrow> 'a list \<Rightarrow> 'a list" where
  "chunk n k xs = take n (drop (n * k) xs)"

definition count_where :: "('a \<Rightarrow> bool) \<Rightarrow> 'a list \<Rightarrow> nat" where
  "count_where P xs = length (filter P xs)"

fun non_null :: "'a option list \<Rightarrow> 'a list" where
  "non_null [] = []"
| "non_null (None # vs) = non_null vs"
| "non_null (Some v # vs) = v # non_null vs"

definition group_by :: "('r \<Rightarrow> 'k :: linorder option) \<Rightarrow> 'r list \<Rightarrow> ('k \<times> 'r list) list" where
  "group_by key rows =
     map (\<lambda>g. (g, filter (\<lambda>r. key r = Some g) rows)) (sort (remdups (non_null (map key rows))))"

definition average :: "rat list \<Rightarrow> rat option" where
  "average xs = (if xs = [] then None else Some (sum_list xs / of_nat (length xs)))"

declare epoch_seconds_def [mr_defs] minutes_between_def [mr_defs] truthy_def [mr_defs]
  chunk_def [mr_defs] count_where_def [mr_defs] average_def [mr_defs] group_by_def [mr_defs]

subsection \<open>Truthiness\<close>

lemma truthy_simps [simp]:
  "truthy None = False"
  "truthy (Some []) = False"
  "truthy (Some (c # cs)) = True"
  by (simp_all add: truthy_def)

lemma truthy_Some_iff: "truthy s \<longleftrightarrow> (\<exists>str. s = Some str \<and> str \<noteq> [])"
  by (cases s) (simp_all add: truthy_def)

subsection \<open>Chunks of a list\<close>

lemma chunk_append_rest: "chunk n k xs @ drop (n * Suc k) xs = drop (n * k) xs"
  using append_take_drop_id [of n "drop (n * k) xs"] by (simp add: chunk_def)

lemma chunk_Nil_iff: "0 < n \<Longrightarrow> chunk n k xs = [] \<longleftrightarrow> length xs \<le> n * k"
  by (simp add: chunk_def)

lemma chunk_short_last: "length (chunk n k xs) \<noteq> n \<Longrightarrow> drop (n * Suc k) xs = []"
  by (simp add: chunk_def min_def split: if_splits)

lemma chunk_full_iff: "length (chunk n k xs) = n \<longleftrightarrow> n * Suc k \<le> length xs"
  by (cases "n = 0") (auto simp: chunk_def)

lemma length_chunk_le: "length (chunk n k xs) \<le> n"
  by (simp add: chunk_def)

lemma chunk_zero: "chunk n 0 xs = take n xs"
  by (simp add: chunk_def)

lemma take_chunk_append: "take (n * k) xs @ chunk n k xs = take (n * Suc k) xs"
  by (simp add: chunk_def take_add [symmetric] add.commute)

lemma chunk_append_take:
  "chunk n k xs @ take (n * m) (drop (n * Suc k) xs) = take (n * Suc m) (drop (n * k) xs)"
proof -
  have "drop (n * Suc k) xs = drop n (drop (n * k) xs)"
    by (simp add: add.commute)
  then show ?thesis
    by (simp add: chunk_def take_add)
qed

subsection \<open>Counting and averaging\<close>

lemma count_where_Nil [simp]: "count_where P [] = 0"
  by (simp add: count_where_def)

lemma count_where_Cons [simp]:
  "count_where P (x # xs) = (if P x then Suc (count_where P xs) else count_where P xs)"
  by (simp add: count_where_def)

lemma count_where_append [simp]:
  "count_where P (xs @ ys) = count_where P xs + count_where P ys"
  by (simp add: count_where_def)

lemma count_where_le_length: "count_where P xs \<le> length xs"
  by (simp add: count_where_def)

lemma count_where_mono:
  "(\<And>x. x \<in> set xs \<Longrightarrow> P x \<Longrightarrow> Q x) \<Longrightarrow> count_where P xs \<le> count_where Q xs"
  by (induction xs) auto

lemma count_where_cong_set:
  "(\<And>x. x \<in> set xs \<Longrightarrow> P x = Q x) \<Longrightarrow> count_where P xs = count_where Q xs"
  by (induction xs) auto

lemma count_where_filter: "count_where P (filter Q xs) = count_where (\<lambda>x. Q x \<and> P x) xs"
  by (induction xs) auto

lemma count_where_split:
  "count_where P xs + count_where (\<lambda>x. \<not> P x) xs = length xs"
  by (induction xs) auto

lemma average_Nil [simp]: "average [] = None"
  by (simp add: average_def)

lemma average_Cons:
  "average (x # xs) = Some ((x + sum_list xs) / (1 + of_nat (length xs)))"
  by (simp add: average_def add.commute)

lemma average_None_iff [simp]: "average xs = None \<longleftrightarrow> xs = []"
  by (simp add: average_def)

lemma average_replicate: "0 < n \<Longrightarrow> average (replicate n d) = Some d"
  by (simp add: average_def sum_list_replicate)

lemma average_bounds:
  assumes "average xs = Some a" and "\<And>x. x \<in> set xs \<Longrightarrow> lo \<le> x \<and> x \<le> hi"
  shows "lo \<le> a \<and> a \<le> hi"
proof -
  from assms(1) have ne: "xs \<noteq> []" and a: "a = sum_list xs / of_nat (length xs)"
    by (auto simp: average_def split: if_splits)
  from ne have pos: "(0::rat) < of_nat (length xs)" by simp
  have "sum_list (map (\<lambda>_. lo) xs) \<le> sum_list (map (\<lambda>x. x) xs)"
    by (rule sum_list_mono) (use assms(2) in blast)
  then have lo: "of_nat (length xs) * lo \<le> sum_list xs"
    by (simp add: sum_list_triv)
  have "sum_list (map (\<lambda>x. x) xs) \<le> sum_list (map (\<lambda>_. hi) xs)"
    by (rule sum_list_mono) (use assms(2) in blast)
  then have hi: "sum_list xs \<le> of_nat (length xs) * hi"
    by (simp add: sum_list_triv)
  from lo hi pos show ?thesis
    unfolding a by (simp add: pos_le_divide_eq pos_divide_le_eq mult.commute)
qed

subsection \<open>Null values and grouping\<close>

lemma set_non_null [simp]: "set (non_null vs) = {v. Some v \<in> set vs}"
  by (induction vs rule: non_null.induct) auto

lemma length_non_null: "length (non_null vs) = count_where (\<lambda>v. v \<noteq> None) vs"
  by (induction vs rule: non_null.induct) auto

lemma non_null_append [simp]: "non_null (vs @ ws) = non_null vs @ non_null ws"
  by (induction vs rule: non_null.induct) auto

lemma non_null_map_Some [simp]: "non_null (map Some xs) = xs"
  by (induction xs) auto

lemma non_null_Nil_iff: "non_null vs = [] \<longleftrightarrow> (\<forall>v \<in> set vs. v = None)"
  by (induction vs rule: non_null.induct) auto

lemma non_null_map:
  "non_null (map f xs) = map (\<lambda>x. the (f x)) (filter (\<lambda>x. f x \<noteq> None) xs)"
  by (induction xs) (auto split: option.splits)

lemma non_null_Cons:
  "non_null (v # vs) = (case v of None \<Rightarrow> non_null vs | Some x \<Rightarrow> x # non_null vs)"
  by (cases v) simp_all

lemma set_non_null_map: "set (non_null (map f xs)) = {v. \<exists>x \<in> set xs. f x = Some v}"
  by (induction xs) (auto simp: non_null_Cons split: option.splits)

lemma group_keys: "map fst (group_by key rows) = sort (remdups (non_null (map key rows)))"
  by (simp add: group_by_def comp_def)

lemma group_keys_set: "fst ` set (group_by key rows) = {g. \<exists>r \<in> set rows. key r = Some g}"
  using group_keys [of key rows, THEN arg_cong, of set]
  by (simp add: set_non_null_map del: set_non_null)

lemma group_keys_distinct: "distinct (map fst (group_by key rows))"
  by (simp add: group_keys)

lemma group_keys_sorted: "sorted (map fst (group_by key rows))"
  by (simp add: group_keys)

lemma group_members:
  "(g, rs) \<in> set (group_by key rows) \<Longrightarrow> rs = filter (\<lambda>r. key r = Some g) rows \<and> rs \<noteq> []"
  by (auto simp: group_by_def filter_empty_conv)

lemma sum_list_indicator:
  "distinct ks \<Longrightarrow>
   (\<Sum>k\<leftarrow>ks. if a = Some k then 1 else 0) = (if a \<in> Some ` set ks then (1 :: nat) else 0)"
  by (induction ks) auto

lemma sum_list_count_by_key:
  "distinct ks \<Longrightarrow>
   (\<Sum>k\<leftarrow>ks. count_where (\<lambda>r. key r = Some k) rows)
     = count_where (\<lambda>r. key r \<in> Some ` set ks) rows"
proof (induction rows)
  case Nil
  then show ?case by simp
next
  case (Cons r rows)
  have "(\<Sum>k\<leftarrow>ks. count_where (\<lambda>r. key r = Some k) (r # rows))
      = (\<Sum>k\<leftarrow>ks. (if key r = Some k then 1 else 0)
          + count_where (\<lambda>r. key r = Some k) rows)"
    by (intro arg_cong [where f = sum_list] map_cong refl) simp
  also have "\<dots> = (\<Sum>k\<leftarrow>ks. if key r = Some k then 1 else 0)
        + (\<Sum>k\<leftarrow>ks. count_where (\<lambda>r. key r = Some k) rows)"
    by (rule sum_list_addf)
  finally show ?case using Cons by (simp add: sum_list_indicator)
qed

lemma append_sep_inject:
  "c \<notin> set xs \<Longrightarrow> c \<notin> set xs' \<Longrightarrow>
   xs @ c # ys = xs' @ c # ys' \<longleftrightarrow> xs = xs' \<and> ys = ys'"
proof (induction xs arbitrary: xs')
  case Nil
  then show ?case by (cases xs') auto
next
  case (Cons x xs)
  then show ?case by (cases xs') auto
qed

lemma map_filter_append:
  "List.map_filter f (xs @ ys) = List.map_filter f xs @ List.map_filter f ys"
  by (simp add: List.map_filter_def)

lemma find_Some_holds: "find P xs = Some x \<Longrightarrow> P x"
  by (auto simp: find_Some_iff)

lemma tl_tl_drop: "tl (tl xs) = drop 2 xs"
  by (simp add: drop_Suc numeral_2_eq_2)

lemma sum_list_count_all_keys:
  assumes "distinct ks" and "key ` set rows \<subseteq> set ks"
  shows "(\<Sum>k\<leftarrow>ks. count_where (\<lambda>r. key r = k) rows) = length rows"
proof -
  have "(\<Sum>k\<leftarrow>ks. count_where (\<lambda>r. Some (key r) = Some k) rows)
      = count_where (\<lambda>r. Some (key r) \<in> Some ` set ks) rows"
    using assms(1) by (rule sum_list_count_by_key)
  also have "\<dots> = count_where (\<lambda>r. True) rows"
    using assms(2) by (intro count_where_cong_set) auto
  finally show ?thesis by (simp add: count_where_def)
qed

lemma group_sizes_sum:
  "(\<Sum>(g, rs)\<leftarrow>group_by key rows. length rs) = count_where (\<lambda>r. key r \<noteq> None) rows"
proof -
  let ?ks = "sort (remdups (non_null (map key rows)))"
  have "(\<Sum>(g, rs)\<leftarrow>group_by key rows. length rs)
      = (\<Sum>k\<leftarrow>?ks. count_where (\<lambda>r. key r = Some k) rows)"
    by (simp add: group_by_def comp_def count_where_def)
  also have "\<dots> = count_where (\<lambda>r. key r \<in> Some ` set ?ks) rows"
    by (rule sum_list_count_by_key) simp
  also have "\<dots> = count_where (\<lambda>r. key r \<noteq> None) rows"
    by (rule count_where_cong_set) (auto simp: image_iff set_non_null_map simp del: set_non_null)
  finally show ?thesis .
qed

subsection \<open>Time differences\<close>

lemma minutes_between_self [simp]: "minutes_between s s = 0"
  by (simp add: minutes_between_def)

lemma minutes_between_nonneg:
  "millis start \<le> millis stop \<Longrightarrow> 0 \<le> minutes_between start stop"
  by (simp add: minutes_between_def epoch_seconds_def zdiv_mono1)

lemma minutes_between_gt_iff:
  "of_int t < minutes_between start stop \<longleftrightarrow> 60 * t < epoch_seconds stop - epoch_seconds start"
proof -
  have "of_int t < minutes_between start stop
      \<longleftrightarrow> (of_int (60 * t) :: rat) < of_int (epoch_seconds stop - epoch_seconds start)"
    by (simp add: minutes_between_def pos_less_divide_eq mult.commute)
  then show ?thesis by (simp only: of_int_less_iff)
qed

lemma minutes_between_at_minute [simp]:
  "minutes_between (at_minute a) (at_minute b) = of_int (b - a)"
proof -
  have "60000 * b div 1000 - 60000 * a div 1000 = 60 * (b - a)" by simp
  then show ?thesis
    by (simp add: minutes_between_def epoch_seconds_def at_minute_def)
qed

subsection \<open>Text order\<close>

lemma strict_prefix_greater: "ys \<noteq> [] \<Longrightarrow> \<not> (xs @ ys \<le> (xs :: string))"
  by (induction xs) simp_all

lemma prefix_le_extension: "(xs :: string) \<le> xs @ ys"
  by (induction xs) simp_all

end
