(* ===== verification/Store.thy ===== *)
theory Store
  imports MR_Prelude
begin

text \<open>
  The persistent store: the second half of \<open>src/src/index.ts\<close> (the database module,
  lines 427-608): the \<open>MergeRequestData\<close> interface and the operations \<open>saveProject\<close>,
  \<open>saveMergeRequest\<close> and \<open>getMergeRequest\<close>.

  A table is the list of its rows in row-id order. \<open>INSERT OR REPLACE\<close> on a table
  with a primary key deletes the row that holds the key, if any, and inserts the new
  row with a fresh row id, that is at the end of the list. (For \<open>projects\<close>, whose key
  \<open>id INTEGER PRIMARY KEY\<close> is the row id itself, SQLite keeps the rows in the order of
  their ids; the program never reads the projects in order, and theory \<open>Row_Order\<close>
  shows that no query depends on the position of a row.) \<open>SELECT \<dots> WHERE\<close> on the
  full key is the first row that holds it. Columns declared \<open>NOT NULL\<close> are fields of
  their type, nullable columns are \<open>option\<close>s. The rows model the schema after
  \<open>initDatabase\<close> has added the \<open>squad\<close> and \<open>description\<close> columns.

  The abstract store is a pair of finite maps, from the project id and from the
  composite key (id, project id). The lemmas show that the list operations refine the
  map operations, that the primary keys stay unique, and the frame conditions of each
  operation.
\<close>

record project =
  proj_id :: ident
  name :: string
  path_with_namespace :: string
  proj_created_at :: stamp

record MergeRequestData =
  mr_id :: ident
  project_id :: ident
  title :: string
  description :: "string option"
  created_at :: stamp
  updated_at :: stamp
  state :: string
  author_id :: ident
  author_username :: string
  first_comment_at :: "stamp option"
  approved_at :: "stamp option"
  merged_at :: "stamp option"
  squad :: "string option"

record database =
  projects :: "project list"
  merge_requests :: "MergeRequestData list"

type_synonym mr_key = "ident \<times> ident"

definition key_of :: "MergeRequestData \<Rightarrow> mr_key" where
  "key_of mr = (mr_id mr, project_id mr)"

definition empty_database :: database where
  "empty_database = \<lparr>projects = [], merge_requests = []\<rparr>"

definition insert_or_replace :: "('r \<Rightarrow> 'k) \<Rightarrow> 'r \<Rightarrow> 'r list \<Rightarrow> 'r list" where
  "insert_or_replace key x rows = filter (\<lambda>r. key r \<noteq> key x) rows @ [x]"

definition saveProject :: "project \<Rightarrow> database \<Rightarrow> database" where
  "saveProject p db = db\<lparr>projects := insert_or_replace proj_id p (projects db)\<rparr>"

definition saveMergeRequest :: "MergeRequestData \<Rightarrow> database \<Rightarrow> database" where
  "saveMergeRequest mr db =
     db\<lparr>merge_requests := insert_or_replace key_of mr (merge_requests db)\<rparr>"

definition getMergeRequest :: "ident \<Rightarrow> ident \<Rightarrow> database \<Rightarrow> MergeRequestData option" where
  "getMergeRequest projectId mrId db =
     find (\<lambda>r. project_id r = projectId \<and> mr_id r = mrId) (merge_requests db)"

text \<open>The abstract store and the primary-key invariant.\<close>

definition mr_table :: "database \<Rightarrow> (mr_key \<rightharpoonup> MergeRequestData)" where
  "mr_table db = map_of (map (\<lambda>r. (key_of r, r)) (merge_requests db))"

definition project_table :: "database \<Rightarrow> (ident \<rightharpoonup> project)" where
  "project_table db = map_of (map (\<lambda>p. (proj_id p, p)) (projects db))"

definition keys_unique :: "database \<Rightarrow> bool" where
  "keys_unique db \<longleftrightarrow>
     distinct (map key_of (merge_requests db)) \<and> distinct (map proj_id (projects db))"

declare insert_or_replace_def [mr_defs] key_of_def [mr_defs] empty_database_def [mr_defs]
  saveProject_def [mr_defs]
  saveMergeRequest_def [mr_defs] getMergeRequest_def [mr_defs] keys_unique_def [mr_defs]

subsection \<open>Generic facts on keyed lists\<close>

lemma map_of_keyed_filter_other:
  "k \<noteq> k' \<Longrightarrow>
   map_of (map (\<lambda>r. (f r, r)) (filter (\<lambda>r. f r \<noteq> k) rs)) k' = map_of (map (\<lambda>r. (f r, r)) rs) k'"
  by (induction rs) auto

lemma map_of_keyed_filter_same:
  "map_of (map (\<lambda>r. (f r, r)) (filter (\<lambda>r. f r \<noteq> k) rs)) k = None"
  by (induction rs) auto

lemma map_of_insert_or_replace:
  "map_of (map (\<lambda>r. (f r, r)) (insert_or_replace f x rs))
     = (map_of (map (\<lambda>r. (f r, r)) rs))(f x \<mapsto> x)"
proof
  fix k
  show "map_of (map (\<lambda>r. (f r, r)) (insert_or_replace f x rs)) k
      = ((map_of (map (\<lambda>r. (f r, r)) rs))(f x \<mapsto> x)) k"
    unfolding insert_or_replace_def
    by (cases "k = f x")
      (simp_all add: map_of_append map_add_def map_of_keyed_filter_same
        map_of_keyed_filter_other split: option.split)
qed

lemma map_of_keyed_find:
  "map_of (map (\<lambda>r. (f r, r)) rs) k = find (\<lambda>r. f r = k) rs"
  by (induction rs) auto

lemma distinct_insert_or_replace:
  "distinct (map f rs) \<Longrightarrow> distinct (map f (insert_or_replace f x rs))"
  unfolding insert_or_replace_def by (induction rs) auto

lemma length_insert_or_replace:
  "distinct (map f rs) \<Longrightarrow>
   length (insert_or_replace f x rs)
     = (if f x \<in> f ` set rs then length rs else Suc (length rs))"
  unfolding insert_or_replace_def
proof (induction rs)
  case Nil
  then show ?case by simp
next
  case (Cons r rs)
  then show ?case
    by (cases "f r = f x") (auto simp: image_iff filter_id_conv)
qed

lemma insert_or_replace_fresh:
  "f x \<notin> f ` set rs \<Longrightarrow> insert_or_replace f x rs = rs @ [x]"
  unfolding insert_or_replace_def by (induction rs) auto

lemma set_insert_or_replace:
  "set (insert_or_replace f x rs) = insert x {r \<in> set rs. f r \<noteq> f x}"
  unfolding insert_or_replace_def by auto

lemma filter_insert_or_replace_other:
  "\<not> P x \<Longrightarrow> (\<And>r. P r \<Longrightarrow> f r \<noteq> f x) \<Longrightarrow>
   filter P (insert_or_replace f x rs) = filter P rs"
  unfolding insert_or_replace_def by (induction rs) auto

subsection \<open>The operations refine the maps\<close>

lemma key_of_eq_iff: "key_of r = (i, p) \<longleftrightarrow> mr_id r = i \<and> project_id r = p"
  by (auto simp: key_of_def)

lemma mr_table_saveMergeRequest:
  "mr_table (saveMergeRequest mr db) = (mr_table db)(key_of mr \<mapsto> mr)"
  by (simp add: mr_table_def saveMergeRequest_def map_of_insert_or_replace)

lemma mr_table_saveProject [simp]: "mr_table (saveProject p db) = mr_table db"
  by (simp add: mr_table_def saveProject_def)

lemma project_table_saveProject:
  "project_table (saveProject p db) = (project_table db)(proj_id p \<mapsto> p)"
  by (simp add: project_table_def saveProject_def map_of_insert_or_replace)

lemma project_table_saveMergeRequest [simp]:
  "project_table (saveMergeRequest mr db) = project_table db"
  by (simp add: project_table_def saveMergeRequest_def)

lemma getMergeRequest_mr_table:
  "getMergeRequest projectId mrId db = mr_table db (mrId, projectId)"
proof -
  have "(\<lambda>r. project_id r = projectId \<and> mr_id r = mrId) = (\<lambda>r. key_of r = (mrId, projectId))"
    by (auto simp: key_of_def)
  then show ?thesis
    by (simp add: getMergeRequest_def mr_table_def map_of_keyed_find)
qed

lemma getMergeRequest_Some_key:
  "getMergeRequest projectId mrId db = Some r \<Longrightarrow> mr_id r = mrId \<and> project_id r = projectId"
  by (auto simp: getMergeRequest_def dest: find_Some_iff [THEN iffD1])

lemma getMergeRequest_Some_mem:
  "getMergeRequest projectId mrId db = Some r \<Longrightarrow> r \<in> set (merge_requests db)"
  by (auto simp: getMergeRequest_def find_Some_iff)

lemma getMergeRequest_None_iff:
  "getMergeRequest projectId mrId db = None
     \<longleftrightarrow> (mrId, projectId) \<notin> key_of ` set (merge_requests db)"
  by (auto simp: getMergeRequest_def find_None_iff key_of_def image_iff)

lemma getMergeRequest_saveMergeRequest:
  "getMergeRequest projectId mrId (saveMergeRequest mr db)
     = (if mr_id mr = mrId \<and> project_id mr = projectId then Some mr
        else getMergeRequest projectId mrId db)"
  by (auto simp: getMergeRequest_mr_table mr_table_saveMergeRequest key_of_def)

lemma getMergeRequest_saveProject [simp]:
  "getMergeRequest projectId mrId (saveProject p db) = getMergeRequest projectId mrId db"
  by (simp add: getMergeRequest_mr_table)

lemma getMergeRequest_empty [simp]: "getMergeRequest projectId mrId empty_database = None"
  by (simp add: getMergeRequest_def empty_database_def)

subsection \<open>Primary keys stay unique\<close>

lemma keys_unique_empty [simp]: "keys_unique empty_database"
  by (simp add: keys_unique_def empty_database_def)

lemma keys_unique_saveProject [simp]: "keys_unique db \<Longrightarrow> keys_unique (saveProject p db)"
  by (simp add: keys_unique_def saveProject_def distinct_insert_or_replace)

lemma keys_unique_saveMergeRequest [simp]:
  "keys_unique db \<Longrightarrow> keys_unique (saveMergeRequest mr db)"
  by (simp add: keys_unique_def saveMergeRequest_def distinct_insert_or_replace)

lemma merge_requests_saveProject [simp]:
  "merge_requests (saveProject p db) = merge_requests db"
  by (simp add: saveProject_def)

lemma projects_saveMergeRequest [simp]:
  "projects (saveMergeRequest mr db) = projects db"
  by (simp add: saveMergeRequest_def)

lemma set_merge_requests_save:
  "set (merge_requests (saveMergeRequest mr db))
     = insert mr {r \<in> set (merge_requests db). key_of r \<noteq> key_of mr}"
  by (simp add: saveMergeRequest_def set_insert_or_replace)

lemma length_merge_requests_save:
  "keys_unique db \<Longrightarrow>
   length (merge_requests (saveMergeRequest mr db))
     = (if getMergeRequest (project_id mr) (mr_id mr) db = None
        then Suc (length (merge_requests db)) else length (merge_requests db))"
proof -
  have "key_of mr = (mr_id mr, project_id mr)" by (simp add: key_of_def)
  then show "keys_unique db \<Longrightarrow> ?thesis"
    by (simp add: saveMergeRequest_def keys_unique_def length_insert_or_replace
        getMergeRequest_None_iff)
qed

lemma saveMergeRequest_other_project:
  "project_id mr \<noteq> p \<Longrightarrow>
   filter (\<lambda>r. project_id r = p) (merge_requests (saveMergeRequest mr db))
     = filter (\<lambda>r. project_id r = p) (merge_requests db)"
  by (auto simp: saveMergeRequest_def key_of_def intro!: filter_insert_or_replace_other)

subsection \<open>Example data\<close>

definition sample_row :: "ident \<Rightarrow> string \<Rightarrow> string option \<Rightarrow> int option \<Rightarrow> MergeRequestData" where
  "sample_row i st sq fc =
     \<lparr>mr_id = i, project_id = 9, title = ''t'', description = None,
      created_at = at_minute 0, updated_at = at_minute 0, state = st, author_id = 1,
      author_username = ''u'', first_comment_at = map_option at_minute fc,
      approved_at = None, merged_at = None, squad = sq\<rparr>"

definition example_project_row :: project where
  "example_project_row =
     \<lparr>proj_id = 9, name = ''web'', path_with_namespace = ''murid/web'',
      proj_created_at = at_minute 0\<rparr>"

definition sample_db :: database where
  "sample_db =
     \<lparr>projects = [],
      merge_requests =
        [sample_row 1 ''opened'' (Some ''WEB'') (Some 10),
         sample_row 2 ''merged'' (Some ''WEB'') None,
         sample_row 3 ''opened'' (Some ''WEB'') (Some 30),
         sample_row 4 ''closed'' (Some ''WEB'') (Some 500),
         sample_row 5 ''opened'' None (Some 7)]\<rparr>"

subsection \<open>Properties of the store\<close>

text \<open>
  C8: the store refines a finite map. Saving a merge request is the map update at its
  composite key and looking one up is the map lookup, so the last record saved under
  a key is the one read back and records under other keys are untouched.
\<close>
theorem store_refines_map:
  "mr_table (saveMergeRequest mr db) = (mr_table db)((mr_id mr, project_id mr) \<mapsto> mr)
   \<and> getMergeRequest projectId mrId db = mr_table db (mrId, projectId)"
  using mr_table_saveMergeRequest [of mr db] getMergeRequest_mr_table [of projectId mrId db]
  by (simp add: key_of_def)

theorem store_refines_map_witness:
  "mr_table (saveMergeRequest (sample_row 3 ''merged'' None None) sample_db) (3, 9)
     = Some (sample_row 3 ''merged'' None None)
   \<and> getMergeRequest 9 3 (saveMergeRequest (sample_row 3 ''merged'' None None) sample_db)
     = Some (sample_row 3 ''merged'' None None)
   \<and> getMergeRequest 9 1 (saveMergeRequest (sample_row 3 ''merged'' None None) sample_db)
     = getMergeRequest 9 1 sample_db"
  using store_refines_map [of "sample_row 3 ''merged'' None None" sample_db 9 3]
    store_refines_map [of "sample_row 3 ''merged'' None None"
      "saveMergeRequest (sample_row 3 ''merged'' None None) sample_db" 9 3]
    store_refines_map [of "sample_row 3 ''merged'' None None"
      "saveMergeRequest (sample_row 3 ''merged'' None None) sample_db" 9 1]
    store_refines_map [of "sample_row 3 ''merged'' None None" sample_db 9 1]
  by (simp add: sample_row_def)

text \<open>
  Upserts never duplicate a primary key. Starting from a store with unique keys,
  \<open>saveProject\<close> and \<open>saveMergeRequest\<close> keep the keys of both tables unique, and
  saving a merge request adds a row only when its key was absent.
\<close>
theorem upsert_keeps_keys_unique:
  assumes "keys_unique db"
  shows "keys_unique (saveProject p db) \<and> keys_unique (saveMergeRequest mr db)
    \<and> length (merge_requests (saveMergeRequest mr db))
        = (if getMergeRequest (project_id mr) (mr_id mr) db = None
           then Suc (length (merge_requests db)) else length (merge_requests db))"
  using assms by (simp add: length_merge_requests_save)

theorem upsert_keeps_keys_unique_witness:
  "keys_unique sample_db
   \<and> keys_unique (saveMergeRequest (sample_row 3 ''merged'' None None) sample_db)
   \<and> length (merge_requests (saveMergeRequest (sample_row 3 ''merged'' None None) sample_db)) = 5
   \<and> length (merge_requests (saveMergeRequest (sample_row 6 ''opened'' None None) sample_db)) = 6"
proof -
  have u: "keys_unique sample_db"
    by (simp add: keys_unique_def sample_db_def sample_row_def key_of_def)
  have "getMergeRequest 9 3 sample_db \<noteq> None" "getMergeRequest 9 6 sample_db = None"
    by (simp_all add: getMergeRequest_def sample_db_def sample_row_def)
  with upsert_keeps_keys_unique [OF u, of example_project_row "sample_row 3 ''merged'' None None"]
    upsert_keeps_keys_unique [OF u, of example_project_row "sample_row 6 ''opened'' None None"] u
  show ?thesis by (simp add: sample_row_def) (simp add: sample_db_def)
qed

end
