(* ===== verification/Pagination.thy ===== *)
theory Pagination
  imports MR_Prelude
begin

text \<open>
  The pagination walker: \<open>fetchMergeRequests\<close> of \<open>src/src/index.ts\<close> (lines 59-111).

  The remote collection is a function from the page number to the response of that
  request, \<open>None\<close> when the request throws (transport error, non-2xx answer, malformed
  body). A response carries the decoded items and the \<open>x-total-pages\<close> header; the
  headers \<open>x-page\<close> and \<open>x-total\<close> are only logged by the program and are left out.
  A header that is absent or not a number is \<open>None\<close>: the program turns both into a
  value for which \<open>totalPages > 0\<close> is false. A negative number fails the same test
  and is \<open>None\<close> as well; a number with a fraction, which the API does not send, has
  no counterpart in the model.

  The \<open>while (hasMorePages)\<close> loop is the tail recursion \<open>fetchMergeRequests_loop\<close>
  on the loop variables \<open>allMergeRequests\<close> and \<open>page\<close>. Nothing bounds the number
  of iterations, so the loop is a \<open>partial_function\<close> in the option monad: \<open>None\<close>
  is a walk that never returns. The \<open>try\<close>/\<open>catch\<close> around it is the sum type of
  the loop's result; \<open>fetchMergeRequests\<close> maps a caught error to the empty list.

  The lemmas give the four characteristic equations of the loop, completeness and
  termination against every remote that serves a finite collection in pages
  (whatever its headers say), the shape of every result against an arbitrary remote,
  the loss of the accumulated pages on a failure, and divergence against a remote
  that never stops returning full pages.
\<close>

record 'a page_response =
  items :: "'a list"
  x_total_pages :: "nat option"

type_synonym 'a paged = "nat \<Rightarrow> 'a page_response option"

definition per_page :: nat where
  "per_page = 100"

definition header_number :: "nat option \<Rightarrow> nat" where
  "header_number h = (case h of None \<Rightarrow> 0 | Some n \<Rightarrow> n)"

definition hasMorePages :: "nat \<Rightarrow> nat \<Rightarrow> nat \<Rightarrow> bool" where
  "hasMorePages totalPages page n \<longleftrightarrow> (totalPages > 0 \<and> page < totalPages) \<or> n = per_page"

partial_function (option) fetchMergeRequests_loop ::
  "'a paged \<Rightarrow> 'a list \<Rightarrow> nat \<Rightarrow> (fetch_error + 'a list) option" where
  "fetchMergeRequests_loop remote allMergeRequests page =
     (case remote page of
        None \<Rightarrow> Some (Inl RequestFailed)
      | Some response \<Rightarrow>
          (let mergeRequests = items response in
           if length mergeRequests = 0 then Some (Inr allMergeRequests)
           else if hasMorePages (header_number (x_total_pages response)) page
                     (length mergeRequests)
           then fetchMergeRequests_loop remote (allMergeRequests @ mergeRequests) (page + 1)
           else Some (Inr (allMergeRequests @ mergeRequests))))"

definition fetchMergeRequests :: "'a paged \<Rightarrow> 'a list option" where
  "fetchMergeRequests remote =
     map_option (\<lambda>r. case r of Inl err \<Rightarrow> [] | Inr allMergeRequests \<Rightarrow> allMergeRequests)
       (fetchMergeRequests_loop remote [] 1)"

text \<open>
  The contract of the remote collection (spec section 6): a finite sequence served in
  pages of \<open>per_page\<close> items, page numbers from 1. \<open>paged_remote\<close> is such a source
  with the header of each page chosen freely; \<open>serves\<close> is the contract as a predicate
  on any source; \<open>pages_upto\<close> is what the first \<open>k\<close> pages of a source hold.
\<close>

definition page_slice :: "nat \<Rightarrow> 'a list \<Rightarrow> 'a list" where
  "page_slice page xs = chunk per_page (page - 1) xs"

definition paged_remote :: "(nat \<Rightarrow> nat option) \<Rightarrow> 'a list \<Rightarrow> 'a paged" where
  "paged_remote header xs page =
     Some \<lparr>items = page_slice page xs, x_total_pages = header page\<rparr>"

definition failing_at :: "nat \<Rightarrow> 'a paged \<Rightarrow> 'a paged" where
  "failing_at k remote page = (if page = k then None else remote page)"

definition serves :: "'a paged \<Rightarrow> 'a list \<Rightarrow> bool" where
  "serves remote xs \<longleftrightarrow>
     (\<forall>page\<ge>1. \<exists>response. remote page = Some response \<and> items response = page_slice page xs)"

definition always_full :: "'a paged \<Rightarrow> bool" where
  "always_full remote \<longleftrightarrow>
     (\<forall>page. case remote page of None \<Rightarrow> False
        | Some response \<Rightarrow> length (items response) = per_page)"

definition page_items :: "'a paged \<Rightarrow> nat \<Rightarrow> 'a list" where
  "page_items remote page = (case remote page of None \<Rightarrow> [] | Some response \<Rightarrow> items response)"

definition pages_upto :: "'a paged \<Rightarrow> nat \<Rightarrow> 'a list" where
  "pages_upto remote k = concat (map (page_items remote) [1..<Suc k])"

declare per_page_def [mr_defs] header_number_def [mr_defs] hasMorePages_def [mr_defs]
  fetchMergeRequests_def [mr_defs] page_slice_def [mr_defs] paged_remote_def [mr_defs]
  failing_at_def [mr_defs] page_items_def [mr_defs] pages_upto_def [mr_defs]

subsection \<open>Characteristic equations of the loop\<close>

lemma per_page_pos [simp]: "0 < per_page"
  by (simp add: per_page_def)

lemma loop_failed:
  "remote page = None \<Longrightarrow>
   fetchMergeRequests_loop remote acc page = Some (Inl RequestFailed)"
  by (subst fetchMergeRequests_loop.simps) simp

lemma loop_empty_page:
  "remote page = Some response \<Longrightarrow> items response = [] \<Longrightarrow>
   fetchMergeRequests_loop remote acc page = Some (Inr acc)"
  by (subst fetchMergeRequests_loop.simps) simp

lemma loop_more:
  "remote page = Some response \<Longrightarrow> items response \<noteq> [] \<Longrightarrow>
   hasMorePages (header_number (x_total_pages response)) page (length (items response)) \<Longrightarrow>
   fetchMergeRequests_loop remote acc page =
     fetchMergeRequests_loop remote (acc @ items response) (Suc page)"
  by (subst fetchMergeRequests_loop.simps) (simp add: Let_def)

lemma loop_last:
  "remote page = Some response \<Longrightarrow> items response \<noteq> [] \<Longrightarrow>
   \<not> hasMorePages (header_number (x_total_pages response)) page (length (items response)) \<Longrightarrow>
   fetchMergeRequests_loop remote acc page = Some (Inr (acc @ items response))"
  by (subst fetchMergeRequests_loop.simps) (simp add: Let_def)

lemmas loop_eqs = loop_failed loop_empty_page loop_more loop_last

lemma hasMorePages_full [simp]: "hasMorePages t page per_page"
  by (simp add: hasMorePages_def)

lemma not_hasMorePages_short: "\<not> hasMorePages t page n \<Longrightarrow> n \<noteq> per_page"
  by (auto simp: hasMorePages_def)

lemma hasMorePages_header_zero [simp]: "hasMorePages 0 page n \<longleftrightarrow> n = per_page"
  by (simp add: hasMorePages_def)

subsection \<open>Sources that serve a finite collection\<close>

lemma page_slice_Suc [simp]: "page_slice (Suc k) xs = chunk per_page k xs"
  by (simp add: page_slice_def)

lemma paged_remote_serves [simp]: "serves (paged_remote header xs) xs"
  by (simp add: serves_def paged_remote_def)

lemma serves_page:
  assumes "serves remote xs"
  obtains response where "remote (Suc k) = Some response"
    and "items response = chunk per_page k xs"
proof -
  from assms [unfolded serves_def, rule_format, of "Suc k"]
  have "\<exists>response. remote (Suc k) = Some response
      \<and> items response = page_slice (Suc k) xs"
    by simp
  then show ?thesis using that by auto
qed

lemma loop_serves:
  assumes "serves remote xs"
  shows "fetchMergeRequests_loop remote acc (Suc k) =
           Some (Inr (acc @ drop (per_page * k) xs))"
proof (induction "length xs - per_page * k" arbitrary: k acc rule: less_induct)
  case less
  let ?c = "chunk per_page k xs"
  from assms obtain r where r: "remote (Suc k) = Some r" and items: "items r = ?c"
    by (rule serves_page)
  show ?case
  proof (cases "?c = []")
    case True
    then have "drop (per_page * k) xs = []" by (simp add: chunk_Nil_iff)
    moreover from r items True
    have "fetchMergeRequests_loop remote acc (Suc k) = Some (Inr acc)"
      by (simp add: loop_empty_page [of remote "Suc k" r acc])
    ultimately show ?thesis by simp
  next
    case False
    then have lt: "per_page * k < length xs" by (simp add: chunk_Nil_iff)
    from False items have ne: "items r \<noteq> []" by simp
    show ?thesis
    proof (cases "hasMorePages (header_number (x_total_pages r)) (Suc k) (length (items r))")
      case True
      have "length xs - per_page * Suc k < length xs - per_page * k"
        using lt per_page_pos unfolding mult_Suc_right by linarith
      then have "fetchMergeRequests_loop remote (acc @ ?c) (Suc (Suc k))
           = Some (Inr ((acc @ ?c) @ drop (per_page * Suc k) xs))"
        by (rule less.hyps)
      moreover have "(acc @ ?c) @ drop (per_page * Suc k) xs = acc @ drop (per_page * k) xs"
        unfolding append_assoc chunk_append_rest ..
      ultimately show ?thesis
        unfolding loop_more [of remote "Suc k" r acc, OF r ne True] items by simp
    next
      case no: False
      then have "length (items r) \<noteq> per_page" by (rule not_hasMorePages_short)
      then have "drop (per_page * Suc k) xs = []"
        unfolding items by (rule chunk_short_last)
      with chunk_append_rest [of per_page k xs]
      have "?c = drop (per_page * k) xs" by simp
      then show ?thesis
        unfolding loop_last [of remote "Suc k" r acc, OF r ne no] items by simp
    qed
  qed
qed

lemma loop_serves_from_first:
  "serves remote xs \<Longrightarrow> fetchMergeRequests_loop remote [] (Suc 0) = Some (Inr xs)"
  using loop_serves [of remote xs "[]" 0] by simp

lemma fetchMergeRequests_complete_paged:
  "fetchMergeRequests (paged_remote header xs) = Some xs"
  using loop_serves_from_first [OF paged_remote_serves, of header xs]
  by (simp add: fetchMergeRequests_def)

subsection \<open>A request that fails\<close>

lemma failing_at_other [simp]: "page \<noteq> k \<Longrightarrow> failing_at k remote page = remote page"
  by (simp add: failing_at_def)

lemma failing_at_same [simp]: "failing_at k remote k = None"
  by (simp add: failing_at_def)

lemma loop_failing_at:
  assumes "serves remote xs" and "per_page * k \<le> length xs"
  shows "j \<le> k \<Longrightarrow>
    fetchMergeRequests_loop (failing_at (Suc k) remote) acc (Suc j) = Some (Inl RequestFailed)"
proof (induction "k - j" arbitrary: j acc)
  case 0
  then have "j = k" by simp
  then show ?case by (simp add: loop_failed)
next
  case (Suc d)
  then have lt: "j < k" by simp
  from assms(1) obtain r where r: "remote (Suc j) = Some r"
    and items: "items r = chunk per_page j xs"
    by (rule serves_page)
  from lt have "per_page * Suc j \<le> per_page * k" by (simp only: mult_le_cancel1 Suc_le_eq) simp
  with assms(2) have full: "length (items r) = per_page"
    unfolding items chunk_full_iff by simp
  then have ne: "items r \<noteq> []" by (auto simp: per_page_def)
  from lt r have r': "failing_at (Suc k) remote (Suc j) = Some r" by simp
  from full have more: "hasMorePages (header_number (x_total_pages r)) (Suc j) (length (items r))"
    by simp
  from Suc lt have "fetchMergeRequests_loop (failing_at (Suc k) remote) (acc @ items r) (Suc (Suc j))
      = Some (Inl RequestFailed)"
    by (intro Suc.hyps) simp_all
  then show ?case
    unfolding loop_more [of "failing_at (Suc k) remote" "Suc j" r acc, OF r' ne more] .
qed

subsection \<open>Every result is a prefix of the pages, in order\<close>

lemma loop_body_cases:
  assumes "(case remote page of
        None \<Rightarrow> Some (Inl RequestFailed)
      | Some response \<Rightarrow>
          (let mergeRequests = items response in
           if length mergeRequests = 0 then Some (Inr acc)
           else if hasMorePages (header_number (x_total_pages response)) page
                     (length mergeRequests)
           then f remote (acc @ mergeRequests) (page + 1)
           else Some (Inr (acc @ mergeRequests)))) = Some y"
  obtains (failed) "remote page = None" and "y = Inl RequestFailed"
  | (empty) r where "remote page = Some r" and "items r = []" and "y = Inr acc"
  | (more) r where "remote page = Some r" and "items r \<noteq> []"
      and "hasMorePages (header_number (x_total_pages r)) page (length (items r))"
      and "f remote (acc @ items r) (Suc page) = Some y"
  | (last) r where "remote page = Some r" and "items r \<noteq> []"
      and "\<not> hasMorePages (header_number (x_total_pages r)) page (length (items r))"
      and "y = Inr (acc @ items r)"
  using assms by (auto simp: Let_def split: option.splits if_splits)

lemma page_items_Some [simp]: "remote page = Some r \<Longrightarrow> page_items remote page = items r"
  by (simp add: page_items_def)

lemma loop_result_shape:
  assumes ret: "fetchMergeRequests_loop remote acc page = Some y"
  shows "case y of Inl e \<Rightarrow> True
         | Inr ys \<Rightarrow> \<exists>k\<ge>page. ys = acc @ concat (map (page_items remote) [page..<k])"
proof (rule fetchMergeRequests_loop.raw_induct [where P = "\<lambda>remote acc page y. case y of Inl e \<Rightarrow> True
         | Inr ys \<Rightarrow> \<exists>k\<ge>page. ys = acc @ concat (map (page_items remote) [page..<k])", OF _ ret])
  fix f :: "'a paged \<Rightarrow> 'a list \<Rightarrow> nat \<Rightarrow> (fetch_error + 'a list) option"
    and remote :: "'a paged" and acc page y
  assume IH: "\<And>remote acc page y. f remote acc page = Some y \<Longrightarrow>
      (case y of Inl e \<Rightarrow> True
       | Inr ys \<Rightarrow> \<exists>k\<ge>page. ys = acc @ concat (map (page_items remote) [page..<k]))"
  assume "(case remote page of
        None \<Rightarrow> Some (Inl RequestFailed)
      | Some response \<Rightarrow>
          (let mergeRequests = items response in
           if length mergeRequests = 0 then Some (Inr acc)
           else if hasMorePages (header_number (x_total_pages response)) page
                     (length mergeRequests)
           then f remote (acc @ mergeRequests) (page + 1)
           else Some (Inr (acc @ mergeRequests)))) = Some y"
  then show "case y of Inl e \<Rightarrow> True
       | Inr ys \<Rightarrow> \<exists>k\<ge>page. ys = acc @ concat (map (page_items remote) [page..<k])"
  proof (cases rule: loop_body_cases)
    case failed
    then show ?thesis by simp
  next
    case (empty r)
    then show ?thesis by (auto intro: exI [of _ page])
  next
    case (more r)
    from IH [OF more(4)] more(1) show ?thesis
      by (cases y) (auto simp: upt_conv_Cons [of page] intro: Suc_leD)
  next
    case (last r)
    then show ?thesis by (auto intro!: exI [of _ "Suc page"])
  qed
qed

subsection \<open>A source that never stops\<close>

lemma always_full_page:
  assumes "always_full remote"
  obtains r where "remote page = Some r" and "length (items r) = per_page"
    and "items r \<noteq> []"
proof -
  from assms [unfolded always_full_def, rule_format, of page]
  obtain r where r: "remote page = Some r" "length (items r) = per_page"
    by (cases "remote page") auto
  then have "items r \<noteq> []" by (auto simp: per_page_def)
  with r show ?thesis by (rule that)
qed

lemma loop_never_returns:
  assumes full: "always_full remote"
  shows "fetchMergeRequests_loop remote acc page = None"
proof (rule ccontr)
  assume "fetchMergeRequests_loop remote acc page \<noteq> None"
  then obtain y where ret: "fetchMergeRequests_loop remote acc page = Some y" by auto
  have "\<not> always_full remote"
  proof (rule fetchMergeRequests_loop.raw_induct
      [where P = "\<lambda>remote acc page y. \<not> always_full remote", OF _ ret])
    fix f :: "'a paged \<Rightarrow> 'a list \<Rightarrow> nat \<Rightarrow> (fetch_error + 'a list) option"
      and remote :: "'a paged" and acc page y
    assume IH: "\<And>remote acc page y. f remote acc page = Some y \<Longrightarrow> \<not> always_full remote"
    assume "(case remote page of
        None \<Rightarrow> Some (Inl RequestFailed)
      | Some response \<Rightarrow>
          (let mergeRequests = items response in
           if length mergeRequests = 0 then Some (Inr acc)
           else if hasMorePages (header_number (x_total_pages response)) page
                     (length mergeRequests)
           then f remote (acc @ mergeRequests) (page + 1)
           else Some (Inr (acc @ mergeRequests)))) = Some y"
    then show "\<not> always_full remote"
    proof (cases rule: loop_body_cases)
      case (more r)
      then show ?thesis by (auto dest: IH)
    next
      case (last r)
      then show ?thesis
        by (auto elim!: always_full_page [of remote page] dest: not_hasMorePages_short)
    next
      case failed
      then show ?thesis by (auto elim!: always_full_page [of remote page])
    next
      case (empty r)
      then show ?thesis by (auto elim!: always_full_page [of remote page])
    qed
  qed
  with full show False by blast
qed

subsection \<open>The walker as a whole\<close>

text \<open>
  C1: pagination completeness and termination. Against every source that serves a
  finite collection \<open>xs\<close> in pages of 100, \<open>fetchMergeRequests\<close> returns, and it
  returns exactly \<open>xs\<close> in the original order, whatever the \<open>x-total-pages\<close>
  headers say (correct, zero, absent or too large).
\<close>
theorem fetchMergeRequests_complete:
  "serves remote xs \<Longrightarrow> fetchMergeRequests remote = Some xs"
  by (simp add: fetchMergeRequests_def loop_serves_from_first)

theorem fetchMergeRequests_complete_witness:
  "serves (paged_remote (\<lambda>_. Some 0) [1, 2, 3 :: nat]) [1, 2, 3]
   \<and> fetchMergeRequests (paged_remote (\<lambda>_. Some 0) [1, 2, 3 :: nat]) = Some [1, 2, 3]"
  using fetchMergeRequests_complete [of "paged_remote (\<lambda>_. Some 0) [1, 2, 3 :: nat]" "[1, 2, 3]"]
  by simp

text \<open>
  C25: a failed request discards what was fetched. When the request for page \<open>k + 1\<close>
  throws after \<open>k\<close> full pages were accumulated, the \<open>catch\<close> clause returns the
  empty list, not the \<open>100 * k\<close> items already fetched.
\<close>
theorem fetchMergeRequests_failure_discards:
  "serves remote xs \<Longrightarrow> per_page * k \<le> length xs \<Longrightarrow>
   fetchMergeRequests (failing_at (Suc k) remote) = Some []"
  using loop_failing_at [of remote xs k 0 "[]"] by (simp add: fetchMergeRequests_def)

theorem fetchMergeRequests_failure_discards_witness:
  "serves (paged_remote (\<lambda>_. None) (replicate 100 (7 :: nat))) (replicate 100 7)
   \<and> per_page * 1 \<le> length (replicate 100 (7 :: nat))
   \<and> fetchMergeRequests (failing_at (Suc 1) (paged_remote (\<lambda>_. None) (replicate 100 (7 :: nat))))
       = Some []"
  using fetchMergeRequests_failure_discards
    [of "paged_remote (\<lambda>_. None) (replicate 100 (7 :: nat))" "replicate 100 7" 1]
  by (simp add: per_page_def)

text \<open>
  The walker never invents, drops or reorders items. Against an arbitrary source,
  whenever \<open>fetchMergeRequests\<close> returns, its result is the concatenation of the
  items of the pages \<open>1, \<dots>, k\<close> for some \<open>k\<close> (the empty list for \<open>k = 0\<close>).
\<close>
theorem fetchMergeRequests_shape:
  assumes "fetchMergeRequests remote = Some ys"
  shows "\<exists>k. ys = pages_upto remote k"
proof -
  from assms obtain y where ret: "fetchMergeRequests_loop remote [] 1 = Some y"
    and ys: "ys = (case y of Inl err \<Rightarrow> [] | Inr zs \<Rightarrow> zs)"
    by (auto simp: fetchMergeRequests_def)
  show ?thesis
  proof (cases y)
    case (Inl e)
    with ys have "ys = pages_upto remote 0" by (simp add: pages_upto_def)
    then show ?thesis ..
  next
    case (Inr zs)
    with loop_result_shape [OF ret] obtain k where "1 \<le> k"
      and "zs = concat (map (page_items remote) [1..<k])" by auto
    with ys Inr have "ys = pages_upto remote (k - 1)" by (simp add: pages_upto_def)
    then show ?thesis ..
  qed
qed

theorem fetchMergeRequests_shape_witness:
  "fetchMergeRequests (paged_remote (\<lambda>_. Some 1) [4, 5 :: nat]) = Some [4, 5]
   \<and> (\<exists>k. [4, 5] = pages_upto (paged_remote (\<lambda>_. Some 1) [4, 5 :: nat]) k)"
  using fetchMergeRequests_shape [of "paged_remote (\<lambda>_. Some 1) [4, 5 :: nat]" "[4, 5]"]
  by (simp add: fetchMergeRequests_def fetchMergeRequests_loop.simps paged_remote_def
      page_slice_def chunk_def hasMorePages_def header_number_def per_page_def)

text \<open>
  C40: the walk is not bounded. Against a source that answers every page with a full
  page of 100 items the loop never exits: \<open>fetchMergeRequests\<close> does not return.
\<close>
theorem fetchMergeRequests_diverges:
  "always_full remote \<Longrightarrow> fetchMergeRequests remote = None"
  by (simp add: fetchMergeRequests_def loop_never_returns)

theorem fetchMergeRequests_diverges_witness:
  "always_full (\<lambda>page. Some \<lparr>items = replicate 100 (0 :: nat), x_total_pages = None\<rparr>)
   \<and> fetchMergeRequests (\<lambda>page. Some \<lparr>items = replicate 100 (0 :: nat), x_total_pages = None\<rparr>)
       = None"
  using fetchMergeRequests_diverges
    [of "\<lambda>page. Some \<lparr>items = replicate 100 (0 :: nat), x_total_pages = None\<rparr>"]
  by (simp add: always_full_def per_page_def)

text \<open>
  The two scenarios of the specification's pagination test: 250 items, page size 100,
  the total page count reported as 3 and misreported as 0.
\<close>
lemma fetch_250_header_correct:
  "length xs = 250 \<Longrightarrow> fetchMergeRequests (paged_remote (\<lambda>_. Some 3) xs) = Some xs"
  by (rule fetchMergeRequests_complete_paged)

lemma fetch_250_header_zero:
  "length xs = 250 \<Longrightarrow> fetchMergeRequests (paged_remote (\<lambda>_. Some 0) xs) = Some xs"
  by (rule fetchMergeRequests_complete_paged)

end
