(* ===== verification/Enricher.thy ===== *)
theory Enricher
  imports Pagination
begin

text \<open>
  The detail enricher: \<open>fetchMergeRequestDetails\<close> of \<open>src/src/index.ts\<close>
  (lines 114-156) and the two derivations that \<open>processAndStoreMergeRequests\<close>
  makes from its result (lines 212-236): the time of the first comment that is not a
  system note, and the time of the first approval event.

  The notes of a merge request are a paged collection like the merge requests, but
  their loop differs from the walker of theory \<open>Pagination\<close>: it appends every page,
  also an empty one, and continues only while \<open>page < totalPages\<close>, where an absent,
  non-numeric or zero header counts as 1. It is again a \<open>partial_function\<close> in the
  option monad. The approval events are one request whose failure is absorbed into
  the empty list (\<open>.catch(() => [])\<close>); a failure of a notes request is caught by the
  outer \<open>catch\<close>, which returns empty notes and empty events.

  JavaScript's \<open>Array.prototype.sort\<close> with the comparator \<open>a - b\<close> on the
  millisecond values is a stable ascending sort: \<open>sort_key\<close>. The lemmas show that
  the head of the sorted list is the earliest element, the first one among equals.
\<close>

record gitlab_note =
  note_created_at :: stamp
  system :: bool

record approval_event =
  event_created_at :: stamp

record details =
  mr_notes :: "gitlab_note list"
  approvalEvents :: "approval_event list"

definition notes_total_pages :: "nat option \<Rightarrow> nat" where
  "notes_total_pages h = (case h of None \<Rightarrow> 1 | Some n \<Rightarrow> if n = 0 then 1 else n)"

partial_function (option) fetchNotes_loop ::
  "'a paged \<Rightarrow> 'a list \<Rightarrow> nat \<Rightarrow> (fetch_error + 'a list) option" where
  "fetchNotes_loop remote allNotes page =
     (case remote page of
        None \<Rightarrow> Some (Inl RequestFailed)
      | Some response \<Rightarrow>
          (let totalPages = notes_total_pages (x_total_pages response);
               pageNotes = items response
           in if page < totalPages
              then fetchNotes_loop remote (allNotes @ pageNotes) (page + 1)
              else Some (Inr (allNotes @ pageNotes))))"

definition fetchMergeRequestDetails ::
  "gitlab_note paged \<Rightarrow> approval_event list option \<Rightarrow> details option" where
  "fetchMergeRequestDetails notes_endpoint approvals_endpoint =
     map_option
       (\<lambda>r. case r of
           Inl err \<Rightarrow> \<lparr>mr_notes = [], approvalEvents = []\<rparr>
         | Inr allNotes \<Rightarrow>
             \<lparr>mr_notes = allNotes,
              approvalEvents = (case approvals_endpoint of None \<Rightarrow> [] | Some events \<Rightarrow> events)\<rparr>)
       (fetchNotes_loop notes_endpoint [] 1)"

definition firstComment :: "details \<Rightarrow> stamp option" where
  "firstComment d =
     (if mr_notes d \<noteq> [] then
        (let userNotes = filter (\<lambda>n. \<not> system n) (mr_notes d) in
         if userNotes \<noteq> []
         then Some (note_created_at (hd (sort_key (\<lambda>n. millis (note_created_at n)) userNotes)))
         else None)
      else None)"

definition approvedAt :: "details \<Rightarrow> stamp option" where
  "approvedAt d =
     (if approvalEvents d \<noteq> []
      then Some (event_created_at
             (hd (sort_key (\<lambda>e. millis (event_created_at e)) (approvalEvents d))))
      else None)"

declare notes_total_pages_def [mr_defs] fetchMergeRequestDetails_def [mr_defs]
  firstComment_def [mr_defs] approvedAt_def [mr_defs]

subsection \<open>The head of a stable sort is the first minimum\<close>

lemma hd_insort_key:
  "hd (insort_key f x ys) = (if ys = [] \<or> f x \<le> f (hd ys) then x else hd ys)"
  by (cases ys) simp_all

lemma sort_key_Nil_iff [simp]: "sort_key f xs = [] \<longleftrightarrow> xs = []"
  by (metis length_0_conv length_sort)

lemma hd_sort_key_arg_min:
  "xs \<noteq> [] \<Longrightarrow> hd (sort_key f xs) = arg_min_list f xs"
proof (induction f xs rule: arg_min_list.induct)
  case (1 f x)
  then show ?case by simp
next
  case (2 f x y zs)
  then have "hd (sort_key f (y # zs)) = arg_min_list f (y # zs)" by simp
  then show ?case
    by (simp add: hd_insort_key Let_def del: sort_key_simps(2) arg_min_list.simps(2)
         add: sort_key_simps(2) [of f x "y # zs"] arg_min_list.simps(2) [of f x y zs])
next
  case (3 f)
  then show ?case by simp
qed

lemma hd_sort_key_mem: "xs \<noteq> [] \<Longrightarrow> hd (sort_key f xs) \<in> set xs"
  by (simp add: hd_sort_key_arg_min arg_min_list_in)

lemma hd_sort_key_least:
  "x \<in> set xs \<Longrightarrow> f (hd (sort_key f xs)) \<le> f x"
proof -
  assume x: "x \<in> set xs"
  then have ne: "xs \<noteq> []" by auto
  then have "f (arg_min_list f xs) = Min (f ` set xs)" by (rule f_arg_min_list_f)
  with x ne show ?thesis by (simp add: hd_sort_key_arg_min)
qed

subsection \<open>The derived timestamps\<close>

lemma firstComment_eq:
  "firstComment d =
     (if filter (\<lambda>n. \<not> system n) (mr_notes d) = [] then None
      else Some (note_created_at
             (arg_min_list (\<lambda>n. millis (note_created_at n)) (filter (\<lambda>n. \<not> system n) (mr_notes d)))))"
  by (auto simp: firstComment_def Let_def hd_sort_key_arg_min)

lemma approvedAt_eq:
  "approvedAt d =
     (if approvalEvents d = [] then None
      else Some (event_created_at
             (arg_min_list (\<lambda>e. millis (event_created_at e)) (approvalEvents d))))"
  by (simp add: approvedAt_def hd_sort_key_arg_min)

lemma firstComment_None_iff: "firstComment d = None \<longleftrightarrow> (\<forall>n \<in> set (mr_notes d). system n)"
  by (auto simp: firstComment_eq filter_empty_conv)

lemma approvedAt_None_iff: "approvedAt d = None \<longleftrightarrow> approvalEvents d = []"
  by (simp add: approvedAt_eq)

lemma firstComment_SomeD:
  assumes "firstComment d = Some s"
  obtains n where "n \<in> set (mr_notes d)" and "\<not> system n" and "note_created_at n = s"
    and "\<And>m. m \<in> set (mr_notes d) \<Longrightarrow> \<not> system m \<Longrightarrow> millis s \<le> millis (note_created_at m)"
proof -
  let ?us = "filter (\<lambda>n. \<not> system n) (mr_notes d)"
  let ?f = "\<lambda>n. millis (note_created_at n)"
  from assms have ne: "?us \<noteq> []" and s: "s = note_created_at (hd (sort_key ?f ?us))"
    by (auto simp: firstComment_def Let_def split: if_splits)
  from ne have "hd (sort_key ?f ?us) \<in> set ?us" by (rule hd_sort_key_mem)
  moreover have "millis s \<le> millis (note_created_at m)"
    if "m \<in> set (mr_notes d)" and "\<not> system m" for m
    using that hd_sort_key_least [of m ?us ?f] by (simp add: s)
  ultimately show ?thesis using s by (intro that [of "hd (sort_key ?f ?us)"]) auto
qed

lemma approvedAt_SomeD:
  assumes "approvedAt d = Some s"
  obtains e where "e \<in> set (approvalEvents d)" and "event_created_at e = s"
    and "\<And>e'. e' \<in> set (approvalEvents d) \<Longrightarrow> millis s \<le> millis (event_created_at e')"
proof -
  let ?f = "\<lambda>e. millis (event_created_at e)"
  from assms have ne: "approvalEvents d \<noteq> []"
    and s: "s = event_created_at (hd (sort_key ?f (approvalEvents d)))"
    by (auto simp: approvedAt_def split: if_splits)
  from ne have "hd (sort_key ?f (approvalEvents d)) \<in> set (approvalEvents d)"
    by (rule hd_sort_key_mem)
  moreover have "millis s \<le> millis (event_created_at e')" if "e' \<in> set (approvalEvents d)" for e'
    using that hd_sort_key_least [of e' "approvalEvents d" ?f] by (simp add: s)
  ultimately show ?thesis using s by (intro that [of "hd (sort_key ?f (approvalEvents d))"]) auto
qed

subsection \<open>Characteristic equations of the notes loop\<close>

lemma notes_loop_failed:
  "remote page = None \<Longrightarrow> fetchNotes_loop remote acc page = Some (Inl RequestFailed)"
  by (subst fetchNotes_loop.simps) simp

lemma notes_loop_more:
  "remote page = Some response \<Longrightarrow> page < notes_total_pages (x_total_pages response) \<Longrightarrow>
   fetchNotes_loop remote acc page = fetchNotes_loop remote (acc @ items response) (Suc page)"
  by (subst fetchNotes_loop.simps) (simp add: Let_def)

lemma notes_loop_last:
  "remote page = Some response \<Longrightarrow> \<not> page < notes_total_pages (x_total_pages response) \<Longrightarrow>
   fetchNotes_loop remote acc page = Some (Inr (acc @ items response))"
  by (subst fetchNotes_loop.simps) (simp add: Let_def)

lemmas notes_loop_eqs = notes_loop_failed notes_loop_more notes_loop_last

lemma notes_total_pages_pos [simp]: "0 < notes_total_pages h"
  by (simp add: notes_total_pages_def split: option.split)

lemma notes_total_pages_simps [simp]:
  "notes_total_pages None = 1"
  "notes_total_pages (Some 0) = 1"
  "0 < n \<Longrightarrow> notes_total_pages (Some n) = n"
  by (simp_all add: notes_total_pages_def)

lemma notes_loop_constant_header:
  "k < notes_total_pages h \<Longrightarrow>
   fetchNotes_loop (paged_remote (\<lambda>_. h) xs) acc (Suc k)
     = Some (Inr (acc @ take (per_page * (notes_total_pages h - k)) (drop (per_page * k) xs)))"
proof (induction "notes_total_pages h - k" arbitrary: k acc)
  case 0
  then show ?case by simp
next
  case (Suc d)
  let ?R = "paged_remote (\<lambda>_. h) xs"
  let ?r = "\<lparr>items = chunk per_page k xs, x_total_pages = h\<rparr>"
  have r: "?R (Suc k) = Some ?r" by (simp add: paged_remote_def)
  show ?case
  proof (cases "Suc k < notes_total_pages h")
    case True
    with Suc.hyps(2) have d: "d = notes_total_pages h - Suc k" by simp
    from True have more: "Suc k < notes_total_pages (x_total_pages ?r)" by simp
    have "fetchNotes_loop ?R (acc @ chunk per_page k xs) (Suc (Suc k))
        = Some (Inr ((acc @ chunk per_page k xs)
            @ take (per_page * (notes_total_pages h - Suc k)) (drop (per_page * Suc k) xs)))"
      using d True by (intro Suc.hyps(1))
    moreover from Suc.hyps(2) d have "notes_total_pages h - k = Suc (notes_total_pages h - Suc k)"
      by simp
    ultimately show ?thesis
      unfolding notes_loop_more [of ?R "Suc k" ?r acc, OF r more]
      by (simp add: chunk_append_take del: mult_Suc_right)
  next
    case False
    with Suc.prems have eq: "notes_total_pages h - k = 1" by simp
    from False have last: "\<not> Suc k < notes_total_pages (x_total_pages ?r)" by simp
    show ?thesis
      unfolding notes_loop_last [of ?R "Suc k" ?r acc, OF r last] eq
      by (simp add: chunk_def)
  qed
qed

lemma notes_loop_paged:
  "fetchNotes_loop (paged_remote (\<lambda>_. h) xs) [] (Suc 0)
     = Some (Inr (take (per_page * notes_total_pages h) xs))"
  using notes_loop_constant_header [of 0 h xs "[]"] by simp

lemma notes_loop_failing_at:
  "j \<le> k \<Longrightarrow> k < notes_total_pages h \<Longrightarrow>
   fetchNotes_loop (failing_at (Suc k) (paged_remote (\<lambda>_. h) xs)) acc (Suc j)
     = Some (Inl RequestFailed)"
proof (induction "k - j" arbitrary: j acc)
  case 0
  then have "j = k" by simp
  then show ?case by (simp add: notes_loop_failed)
next
  case (Suc d)
  let ?R = "failing_at (Suc k) (paged_remote (\<lambda>_. h) xs)"
  let ?r = "\<lparr>items = chunk per_page j xs, x_total_pages = h\<rparr>"
  from Suc have lt: "j < k" by simp
  then have r: "?R (Suc j) = Some ?r" by (simp add: paged_remote_def)
  from lt Suc.prems have more: "Suc j < notes_total_pages (x_total_pages ?r)" by simp
  from Suc lt have "fetchNotes_loop ?R (acc @ items ?r) (Suc (Suc j)) = Some (Inl RequestFailed)"
    by (intro Suc.hyps) simp_all
  then show ?case
    unfolding notes_loop_more [of ?R "Suc j" ?r acc, OF r more] .
qed

subsection \<open>The enricher as a whole\<close>

definition example_notes :: "gitlab_note list" where
  "example_notes =
     [\<lparr>note_created_at = at_minute 1, system = True\<rparr>,
      \<lparr>note_created_at = at_minute 9, system = False\<rparr>,
      \<lparr>note_created_at = at_minute 5, system = False\<rparr>]"

definition example_events :: "approval_event list" where
  "example_events =
     [\<lparr>event_created_at = at_minute 30\<rparr>, \<lparr>event_created_at = at_minute 20\<rparr>]"

text \<open>
  C6: system-comment exclusion and earliest human comment. \<open>firstComment\<close> is
  \<open>null\<close> exactly when every note is a system note; otherwise it is the creation
  time of a note that is not a system note, and no such note is earlier.
\<close>
theorem firstComment_correct:
  "case firstComment d of
     None \<Rightarrow> \<forall>n \<in> set (mr_notes d). system n
   | Some s \<Rightarrow>
       (\<exists>n \<in> set (mr_notes d). \<not> system n \<and> note_created_at n = s)
       \<and> (\<forall>m \<in> set (mr_notes d). \<not> system m \<longrightarrow> millis s \<le> millis (note_created_at m))"
proof (cases "firstComment d")
  case None
  then show ?thesis using firstComment_None_iff [of d] by simp
next
  case (Some s)
  then show ?thesis by (auto elim!: firstComment_SomeD)
qed

theorem firstComment_correct_witness:
  "firstComment \<lparr>mr_notes = example_notes, approvalEvents = []\<rparr> = Some (at_minute 5)
   \<and> filter (\<lambda>m. \<not> system m \<and> millis (note_created_at m) < millis (at_minute 5)) example_notes = []"
  using firstComment_correct [of "\<lparr>mr_notes = example_notes, approvalEvents = []\<rparr>"]
  by (simp add: firstComment_def example_notes_def at_minute_def)

text \<open>
  Earliest approval. \<open>approvedAt\<close> is \<open>null\<close> exactly when there is no approval
  event; otherwise it is the creation time of an approval event, and no approval event
  is earlier.
\<close>
theorem approvedAt_correct:
  "case approvedAt d of
     None \<Rightarrow> approvalEvents d = []
   | Some s \<Rightarrow>
       (\<exists>e \<in> set (approvalEvents d). event_created_at e = s)
       \<and> (\<forall>e \<in> set (approvalEvents d). millis s \<le> millis (event_created_at e))"
proof (cases "approvedAt d")
  case None
  then show ?thesis using approvedAt_None_iff [of d] by simp
next
  case (Some s)
  then show ?thesis by (auto elim!: approvedAt_SomeD)
qed

theorem approvedAt_correct_witness:
  "approvedAt \<lparr>mr_notes = [], approvalEvents = example_events\<rparr> = Some (at_minute 20)
   \<and> filter (\<lambda>e. millis (event_created_at e) < millis (at_minute 20)) example_events = []"
  using approvedAt_correct [of "\<lparr>mr_notes = [], approvalEvents = example_events\<rparr>"]
  by (simp add: approvedAt_def example_events_def at_minute_def)

lemma details_paged:
  "fetchMergeRequestDetails (paged_remote (\<lambda>_. h) ns) approvals
     = Some \<lparr>mr_notes = take (per_page * notes_total_pages h) ns,
             approvalEvents = (case approvals of None \<Rightarrow> [] | Some events \<Rightarrow> events)\<rparr>"
  by (simp add: fetchMergeRequestDetails_def notes_loop_paged)

text \<open>
  C30: the enricher against a paged notes source with a constant page-count header.
  \<open>fetchMergeRequestDetails\<close> returns; the notes are the first \<open>100 * T\<close> notes
  of the collection, where \<open>T\<close> is the reported page count and 1 when the header is
  absent or zero; a failed approval request yields no approval events and keeps the
  notes.
\<close>
theorem fetchMergeRequestDetails_paged:
  "fetchMergeRequestDetails (paged_remote (\<lambda>_. h) ns) approvals
     = Some \<lparr>mr_notes = take (per_page * notes_total_pages h) ns,
             approvalEvents = (case approvals of None \<Rightarrow> [] | Some events \<Rightarrow> events)\<rparr>"
  by (simp add: fetchMergeRequestDetails_def notes_loop_paged)

theorem fetchMergeRequestDetails_paged_witness:
  "fetchMergeRequestDetails (paged_remote (\<lambda>_. Some 1) example_notes) None
     = Some \<lparr>mr_notes = example_notes, approvalEvents = []\<rparr>
   \<and> fetchMergeRequestDetails (paged_remote (\<lambda>_. None) example_notes) (Some example_events)
     = Some \<lparr>mr_notes = example_notes, approvalEvents = example_events\<rparr>"
  using fetchMergeRequestDetails_paged [of "Some 1" example_notes None]
    fetchMergeRequestDetails_paged [of None example_notes "Some example_events"]
  by (simp add: example_notes_def per_page_def)

text \<open>
  C31: notes are truncated when the page-count header is missing. Without an
  \<open>x-total-pages\<close> header the notes loop stops after the first page, so a merge
  request with more than 100 notes is enriched from its first 100 notes only.
\<close>
theorem notes_truncated_without_header:
  assumes "per_page < length ns"
    and "fetchMergeRequestDetails (paged_remote (\<lambda>_. None) ns) approvals = Some d"
  shows "mr_notes d = take per_page ns \<and> mr_notes d \<noteq> ns"
proof -
  from assms(2) have "mr_notes d = take per_page ns"
    by (auto simp: details_paged)
  moreover from assms(1) have "length (take per_page ns) \<noteq> length ns" by simp
  ultimately show ?thesis by auto
qed

theorem notes_truncated_without_header_witness:
  "per_page < length (replicate 101 (hd example_notes))
   \<and> fetchMergeRequestDetails (paged_remote (\<lambda>_. None) (replicate 101 (hd example_notes))) None
       = Some \<lparr>mr_notes = replicate 100 (hd example_notes), approvalEvents = []\<rparr>
   \<and> replicate 100 (hd example_notes) \<noteq> replicate 101 (hd example_notes)"
  using notes_truncated_without_header [of "replicate 101 (hd example_notes)" None
      "\<lparr>mr_notes = replicate 100 (hd example_notes), approvalEvents = []\<rparr>"]
  by (simp add: details_paged per_page_def)

text \<open>
  C38: a failed notes request empties the details. When a request for a page of notes
  throws, the result has no notes and no approval events: the notes already fetched
  are dropped and the approval events are never requested.
\<close>
theorem details_failure_empties:
  "k < notes_total_pages h \<Longrightarrow>
   fetchMergeRequestDetails (failing_at (Suc k) (paged_remote (\<lambda>_. h) ns)) approvals
     = Some \<lparr>mr_notes = [], approvalEvents = []\<rparr>"
  using notes_loop_failing_at [of 0 k h ns "[]"]
  by (simp add: fetchMergeRequestDetails_def)

theorem details_failure_empties_witness:
  "(1 :: nat) < notes_total_pages (Some 2)
   \<and> fetchMergeRequestDetails (failing_at (Suc 1) (paged_remote (\<lambda>_. Some 2) example_notes))
        (Some example_events)
       = Some \<lparr>mr_notes = [], approvalEvents = []\<rparr>"
  using details_failure_empties [of 1 "Some 2" example_notes "Some example_events"]
  by simp

end
