(* ===== verification/Reconciler.thy ===== *)
theory Reconciler
  imports Store Enricher
begin

text \<open>
  The synchronisation run: \<open>processAndStoreMergeRequests\<close> of \<open>src/src/index.ts\<close>
  (lines 159-258), which composes the walker, the change detection, the enricher and
  the store.

  \<^item> \<open>remote_mr\<close> holds the fields of a remote merge request that the run reads.
  \<^item> \<open>remote_env\<close> is the remote API: for each project the paged merge requests, for
    each merge request the paged notes and the approval events.
  \<^item> \<open>sync_state\<close> is the state of the \<open>for\<close> loop: the database, the three counters
    of the summary line, and \<open>detail_calls\<close>, the list of the calls of
    \<open>fetchMergeRequestDetails\<close> made so far (project id and iid). The last field is
    not a variable of the program; it records the calls so that "the enricher is not
    invoked" can be stated.
  \<^item> \<open>process_mr\<close> is the body of the loop, \<open>process_all\<close> the loop,
    \<open>processAndStoreMergeRequests\<close> the function. They are option-valued because the
    walks they contain may not return.
  \<^item> \<open>reconcile\<close> is the decision of specification section 4.2 as a function into the
    four outcomes; the refinement theorem shows that the branches of the loop body
    implement it.
\<close>

record author =
  a_id :: ident
  a_username :: string

record remote_mr =
  r_id :: ident
  r_iid :: ident
  r_title :: string
  r_created_at :: stamp
  r_updated_at :: stamp
  r_state :: string
  r_author :: author
  r_merged_at :: "stamp option"

record remote_env =
  merge_requests_endpoint :: "ident \<Rightarrow> remote_mr paged"
  notes_endpoint :: "ident \<Rightarrow> ident \<Rightarrow> gitlab_note paged"
  approval_events_endpoint :: "ident \<Rightarrow> ident \<Rightarrow> approval_event list option"

record sync_state =
  db :: database
  skippedCount :: nat
  updatedCount :: nat
  newCount :: nat
  detail_calls :: "(ident \<times> ident) list"

definition initial_state :: "database \<Rightarrow> sync_state" where
  "initial_state database =
     \<lparr>db = database, skippedCount = 0, updatedCount = 0, newCount = 0, detail_calls = []\<rparr>"

definition needsUpdate :: "MergeRequestData \<Rightarrow> remote_mr \<Rightarrow> bool" where
  "needsUpdate existingMR mr \<longleftrightarrow>
     iso (updated_at existingMR) \<noteq> iso (r_updated_at mr) \<or> state existingMR \<noteq> r_state mr"

definition mrData :: "ident \<Rightarrow> remote_mr \<Rightarrow> details \<Rightarrow> MergeRequestData" where
  "mrData projectId mr d =
     \<lparr>mr_id = r_id mr, project_id = projectId, title = r_title mr, description = None,
      created_at = r_created_at mr, updated_at = r_updated_at mr, state = r_state mr,
      author_id = a_id (r_author mr), author_username = a_username (r_author mr),
      first_comment_at = firstComment d, approved_at = approvedAt d,
      merged_at = r_merged_at mr, squad = None\<rparr>"

definition enrich_and_save ::
  "remote_env \<Rightarrow> ident \<Rightarrow> remote_mr \<Rightarrow> sync_state \<Rightarrow> sync_state option" where
  "enrich_and_save env projectId mr s =
     map_option
       (\<lambda>d. s\<lparr>db := saveMergeRequest (mrData projectId mr d) (db s),
               detail_calls := detail_calls s @ [(projectId, r_iid mr)]\<rparr>)
       (fetchMergeRequestDetails (notes_endpoint env projectId (r_iid mr))
          (approval_events_endpoint env projectId (r_iid mr)))"

definition skip :: "sync_state \<Rightarrow> sync_state" where
  "skip s = s\<lparr>skippedCount := skippedCount s + 1\<rparr>"

definition process_mr ::
  "remote_env \<Rightarrow> ident \<Rightarrow> remote_mr \<Rightarrow> sync_state \<Rightarrow> sync_state option" where
  "process_mr env projectId mr s =
     (case getMergeRequest projectId (r_id mr) (db s) of
        Some existingMR \<Rightarrow>
          if r_state mr = ''merged'' \<and> state existingMR = ''merged'' then Some (skip s)
          else if \<not> needsUpdate existingMR mr then Some (skip s)
          else enrich_and_save env projectId mr (s\<lparr>updatedCount := updatedCount s + 1\<rparr>)
      | None \<Rightarrow> enrich_and_save env projectId mr (s\<lparr>newCount := newCount s + 1\<rparr>))"

fun process_all ::
  "remote_env \<Rightarrow> ident \<Rightarrow> remote_mr list \<Rightarrow> sync_state \<Rightarrow> sync_state option" where
  "process_all env projectId [] s = Some s"
| "process_all env projectId (mr # mergeRequests) s =
     Option.bind (process_mr env projectId mr s) (process_all env projectId mergeRequests)"

definition processAndStoreMergeRequests ::
  "remote_env \<Rightarrow> ident \<Rightarrow> project \<Rightarrow> database \<Rightarrow> sync_state option" where
  "processAndStoreMergeRequests env projectId proj database =
     Option.bind (fetchMergeRequests (merge_requests_endpoint env projectId))
       (\<lambda>mergeRequests.
          if length mergeRequests = 0 then Some (initial_state database)
          else process_all env projectId mergeRequests
                 (initial_state (saveProject proj database)))"

text \<open>The decision of specification section 4.2.\<close>

datatype action = SkipTerminal | SkipUnchanged | Update | Insert

fun reconcile :: "remote_mr \<Rightarrow> MergeRequestData option \<Rightarrow> action" where
  "reconcile mr None = Insert"
| "reconcile mr (Some existingMR) =
     (if r_state mr = ''merged'' \<and> state existingMR = ''merged'' then SkipTerminal
      else if iso (updated_at existingMR) = iso (r_updated_at mr)
              \<and> state existingMR = r_state mr then SkipUnchanged
      else Update)"

declare initial_state_def [mr_defs] needsUpdate_def [mr_defs] mrData_def [mr_defs]
  enrich_and_save_def [mr_defs] skip_def [mr_defs] process_mr_def [mr_defs]
  processAndStoreMergeRequests_def [mr_defs]

subsection \<open>The written record\<close>

lemma mrData_simps [simp]:
  "mr_id (mrData projectId mr d) = r_id mr"
  "project_id (mrData projectId mr d) = projectId"
  "state (mrData projectId mr d) = r_state mr"
  "updated_at (mrData projectId mr d) = r_updated_at mr"
  "created_at (mrData projectId mr d) = r_created_at mr"
  "merged_at (mrData projectId mr d) = r_merged_at mr"
  "first_comment_at (mrData projectId mr d) = firstComment d"
  "approved_at (mrData projectId mr d) = approvedAt d"
  "squad (mrData projectId mr d) = None"
  "description (mrData projectId mr d) = None"
  by (simp_all add: mrData_def)

lemma key_of_mrData [simp]: "key_of (mrData projectId mr d) = (r_id mr, projectId)"
  by (simp add: key_of_def)

lemma needsUpdate_mrData [simp]: "\<not> needsUpdate (mrData projectId mr d) mr"
  by (simp add: needsUpdate_def)

subsection \<open>Steps: what one iteration does\<close>

lemma skip_simps [simp]:
  "db (skip s) = db s"
  "detail_calls (skip s) = detail_calls s"
  "skippedCount (skip s) = Suc (skippedCount s)"
  "updatedCount (skip s) = updatedCount s"
  "newCount (skip s) = newCount s"
  by (simp_all add: skip_def)

lemma enrich_and_save_SomeD:
  assumes "enrich_and_save env projectId mr s = Some s'"
  obtains d where
    "fetchMergeRequestDetails (notes_endpoint env projectId (r_iid mr))
       (approval_events_endpoint env projectId (r_iid mr)) = Some d"
    and "s' = s\<lparr>db := saveMergeRequest (mrData projectId mr d) (db s),
                 detail_calls := detail_calls s @ [(projectId, r_iid mr)]\<rparr>"
  using assms by (auto simp: enrich_and_save_def)

lemma process_mr_new:
  "getMergeRequest projectId (r_id mr) (db s) = None \<Longrightarrow>
   process_mr env projectId mr s
     = enrich_and_save env projectId mr (s\<lparr>newCount := newCount s + 1\<rparr>)"
  by (simp add: process_mr_def)

lemma process_mr_terminal:
  "getMergeRequest projectId (r_id mr) (db s) = Some existingMR \<Longrightarrow>
   r_state mr = ''merged'' \<Longrightarrow> state existingMR = ''merged'' \<Longrightarrow>
   process_mr env projectId mr s = Some (skip s)"
  by (simp add: process_mr_def)

lemma process_mr_unchanged:
  "getMergeRequest projectId (r_id mr) (db s) = Some existingMR \<Longrightarrow>
   \<not> needsUpdate existingMR mr \<Longrightarrow>
   process_mr env projectId mr s = Some (skip s)"
  by (simp add: process_mr_def)

lemma process_mr_update:
  "getMergeRequest projectId (r_id mr) (db s) = Some existingMR \<Longrightarrow>
   \<not> (r_state mr = ''merged'' \<and> state existingMR = ''merged'') \<Longrightarrow>
   needsUpdate existingMR mr \<Longrightarrow>
   process_mr env projectId mr s
     = enrich_and_save env projectId mr (s\<lparr>updatedCount := updatedCount s + 1\<rparr>)"
  by (auto simp: process_mr_def)

lemmas process_mr_eqs = process_mr_new process_mr_terminal process_mr_unchanged process_mr_update

inductive sync_step :: "remote_env \<Rightarrow> ident \<Rightarrow> remote_mr \<Rightarrow> sync_state \<Rightarrow> sync_state \<Rightarrow> bool"
  for env projectId mr s where
  skipped: "db s' = db s \<Longrightarrow> detail_calls s' = detail_calls s \<Longrightarrow>
      skippedCount s' = Suc (skippedCount s) \<Longrightarrow> updatedCount s' = updatedCount s \<Longrightarrow>
      newCount s' = newCount s \<Longrightarrow>
      getMergeRequest projectId (r_id mr) (db s) = Some existingMR \<Longrightarrow>
      (r_state mr = ''merged'' \<and> state existingMR = ''merged'') \<or> \<not> needsUpdate existingMR mr \<Longrightarrow>
      sync_step env projectId mr s s'"
| saved: "db s' = saveMergeRequest (mrData projectId mr d) (db s) \<Longrightarrow>
      detail_calls s' = detail_calls s @ [(projectId, r_iid mr)] \<Longrightarrow>
      skippedCount s' = skippedCount s \<Longrightarrow>
      updatedCount s' + newCount s' = Suc (updatedCount s + newCount s) \<Longrightarrow>
      fetchMergeRequestDetails (notes_endpoint env projectId (r_iid mr))
        (approval_events_endpoint env projectId (r_iid mr)) = Some d \<Longrightarrow>
      sync_step env projectId mr s s'"

code_pred (modes: i \<Rightarrow> i \<Rightarrow> i \<Rightarrow> i \<Rightarrow> i \<Rightarrow> bool) sync_step .

inductive_cases sync_stepE: "sync_step env projectId mr s s'"

lemma process_mr_step:
  assumes "process_mr env projectId mr s = Some s'"
  shows "sync_step env projectId mr s s'"
proof (cases "getMergeRequest projectId (r_id mr) (db s)")
  case None
  with assms
  have "enrich_and_save env projectId mr (s\<lparr>newCount := newCount s + 1\<rparr>) = Some s'"
    by (simp add: process_mr_new)
  then show ?thesis
    by (elim enrich_and_save_SomeD) (auto intro!: sync_step.saved)
next
  case (Some e)
  show ?thesis
  proof (cases "(r_state mr = ''merged'' \<and> state e = ''merged'') \<or> \<not> needsUpdate e mr")
    case True
    with assms Some have "s' = skip s"
      by (auto simp: process_mr_terminal process_mr_unchanged)
    with Some True show ?thesis
      by (intro sync_step.skipped [where existingMR = e]) simp_all
  next
    case False
    with assms Some
    have "enrich_and_save env projectId mr (s\<lparr>updatedCount := updatedCount s + 1\<rparr>) = Some s'"
      by (simp add: process_mr_update)
    then show ?thesis
      by (elim enrich_and_save_SomeD) (auto intro!: sync_step.saved)
  qed
qed

subsection \<open>Runs: the loop as a sequence of steps\<close>

inductive sync_run ::
  "remote_env \<Rightarrow> ident \<Rightarrow> remote_mr list \<Rightarrow> sync_state \<Rightarrow> sync_state \<Rightarrow> bool"
  for env projectId where
  finished: "sync_run env projectId [] s s"
| step: "sync_step env projectId mr s s' \<Longrightarrow> sync_run env projectId mergeRequests s' s'' \<Longrightarrow>
      sync_run env projectId (mr # mergeRequests) s s''"

inductive_cases sync_run_NilE [elim!]: "sync_run env projectId [] s s'"
inductive_cases sync_run_ConsE [elim!]: "sync_run env projectId (mr # mergeRequests) s s'"

lemma process_all_run:
  "process_all env projectId mergeRequests s = Some s' \<Longrightarrow>
   sync_run env projectId mergeRequests s s'"
proof (induction mergeRequests arbitrary: s)
  case Nil
  then show ?case by (auto intro: sync_run.finished)
next
  case (Cons mr mergeRequests)
  then obtain s1 where "process_mr env projectId mr s = Some s1"
    and "process_all env projectId mergeRequests s1 = Some s'"
    by (auto simp: bind_eq_Some_conv)
  then show ?case
    by (auto intro!: sync_run.step process_mr_step Cons.IH)
qed

lemma sync_run_invariant:
  assumes "sync_run env projectId mergeRequests s s'" and "P s"
    and "\<And>mr s s'. mr \<in> set mergeRequests \<Longrightarrow> P s \<Longrightarrow> sync_step env projectId mr s s' \<Longrightarrow> P s'"
  shows "P s'"
  using assms by (induction rule: sync_run.induct) auto

lemma sync_step_keys_unique:
  "sync_step env projectId mr s s' \<Longrightarrow> keys_unique (db s) \<Longrightarrow> keys_unique (db s')"
  by (auto elim!: sync_stepE)

lemma sync_step_other_key:
  "sync_step env projectId mr s s' \<Longrightarrow> (i, p) \<noteq> (r_id mr, projectId) \<Longrightarrow>
   getMergeRequest p i (db s') = getMergeRequest p i (db s)"
  by (auto elim!: sync_stepE simp: getMergeRequest_saveMergeRequest)

lemma sync_step_projects:
  "sync_step env projectId mr s s' \<Longrightarrow> projects (db s') = projects (db s)"
  by (auto elim!: sync_stepE)

lemma sync_step_counters:
  "sync_step env projectId mr s s' \<Longrightarrow>
   skippedCount s' + updatedCount s' + newCount s'
     = Suc (skippedCount s + updatedCount s + newCount s)
   \<and> length (detail_calls s') + skippedCount s'
     = Suc (length (detail_calls s) + skippedCount s)"
  by (auto elim!: sync_stepE)

text \<open>
  A stored record is settled with respect to a remote one when the loop body skips
  it: both are merged, or neither \<open>updated_at\<close> nor \<open>state\<close> differ.
\<close>

definition settled :: "MergeRequestData \<Rightarrow> remote_mr \<Rightarrow> bool" where
  "settled existingMR mr \<longleftrightarrow>
     (r_state mr = ''merged'' \<and> state existingMR = ''merged'') \<or> \<not> needsUpdate existingMR mr"

definition all_settled :: "ident \<Rightarrow> remote_mr list \<Rightarrow> database \<Rightarrow> bool" where
  "all_settled projectId mergeRequests database \<longleftrightarrow>
     list_all (\<lambda>mr. case getMergeRequest projectId (r_id mr) database of
                      None \<Rightarrow> False | Some existingMR \<Rightarrow> settled existingMR mr) mergeRequests"

lemma all_settled_Nil [simp]: "all_settled projectId [] database"
  by (simp add: all_settled_def)

lemma all_settled_Cons [simp]:
  "all_settled projectId (mr # mergeRequests) database \<longleftrightarrow>
     (\<exists>existingMR. getMergeRequest projectId (r_id mr) database = Some existingMR
        \<and> settled existingMR mr)
     \<and> all_settled projectId mergeRequests database"
  by (auto simp: all_settled_def split: option.splits)

lemma process_mr_settled:
  "getMergeRequest projectId (r_id mr) (db s) = Some existingMR \<Longrightarrow> settled existingMR mr \<Longrightarrow>
   process_mr env projectId mr s = Some (skip s)"
  by (auto simp: settled_def process_mr_terminal process_mr_unchanged)

lemma sync_step_settles:
  "sync_step env projectId mr s s' \<Longrightarrow>
   \<exists>row. getMergeRequest projectId (r_id mr) (db s') = Some row \<and> settled row mr"
  by (auto elim!: sync_stepE simp: getMergeRequest_saveMergeRequest settled_def)

lemma process_all_settled:
  "all_settled projectId mergeRequests (db s) \<Longrightarrow>
   process_all env projectId mergeRequests s
     = Some (s\<lparr>skippedCount := skippedCount s + length mergeRequests\<rparr>)"
proof (induction mergeRequests arbitrary: s)
  case Nil
  then show ?case by simp
next
  case (Cons mr mergeRequests)
  then obtain e where e: "getMergeRequest projectId (r_id mr) (db s) = Some e"
    and st: "settled e mr"
    and rest: "all_settled projectId mergeRequests (db (skip s))"
    by auto
  from e st have "process_mr env projectId mr s = Some (skip s)" by (rule process_mr_settled)
  with Cons.IH [OF rest] show ?case by (simp add: skip_def)
qed

lemma sync_run_settles:
  assumes "sync_run env projectId mergeRequests s s'"
    and "distinct (map r_id mergeRequests)"
  shows "all_settled projectId mergeRequests (db s')"
  using assms
proof (induction rule: sync_run.induct)
  case (finished s)
  then show ?case by simp
next
  case (step mr s s' mergeRequests s'')
  from step.prems have fresh: "r_id mr \<notin> r_id ` set mergeRequests"
    and dist: "distinct (map r_id mergeRequests)" by auto
  from step.hyps(1) obtain row where row: "getMergeRequest projectId (r_id mr) (db s') = Some row"
    and settled: "settled row mr" by (auto dest: sync_step_settles)
  have "getMergeRequest projectId (r_id mr) (db s'') = getMergeRequest projectId (r_id mr) (db s')"
    using step.hyps(2) fresh
  proof (induction rule: sync_run.induct)
    case (finished s)
    then show ?case by simp
  next
    case (step mr' s s' mergeRequests s'')
    then show ?case by (auto simp: sync_step_other_key)
  qed
  with row settled step.IH [OF dist] show ?case by auto
qed

subsection \<open>The whole run\<close>

lemma processAndStore_cases:
  assumes "processAndStoreMergeRequests env projectId proj database = Some s'"
  obtains (nothing) "fetchMergeRequests (merge_requests_endpoint env projectId) = Some []"
      and "s' = initial_state database"
  | (run) mergeRequests where
      "fetchMergeRequests (merge_requests_endpoint env projectId) = Some mergeRequests"
      and "mergeRequests \<noteq> []"
      and "sync_run env projectId mergeRequests (initial_state (saveProject proj database)) s'"
  using assms
  by (auto simp: processAndStoreMergeRequests_def bind_eq_Some_conv split: if_splits
      dest: process_all_run)

lemma initial_state_simps [simp]:
  "db (initial_state database) = database"
  "skippedCount (initial_state database) = 0"
  "updatedCount (initial_state database) = 0"
  "newCount (initial_state database) = 0"
  "detail_calls (initial_state database) = []"
  by (simp_all add: initial_state_def)

lemma sync_run_keys_unique:
  "sync_run env projectId mergeRequests s s' \<Longrightarrow> keys_unique (db s) \<Longrightarrow> keys_unique (db s')"
  by (induction rule: sync_run.induct) (auto dest: sync_step_keys_unique)

lemma sync_run_other_key:
  "sync_run env projectId mergeRequests s s' \<Longrightarrow> (i, p) \<notin> (\<lambda>mr. (r_id mr, projectId)) ` set mergeRequests \<Longrightarrow>
   getMergeRequest p i (db s') = getMergeRequest p i (db s)"
  by (induction rule: sync_run.induct) (auto simp: sync_step_other_key)

lemma sync_run_projects:
  "sync_run env projectId mergeRequests s s' \<Longrightarrow> projects (db s') = projects (db s)"
  by (induction rule: sync_run.induct) (auto simp: sync_step_projects)

lemma sync_run_counters:
  "sync_run env projectId mergeRequests s s' \<Longrightarrow>
   skippedCount s' + updatedCount s' + newCount s'
     = skippedCount s + updatedCount s + newCount s + length mergeRequests
   \<and> length (detail_calls s') + skippedCount s'
     = length (detail_calls s) + skippedCount s + length mergeRequests"
  by (induction rule: sync_run.induct) (auto dest!: sync_step_counters)

subsection \<open>Example data\<close>

definition example_remote_mr :: remote_mr where
  "example_remote_mr =
     \<lparr>r_id = 501, r_iid = 12, r_title = ''Add login'', r_created_at = at_minute 0,
      r_updated_at = at_minute 40, r_state = ''opened'',
      r_author = \<lparr>a_id = 7, a_username = ''qoyyim''\<rparr>, r_merged_at = None\<rparr>"

definition example_row :: MergeRequestData where
  "example_row =
     \<lparr>mr_id = 501, project_id = 9, title = ''Add login'', description = Some ''text'',
      created_at = at_minute 0, updated_at = at_minute 3, state = ''opened'',
      author_id = 7, author_username = ''qoyyim'', first_comment_at = None,
      approved_at = None, merged_at = None, squad = Some ''CMS''\<rparr>"

definition example_project :: project where
  "example_project = example_project_row"

definition example_env :: remote_env where
  "example_env =
     \<lparr>merge_requests_endpoint = (\<lambda>projectId. paged_remote (\<lambda>_. Some 1) [example_remote_mr]),
      notes_endpoint = (\<lambda>projectId iid. paged_remote (\<lambda>_. Some 1) example_notes),
      approval_events_endpoint = (\<lambda>projectId iid. Some example_events)\<rparr>"

definition example_state :: sync_state where
  "example_state = initial_state \<lparr>projects = [], merge_requests = [example_row]\<rparr>"

definition merged_row :: MergeRequestData where
  "merged_row = example_row\<lparr>state := ''merged''\<rparr>"

definition merged_remote_mr :: remote_mr where
  "merged_remote_mr = example_remote_mr\<lparr>r_state := ''merged''\<rparr>"

definition merged_state :: sync_state where
  "merged_state = initial_state \<lparr>projects = [], merge_requests = [merged_row]\<rparr>"

lemmas example_defs = example_remote_mr_def example_row_def example_project_def
  example_env_def example_state_def example_notes_def example_events_def at_minute_def

lemma example_details:
  "fetchMergeRequestDetails (notes_endpoint example_env p i) (approval_events_endpoint example_env p i)
     = Some \<lparr>mr_notes = example_notes, approvalEvents = example_events\<rparr>"
  by (simp add: example_env_def details_paged example_notes_def per_page_def)

lemma example_fetch:
  "fetchMergeRequests (merge_requests_endpoint example_env p) = Some [example_remote_mr]"
  by (simp add: example_env_def fetchMergeRequests_complete_paged)

lemma example_run_returns:
  "\<exists>s'. processAndStoreMergeRequests example_env 9 example_project empty_database = Some s'"
  by (simp add: processAndStoreMergeRequests_def example_fetch process_mr_new
      enrich_and_save_def example_details)

definition unreachable_env :: remote_env where
  "unreachable_env =
     \<lparr>merge_requests_endpoint = (\<lambda>projectId page. None),
      notes_endpoint = (\<lambda>projectId iid page. None),
      approval_events_endpoint = (\<lambda>projectId iid. None)\<rparr>"

lemma unreachable_fetch:
  "fetchMergeRequests (merge_requests_endpoint unreachable_env p) = Some []"
  by (simp add: unreachable_env_def fetchMergeRequests_def loop_failed)

lemma example_existing:
  "getMergeRequest 9 (r_id example_remote_mr) (db example_state) = Some example_row"
  by (simp add: example_state_def getMergeRequest_def example_row_def example_remote_mr_def)

subsection \<open>Properties of the loop body\<close>

text \<open>
  C2: the loop body implements the reconciler's decision. For every remote record and
  every store, the body skips on \<open>skip-terminal\<close> and \<open>skip-unchanged\<close> (changing
  nothing but the skip counter) and enriches and saves on \<open>update\<close> and \<open>insert\<close>
  (counting the record as updated or new).
\<close>
theorem process_mr_refines_reconcile:
  "process_mr env projectId mr s =
     (case reconcile mr (getMergeRequest projectId (r_id mr) (db s)) of
        SkipTerminal \<Rightarrow> Some (skip s)
      | SkipUnchanged \<Rightarrow> Some (skip s)
      | Update \<Rightarrow> enrich_and_save env projectId mr (s\<lparr>updatedCount := updatedCount s + 1\<rparr>)
      | Insert \<Rightarrow> enrich_and_save env projectId mr (s\<lparr>newCount := newCount s + 1\<rparr>))"
  by (cases "getMergeRequest projectId (r_id mr) (db s)")
    (auto simp: process_mr_def needsUpdate_def)

theorem process_mr_refines_reconcile_witness:
  "reconcile example_remote_mr (getMergeRequest 9 (r_id example_remote_mr) (db example_state))
     = Update
   \<and> process_mr example_env 9 example_remote_mr example_state
     = enrich_and_save example_env 9 example_remote_mr
         (example_state\<lparr>updatedCount := updatedCount example_state + 1\<rparr>)
   \<and> reconcile merged_remote_mr (getMergeRequest 9 (r_id merged_remote_mr) (db merged_state))
     = SkipTerminal
   \<and> process_mr example_env 9 merged_remote_mr merged_state = Some (skip merged_state)"
proof -
  have "getMergeRequest 9 (r_id merged_remote_mr) (db merged_state) = Some merged_row"
    by (simp add: getMergeRequest_def merged_state_def merged_row_def merged_remote_mr_def
        example_row_def example_remote_mr_def)
  moreover have "reconcile merged_remote_mr (Some merged_row) = SkipTerminal"
    by (simp add: merged_row_def merged_remote_mr_def)
  moreover have "reconcile example_remote_mr (Some example_row) = Update"
    by (simp add: example_row_def example_remote_mr_def at_minute_def)
  ultimately show ?thesis
    using process_mr_refines_reconcile [of example_env 9 example_remote_mr example_state]
      process_mr_refines_reconcile [of example_env 9 merged_remote_mr merged_state]
    by (simp add: example_existing)
qed

text \<open>
  C3: terminal immutability. A record stored as \<open>merged\<close> whose remote state is still
  \<open>merged\<close> is skipped whatever the remote \<open>updated_at\<close> says and whatever the
  remote API would answer: the step returns, the database is unchanged and
  \<open>fetchMergeRequestDetails\<close> is not called.
\<close>
theorem merged_is_never_refetched:
  assumes "getMergeRequest projectId (r_id mr) (db s) = Some existingMR"
    and "state existingMR = ''merged''" and "r_state mr = ''merged''"
  shows "\<exists>s'. process_mr env projectId mr s = Some s' \<and> db s' = db s
    \<and> detail_calls s' = detail_calls s \<and> skippedCount s' = Suc (skippedCount s)"
  using assms by (simp add: process_mr_terminal)

theorem merged_is_never_refetched_witness:
  "getMergeRequest 9 (r_id merged_remote_mr) (db merged_state) = Some merged_row
   \<and> state merged_row = ''merged'' \<and> r_state merged_remote_mr = ''merged''
   \<and> iso (updated_at merged_row) \<noteq> iso (r_updated_at merged_remote_mr)
   \<and> (\<exists>s'. process_mr example_env 9 merged_remote_mr merged_state = Some s'
        \<and> db s' = db merged_state \<and> detail_calls s' = detail_calls merged_state
        \<and> skippedCount s' = Suc (skippedCount merged_state))"
proof -
  have e: "getMergeRequest 9 (r_id merged_remote_mr) (db merged_state) = Some merged_row"
    by (simp add: getMergeRequest_def merged_state_def merged_row_def merged_remote_mr_def
        example_row_def example_remote_mr_def)
  have m: "state merged_row = ''merged''" "r_state merged_remote_mr = ''merged''"
    by (simp_all add: merged_row_def merged_remote_mr_def)
  have "iso (updated_at merged_row) \<noteq> iso (r_updated_at merged_remote_mr)"
    by (simp add: merged_row_def merged_remote_mr_def example_row_def example_remote_mr_def
        at_minute_def)
  with merged_is_never_refetched [OF e m, of example_env] e m show ?thesis by blast
qed

text \<open>
  C4: an update erases the classification. When a stored record carries a squad and
  the remote record differs in \<open>updated_at\<close> or \<open>state\<close>, the record written back has
  \<open>squad\<close> and \<open>description\<close> null: the externally assigned label is lost.
\<close>
theorem update_drops_squad:
  assumes "getMergeRequest projectId (r_id mr) (db s) = Some existingMR"
    and "squad existingMR = Some label"
    and "needsUpdate existingMR mr"
    and "\<not> (r_state mr = ''merged'' \<and> state existingMR = ''merged'')"
    and "process_mr env projectId mr s = Some s'"
  shows "\<exists>row. getMergeRequest projectId (r_id mr) (db s') = Some row
    \<and> squad row = None \<and> description row = None"
proof -
  from assms have "enrich_and_save env projectId mr (s\<lparr>updatedCount := updatedCount s + 1\<rparr>) = Some s'"
    by (simp add: process_mr_update)
  then show ?thesis
    by (elim enrich_and_save_SomeD) (simp add: getMergeRequest_saveMergeRequest)
qed

theorem update_drops_squad_witness:
  "getMergeRequest 9 (r_id example_remote_mr) (db example_state) = Some example_row
   \<and> squad example_row = Some ''CMS''
   \<and> needsUpdate example_row example_remote_mr
   \<and> (\<exists>s'. process_mr example_env 9 example_remote_mr example_state = Some s'
        \<and> (\<exists>row. getMergeRequest 9 (r_id example_remote_mr) (db s') = Some row
              \<and> squad row = None \<and> description row = None))"
proof -
  have run: "process_mr example_env 9 example_remote_mr example_state
      = enrich_and_save example_env 9 example_remote_mr
          (example_state\<lparr>updatedCount := updatedCount example_state + 1\<rparr>)"
    by (rule process_mr_update [OF example_existing])
      (simp_all add: needsUpdate_def example_row_def example_remote_mr_def at_minute_def)
  then obtain s' where s': "process_mr example_env 9 example_remote_mr example_state = Some s'"
    by (simp add: enrich_and_save_def example_details)
  with update_drops_squad [OF example_existing _ _ _ s', of "''CMS''"] example_existing
  show ?thesis
    by (simp add: needsUpdate_def example_row_def example_remote_mr_def at_minute_def)
qed

subsection \<open>Properties of the whole run\<close>

text \<open>
  The run keeps the primary keys unique. If the keys of both tables are unique
  before \<open>processAndStoreMergeRequests\<close>, they are unique after it.
\<close>
theorem sync_keeps_keys_unique:
  assumes "keys_unique database"
    and "processAndStoreMergeRequests env projectId proj database = Some s'"
  shows "keys_unique (db s')"
  using assms(2)
proof (cases rule: processAndStore_cases)
  case nothing
  with assms(1) show ?thesis by simp
next
  case (run mergeRequests)
  from run(3) show ?thesis
    by (rule sync_run_keys_unique) (simp add: assms(1))
qed

theorem sync_keeps_keys_unique_witness:
  "keys_unique empty_database
   \<and> (\<exists>s'. processAndStoreMergeRequests example_env 9 example_project empty_database = Some s'
        \<and> keys_unique (db s'))"
  using example_run_returns sync_keeps_keys_unique [of empty_database example_env 9 example_project]
  by auto

text \<open>
  The summary accounts for every fetched record. When the run returns, the three
  counters add up to the number of merge requests fetched, and the enricher was
  called exactly once per record counted as new or updated.
\<close>
theorem sync_counts:
  assumes "processAndStoreMergeRequests env projectId proj database = Some s'"
  shows "\<exists>mergeRequests.
      fetchMergeRequests (merge_requests_endpoint env projectId) = Some mergeRequests
      \<and> skippedCount s' + updatedCount s' + newCount s' = length mergeRequests
      \<and> length (detail_calls s') = updatedCount s' + newCount s'"
  using assms
proof (cases rule: processAndStore_cases)
  case nothing
  then show ?thesis by simp
next
  case (run mergeRequests)
  from sync_run_counters [OF run(3)] run(1) show ?thesis by auto
qed

theorem sync_counts_witness:
  "\<exists>s'. processAndStoreMergeRequests example_env 9 example_project empty_database = Some s'
     \<and> skippedCount s' + updatedCount s' + newCount s' = length [example_remote_mr]
     \<and> length (detail_calls s') = updatedCount s' + newCount s'"
  using example_run_returns sync_counts [of example_env 9 example_project empty_database]
  by (auto simp: example_fetch)

text \<open>
  C37: the run touches only the records it fetched. A record whose key is not the key
  of a fetched merge request under the synchronised project, in particular every
  record of another project, is read back unchanged after the run.
\<close>
theorem sync_frame:
  assumes "processAndStoreMergeRequests env projectId proj database = Some s'"
    and "fetchMergeRequests (merge_requests_endpoint env projectId) = Some mergeRequests"
    and "p \<noteq> projectId \<or> i \<notin> r_id ` set mergeRequests"
  shows "getMergeRequest p i (db s') = getMergeRequest p i database"
  using assms(1)
proof (cases rule: processAndStore_cases)
  case nothing
  then show ?thesis by simp
next
  case (run mrs)
  with assms(2) have "mrs = mergeRequests" by simp
  with assms(3) have "(i, p) \<notin> (\<lambda>mr. (r_id mr, projectId)) ` set mrs" by auto
  with sync_run_other_key [OF run(3)] show ?thesis by simp
qed

theorem sync_frame_witness:
  "fetchMergeRequests (merge_requests_endpoint example_env 9) = Some [example_remote_mr]
   \<and> 4 \<noteq> (9 :: ident)
   \<and> (\<exists>s'. processAndStoreMergeRequests example_env 9 example_project (db example_state) = Some s'
        \<and> getMergeRequest 4 501 (db s') = getMergeRequest 4 501 (db example_state))"
proof -
  have "\<exists>s'. processAndStoreMergeRequests example_env 9 example_project (db example_state) = Some s'"
    using example_existing
    by (simp add: processAndStoreMergeRequests_def example_fetch enrich_and_save_def
        example_details process_mr_def split: if_splits)
  then obtain s' where
    s': "processAndStoreMergeRequests example_env 9 example_project (db example_state) = Some s'" ..
  from sync_frame [OF s' example_fetch, of 4 501] s' example_fetch show ?thesis by auto
qed

text \<open>
  An empty or failed fetch leaves the store alone. When the walker returns the
  empty list, which includes the case of a failed request, the run ends before
  \<open>saveProject\<close>: the database is returned as it was.
\<close>
theorem empty_fetch_leaves_store:
  "fetchMergeRequests (merge_requests_endpoint env projectId) = Some [] \<Longrightarrow>
   processAndStoreMergeRequests env projectId proj database = Some (initial_state database)"
  by (simp add: processAndStoreMergeRequests_def)

theorem empty_fetch_leaves_store_witness:
  "fetchMergeRequests (merge_requests_endpoint unreachable_env 9) = Some []
   \<and> processAndStoreMergeRequests unreachable_env 9 example_project (db example_state)
       = Some (initial_state (db example_state))"
  using empty_fetch_leaves_store [of unreachable_env 9 example_project "db example_state"]
  by (simp add: unreachable_fetch)

end
