(* ===== verification/Analytics.thy ===== *)
theory Analytics
  imports Store
begin

text \<open>
  The analytics aggregator: \<open>getMergeRequestStats\<close> and
  \<open>countMrsWithLateFirstComment\<close> of \<open>src/src/index.ts\<close> (lines 610-700), two SQL
  queries over the \<open>merge_requests\<close> table.

  \<^item> The \<open>WHERE\<close> clause is a predicate on rows (\<open>stats_where\<close>, \<open>late_where\<close>). A date
    bound is added only when the argument is truthy; it compares the \<open>created_at\<close>
    text with the bound as text.
  \<^item> \<open>GROUP BY squad\<close> is \<open>group_by\<close> of the prelude: one group per squad that occurs,
    in ascending order of the squad. SQL leaves the order of the groups open; no lemma
    below depends on it.
  \<^item> \<open>COUNT(*)\<close> is the length of the group, \<open>SUM(CASE \<dots> 1 ELSE 0)\<close> a count,
    \<open>AVG\<close> of a nullable expression the mean of its non-null values and \<open>NULL\<close> when
    there is none (\<open>sql_avg\<close>).
  \<^item> \<open>strftime('%s', t)\<close> is \<open>epoch_seconds\<close>; the division by \<open>60.0\<close> is exact
    rational division, so the rounding of floating-point numbers is not modelled.
\<close>

record stats_row =
  stat_squad :: string
  avg_time_to_first_comment :: "rat option"
  avg_time_to_approval :: "rat option"
  avg_time_to_merge :: "rat option"
  total_mrs :: nat
  merged_mrs :: nat

record late_row =
  late_squad :: string
  late_count :: nat

definition created_from :: "string option \<Rightarrow> MergeRequestData \<Rightarrow> bool" where
  "created_from startDate r \<longleftrightarrow>
     (case startDate of None \<Rightarrow> True
      | Some d \<Rightarrow> \<not> truthy startDate \<or> d \<le> iso (created_at r))"

definition created_until :: "string option \<Rightarrow> MergeRequestData \<Rightarrow> bool" where
  "created_until endDate r \<longleftrightarrow>
     (case endDate of None \<Rightarrow> True
      | Some d \<Rightarrow> \<not> truthy endDate \<or> iso (created_at r) \<le> d)"

definition stats_where ::
  "ident \<Rightarrow> string option \<Rightarrow> string option \<Rightarrow> MergeRequestData \<Rightarrow> bool" where
  "stats_where projectId startDate endDate r \<longleftrightarrow>
     project_id r = projectId \<and> state r \<noteq> ''closed'' \<and> squad r \<noteq> None
     \<and> created_from startDate r \<and> created_until endDate r"

definition minutes_to :: "(MergeRequestData \<Rightarrow> stamp option) \<Rightarrow> MergeRequestData \<Rightarrow> rat option" where
  "minutes_to col r =
     (case col r of None \<Rightarrow> None | Some t \<Rightarrow> Some (minutes_between (created_at r) t))"

definition sql_avg :: "rat option list \<Rightarrow> rat option" where
  "sql_avg vs = average (non_null vs)"

definition stats_of_group :: "string \<Rightarrow> MergeRequestData list \<Rightarrow> stats_row" where
  "stats_of_group g rs =
     \<lparr>stat_squad = g,
      avg_time_to_first_comment = sql_avg (map (minutes_to first_comment_at) rs),
      avg_time_to_approval = sql_avg (map (minutes_to approved_at) rs),
      avg_time_to_merge = sql_avg (map (minutes_to merged_at) rs),
      total_mrs = length rs,
      merged_mrs = count_where (\<lambda>r. state r = ''merged'') rs\<rparr>"

definition getMergeRequestStats ::
  "ident \<Rightarrow> string option \<Rightarrow> string option \<Rightarrow> database \<Rightarrow> stats_row list" where
  "getMergeRequestStats projectId startDate endDate database =
     map (\<lambda>(g, rs). stats_of_group g rs)
       (group_by squad (filter (stats_where projectId startDate endDate) (merge_requests database)))"

definition late_where ::
  "ident \<Rightarrow> rat \<Rightarrow> string option \<Rightarrow> string option \<Rightarrow> MergeRequestData \<Rightarrow> bool" where
  "late_where projectId thresholdMinutes startDate endDate r \<longleftrightarrow>
     project_id r = projectId \<and> state r \<noteq> ''closed'' \<and> first_comment_at r \<noteq> None
     \<and> squad r \<noteq> None \<and> created_from startDate r \<and> created_until endDate r
     \<and> (case minutes_to first_comment_at r of None \<Rightarrow> False | Some m \<Rightarrow> m > thresholdMinutes)"

definition countMrsWithLateFirstComment ::
  "ident \<Rightarrow> rat \<Rightarrow> string option \<Rightarrow> string option \<Rightarrow> database \<Rightarrow> late_row list" where
  "countMrsWithLateFirstComment projectId thresholdMinutes startDate endDate database =
     map (\<lambda>(g, rs). \<lparr>late_squad = g, late_count = length rs\<rparr>)
       (group_by squad
          (filter (late_where projectId thresholdMinutes startDate endDate)
             (merge_requests database)))"

declare created_from_def [mr_defs] created_until_def [mr_defs] stats_where_def [mr_defs]
  minutes_to_def [mr_defs] sql_avg_def [mr_defs] stats_of_group_def [mr_defs]
  getMergeRequestStats_def [mr_defs] late_where_def [mr_defs]
  countMrsWithLateFirstComment_def [mr_defs]

subsection \<open>The WHERE clauses\<close>

lemma stats_whereD:
  "stats_where p s e r \<Longrightarrow> project_id r = p \<and> state r \<noteq> ''closed'' \<and> squad r \<noteq> None"
  by (simp add: stats_where_def)

lemma late_where_stats_where: "late_where p t s e r \<Longrightarrow> stats_where p s e r"
  by (simp add: late_where_def stats_where_def)

lemma late_where_iff:
  "late_where p t s e r \<longleftrightarrow>
     stats_where p s e r \<and> (\<exists>c. first_comment_at r = Some c \<and> t < minutes_between (created_at r) c)"
  by (auto simp: late_where_def stats_where_def minutes_to_def split: option.splits)

lemma late_where_antitone: "t1 \<le> t2 \<Longrightarrow> late_where p t2 s e r \<Longrightarrow> late_where p t1 s e r"
  by (auto simp: late_where_iff)

lemma created_from_simps [simp]:
  "created_from None r" "created_from (Some []) r"
  by (simp_all add: created_from_def)

lemma created_until_simps [simp]:
  "created_until None r" "created_until (Some []) r"
  by (simp_all add: created_until_def)

lemma created_from_prefix: "iso (created_at r) = d @ rest \<Longrightarrow> created_from (Some d) r"
  by (simp add: created_from_def prefix_le_extension)

lemma created_until_prefix:
  "d \<noteq> [] \<Longrightarrow> rest \<noteq> [] \<Longrightarrow> iso (created_at r) = d @ rest \<Longrightarrow> \<not> created_until (Some d) r"
  by (cases d) (simp_all add: created_until_def strict_prefix_greater)

subsection \<open>Groups\<close>

lemma squad_filter_stats_where:
  "count_where (\<lambda>r. squad r \<noteq> None) (filter (stats_where p s e) rows)
     = count_where (stats_where p s e) rows"
  by (induction rows) (auto dest: stats_whereD)

lemma stats_rows_conv:
  "getMergeRequestStats p s e database =
     map (\<lambda>g. stats_of_group g
            (filter (\<lambda>r. squad r = Some g) (filter (stats_where p s e) (merge_requests database))))
       (sort (remdups (non_null (map squad (filter (stats_where p s e) (merge_requests database))))))"
  by (simp add: getMergeRequestStats_def group_by_def comp_def)

lemma stat_squad_of_group [simp]: "stat_squad (stats_of_group g rs) = g"
  by (simp add: stats_of_group_def)

lemma total_mrs_of_group [simp]: "total_mrs (stats_of_group g rs) = length rs"
  by (simp add: stats_of_group_def)

lemma merged_mrs_of_group [simp]:
  "merged_mrs (stats_of_group g rs) = count_where (\<lambda>r. state r = ''merged'') rs"
  by (simp add: stats_of_group_def)

lemma stats_row_in_result:
  assumes "row \<in> set (getMergeRequestStats p s e database)"
  obtains g where "row = stats_of_group g
      (filter (\<lambda>r. squad r = Some g) (filter (stats_where p s e) (merge_requests database)))"
    and "filter (\<lambda>r. squad r = Some g) (filter (stats_where p s e) (merge_requests database)) \<noteq> []"
  using assms by (auto simp: getMergeRequestStats_def dest!: group_members)

lemma stats_squads: "map stat_squad (getMergeRequestStats p s e database)
    = map fst (group_by squad (filter (stats_where p s e) (merge_requests database)))"
  by (simp add: getMergeRequestStats_def comp_def case_prod_unfold)

lemma stats_totals:
  "map total_mrs (getMergeRequestStats p s e database)
    = map (\<lambda>(g, rs). length rs)
        (group_by squad (filter (stats_where p s e) (merge_requests database)))"
  by (simp add: getMergeRequestStats_def comp_def case_prod_unfold)

lemma late_counts:
  "map late_count (countMrsWithLateFirstComment p t s e database)
    = map (\<lambda>(g, rs). length rs)
        (group_by squad (filter (late_where p t s e) (merge_requests database)))"
  by (simp add: countMrsWithLateFirstComment_def comp_def case_prod_unfold)

lemma squad_filter_late_where:
  "count_where (\<lambda>r. squad r \<noteq> None) (filter (late_where p t s e) rows)
     = count_where (late_where p t s e) rows"
  by (induction rows) (auto dest: late_where_stats_where stats_whereD)

lemma late_total:
  "sum_list (map late_count (countMrsWithLateFirstComment p t s e database))
     = count_where (late_where p t s e) (merge_requests database)"
  by (simp only: late_counts group_sizes_sum squad_filter_late_where)

lemma stats_total:
  "sum_list (map total_mrs (getMergeRequestStats p s e database))
     = count_where (stats_where p s e) (merge_requests database)"
  by (simp only: stats_totals group_sizes_sum squad_filter_stats_where)

lemma avg_of_group:
  "sql_avg (map (minutes_to col) rs) = Some a \<Longrightarrow>
   a * of_nat (count_where (\<lambda>r. col r \<noteq> None) rs)
     = sum_list (non_null (map (minutes_to col) rs))
   \<and> 0 < count_where (\<lambda>r. col r \<noteq> None) rs"
proof -
  assume a: "sql_avg (map (minutes_to col) rs) = Some a"
  let ?ds = "non_null (map (minutes_to col) rs)"
  have len: "length ?ds = count_where (\<lambda>r. col r \<noteq> None) rs"
    by (induction rs) (auto simp: minutes_to_def non_null_Cons split: option.splits)
  from a have "?ds \<noteq> []" and "a = sum_list ?ds / of_nat (length ?ds)"
    by (auto simp: sql_avg_def average_def split: if_splits)
  then show ?thesis unfolding len [symmetric] by simp
qed

lemma avg_of_group_None:
  "sql_avg (map (minutes_to col) rs) = None \<longleftrightarrow> (\<forall>r \<in> set rs. col r = None)"
  by (auto simp: sql_avg_def non_null_Nil_iff minutes_to_def split: option.splits)

subsection \<open>Example results\<close>

lemma sample_stats:
  "getMergeRequestStats 9 None None sample_db =
     [\<lparr>stat_squad = ''WEB'', avg_time_to_first_comment = Some 20,
       avg_time_to_approval = None, avg_time_to_merge = None,
       total_mrs = 3, merged_mrs = 1\<rparr>]"
  by (simp add: getMergeRequestStats_def group_by_def stats_where_def sample_db_def
      sample_row_def stats_of_group_def sql_avg_def minutes_to_def average_def)

lemma sample_late:
  "countMrsWithLateFirstComment 9 10 None None sample_db = [\<lparr>late_squad = ''WEB'', late_count = 1\<rparr>]"
  by (simp add: countMrsWithLateFirstComment_def group_by_def late_where_def sample_db_def
      sample_row_def minutes_to_def)

subsection \<open>Properties of the aggregation\<close>

text \<open>
  C10: the groups partition the selected records. The \<open>total_mrs\<close> of the result
  rows add up to the number of records that satisfy the filter; no squad occurs in two
  rows; every row counts at least one record and no more merged records than records.
\<close>
theorem stats_groups_partition:
  "sum_list (map total_mrs (getMergeRequestStats p s e database))
     = count_where (stats_where p s e) (merge_requests database)
   \<and> distinct (map stat_squad (getMergeRequestStats p s e database))
   \<and> (\<forall>row \<in> set (getMergeRequestStats p s e database).
        0 < total_mrs row \<and> merged_mrs row \<le> total_mrs row)"
proof -
  have "0 < total_mrs row \<and> merged_mrs row \<le> total_mrs row"
    if "row \<in> set (getMergeRequestStats p s e database)" for row
    using that by (elim stats_row_in_result) (simp add: count_where_le_length)
  then show ?thesis
    by (simp add: stats_total stats_squads group_keys_distinct)
qed

theorem stats_groups_partition_witness:
  "sum_list (map total_mrs (getMergeRequestStats 9 None None sample_db)) = 3
   \<and> count_where (stats_where 9 None None) (merge_requests sample_db) = 3
   \<and> map (\<lambda>row. (stat_squad row, total_mrs row, merged_mrs row))
         (getMergeRequestStats 9 None None sample_db) = [(''WEB'', 3, 1)]"
  using stats_groups_partition [of 9 None None sample_db]
  by (simp add: sample_stats)

text \<open>
  C7: average exclusion semantics. In every result row an average is \<open>NULL\<close> exactly
  when no record of the group has the timestamp; otherwise the average times the
  number of records that have the timestamp equals the sum of their delays: records
  without the timestamp count neither in the numerator nor in the denominator.
\<close>
theorem average_excludes_missing:
  assumes "row \<in> set (getMergeRequestStats p s e database)"
  defines "rs \<equiv> filter (\<lambda>r. squad r = Some (stat_squad row))
      (filter (stats_where p s e) (merge_requests database))"
  shows "case avg_time_to_first_comment row of
      None \<Rightarrow> \<forall>r \<in> set rs. first_comment_at r = None
    | Some a \<Rightarrow>
        a * of_nat (count_where (\<lambda>r. first_comment_at r \<noteq> None) rs)
          = sum_list (non_null (map (minutes_to first_comment_at) rs))
        \<and> 0 < count_where (\<lambda>r. first_comment_at r \<noteq> None) rs"
proof -
  from assms(1) have avg: "avg_time_to_first_comment row = sql_avg (map (minutes_to first_comment_at) rs)"
    unfolding rs_def by (elim stats_row_in_result) (simp add: stats_of_group_def)
  show ?thesis
  proof (cases "avg_time_to_first_comment row")
    case None
    with avg have "sql_avg (map (minutes_to first_comment_at) rs) = None" by simp
    with None show ?thesis by (simp add: avg_of_group_None)
  next
    case (Some a)
    with avg have "sql_avg (map (minutes_to first_comment_at) rs) = Some a" by simp
    from avg_of_group [OF this] Some show ?thesis by simp
  qed
qed

theorem average_excludes_missing_witness:
  "\<lparr>stat_squad = ''WEB'', avg_time_to_first_comment = Some 20, avg_time_to_approval = None,
     avg_time_to_merge = None, total_mrs = 3, merged_mrs = 1\<rparr>
     \<in> set (getMergeRequestStats 9 None None sample_db)
   \<and> (20 :: rat) * of_nat (count_where (\<lambda>r. first_comment_at r \<noteq> None)
        (filter (\<lambda>r. squad r = Some ''WEB'')
           (filter (stats_where 9 None None) (merge_requests sample_db))))
       = sum_list (non_null (map (minutes_to first_comment_at)
           (filter (\<lambda>r. squad r = Some ''WEB'')
              (filter (stats_where 9 None None) (merge_requests sample_db)))))"
proof -
  let ?row = "\<lparr>stat_squad = ''WEB'', avg_time_to_first_comment = Some 20,
      avg_time_to_approval = None, avg_time_to_merge = None, total_mrs = 3, merged_mrs = 1\<rparr>"
  have mem: "?row \<in> set (getMergeRequestStats 9 None None sample_db)"
    by (simp add: sample_stats)
  from average_excludes_missing [OF mem] mem show ?thesis by simp
qed

text \<open>
  C9: the threshold is strict. A record is counted as late exactly when it passes the
  filter of the statistics, has a first comment, and the delay of that comment is
  strictly greater than the threshold; a delay equal to the threshold is not late.
\<close>
theorem late_threshold_strict:
  "late_where p t s e r \<longleftrightarrow>
     stats_where p s e r
     \<and> (\<exists>c. first_comment_at r = Some c \<and> t < minutes_between (created_at r) c)"
  by (rule late_where_iff)

theorem late_threshold_strict_witness:
  "\<not> late_where 9 10 None None (sample_row 1 ''opened'' (Some ''WEB'') (Some 10))
   \<and> late_where 9 (999 / 100) None None (sample_row 1 ''opened'' (Some ''WEB'') (Some 10))
   \<and> stats_where 9 None None (sample_row 1 ''opened'' (Some ''WEB'') (Some 10))"
  using late_threshold_strict [of 9 10 None None "sample_row 1 ''opened'' (Some ''WEB'') (Some 10)"]
    late_threshold_strict [of 9 "999 / 100" None None
      "sample_row 1 ''opened'' (Some ''WEB'') (Some 10)"]
  by (simp add: stats_where_def sample_row_def)

text \<open>
  Late counts are bounded and antitone. For the same project and date bounds the
  late records are among the records of the statistics, so the late counts add up to
  at most the totals; and raising the threshold never raises the number of late
  records.
\<close>
theorem late_counts_bounded:
  "sum_list (map late_count (countMrsWithLateFirstComment p t s e database))
     \<le> sum_list (map total_mrs (getMergeRequestStats p s e database))
   \<and> (t \<le> t' \<longrightarrow>
        sum_list (map late_count (countMrsWithLateFirstComment p t' s e database))
          \<le> sum_list (map late_count (countMrsWithLateFirstComment p t s e database)))"
  unfolding late_total stats_total
  by (auto intro!: count_where_mono dest: late_where_stats_where late_where_antitone)

theorem late_counts_bounded_witness:
  "sum_list (map late_count (countMrsWithLateFirstComment 9 10 None None sample_db)) = 1
   \<and> sum_list (map total_mrs (getMergeRequestStats 9 None None sample_db)) = 3
   \<and> ((10 :: rat) \<le> 40
       \<and> sum_list (map late_count (countMrsWithLateFirstComment 9 40 None None sample_db))
          \<le> sum_list (map late_count (countMrsWithLateFirstComment 9 10 None None sample_db)))"
  using late_counts_bounded [of 9 10 None None sample_db 40]
  by (simp add: sample_stats sample_late)

text \<open>
  C24: the end date is not inclusive. A record created on the end date itself, whose
  \<open>created_at\<close> text is the date followed by a time of day, is excluded by the filter
  of both queries, while a record created on the start date is included: text
  comparison puts \<open>2025-04-30T08:00:00Z\<close> after \<open>2025-04-30\<close>.
\<close>
theorem end_date_excludes_same_day:
  assumes "d \<noteq> []" and "rest \<noteq> []" and "iso (created_at r) = d @ rest"
  shows "\<not> stats_where p s (Some d) r \<and> \<not> late_where p t s (Some d) r
    \<and> created_from (Some d) r"
  using assms created_until_prefix [of d rest r] created_from_prefix [of r d rest]
  by (auto simp: stats_where_def late_where_def)

definition april_30_row :: MergeRequestData where
  "april_30_row = (sample_row 6 ''opened'' (Some ''WEB'') None)
     \<lparr>created_at := \<lparr>iso = ''2025-04-30'' @ ''T08:00:00.000Z'', millis = 1746000000000\<rparr>\<rparr>"

theorem end_date_excludes_same_day_witness:
  "''2025-04-30'' \<noteq> [] \<and> ''T08:00:00.000Z'' \<noteq> []
   \<and> iso (created_at april_30_row) = ''2025-04-30'' @ ''T08:00:00.000Z''
   \<and> \<not> stats_where 9 None (Some ''2025-04-30'') april_30_row
   \<and> stats_where 9 (Some ''2025-04-30'') None april_30_row"
  using end_date_excludes_same_day [of "''2025-04-30''" "''T08:00:00.000Z''" april_30_row 9 None 0]
  by (simp add: april_30_row_def sample_row_def stats_where_def created_from_def)

end
