(* ===== verification/Display.thy ===== *)
theory Display
  imports Analytics
begin

text \<open>
  The display layer of \<open>src/src/index.ts\<close>: \<open>formatTime\<close> (lines 261-275), the heading
  and the summary lines of \<open>displayMergeRequestStats\<close> (lines 278-311) and the date
  validation \<open>isValidDate\<close> (lines 314-324).

  \<^item> A JavaScript number is a rational here; \<open>null\<close>, \<open>undefined\<close> and \<open>NaN\<close>, which
    \<open>formatTime\<close> treats alike, are \<open>None\<close>. Infinite values are not modelled.
  \<^item> \<open>js_rem\<close> is the operator \<open>%\<close>: the remainder of the division that truncates
    towards zero, so it has the sign of the dividend.
  \<^item> \<open>show_int\<close> is the decimal text a template literal gives an integer (below
    \<open>10^21\<close>, where JavaScript switches to exponent notation).
  \<^item> What is printed is the list of the lines given to \<open>console.log\<close>.
\<close>

subsection \<open>Integers as decimal text\<close>

definition digit_char :: "nat \<Rightarrow> char" where
  "digit_char n = char_of (48 + n)"

definition is_digit :: "char \<Rightarrow> bool" where
  "is_digit c \<longleftrightarrow> CHR ''0'' \<le> c \<and> c \<le> CHR ''9''"

definition digit_value :: "char \<Rightarrow> nat" where
  "digit_value c = of_char c - 48"

function show_nat :: "nat \<Rightarrow> string" where
  "show_nat n = (if n < 10 then [digit_char n] else show_nat (n div 10) @ [digit_char (n mod 10)])"
  by pat_completeness auto
termination
  by (relation "measure id") auto

declare show_nat.simps [simp del]

definition show_int :: "int \<Rightarrow> string" where
  "show_int i = (if i < 0 then CHR ''-'' # show_nat (nat (- i)) else show_nat (nat i))"

definition digits_value :: "string \<Rightarrow> nat" where
  "digits_value s = foldl (\<lambda>acc c. 10 * acc + digit_value c) 0 s"

lemma show_nat_small: "n < 10 \<Longrightarrow> show_nat n = [digit_char n]"
  by (simp add: show_nat.simps)

lemma show_nat_big:
  "10 \<le> n \<Longrightarrow> show_nat n = show_nat (n div 10) @ [digit_char (n mod 10)]"
  by (subst show_nat.simps) simp

lemma of_char_digit_char: "n < 10 \<Longrightarrow> of_char (digit_char n) = 48 + n"
  by (simp add: digit_char_def)

lemma digit_char_simps [simp]:
  "digit_char 0 = CHR ''0''" "digit_char (Suc 0) = CHR ''1''" "digit_char 1 = CHR ''1''"
  "digit_char 2 = CHR ''2''" "digit_char 3 = CHR ''3''" "digit_char 4 = CHR ''4''"
  "digit_char 5 = CHR ''5''" "digit_char 6 = CHR ''6''" "digit_char 7 = CHR ''7''"
  "digit_char 8 = CHR ''8''" "digit_char 9 = CHR ''9''"
  by code_simp+

lemma digit_value_digit_char [simp]: "n < 10 \<Longrightarrow> digit_value (digit_char n) = n"
  by (simp add: digit_value_def of_char_digit_char)

lemma is_digit_iff: "is_digit c \<longleftrightarrow> 48 \<le> (of_char c :: nat) \<and> (of_char c :: nat) \<le> 57"
  by (simp add: is_digit_def less_eq_char_def)

lemma is_digit_digit_char [simp]: "n < 10 \<Longrightarrow> is_digit (digit_char n)"
  by (simp add: is_digit_iff of_char_digit_char)

lemma digit_char_digit_value: "is_digit c \<Longrightarrow> digit_char (digit_value c) = c"
  by (simp add: is_digit_iff digit_char_def digit_value_def)

lemma digit_value_less: "is_digit c \<Longrightarrow> digit_value c < 10"
  by (auto simp: is_digit_iff digit_value_def)

lemma digits_value_snoc [simp]:
  "digits_value (s @ [c]) = 10 * digits_value s + digit_value c"
  by (simp add: digits_value_def)

lemma digits_value_Nil [simp]: "digits_value [] = 0"
  by (simp add: digits_value_def)

lemma show_nat_digits: "list_all is_digit (show_nat n)"
  by (induction n rule: show_nat.induct) (subst show_nat.simps, simp)

lemma show_nat_not_Nil [simp]: "show_nat n \<noteq> []"
  by (subst show_nat.simps) simp

lemma digits_value_show_nat [simp]: "digits_value (show_nat n) = n"
proof (induction n rule: show_nat.induct)
  case (1 n)
  show ?case
  proof (cases "n < 10")
    case True
    then show ?thesis by (simp add: show_nat_small digits_value_def)
  next
    case False
    with 1 show ?thesis by (simp add: show_nat_big)
  qed
qed

lemma show_nat_inject [simp]: "show_nat m = show_nat n \<longleftrightarrow> m = n"
  by (metis digits_value_show_nat)

lemma show_nat_no_dash: "show_nat n \<noteq> CHR ''-'' # s"
proof
  assume "show_nat n = CHR ''-'' # s"
  with show_nat_digits [of n] have "is_digit CHR ''-''" by simp
  then show False by (simp add: is_digit_iff)
qed

lemma show_int_inject [simp]: "show_int i = show_int j \<longleftrightarrow> i = j"
  using show_nat_no_dash show_nat_no_dash [symmetric]
  by (auto simp: show_int_def)

lemma show_int_chars: "c \<in> set (show_int i) \<Longrightarrow> is_digit c \<or> c = CHR ''-''"
  using show_nat_digits by (auto simp: show_int_def list_all_iff split: if_splits)

lemma length_show_nat: "n < 10 ^ k \<Longrightarrow> 0 < k \<Longrightarrow> length (show_nat n) \<le> k"
proof (induction n arbitrary: k rule: show_nat.induct)
  case (1 n)
  show ?case
  proof (cases "n < 10")
    case True
    with 1(3) show ?thesis by (simp add: show_nat_small)
  next
    case False
    from 1(3) obtain j where k: "k = Suc j" by (cases k) auto
    with False 1(2) have "0 < j" by (cases j) auto
    moreover from 1(2) k have "n div 10 < 10 ^ j" by (simp add: less_mult_imp_div_less mult.commute)
    ultimately have "length (show_nat (n div 10)) \<le> j" using False 1(1) by simp
    with False k show ?thesis by (simp add: show_nat_big)
  qed
qed

subsection \<open>\<open>formatTime\<close>\<close>

definition trunc :: "rat \<Rightarrow> int" where
  "trunc q = (if 0 \<le> q then \<lfloor>q\<rfloor> else \<lceil>q\<rceil>)"

definition js_rem :: "rat \<Rightarrow> rat \<Rightarrow> rat" where
  "js_rem a b = a - b * of_int (trunc (a / b))"

definition formatTime :: "rat option \<Rightarrow> string" where
  "formatTime minutes =
     (case minutes of
        None \<Rightarrow> ''N/A''
      | Some m \<Rightarrow>
          (let days = \<lfloor>m / (60 * 24)\<rfloor>;
               hours = \<lfloor>js_rem m (60 * 24) / 60\<rfloor>;
               mins = \<lfloor>js_rem m 60\<rfloor>
           in if days > 0
              then show_int days @ ''d '' @ show_int hours @ ''h '' @ show_int mins @ ''m''
              else if hours > 0 then show_int hours @ ''h '' @ show_int mins @ ''m''
              else show_int mins @ ''m''))"

lemma floor_divide_int:
  fixes a :: rat
  assumes "0 < b"
  shows "\<lfloor>a / of_int b\<rfloor> = \<lfloor>a\<rfloor> div b"
proof -
  have "\<lfloor>a / of_int b\<rfloor> = \<lfloor>(of_rat (a / of_int b) :: real)\<rfloor>"
    by (simp only: of_rat_floor)
  also have "\<dots> = \<lfloor>(of_rat a :: real) / real_of_int b\<rfloor>"
    by (simp add: of_rat_divide)
  also have "\<dots> = \<lfloor>(of_rat a :: real)\<rfloor> div b"
    using assms by (simp add: floor_divide_real_eq_div)
  finally show ?thesis by simp
qed

lemma floor_rat_numeral [simp]:
  "\<lfloor>(numeral a / numeral b :: rat)\<rfloor> = numeral a div numeral b"
  "\<lfloor>(- numeral a / numeral b :: rat)\<rfloor> = - numeral a div numeral b"
  using floor_divide_of_int_eq [of "numeral a" "numeral b", where ?'a = rat]
    floor_divide_of_int_eq [of "- numeral a" "numeral b", where ?'a = rat]
  by simp_all

lemma trunc_nonneg [simp]: "0 \<le> q \<Longrightarrow> trunc q = \<lfloor>q\<rfloor>"
  by (simp add: trunc_def)

lemma trunc_neg: "q < 0 \<Longrightarrow> trunc q = \<lceil>q\<rceil>"
  by (simp add: trunc_def)

lemma js_rem_nonneg:
  assumes "0 \<le> a" and "0 < b"
  shows "js_rem a (of_int b) = a - of_int (b * (\<lfloor>a\<rfloor> div b))"
  using assms by (simp add: js_rem_def floor_divide_int)

lemma floor_js_rem:
  assumes "0 \<le> a" and "0 < b"
  shows "\<lfloor>js_rem a (of_int b)\<rfloor> = \<lfloor>a\<rfloor> mod b"
proof -
  have "\<lfloor>a - of_int (b * (\<lfloor>a\<rfloor> div b))\<rfloor> = \<lfloor>a\<rfloor> - b * (\<lfloor>a\<rfloor> div b)"
    by (simp only: floor_diff_of_int)
  with assms show ?thesis
    by (simp only: js_rem_nonneg) (simp add: minus_mult_div_eq_mod)
qed

lemma js_rem_range_nonneg:
  assumes "0 \<le> a" and "0 < b"
  shows "0 \<le> js_rem a (of_int b)"
proof -
  from assms have "0 \<le> \<lfloor>js_rem a (of_int b)\<rfloor>" by (simp add: floor_js_rem)
  then show ?thesis by simp
qed

lemma js_rem_range_neg:
  assumes "a < 0" and "0 < b"
  shows "js_rem a b \<le> 0" and "- b < js_rem a b"
proof -
  from assms have q: "a / b < 0" by (simp add: divide_neg_pos)
  have "a / b \<le> of_int \<lceil>a / b\<rceil>" by (rule le_of_int_ceiling)
  then have "a \<le> of_int \<lceil>a / b\<rceil> * b"
    using assms(2) by (simp only: pos_divide_le_eq)
  with q show "js_rem a b \<le> 0" by (simp add: js_rem_def trunc_neg mult.commute)
  have "of_int \<lceil>a / b\<rceil> - 1 < a / b"
    using ceiling_correct [of "a / b"] by (simp only:)
  then have "(of_int \<lceil>a / b\<rceil> - 1) * b < a"
    using assms(2) by (simp only: pos_less_divide_eq)
  then have "b * of_int \<lceil>a / b\<rceil> < a + b" by (simp add: algebra_simps)
  with q show "- b < js_rem a b" by (simp add: js_rem_def trunc_neg)
qed

lemma formatTime_None [simp]: "formatTime None = ''N/A''"
  by (simp add: formatTime_def)

lemma formatTime_parts:
  assumes "0 \<le> m"
  shows "\<lfloor>m / (60 * 24)\<rfloor> = \<lfloor>m\<rfloor> div 1440"
    and "\<lfloor>js_rem m (60 * 24) / 60\<rfloor> = \<lfloor>m\<rfloor> mod 1440 div 60"
    and "\<lfloor>js_rem m 60\<rfloor> = \<lfloor>m\<rfloor> mod 60"
proof -
  show "\<lfloor>m / (60 * 24)\<rfloor> = \<lfloor>m\<rfloor> div 1440"
    using floor_divide_int [of 1440 m] by simp
  have "\<lfloor>js_rem m (of_int 1440) / of_int 60\<rfloor> = \<lfloor>js_rem m (of_int 1440)\<rfloor> div 60"
    by (rule floor_divide_int) simp
  with assms show "\<lfloor>js_rem m (60 * 24) / 60\<rfloor> = \<lfloor>m\<rfloor> mod 1440 div 60"
    using floor_js_rem [of m 1440] by simp
  from assms show "\<lfloor>js_rem m 60\<rfloor> = \<lfloor>m\<rfloor> mod 60"
    using floor_js_rem [of m 60] by simp
qed

lemma hours_and_minutes:
  fixes n :: int
  assumes "0 \<le> n"
  shows "0 < n div 1440 \<longleftrightarrow> 1440 \<le> n"
    and "n < 1440 \<Longrightarrow> n mod 1440 div 60 = n div 60"
    and "0 < n div 60 \<longleftrightarrow> 60 \<le> n"
    and "n < 60 \<Longrightarrow> n mod 60 = n"
  using assms by (simp_all add: pos_imp_zdiv_pos_iff)

lemma show_int_digit: "0 \<le> i \<Longrightarrow> i < 10 \<Longrightarrow> show_int i = [digit_char (nat i)]"
  by (simp add: show_int_def show_nat_small)

text \<open>
  \<open>formatTime\<close> on a duration that is not negative. The text shows the whole
  minutes \<open>n\<close> of the duration (the fraction is dropped) as days, hours below 24 and
  minutes below 60; days appear from 1440 minutes on and hours from 60 minutes on.
\<close>
theorem formatTime_whole_minutes:
  assumes "0 \<le> m"
  shows "formatTime (Some m) =
     (let n = \<lfloor>m\<rfloor> in
      if 1440 \<le> n
      then show_int (n div 1440) @ ''d '' @ show_int (n mod 1440 div 60) @ ''h ''
             @ show_int (n mod 60) @ ''m''
      else if 60 \<le> n then show_int (n div 60) @ ''h '' @ show_int (n mod 60) @ ''m''
      else show_int n @ ''m'')"
proof -
  from assms have n: "0 \<le> \<lfloor>m\<rfloor>" by simp
  show ?thesis
    unfolding formatTime_def option.case Let_def formatTime_parts [OF assms]
    using hours_and_minutes [OF n] by (simp add: not_le)
qed

theorem formatTime_whole_minutes_witness:
  "formatTime (Some 1501) = ''1d 1h 1m'' \<and> formatTime (Some (181 / 2)) = ''1h 30m''
   \<and> formatTime (Some (1 / 2)) = ''0m''"
  using formatTime_whole_minutes [of 1501] formatTime_whole_minutes [of "181 / 2"]
    formatTime_whole_minutes [of "1 / 2"]
  by (simp add: show_int_def show_nat_small show_nat_big)

text \<open>
  \<open>formatTime\<close> on a negative duration. Neither days nor hours are positive, so
  only the minutes are shown: the remainder of the division by 60, between -60 and
  0. The hours and days of a negative duration are lost.
\<close>
theorem formatTime_negative:
  assumes "m < 0"
  shows "formatTime (Some m) = show_int \<lfloor>js_rem m 60\<rfloor> @ ''m''
    \<and> - 60 \<le> \<lfloor>js_rem m 60\<rfloor> \<and> \<lfloor>js_rem m 60\<rfloor> \<le> 0"
proof -
  from assms have "m / (60 * 24) < 0" by simp
  then have days: "\<not> 0 < \<lfloor>m / (60 * 24)\<rfloor>" by (simp add: floor_less_iff not_less)
  from js_rem_range_neg(1) [OF assms, of "60 * 24"] have "js_rem m (60 * 24) / 60 \<le> 0" by simp
  then have hours: "\<not> 0 < \<lfloor>js_rem m (60 * 24) / 60\<rfloor>"
    by (simp add: not_less floor_le_iff)
  from js_rem_range_neg [OF assms, of 60]
  have "- 60 \<le> \<lfloor>js_rem m 60\<rfloor>" "\<lfloor>js_rem m 60\<rfloor> \<le> 0"
    by (simp_all add: le_floor_iff floor_le_iff)
  with days hours show ?thesis by (simp add: formatTime_def Let_def)
qed

theorem formatTime_negative_witness:
  "(- 90 :: rat) < 0 \<and> formatTime (Some (- 90)) = ''-30m''"
proof -
  have "\<lfloor>js_rem (- 90) 60\<rfloor> = - 30" by code_simp
  with formatTime_negative [of "- 90"] show ?thesis
    by (simp add: show_int_def show_nat_small show_nat_big)
qed

subsection \<open>\<open>displayMergeRequestStats\<close>\<close>

text \<open>
  \<open>stats\<close> is what \<open>getMergeRequestStats\<close> returns: an array of rows. The function
  reads the properties \<open>totalMRs\<close>, \<open>mergedMRs\<close> and \<open>avgTimeTo\<dots>\<close> of the array itself.
  \<open>array_property\<close> is that read: an array has a \<open>length\<close> and no other named
  number, so every other name gives \<open>undefined\<close> (\<open>None\<close>). \<open>show_property\<close> is a
  property inside a template literal, \<open>is_positive v\<close> is \<open>v > 0\<close>, \<open>percent\<close> is
  \<open>Math.round(a / b * 100)\<close> with \<open>None\<close> for \<open>NaN\<close>; \<open>array_number\<close> and
  \<open>show_array\<close> are an array of objects used as a number and inside a template
  literal.
\<close>

definition text_of :: "string option \<Rightarrow> string" where
  "text_of v = (case v of None \<Rightarrow> ''undefined'' | Some s \<Rightarrow> s)"

definition dateRangeText :: "string option \<Rightarrow> string option \<Rightarrow> string" where
  "dateRangeText startDate endDate =
     (if truthy startDate \<and> truthy endDate
      then ''from '' @ text_of startDate @ '' to '' @ text_of endDate
      else if truthy startDate then ''after '' @ text_of startDate
      else if truthy endDate then ''before '' @ text_of endDate
      else ''all time'')"

definition array_property :: "'row list \<Rightarrow> string \<Rightarrow> nat option" where
  "array_property rows property = (if property = ''length'' then Some (length rows) else None)"

definition show_property :: "nat option \<Rightarrow> string" where
  "show_property v = (case v of None \<Rightarrow> ''undefined'' | Some n \<Rightarrow> show_nat n)"

definition is_positive :: "nat option \<Rightarrow> bool" where
  "is_positive v = (case v of None \<Rightarrow> False | Some n \<Rightarrow> 0 < n)"

definition percent :: "nat option \<Rightarrow> nat option \<Rightarrow> string" where
  "percent a b =
     (case (a, b) of
        (Some x, Some y) \<Rightarrow> show_int (round (of_nat x / of_nat y * 100 :: rat))
      | _ \<Rightarrow> ''NaN'')"

definition array_number :: "'row list \<Rightarrow> nat option" where
  "array_number rows = (if rows = [] then Some 0 else None)"

fun show_array :: "'row list \<Rightarrow> string" where
  "show_array [] = []"
| "show_array [x] = ''[object Object]''"
| "show_array (x # y # rows) = ''[object Object],'' @ show_array (y # rows)"

definition displayMergeRequestStats ::
  "ident \<Rightarrow> string option \<Rightarrow> string option \<Rightarrow> rat option \<Rightarrow> database \<Rightarrow> string list" where
  "displayMergeRequestStats projectId startDate endDate commentThreshold database =
     (let stats = getMergeRequestStats projectId startDate endDate database;
          totalMRs = array_property stats ''totalMRs'';
          mergedMRs = array_property stats ''mergedMRs''
      in [CHR 0x0A # ''----- Merge Request Statistics ('' @ dateRangeText startDate endDate
            @ '') -----'',
          ''Total MRs: '' @ show_property totalMRs,
          ''Merged MRs: '' @ show_property mergedMRs @ '' (''
            @ (if is_positive totalMRs then percent mergedMRs totalMRs else ''0'') @ ''%)'',
          ''Average time to first comment: ''
            @ formatTime (map_option of_nat (array_property stats ''avgTimeToFirstComment'')),
          ''Average time to approval: ''
            @ formatTime (map_option of_nat (array_property stats ''avgTimeToApproval'')),
          ''Average time to merge: ''
            @ formatTime (map_option of_nat (array_property stats ''avgTimeToMerge''))]
         @ (case commentThreshold of
              None \<Rightarrow> []
            | Some threshold \<Rightarrow>
                (let lateCommentCount =
                       countMrsWithLateFirstComment projectId threshold startDate endDate database
                 in [CHR 0x0A # ''MRs with first comment after '' @ formatTime (Some threshold)
                       @ '': '' @ show_array lateCommentCount @ '' (''
                       @ (if is_positive totalMRs
                          then percent (array_number lateCommentCount) totalMRs else ''0'')
                       @ ''%)'']))
         @ [''------------------------------------''])"

lemma dateRangeText_simps [simp]:
  "dateRangeText None None = ''all time''"
  "s \<noteq> [] \<Longrightarrow> dateRangeText (Some s) None = ''after '' @ s"
  "e \<noteq> [] \<Longrightarrow> dateRangeText None (Some e) = ''before '' @ e"
  "s \<noteq> [] \<Longrightarrow> e \<noteq> [] \<Longrightarrow> dateRangeText (Some s) (Some e) = ''from '' @ s @ '' to '' @ e"
  by (simp_all add: dateRangeText_def text_of_def truthy_def)

lemma array_property_undefined [simp]:
  "property \<noteq> ''length'' \<Longrightarrow> array_property rows property = None"
  by (simp add: array_property_def)

lemma not_is_positive_None [simp]: "\<not> is_positive None"
  by (simp add: is_positive_def)

lemma show_array_length: "length (show_array rows) = 16 * length rows - 1"
  by (induction rows rule: show_array.induct) simp_all

text \<open>
  C18: the summary does not show the statistics. Whatever the database holds,
  \<open>displayMergeRequestStats\<close> prints \<open>undefined\<close> for both totals, 0 percent, and
  \<open>N/A\<close> for the three averages; with a threshold it prints one \<open>[object Object]\<close>
  for each group that has a late record, and 0 percent. Only the heading depends on
  the arguments.
\<close>
theorem display_ignores_statistics:
  "displayMergeRequestStats projectId startDate endDate commentThreshold database =
     [CHR 0x0A # ''----- Merge Request Statistics ('' @ dateRangeText startDate endDate
        @ '') -----'',
      ''Total MRs: undefined'', ''Merged MRs: undefined (0%)'',
      ''Average time to first comment: N/A'', ''Average time to approval: N/A'',
      ''Average time to merge: N/A'']
     @ (case commentThreshold of
          None \<Rightarrow> []
        | Some threshold \<Rightarrow>
            [CHR 0x0A # ''MRs with first comment after '' @ formatTime (Some threshold) @ '': ''
               @ show_array (countMrsWithLateFirstComment projectId threshold startDate endDate
                   database)
               @ '' (0%)''])
     @ [''------------------------------------'']"
  by (simp add: displayMergeRequestStats_def show_property_def split: option.split)

subsection \<open>\<open>isValidDate\<close> and the date bounds\<close>

text \<open>
  \<open>date_regex\<close> is the pattern \<open>/^\d{4}-\d{2}-\d{2}$/\<close>: one character class for each
  position. The platform's \<open>new Date\<close> is a parameter \<open>parse_date\<close> of
  \<open>isValidDate\<close>, \<open>None\<close> for an invalid date. \<open>date_filter\<close> is
  \<open>dateResponses.startDate || undefined\<close> of \<open>main\<close> (lines 403-404);
  \<open>date_number\<close> reads a date text as the number \<open>YYYYMMDD\<close>.
\<close>

definition date_regex :: "string \<Rightarrow> bool" where
  "date_regex s \<longleftrightarrow>
     list_all2 (\<lambda>class c. class c)
       [is_digit, is_digit, is_digit, is_digit, (=) CHR ''-'', is_digit, is_digit,
        (=) CHR ''-'', is_digit, is_digit] s"

definition isValidDate :: "(string \<Rightarrow> int option) \<Rightarrow> string \<Rightarrow> bool" where
  "isValidDate parse_date dateStr \<longleftrightarrow>
     (if dateStr = [] then True
      else if \<not> date_regex dateStr then False
      else parse_date dateStr \<noteq> None)"

definition date_filter :: "string \<Rightarrow> string option" where
  "date_filter answer = (if answer = [] then None else Some answer)"

definition date_number :: "string \<Rightarrow> nat" where
  "date_number s = digits_value (filter is_digit s)"

lemma foldl_digits:
  "foldl (\<lambda>acc c. 10 * acc + digit_value c) a s
     = a * 10 ^ length s + foldl (\<lambda>acc c. 10 * acc + digit_value c) 0 s"
proof (induction s arbitrary: a)
  case Nil
  show ?case by simp
next
  case (Cons c s)
  let ?f = "\<lambda>acc c. 10 * acc + digit_value c"
  have "foldl ?f a (c # s) = foldl ?f (10 * a + digit_value c) s" by simp
  also have "\<dots> = (10 * a + digit_value c) * 10 ^ length s + foldl ?f 0 s" by (rule Cons.IH)
  also have "\<dots> = a * 10 ^ length (c # s) + (digit_value c * 10 ^ length s + foldl ?f 0 s)"
    by (simp add: algebra_simps)
  also have "digit_value c * 10 ^ length s + foldl ?f 0 s = foldl ?f 0 (c # s)"
    using Cons.IH [of "digit_value c"] by simp
  finally show ?case .
qed

lemma digits_value_Cons:
  "digits_value (c # s) = digit_value c * 10 ^ length s + digits_value s"
  using foldl_digits [of "digit_value c" s] by (simp add: digits_value_def)

lemma digits_value_bound: "list_all is_digit s \<Longrightarrow> digits_value s < 10 ^ length s"
proof (induction s)
  case Nil
  show ?case by simp
next
  case (Cons c s)
  then have "digit_value c \<le> 9" "digits_value s < 10 ^ length s"
    using digit_value_less [of c] by simp_all
  then have "digit_value c * 10 ^ length s + digits_value s < 9 * 10 ^ length s + 10 ^ length s"
    by (intro add_le_less_mono mult_le_mono1)
  then show ?case by (simp add: digits_value_Cons)
qed

lemma radix_le_iff:
  fixes N :: nat
  assumes "r < N" and "r' < N"
  shows "a * N + r \<le> b * N + r' \<longleftrightarrow> a < b \<or> (a = b \<and> r \<le> r')"
proof -
  have less: "x * N + q < y * N + q'" if "x < y" "q < N" for x y q q'
  proof -
    from that(1) have "Suc x * N \<le> y * N" by (intro mult_le_mono1) simp
    with that(2) show ?thesis by simp
  qed
  consider "a < b" | "a = b" | "b < a" by (rule linorder_cases)
  then show ?thesis
  proof cases
    case 1
    with less [OF 1 assms(1), of r'] show ?thesis by simp
  next
    case 2
    then show ?thesis by simp
  next
    case 3
    with less [OF 3 assms(2), of r] show ?thesis by simp
  qed
qed

lemma digit_order:
  assumes "is_digit a" and "is_digit b"
  shows "a < b \<longleftrightarrow> digit_value a < digit_value b"
    and "a = b \<longleftrightarrow> digit_value a = digit_value b"
proof -
  from assms show "a < b \<longleftrightarrow> digit_value a < digit_value b"
    by (auto simp: is_digit_iff digit_value_def less_char_def)
  from assms have "of_char a = (of_char b :: nat) \<longleftrightarrow> digit_value a = digit_value b"
    unfolding is_digit_iff digit_value_def by arith
  then show "a = b \<longleftrightarrow> digit_value a = digit_value b" by (simp only: of_char_eq_iff)
qed

lemma digits_le_iff:
  assumes "length xs = length ys" and "list_all is_digit xs" and "list_all is_digit ys"
  shows "xs \<le> ys \<longleftrightarrow> digits_value xs \<le> digits_value ys"
  using assms
proof (induction xs ys rule: list_induct2)
  case Nil
  show ?case by simp
next
  case (Cons x xs y ys)
  then have "digits_value xs < 10 ^ length xs" "digits_value ys < 10 ^ length xs"
    using digits_value_bound [of xs] digits_value_bound [of ys] by simp_all
  from radix_le_iff [OF this] Cons show ?case
    by (simp add: digits_value_Cons digit_order)
qed

lemma separator_le_iff:
  "length a = length b \<Longrightarrow> a @ c # x \<le> b @ c # y \<longleftrightarrow> a @ x \<le> b @ (y :: string)"
  by (induction a b rule: list_induct2) simp_all

lemma same_length_le_prefix:
  "length s = length d \<Longrightarrow> s \<le> d @ rest \<longleftrightarrow> s \<le> (d :: string)"
  by (induction s d rule: list_induct2) simp_all

lemma same_length_extension_le:
  "length s = length d \<Longrightarrow> rest \<noteq> [] \<Longrightarrow> d @ rest \<le> s \<longleftrightarrow> (d :: string) < s"
  by (induction s d rule: list_induct2) simp_all

lemma not_is_digit_dash [simp]: "\<not> is_digit CHR ''-''"
  by (simp add: is_digit_iff)

lemma date_regexE:
  assumes "date_regex s"
  obtains y m d where "s = y @ CHR ''-'' # m @ CHR ''-'' # d"
    and "length y = 4" and "length m = 2" and "length d = 2"
    and "list_all is_digit y" and "list_all is_digit m" and "list_all is_digit d"
proof -
  from assms obtain y1 y2 y3 y4 m1 m2 d1 d2 where
    s: "s = [y1, y2, y3, y4, CHR ''-'', m1, m2, CHR ''-'', d1, d2]"
    and digits: "list_all is_digit [y1, y2, y3, y4]" "list_all is_digit [m1, m2]"
      "list_all is_digit [d1, d2]"
    unfolding date_regex_def by (auto simp: list_all2_Cons1)
  from digits show thesis
    by (intro that [of "[y1, y2, y3, y4]" "[m1, m2]" "[d1, d2]"]) (simp_all add: s)
qed

lemma length_date_regex: "date_regex s \<Longrightarrow> length s = 10"
  by (auto simp: date_regex_def dest: list_all2_lengthD)

lemma date_le_iff:
  assumes "date_regex s" and "date_regex t"
  shows "s \<le> t \<longleftrightarrow> date_number s \<le> date_number t"
proof -
  from assms(1) obtain y m d where s: "s = y @ CHR ''-'' # m @ CHR ''-'' # d"
    and ls: "length y = 4" "length m = 2" "length d = 2"
    and ds: "list_all is_digit y" "list_all is_digit m" "list_all is_digit d"
    by (rule date_regexE)
  from assms(2) obtain y' m' d' where t: "t = y' @ CHR ''-'' # m' @ CHR ''-'' # d'"
    and lt: "length y' = 4" "length m' = 2" "length d' = 2"
    and dt: "list_all is_digit y'" "list_all is_digit m'" "list_all is_digit d'"
    by (rule date_regexE)
  have "s \<le> t \<longleftrightarrow> y @ m @ CHR ''-'' # d \<le> y' @ m' @ CHR ''-'' # d'"
    unfolding s t using ls lt by (intro separator_le_iff) simp
  also have "\<dots> \<longleftrightarrow> (y @ m) @ d \<le> (y' @ m') @ d'"
    using separator_le_iff [of "y @ m" "y' @ m'" "CHR ''-''" d d'] ls lt by simp
  also have "\<dots> \<longleftrightarrow> digits_value ((y @ m) @ d) \<le> digits_value ((y' @ m') @ d')"
    using ls lt ds dt by (intro digits_le_iff) simp_all
  also have "(y @ m) @ d = filter is_digit s"
    using ds by (simp add: s list_all_iff)
  also have "(y' @ m') @ d' = filter is_digit t"
    using dt by (simp add: t list_all_iff)
  finally show ?thesis by (simp only: date_number_def)
qed

lemma date_less_iff:
  assumes "date_regex s" and "date_regex t"
  shows "s < t \<longleftrightarrow> date_number s < date_number t"
  using date_le_iff [OF assms(2) assms(1)] by (simp add: not_le [symmetric])

lemma isValidDate_empty [simp]: "isValidDate parse_date []"
  by (simp add: isValidDate_def)

lemma isValidDate_shape:
  "isValidDate parse_date dateStr \<Longrightarrow> dateStr \<noteq> [] \<Longrightarrow> date_regex dateStr"
  by (simp add: isValidDate_def split: if_splits)

lemma date_filter_simps [simp]:
  "date_filter [] = None" "answer \<noteq> [] \<Longrightarrow> date_filter answer = Some answer"
  "truthy (date_filter answer) \<longleftrightarrow> answer \<noteq> []"
  by (simp_all add: date_filter_def truthy_def)

text \<open>
  C17: a validated bound filters by calendar day. For a bound that \<open>isValidDate\<close>
  accepts and a record whose creation time is the text of a day followed by a time,
  the start-date filter holds exactly when the bound is not after the day of
  creation, and the end-date filter holds exactly when the day of creation is before
  the bound: the start day is included and the end day is excluded.
\<close>
theorem validated_bounds_filter_by_day:
  assumes "isValidDate parse_date bound" and "bound \<noteq> []"
    and "iso (created_at r) = day @ time" and "date_regex day" and "time \<noteq> []"
  shows "(created_from (date_filter bound) r \<longleftrightarrow> date_number bound \<le> date_number day)
    \<and> (created_until (date_filter bound) r \<longleftrightarrow> date_number day < date_number bound)"
proof -
  from assms(1,2) have b: "date_regex bound" by (rule isValidDate_shape)
  with assms(4) have len: "length bound = length day" by (simp add: length_date_regex)
  have "created_from (date_filter bound) r \<longleftrightarrow> bound \<le> day"
    using assms(2,3) same_length_le_prefix [OF len] by (simp add: created_from_def truthy_def)
  moreover have "created_until (date_filter bound) r \<longleftrightarrow> day < bound"
    using assms(2,3,5) same_length_extension_le [OF len] by (simp add: created_until_def truthy_def)
  ultimately show ?thesis
    by (simp only: date_le_iff [OF b assms(4)] date_less_iff [OF assms(4) b])
qed

theorem validated_bounds_filter_by_day_witness:
  "isValidDate (\<lambda>s. Some 0) ''2025-04-30'' \<and> date_regex ''2025-04-30''
   \<and> iso (created_at april_30_row) = ''2025-04-30'' @ ''T08:00:00.000Z''
   \<and> date_number ''2025-04-30'' = 20250430
   \<and> created_from (date_filter ''2025-04-30'') april_30_row
   \<and> \<not> created_until (date_filter ''2025-04-30'') april_30_row"
proof -
  have d: "date_regex ''2025-04-30''" by (simp add: date_regex_def is_digit_iff)
  then have v: "isValidDate (\<lambda>s. Some 0) ''2025-04-30''" by (simp add: isValidDate_def)
  have n: "date_number ''2025-04-30'' = 20250430"
    by (simp add: date_number_def is_digit_iff digits_value_def digit_value_def)
  have i: "iso (created_at april_30_row) = ''2025-04-30'' @ ''T08:00:00.000Z''"
    by (simp add: april_30_row_def)
  from validated_bounds_filter_by_day [OF v _ i d] d v n i show ?thesis by simp
qed

end
