(* ===== verification/Squads.thy ===== *)
theory Squads
  imports Store "HOL-Library.Option_ord" "HOL-Library.Product_Lexorder"
begin

text \<open>
  The squad assignment script \<open>src/update_squads.sql\<close>: two \<open>UPDATE\<close> statements that
  label the stored merge requests by author, and the query that reports the result.

  \<^item> \<open>update_where\<close> is \<open>UPDATE merge_requests SET \<dots> WHERE \<dots>\<close>: every row that
    satisfies the condition is changed in place, the others stay.
  \<^item> \<open>set_cms\<close> and \<open>set_web\<close> are the two statements, \<open>update_squads\<close> the script.
  \<^item> \<open>squad_report\<close> is the final \<open>SELECT\<close>: one row for each pair of author and
    squad, ordered by squad and author; SQLite sorts \<open>NULL\<close> first, as the order on
    \<open>option\<close> does.
  \<^item> \<open>default_squad\<close> and \<open>relabel\<close> state what the script does to one row.
\<close>

definition cms_authors :: "string list" where
  "cms_authors =
     [''miduddin.wartek'', ''alvin.yaputra'', ''qoyyim'', ''sangbas-wartek'', ''burhan-wartek'']"

definition not_web_authors :: "string list" where
  "not_web_authors =
     [''miduddin.wartek'', ''alvin.yaputra'', ''qoyyim'', ''sangbas-wartek'', ''burhan-wartek'',
      ''ikhsan.hari'']"

definition update_where ::
  "(MergeRequestData \<Rightarrow> bool) \<Rightarrow> (MergeRequestData \<Rightarrow> MergeRequestData) \<Rightarrow> database \<Rightarrow> database"
  where
  "update_where cond assign database =
     database\<lparr>merge_requests := map (\<lambda>r. if cond r then assign r else r) (merge_requests database)\<rparr>"

definition set_cms :: "database \<Rightarrow> database" where
  "set_cms = update_where (\<lambda>r. author_username r \<in> set cms_authors) (\<lambda>r. r\<lparr>squad := Some ''CMS''\<rparr>)"

definition set_web :: "database \<Rightarrow> database" where
  "set_web =
     update_where (\<lambda>r. author_username r \<notin> set not_web_authors \<and> squad r = None)
       (\<lambda>r. r\<lparr>squad := Some ''WEB''\<rparr>)"

definition update_squads :: "database \<Rightarrow> database" where
  "update_squads database = set_web (set_cms database)"

definition squad_report :: "database \<Rightarrow> (string \<times> string option \<times> nat) list" where
  "squad_report database =
     map (\<lambda>(sq, a). (a, sq,
            count_where (\<lambda>r. squad r = sq \<and> author_username r = a) (merge_requests database)))
       (sort (remdups (map (\<lambda>r. (squad r, author_username r)) (merge_requests database))))"

definition default_squad :: "string \<Rightarrow> string option" where
  "default_squad username =
     (if username \<in> set cms_authors then Some ''CMS''
      else if username = ''ikhsan.hari'' then None
      else Some ''WEB'')"

definition relabel :: "MergeRequestData \<Rightarrow> MergeRequestData" where
  "relabel r =
     (if author_username r \<in> set cms_authors then r\<lparr>squad := Some ''CMS''\<rparr>
      else if squad r = None then r\<lparr>squad := default_squad (author_username r)\<rparr>
      else r)"

subsection \<open>Updates in place\<close>

lemma merge_requests_update_where [simp]:
  "merge_requests (update_where cond assign database)
     = map (\<lambda>r. if cond r then assign r else r) (merge_requests database)"
  by (simp add: update_where_def)

lemma projects_update_where [simp]:
  "projects (update_where cond assign database) = projects database"
  by (simp add: update_where_def)

lemma find_map_keyed:
  assumes "\<And>r. key (f r) = key r"
  shows "find (\<lambda>r. key r = k) (map f rows) = map_option f (find (\<lambda>r. key r = k) rows)"
  by (induction rows) (simp_all add: assms)

lemma getMergeRequest_update_where:
  assumes "\<And>r. key_of (assign r) = key_of r"
  shows "getMergeRequest p i (update_where cond assign database)
     = map_option (\<lambda>r. if cond r then assign r else r) (getMergeRequest p i database)"
proof -
  have "find (\<lambda>r. key_of r = (i, p)) (map (\<lambda>r. if cond r then assign r else r) (merge_requests database))
      = map_option (\<lambda>r. if cond r then assign r else r)
          (find (\<lambda>r. key_of r = (i, p)) (merge_requests database))"
    by (rule find_map_keyed) (simp add: assms)
  then show ?thesis by (simp add: getMergeRequest_def key_of_def conj_commute)
qed

lemma keys_unique_update_where:
  assumes "\<And>r. key_of (assign r) = key_of r"
  shows "keys_unique (update_where cond assign database) \<longleftrightarrow> keys_unique database"
proof -
  have eq: "map (key_of \<circ> (\<lambda>r. if cond r then assign r else r)) (merge_requests database)
      = map key_of (merge_requests database)"
    by (simp add: assms)
  show ?thesis
    by (simp only: keys_unique_def merge_requests_update_where projects_update_where map_map eq)
qed

subsection \<open>What the script does to a row\<close>

lemma cms_subset_not_web: "u \<in> set cms_authors \<Longrightarrow> u \<in> set not_web_authors"
  by (auto simp: cms_authors_def not_web_authors_def)

lemma not_web_iff: "u \<in> set not_web_authors \<longleftrightarrow> u \<in> set cms_authors \<or> u = ''ikhsan.hari''"
  by (auto simp: cms_authors_def not_web_authors_def)

lemma default_squad_cms [simp]: "u \<in> set cms_authors \<Longrightarrow> default_squad u = Some ''CMS''"
  by (simp add: default_squad_def)

lemma relabel_fields [simp]:
  "key_of (relabel r) = key_of r" "author_username (relabel r) = author_username r"
  "state (relabel r) = state r" "project_id (relabel r) = project_id r"
  "mr_id (relabel r) = mr_id r" "created_at (relabel r) = created_at r"
  "first_comment_at (relabel r) = first_comment_at r"
  by (simp_all add: relabel_def key_of_def)

lemma squad_relabel:
  "squad (relabel r) =
     (if author_username r \<in> set cms_authors then Some ''CMS''
      else if squad r = None then default_squad (author_username r) else squad r)"
  by (simp add: relabel_def)

lemma relabel_idem [simp]: "relabel (relabel r) = relabel r"
  by (auto simp: relabel_def default_squad_def)

lemma merge_requests_update_squads:
  "merge_requests (update_squads database) = map relabel (merge_requests database)"
  by (auto simp: update_squads_def set_cms_def set_web_def relabel_def default_squad_def
      not_web_iff)

lemma projects_update_squads [simp]: "projects (update_squads database) = projects database"
  by (simp add: update_squads_def set_cms_def set_web_def)

lemma update_squads_conv:
  "update_squads database = update_where (\<lambda>r. True) relabel database"
  by (cases database) (simp add: update_where_def update_squads_def set_cms_def set_web_def
      relabel_def default_squad_def not_web_iff cong: if_cong)

lemma getMergeRequest_update_squads:
  "getMergeRequest p i (update_squads database) = map_option relabel (getMergeRequest p i database)"
  using getMergeRequest_update_where [of relabel p i "\<lambda>r. True" database]
  by (simp add: update_squads_conv)

lemma keys_unique_update_squads [simp]:
  "keys_unique (update_squads database) \<longleftrightarrow> keys_unique database"
  using keys_unique_update_where [of relabel "\<lambda>r. True" database]
  by (simp add: update_squads_conv)

lemma length_update_squads [simp]:
  "length (merge_requests (update_squads database)) = length (merge_requests database)"
  by (simp add: merge_requests_update_squads)

subsection \<open>The report\<close>

lemma report_keys:
  "map (\<lambda>(a, sq, n). (sq, a)) (squad_report database)
     = sort (remdups (map (\<lambda>r. (squad r, author_username r)) (merge_requests database)))"
  by (simp add: squad_report_def case_prod_unfold comp_def)

lemma report_counts:
  "map (\<lambda>(a, sq, n). n) (squad_report database)
     = map (\<lambda>k. count_where (\<lambda>r. (squad r, author_username r) = k) (merge_requests database))
         (sort (remdups (map (\<lambda>r. (squad r, author_username r)) (merge_requests database))))"
  by (simp add: squad_report_def case_prod_unfold comp_def)

subsection \<open>Properties of the script\<close>

text \<open>
  C32: what the script does to a stored record. The record keeps its key and all its
  columns but the squad. Its squad becomes \<open>CMS\<close> when the author is one of the five
  CMS authors, whatever it was; otherwise a squad that is set is kept; otherwise it
  becomes \<open>WEB\<close>, except for the author \<open>ikhsan.hari\<close>, whose records stay unlabelled.
\<close>
theorem update_squads_labels:
  assumes "getMergeRequest p i database = Some r"
  shows "getMergeRequest p i (update_squads database) =
     Some (r\<lparr>squad :=
        if author_username r \<in> set cms_authors then Some ''CMS''
        else if squad r \<noteq> None then squad r
        else if author_username r = ''ikhsan.hari'' then None
        else Some ''WEB''\<rparr>)"
  using assms
  by (auto simp: getMergeRequest_update_squads relabel_def default_squad_def)

theorem update_squads_labels_witness:
  "getMergeRequest 9 5 sample_db = Some (sample_row 5 ''opened'' None (Some 7))
   \<and> getMergeRequest 9 5 (update_squads sample_db)
       = Some (sample_row 5 ''opened'' (Some ''WEB'') (Some 7))"
proof -
  have r: "getMergeRequest 9 5 sample_db = Some (sample_row 5 ''opened'' None (Some 7))"
    by (simp add: getMergeRequest_def sample_db_def sample_row_def)
  from update_squads_labels [OF r] r show ?thesis
    by (simp add: sample_row_def cms_authors_def)
qed

text \<open>
  The script is idempotent and keeps the shape of the store. Running it a second
  time changes nothing; it changes no project, adds and removes no record, and keeps
  the primary keys unique.
\<close>
theorem update_squads_idempotent:
  "update_squads (update_squads database) = update_squads database
   \<and> projects (update_squads database) = projects database
   \<and> map key_of (merge_requests (update_squads database)) = map key_of (merge_requests database)"
proof -
  have "update_squads (update_squads database) = update_squads database"
    by (simp add: update_squads_conv update_where_def)
  then show ?thesis by (simp add: merge_requests_update_squads comp_def)
qed

text \<open>
  The report accounts for every record. The counts of the report add up to the
  number of stored merge requests, and its rows are ordered by squad and author with
  no pair occurring twice.
\<close>
theorem squad_report_counts:
  "sum_list (map (\<lambda>(a, sq, n). n) (squad_report database)) = length (merge_requests database)
   \<and> sorted (map (\<lambda>(a, sq, n). (sq, a)) (squad_report database))
   \<and> distinct (map (\<lambda>(a, sq, n). (sq, a)) (squad_report database))"
proof -
  let ?key = "\<lambda>r. (squad r, author_username r)"
  let ?ks = "sort (remdups (map ?key (merge_requests database)))"
  have "(\<Sum>k\<leftarrow>?ks. count_where (\<lambda>r. ?key r = k) (merge_requests database))
      = length (merge_requests database)"
    by (rule sum_list_count_all_keys) auto
  then show ?thesis by (simp add: report_keys report_counts)
qed

theorem squad_report_counts_witness:
  "squad_report (update_squads sample_db) = [(''u'', Some ''WEB'', 5)]
   \<and> length (merge_requests (update_squads sample_db)) = 5"
  using squad_report_counts [of "update_squads sample_db"]
  by (simp add: squad_report_def merge_requests_update_squads sample_db_def sample_row_def
      relabel_def default_squad_def cms_authors_def)

end
