(* ===== verification/Schema.thy ===== *)
theory Schema
  imports Store
begin

text \<open>
  The schema initialisation \<open>initDatabase\<close> of \<open>src/src/index.ts\<close> (lines 519-572) and
  the column lists of the two \<open>INSERT\<close> statements (lines 576 and 585-586).

  \<^item> A schema maps the name of a table to the names of its columns.
  \<^item> \<open>create_table_if_not_exists\<close> leaves an existing table as it is, whatever its
    columns; \<open>add_column\<close> is \<open>ALTER TABLE \<dots> ADD COLUMN\<close>, which fails when the
    column exists; \<open>try_add_column\<close> is the statement inside \<open>try\<close>/\<open>catch\<close>.
  \<^item> The first argument of \<open>initDatabase\<close> says whether the module variable \<open>db\<close> is
    set already; the result is the schema of the database file afterwards.
  \<^item> \<open>insert_accepted\<close> says that a table has every column an \<open>INSERT\<close> names.
\<close>

type_synonym schema = "string \<rightharpoonup> string list"

datatype sql_error = NoSuchTable | DuplicateColumn

definition projects_columns :: "string list" where
  "projects_columns = [''id'', ''name'', ''path_with_namespace'', ''created_at'']"

definition merge_requests_columns :: "string list" where
  "merge_requests_columns =
     [''id'', ''project_id'', ''title'', ''created_at'', ''updated_at'', ''state'', ''author_id'',
      ''author_username'', ''first_comment_at'', ''approved_at'', ''merged_at'']"

definition create_table_if_not_exists :: "string \<Rightarrow> string list \<Rightarrow> schema \<Rightarrow> schema" where
  "create_table_if_not_exists table columns sch =
     (case sch table of None \<Rightarrow> sch(table \<mapsto> columns) | Some existing \<Rightarrow> sch)"

definition add_column :: "string \<Rightarrow> string \<Rightarrow> schema \<Rightarrow> sql_error + schema" where
  "add_column table column sch =
     (case sch table of
        None \<Rightarrow> Inl NoSuchTable
      | Some columns \<Rightarrow>
          if column \<in> set columns then Inl DuplicateColumn
          else Inr (sch(table \<mapsto> columns @ [column])))"

definition try_add_column :: "string \<Rightarrow> string \<Rightarrow> schema \<Rightarrow> schema" where
  "try_add_column table column sch =
     (case add_column table column sch of Inl err \<Rightarrow> sch | Inr sch' \<Rightarrow> sch')"

definition initDatabase :: "bool \<Rightarrow> schema \<Rightarrow> schema" where
  "initDatabase opened sch =
     (if opened then sch
      else try_add_column ''merge_requests'' ''description''
             (try_add_column ''merge_requests'' ''squad''
                (create_table_if_not_exists ''merge_requests'' merge_requests_columns
                   (create_table_if_not_exists ''projects'' projects_columns sch))))"

definition saveProject_columns :: "string list" where
  "saveProject_columns = [''id'', ''name'', ''path_with_namespace'', ''created_at'']"

definition saveMergeRequest_columns :: "string list" where
  "saveMergeRequest_columns =
     [''id'', ''project_id'', ''title'', ''created_at'', ''updated_at'', ''state'', ''author_id'',
      ''author_username'', ''first_comment_at'', ''approved_at'', ''merged_at'', ''squad'',
      ''description'']"

definition insert_accepted :: "string \<Rightarrow> string list \<Rightarrow> schema \<Rightarrow> bool" where
  "insert_accepted table columns sch =
     (case sch table of None \<Rightarrow> False | Some existing \<Rightarrow> list_all (\<lambda>c. c \<in> set existing) columns)"

definition has_columns :: "string \<Rightarrow> string list \<Rightarrow> schema \<Rightarrow> bool" where
  "has_columns table columns sch =
     (case sch table of None \<Rightarrow> True | Some existing \<Rightarrow> list_all (\<lambda>c. c \<in> set existing) columns)"

definition first_version_schema :: schema where
  "first_version_schema =
     [''projects'' \<mapsto> projects_columns, ''merge_requests'' \<mapsto> merge_requests_columns]"

subsection \<open>Statements\<close>

lemma create_table_simps [simp]:
  "create_table_if_not_exists table columns sch table
     = Some (case sch table of None \<Rightarrow> columns | Some existing \<Rightarrow> existing)"
  "other \<noteq> table \<Longrightarrow> create_table_if_not_exists table columns sch other = sch other"
  by (simp_all add: create_table_if_not_exists_def split: option.split)

lemma try_add_column_same:
  "try_add_column table column sch table
     = map_option (\<lambda>columns. if column \<in> set columns then columns else columns @ [column])
         (sch table)"
  by (simp add: try_add_column_def add_column_def split: option.split)

lemma try_add_column_other [simp]:
  "other \<noteq> table \<Longrightarrow> try_add_column table column sch other = sch other"
  by (simp add: try_add_column_def add_column_def split: option.split)

lemma try_add_column_present:
  "sch table = Some columns \<Longrightarrow> column \<in> set columns \<Longrightarrow> try_add_column table column sch = sch"
  by (simp add: try_add_column_def add_column_def)

lemma try_add_column_absent_table:
  "sch table = None \<Longrightarrow> try_add_column table column sch = sch"
  by (simp add: try_add_column_def add_column_def)

lemma create_table_existing:
  "sch table = Some existing \<Longrightarrow> create_table_if_not_exists table columns sch = sch"
  by (simp add: create_table_if_not_exists_def)

lemma add_column_twice:
  "add_column table column sch = Inr sch' \<Longrightarrow> add_column table column sch' = Inl DuplicateColumn"
  by (auto simp: add_column_def split: option.splits if_splits)

subsection \<open>The tables after \<open>initDatabase\<close>\<close>

lemma initDatabase_projects:
  "initDatabase False sch ''projects''
     = Some (case sch ''projects'' of None \<Rightarrow> projects_columns | Some existing \<Rightarrow> existing)"
  by (simp add: initDatabase_def)

lemma initDatabase_merge_requests:
  "initDatabase False sch ''merge_requests'' =
     Some (let base = (case sch ''merge_requests'' of
                         None \<Rightarrow> merge_requests_columns | Some existing \<Rightarrow> existing);
               with_squad = (if ''squad'' \<in> set base then base else base @ [''squad''])
           in if ''description'' \<in> set with_squad then with_squad
              else with_squad @ [''description''])"
  by (simp add: initDatabase_def try_add_column_same Let_def)

lemma initDatabase_other:
  "table \<noteq> ''projects'' \<Longrightarrow> table \<noteq> ''merge_requests'' \<Longrightarrow>
   initDatabase opened sch table = sch table"
  by (simp add: initDatabase_def)

lemma initDatabase_opened [simp]: "initDatabase True sch = sch"
  by (simp add: initDatabase_def)

lemma initDatabase_extends:
  assumes "sch table = Some columns"
  shows "\<exists>extra. initDatabase opened sch table = Some (columns @ extra)
    \<and> set extra \<subseteq> {''squad'', ''description''}"
proof (cases "opened \<or> (table \<noteq> ''projects'' \<and> table \<noteq> ''merge_requests'')")
  case True
  with assms show ?thesis by (auto simp: initDatabase_other)
next
  case False
  then consider "table = ''projects''" "\<not> opened" | "table = ''merge_requests''" "\<not> opened" by auto
  then show ?thesis
  proof cases
    case 1
    with assms show ?thesis by (simp add: initDatabase_projects)
  next
    case 2
    with assms show ?thesis by (simp add: initDatabase_merge_requests Let_def)
  qed
qed

lemma initDatabase_has_new_columns:
  "\<exists>columns. initDatabase False sch ''merge_requests'' = Some columns
     \<and> ''squad'' \<in> set columns \<and> ''description'' \<in> set columns"
  by (simp add: initDatabase_merge_requests Let_def)

subsection \<open>Properties of the initialisation\<close>

text \<open>
  \<open>initDatabase\<close> is idempotent and drops nothing. Initialising a database file
  that was initialised before changes nothing, although both \<open>ALTER TABLE\<close>
  statements fail then; and whatever the file held, every table keeps its columns
  in their order, with at most \<open>squad\<close> and \<open>description\<close> added at the end.
\<close>
theorem initDatabase_idempotent:
  "initDatabase False (initDatabase False sch) = initDatabase False sch
   \<and> add_column ''merge_requests'' ''squad'' (initDatabase False sch) = Inl DuplicateColumn
   \<and> add_column ''merge_requests'' ''description'' (initDatabase False sch) = Inl DuplicateColumn
   \<and> (\<forall>table columns. sch table = Some columns \<longrightarrow>
         (\<exists>extra. initDatabase False sch table = Some (columns @ extra)
            \<and> set extra \<subseteq> {''squad'', ''description''}))"
proof -
  have "initDatabase False (initDatabase False sch) table = initDatabase False sch table" for table
  proof -
    consider "table = ''projects''" | "table = ''merge_requests''"
      | "table \<noteq> ''projects''" "table \<noteq> ''merge_requests''" by auto
    then show ?thesis
    proof cases
      case 1
      then show ?thesis by (simp add: initDatabase_projects)
    next
      case 2
      then show ?thesis
        by (simp only: initDatabase_merge_requests [of "initDatabase False sch"])
          (simp add: initDatabase_merge_requests Let_def)
    next
      case 3
      then show ?thesis by (simp add: initDatabase_other)
    qed
  qed
  then have "initDatabase False (initDatabase False sch) = initDatabase False sch" by (rule ext)
  moreover from initDatabase_has_new_columns [of sch]
  have "add_column ''merge_requests'' ''squad'' (initDatabase False sch) = Inl DuplicateColumn"
    and "add_column ''merge_requests'' ''description'' (initDatabase False sch) = Inl DuplicateColumn"
    by (auto simp: add_column_def)
  ultimately show ?thesis using initDatabase_extends [of sch _ _ False] by blast
qed

theorem initDatabase_idempotent_witness:
  "first_version_schema ''merge_requests'' = Some merge_requests_columns
   \<and> initDatabase False first_version_schema ''merge_requests''
       = Some (merge_requests_columns @ [''squad'', ''description''])
   \<and> initDatabase False (initDatabase False first_version_schema)
       = initDatabase False first_version_schema"
  using initDatabase_idempotent [of first_version_schema]
  by (simp add: initDatabase_merge_requests first_version_schema_def merge_requests_columns_def)

text \<open>
  C33: after \<open>initDatabase\<close> the store operations find their columns. If the tables
  that exist in the file have the columns of the first version of the schema, then
  after \<open>initDatabase\<close> the \<open>INSERT\<close> statements of \<open>saveProject\<close> and
  \<open>saveMergeRequest\<close> name only columns that exist, also in a file that was created
  before \<open>squad\<close> and \<open>description\<close> were introduced.
\<close>
theorem initDatabase_prepares_inserts:
  assumes "has_columns ''projects'' projects_columns sch"
    and "has_columns ''merge_requests'' merge_requests_columns sch"
  shows "insert_accepted ''projects'' saveProject_columns (initDatabase False sch)
    \<and> insert_accepted ''merge_requests'' saveMergeRequest_columns (initDatabase False sch)"
proof -
  from assms(1) have "insert_accepted ''projects'' saveProject_columns (initDatabase False sch)"
    by (simp add: insert_accepted_def has_columns_def initDatabase_projects
        saveProject_columns_def projects_columns_def split: option.splits)
  moreover
  from assms(2)
  have "insert_accepted ''merge_requests'' saveMergeRequest_columns (initDatabase False sch)"
    by (simp add: insert_accepted_def has_columns_def initDatabase_merge_requests Let_def
        saveMergeRequest_columns_def merge_requests_columns_def split: option.splits)
  ultimately show ?thesis ..
qed

theorem initDatabase_prepares_inserts_witness:
  "has_columns ''projects'' projects_columns first_version_schema
   \<and> has_columns ''merge_requests'' merge_requests_columns first_version_schema
   \<and> \<not> insert_accepted ''merge_requests'' saveMergeRequest_columns first_version_schema
   \<and> insert_accepted ''merge_requests'' saveMergeRequest_columns
       (initDatabase False first_version_schema)
   \<and> insert_accepted ''merge_requests'' saveMergeRequest_columns (initDatabase False Map.empty)"
proof -
  have h: "has_columns ''projects'' projects_columns first_version_schema"
    "has_columns ''merge_requests'' merge_requests_columns first_version_schema"
    by (simp_all add: has_columns_def first_version_schema_def list_all_iff)
  have e: "has_columns ''projects'' projects_columns Map.empty"
    "has_columns ''merge_requests'' merge_requests_columns Map.empty"
    by (simp_all add: has_columns_def)
  have "\<not> insert_accepted ''merge_requests'' saveMergeRequest_columns first_version_schema"
    by (simp add: insert_accepted_def first_version_schema_def saveMergeRequest_columns_def
        merge_requests_columns_def)
  with initDatabase_prepares_inserts [OF h] initDatabase_prepares_inserts [OF e] h
  show ?thesis by simp
qed

end
