(* ===== verification/Menu.thy ===== *)
theory Menu
  imports Reconciler Display Schema
begin

text \<open>
  The entry point of \<open>src/src/index.ts\<close>: \<open>getGroupId\<close> (lines 34-46),
  \<open>listRepositories\<close> (lines 48-56) and \<open>main\<close> (lines 326-424).

  \<^item> \<open>world\<close> is what the program finds outside: the answer of the groups request and
    of the projects request (\<open>None\<close> when the request throws), the remote API of the
    synchronisation run, and the platform's \<open>Number\<close> and \<open>new Date\<close> on texts.
  \<^item> \<open>answers\<close> holds what the user enters at the prompts. A prompt with a
    \<open>validate\<close> function returns only an accepted answer and asks again otherwise;
    with one answer for each prompt, an answer that is not accepted means that
    \<open>main\<close> does not return, which is \<open>None\<close>.
  \<^item> \<open>main\<close> takes the schema of the database file and the stored rows and returns an
    \<open>outcome\<close> with the schema and the rows afterwards; \<open>Exited n\<close> is
    \<open>process.exit(n)\<close>.
\<close>

record gitlab_group =
  g_id :: ident
  g_name :: string
  g_path :: string

record repository =
  repo_project :: project
  name_with_namespace :: string

record world =
  w_groups :: "gitlab_group list option"
  w_projects :: "ident \<Rightarrow> repository list option"
  w_remote :: remote_env
  w_number :: "string \<Rightarrow> rat option"
  w_date :: "string \<Rightarrow> int option"

record answers =
  ans_actionType :: string
  ans_selectedRepo :: ident
  ans_useDateFilter :: bool
  ans_startDate :: string
  ans_endDate :: string
  ans_commentThreshold :: string

datatype outcome = Exited nat | NoRepositories | Fetched | Displayed "string list" | NoAction

definition GROUP_NAME :: string where
  "GROUP_NAME = ''murid''"

definition getGroupId :: "gitlab_group list option \<Rightarrow> string \<Rightarrow> ident option" where
  "getGroupId response groupName =
     (case response of
        None \<Rightarrow> None
      | Some groups \<Rightarrow>
          map_option g_id (find (\<lambda>g. g_name g = groupName \<or> g_path g = groupName) groups))"

definition listRepositories :: "repository list option \<Rightarrow> repository list" where
  "listRepositories response = (case response of None \<Rightarrow> [] | Some repos \<Rightarrow> repos)"

definition threshold_valid :: "(string \<Rightarrow> rat option) \<Rightarrow> string \<Rightarrow> bool" where
  "threshold_valid number input \<longleftrightarrow>
     (if input = [] then True
      else (case number input of None \<Rightarrow> False | Some num \<Rightarrow> num \<ge> 0))"

definition answers_accepted :: "world \<Rightarrow> answers \<Rightarrow> bool" where
  "answers_accepted w a \<longleftrightarrow>
     (ans_useDateFilter a \<longrightarrow>
        isValidDate (w_date w) (ans_startDate a) \<and> isValidDate (w_date w) (ans_endDate a))
     \<and> threshold_valid (w_number w) (ans_commentThreshold a)"

definition show_stats :: "world \<Rightarrow> answers \<Rightarrow> database \<Rightarrow> string list option" where
  "show_stats w a database =
     (if answers_accepted w a then
        (let startDate = (if ans_useDateFilter a then date_filter (ans_startDate a) else None);
             endDate = (if ans_useDateFilter a then date_filter (ans_endDate a) else None);
             commentThreshold =
               (if ans_commentThreshold a \<noteq> [] then w_number w (ans_commentThreshold a)
                else None)
         in Some (displayMergeRequestStats (ans_selectedRepo a) startDate endDate
                    commentThreshold database))
      else None)"

definition main :: "world \<Rightarrow> answers \<Rightarrow> schema \<times> database \<Rightarrow> (outcome \<times> schema \<times> database) option"
  where
  "main w a file =
     (let sch = initDatabase False (fst file); database = snd file in
      case getGroupId (w_groups w) GROUP_NAME of
        None \<Rightarrow> Some (Exited 1, sch, database)
      | Some groupId \<Rightarrow>
          if groupId = 0 then Some (Exited 1, sch, database)
          else
            (let repos = listRepositories (w_projects w groupId) in
             if length repos = 0 then Some (NoRepositories, sch, database)
             else
               (case find (\<lambda>c. proj_id (repo_project c) = ans_selectedRepo a) repos of
                  None \<Rightarrow> Some (Exited 1, sch, database)
                | Some selectedChoice \<Rightarrow>
                    if ans_actionType a = ''fetch'' then
                      map_option (\<lambda>s. (Fetched, sch, db s))
                        (processAndStoreMergeRequests (w_remote w) (ans_selectedRepo a)
                           (repo_project selectedChoice) database)
                    else if ans_actionType a = ''stats'' then
                      map_option (\<lambda>printed. (Displayed printed, sch, database))
                        (show_stats w a database)
                    else Some (NoAction, sch, database))))"

text \<open>
  The module itself (lines 14-23 and 426): without a token the process exits before
  \<open>main\<close> is called, so the database file is not opened.
\<close>

definition program ::
  "string option \<Rightarrow> world \<Rightarrow> answers \<Rightarrow> schema \<times> database \<Rightarrow> (outcome \<times> schema \<times> database) option"
  where
  "program GITLAB_TOKEN w a file =
     (if \<not> truthy GITLAB_TOKEN then Some (Exited 1, file) else main w a file)"

subsection \<open>Lookup\<close>

lemma getGroupId_failed [simp]: "getGroupId None groupName = None"
  by (simp add: getGroupId_def)

lemma getGroupId_SomeD:
  assumes "getGroupId response groupName = Some i"
  obtains groups g where "response = Some groups" and "g \<in> set groups" and "g_id g = i"
    and "g_name g = groupName \<or> g_path g = groupName"
  using assms
  by (auto simp: getGroupId_def find_Some_iff split: option.splits) (metis nth_mem)+

lemma getGroupId_None_iff:
  "getGroupId (Some groups) groupName = None
     \<longleftrightarrow> (\<forall>g \<in> set groups. g_name g \<noteq> groupName \<and> g_path g \<noteq> groupName)"
  by (auto simp: getGroupId_def find_None_iff)

lemma listRepositories_simps [simp]:
  "listRepositories None = []" "listRepositories (Some repos) = repos"
  by (simp_all add: listRepositories_def)

lemma program_without_token [simp]:
  "program None w a file = Some (Exited 1, file)" "program (Some []) w a file = Some (Exited 1, file)"
  by (simp_all add: program_def truthy_def)

lemma program_with_token [simp]:
  "token \<noteq> [] \<Longrightarrow> program (Some token) w a file = main w a file"
  by (simp add: program_def truthy_def)

subsection \<open>Outcomes\<close>

lemma show_stats_Some_iff:
  "(\<exists>printed. show_stats w a database = Some printed) \<longleftrightarrow> answers_accepted w a"
  by (simp add: show_stats_def Let_def)

lemma main_schema:
  "main w a (sch, database) = Some (out, sch', database') \<Longrightarrow> sch' = initDatabase False sch"
  by (auto simp: main_def Let_def split: option.splits if_splits)

lemma main_database:
  "main w a (sch, database) = Some (out, sch', database') \<Longrightarrow> out \<noteq> Fetched \<Longrightarrow>
   database' = database"
  by (auto simp: main_def Let_def split: option.splits if_splits)

lemma main_Fetched:
  assumes "main w a (sch, database) = Some (Fetched, sch', database')"
  obtains c s where "ans_actionType a = ''fetch''"
    and "c \<in> set (listRepositories (w_projects w (the (getGroupId (w_groups w) GROUP_NAME))))"
    and "proj_id (repo_project c) = ans_selectedRepo a"
    and "processAndStoreMergeRequests (w_remote w) (ans_selectedRepo a) (repo_project c) database
           = Some s"
    and "database' = db s"
  using assms
  by (auto simp: main_def Let_def find_Some_iff split: option.splits if_splits) (metis nth_mem)

lemma main_selected:
  assumes "getGroupId (w_groups w) GROUP_NAME = Some groupId" and "groupId \<noteq> 0"
    and "find (\<lambda>c. proj_id (repo_project c) = ans_selectedRepo a)
           (listRepositories (w_projects w groupId)) = Some c"
  shows "main w a (sch, database) =
     (if ans_actionType a = ''fetch'' then
        map_option (\<lambda>s. (Fetched, initDatabase False sch, db s))
          (processAndStoreMergeRequests (w_remote w) (ans_selectedRepo a) (repo_project c) database)
      else if ans_actionType a = ''stats'' then
        map_option (\<lambda>printed. (Displayed printed, initDatabase False sch, database))
          (show_stats w a database)
      else Some (NoAction, initDatabase False sch, database))"
proof -
  from assms(3) have "listRepositories (w_projects w groupId) \<noteq> []" by auto
  with assms show ?thesis by (simp add: main_def Let_def)
qed

lemma main_not_selected:
  assumes "getGroupId (w_groups w) GROUP_NAME = None
      \<or> getGroupId (w_groups w) GROUP_NAME = Some 0
      \<or> (\<exists>groupId. getGroupId (w_groups w) GROUP_NAME = Some groupId
            \<and> find (\<lambda>c. proj_id (repo_project c) = ans_selectedRepo a)
                 (listRepositories (w_projects w groupId)) = None)"
  shows "\<exists>out. main w a (sch, database) = Some (out, initDatabase False sch, database)"
  using assms by (auto simp: main_def Let_def)

subsection \<open>Example\<close>

definition example_world :: world where
  "example_world =
     \<lparr>w_groups = Some [\<lparr>g_id = 3, g_name = ''murid'', g_path = ''murid''\<rparr>],
      w_projects = (\<lambda>groupId.
        Some [\<lparr>repo_project = example_project_row, name_with_namespace = ''murid / web''\<rparr>]),
      w_remote = example_env,
      w_number = (\<lambda>input. if input = ''30'' then Some 30 else None),
      w_date = (\<lambda>input. Some 0)\<rparr>"

definition stats_answers :: answers where
  "stats_answers =
     \<lparr>ans_actionType = ''stats'', ans_selectedRepo = 9, ans_useDateFilter = True,
      ans_startDate = ''2025-04-01'', ans_endDate = [], ans_commentThreshold = ''30''\<rparr>"

lemma example_world_group: "getGroupId (w_groups example_world) GROUP_NAME = Some 3"
  by (simp add: example_world_def getGroupId_def GROUP_NAME_def)

lemma example_world_choice:
  "find (\<lambda>c. proj_id (repo_project c) = 9) (listRepositories (w_projects example_world 3))
     = Some \<lparr>repo_project = example_project_row, name_with_namespace = ''murid / web''\<rparr>"
  by (simp add: example_world_def example_project_row_def)

lemma stats_answers_accepted: "answers_accepted example_world stats_answers"
  by (simp add: answers_accepted_def stats_answers_def example_world_def isValidDate_def
      date_regex_def is_digit_iff threshold_valid_def)

subsection \<open>Properties of \<open>main\<close>\<close>

text \<open>
  C21: \<open>main\<close> writes rows only when it fetches. Whenever \<open>main\<close> returns, the schema
  is the initialised one; unless the chosen action is \<open>fetch\<close>, the stored rows are
  the ones it started with; and when it reports \<open>Fetched\<close>, the rows are those the
  synchronisation run left for the chosen repository.
\<close>
theorem main_writes_only_when_fetching:
  assumes "main w a (sch, database) = Some (out, sch', database')"
  shows "sch' = initDatabase False sch
    \<and> (ans_actionType a \<noteq> ''fetch'' \<longrightarrow> database' = database \<and> out \<noteq> Fetched)
    \<and> (out = Fetched \<longrightarrow>
         (\<exists>(c :: repository) s. proj_id (repo_project c) = ans_selectedRepo a
            \<and> processAndStoreMergeRequests (w_remote w) (ans_selectedRepo a) (repo_project c)
                 database = Some s
            \<and> database' = db s))"
proof -
  have "sch' = initDatabase False sch" using assms by (rule main_schema)
  moreover have "database' = database \<and> out \<noteq> Fetched" if "ans_actionType a \<noteq> ''fetch''"
    using assms that by (auto simp: main_def Let_def split: option.splits if_splits)
  moreover have "\<exists>(c :: repository) s. proj_id (repo_project c) = ans_selectedRepo a
      \<and> processAndStoreMergeRequests (w_remote w) (ans_selectedRepo a) (repo_project c) database
           = Some s
      \<and> database' = db s" if "out = Fetched"
    using assms unfolding that by (elim main_Fetched) (intro exI conjI; assumption)
  ultimately show ?thesis by blast
qed

theorem main_writes_only_when_fetching_witness:
  "\<exists>printed. main example_world stats_answers (first_version_schema, sample_db)
     = Some (Displayed printed, initDatabase False first_version_schema, sample_db)"
proof -
  from stats_answers_accepted obtain printed where
    "show_stats example_world stats_answers sample_db = Some printed"
    using show_stats_Some_iff by blast
  then have m: "main example_world stats_answers (first_version_schema, sample_db)
      = Some (Displayed printed, initDatabase False first_version_schema, sample_db)"
    using main_selected [of example_world 3 stats_answers _ first_version_schema sample_db,
        OF example_world_group] example_world_choice
    by (simp add: stats_answers_def)
  from main_writes_only_when_fetching [OF m] m show ?thesis by blast
qed

text \<open>
  The statistics action shows the summary for the accepted answers. When the
  group and the chosen repository are found and the action is \<open>stats\<close>, \<open>main\<close>
  returns exactly when the prompts accept the answers; it then prints the summary
  of \<open>displayMergeRequestStats\<close> for the date bounds entered (none when the date
  filter is declined) and for a threshold that, when given, is not negative.
\<close>
theorem main_shows_statistics:
  assumes "getGroupId (w_groups w) GROUP_NAME = Some groupId" and "groupId \<noteq> 0"
    and "find (\<lambda>c. proj_id (repo_project c) = ans_selectedRepo a)
           (listRepositories (w_projects w groupId)) = Some c"
    and "ans_actionType a = ''stats''"
  shows "if answers_accepted w a then
       main w a (sch, database)
         = Some (Displayed
             (displayMergeRequestStats (ans_selectedRepo a)
                (if ans_useDateFilter a then date_filter (ans_startDate a) else None)
                (if ans_useDateFilter a then date_filter (ans_endDate a) else None)
                (if ans_commentThreshold a \<noteq> [] then w_number w (ans_commentThreshold a)
                 else None)
                database),
             initDatabase False sch, database)
       \<and> (ans_commentThreshold a \<noteq> [] \<longrightarrow>
            (\<exists>t. w_number w (ans_commentThreshold a) = Some t \<and> 0 \<le> t))
     else main w a (sch, database) = None"
proof (cases "answers_accepted w a")
  case False
  with assms show ?thesis by (simp add: main_selected show_stats_def)
next
  case True
  then have "threshold_valid (w_number w) (ans_commentThreshold a)"
    by (simp add: answers_accepted_def)
  then have "ans_commentThreshold a \<noteq> [] \<longrightarrow>
      (\<exists>t. w_number w (ans_commentThreshold a) = Some t \<and> 0 \<le> t)"
    by (auto simp: threshold_valid_def split: option.splits if_splits)
  with True assms show ?thesis by (simp add: main_selected show_stats_def Let_def)
qed

theorem main_shows_statistics_witness:
  "main example_world stats_answers (first_version_schema, sample_db)
     = Some (Displayed (displayMergeRequestStats 9 (Some ''2025-04-01'') None (Some 30) sample_db),
             initDatabase False first_version_schema, sample_db)
   \<and> main example_world (stats_answers\<lparr>ans_commentThreshold := ''soon''\<rparr>)
       (first_version_schema, sample_db) = None"
proof -
  let ?bad = "stats_answers\<lparr>ans_commentThreshold := ''soon''\<rparr>"
  have c: "find (\<lambda>c. proj_id (repo_project c) = ans_selectedRepo stats_answers)
      (listRepositories (w_projects example_world 3))
    = Some \<lparr>repo_project = example_project_row, name_with_namespace = ''murid / web''\<rparr>"
    "find (\<lambda>c. proj_id (repo_project c) = ans_selectedRepo ?bad)
      (listRepositories (w_projects example_world 3))
    = Some \<lparr>repo_project = example_project_row, name_with_namespace = ''murid / web''\<rparr>"
    using example_world_choice by (simp_all add: stats_answers_def)
  have bad: "\<not> answers_accepted example_world ?bad"
    by (simp add: answers_accepted_def stats_answers_def example_world_def threshold_valid_def)
  from main_shows_statistics [OF example_world_group _ c(1), of first_version_schema sample_db]
    main_shows_statistics [OF example_world_group _ c(2), of first_version_schema sample_db]
    stats_answers_accepted bad
  show ?thesis by (simp add: stats_answers_def example_world_def)
qed

end
