(* ===== verification/Reports.thy ===== *)
theory Reports
  imports Display "HOL-Library.Signed_Division" "HOL-Library.Option_ord"
    "HOL-Library.Product_Lexorder" "HOL-Library.Multiset"
begin

text \<open>
  The report queries kept beside the program: \<open>src/unnamed/part_001\<close> (the \<open>WEB\<close> merge
  requests created since 1 April 2025) and the three queries of
  \<open>src/unnamed/part_002\<close> (merge requests created at or after 16:00 in GMT+7, the same
  with the time of day, and the distribution by hour and squad).

  \<^item> SQLite's \<open>strftime('%s', t)\<close> is \<open>epoch_seconds t\<close>. \<open>datetime(t, '+7 hours')\<close> is
    the text of the shifted time; its value is \<open>shifted_seconds t\<close>, and the texts of
    two times are ordered as their values are, so a column of such texts is a column
    of these values here. The calendar date inside the text is not modelled.
  \<^item> \<open>strftime('%H', \<dots>)\<close> and \<open>strftime('%H:%M:%S', \<dots>)\<close> are the two-digit texts
    \<open>hour_text\<close> and \<open>time_text\<close> of the time of day; \<open>cast_integer\<close> is
    \<open>CAST(\<dots> AS INTEGER)\<close> on a text of digits.
  \<^item> On integers SQLite's \<open>/\<close> and \<open>%\<close> truncate towards zero: \<open>sdiv\<close> and \<open>smod\<close>.
    \<open>sql_round2\<close> is \<open>round(x, 2)\<close>, which rounds a tie away from zero.
  \<^item> \<open>ORDER BY\<close> is a stable sort by the key; rows with equal keys keep the order of
    the table.
\<close>

subsection \<open>Date and number functions of SQLite\<close>

definition shifted_seconds :: "stamp \<Rightarrow> int" where
  "shifted_seconds t = epoch_seconds t + 7 * 3600"

definition hour_of :: "int \<Rightarrow> nat" where
  "hour_of s = nat (s mod 86400 div 3600)"

definition minute_of :: "int \<Rightarrow> nat" where
  "minute_of s = nat (s mod 3600 div 60)"

definition second_of :: "int \<Rightarrow> nat" where
  "second_of s = nat (s mod 60)"

definition pad2 :: "nat \<Rightarrow> string" where
  "pad2 n = (if n < 10 then CHR ''0'' # show_nat n else show_nat n)"

definition hour_text :: "int \<Rightarrow> string" where
  "hour_text s = pad2 (hour_of s)"

definition time_text :: "int \<Rightarrow> string" where
  "time_text s = pad2 (hour_of s) @ '':'' @ pad2 (minute_of s) @ '':'' @ pad2 (second_of s)"

definition cast_integer :: "string \<Rightarrow> int" where
  "cast_integer s = int (digits_value (takeWhile is_digit s))"

definition seconds_until :: "(MergeRequestData \<Rightarrow> stamp option) \<Rightarrow> MergeRequestData \<Rightarrow> int option"
  where
  "seconds_until col r =
     (case col r of None \<Rightarrow> None | Some t \<Rightarrow> Some (epoch_seconds t - epoch_seconds (created_at r)))"

definition sql_round2 :: "rat \<Rightarrow> rat" where
  "sql_round2 x =
     (if 0 \<le> x then of_int \<lfloor>x * 100 + 1 / 2\<rfloor> / 100 else - of_int \<lfloor>- x * 100 + 1 / 2\<rfloor> / 100)"

definition duration_text :: "int \<Rightarrow> string" where
  "duration_text d =
     show_int (d sdiv 3600) @ ''h '' @ show_int (d smod 3600 sdiv 60) @ ''m ''
       @ show_int (d smod 60) @ ''s''"

definition created_late :: "MergeRequestData \<Rightarrow> bool" where
  "created_late r \<longleftrightarrow> cast_integer (hour_text (shifted_seconds (created_at r))) \<ge> 16"

subsection \<open>Time of day\<close>

lemma hour_of_less: "hour_of s < 24"
  by (simp add: hour_of_def)

lemma minute_of_less: "minute_of s < 60"
  by (simp add: minute_of_def)

lemma second_of_less: "second_of s < 60"
  by (simp add: second_of_def)

lemma time_of_day_parts:
  "int (hour_of s) * 3600 + int (minute_of s) * 60 + int (second_of s) = s mod 86400"
proof -
  have "s mod 86400 mod 3600 = s mod 3600" "s mod 3600 mod 60 = s mod 60"
    by (simp_all add: mod_mod_cancel)
  then have "s mod 86400 = s mod 86400 div 3600 * 3600 + (s mod 3600 div 60 * 60 + s mod 60)"
    by (metis div_mult_mod_eq)
  then show ?thesis by (simp add: hour_of_def minute_of_def second_of_def)
qed

lemma length_pad2: "n < 100 \<Longrightarrow> length (pad2 n) = 2"
proof -
  assume n: "n < 100"
  show ?thesis
  proof (cases "n < 10")
    case True
    then show ?thesis by (simp add: pad2_def show_nat_small)
  next
    case False
    with n have "n div 10 < 10" by simp
    with False show ?thesis by (simp add: pad2_def show_nat_big show_nat_small)
  qed
qed

lemma pad2_digits: "list_all is_digit (pad2 n)"
  using show_nat_digits [of n] by (simp add: pad2_def is_digit_iff)

lemma digits_value_pad2 [simp]: "digits_value (pad2 n) = n"
  using digits_value_Cons [of "CHR ''0''" "show_nat n"]
  by (simp add: pad2_def digit_value_def)

lemma takeWhile_all: "list_all P xs \<Longrightarrow> takeWhile P xs = xs"
  by (induction xs) simp_all

lemma cast_integer_pad2 [simp]: "cast_integer (pad2 n) = int n"
  by (simp add: cast_integer_def takeWhile_all pad2_digits)

lemma cast_integer_hour_text [simp]: "cast_integer (hour_text s) = int (hour_of s)"
  by (simp add: hour_text_def)

lemma pad2_le_iff:
  assumes "m < 100" and "n < 100"
  shows "pad2 m \<le> pad2 n \<longleftrightarrow> m \<le> n"
  using digits_le_iff [of "pad2 m" "pad2 n"] assms
  by (simp add: length_pad2 pad2_digits)

lemma pad2_eq_iff [simp]: "pad2 m = pad2 n \<longleftrightarrow> m = n"
  by (metis digits_value_pad2)

lemma le_div_iff_int:
  fixes k x b :: int
  assumes "0 < b"
  shows "k \<le> x div b \<longleftrightarrow> k * b \<le> x"
proof
  assume "k \<le> x div b"
  with assms have "k * b \<le> x div b * b" by (simp add: mult_right_mono)
  also have "\<dots> \<le> x"
    using assms pos_mod_sign [of b x] div_mult_mod_eq [of x b] by linarith
  finally show "k * b \<le> x" .
next
  assume "k * b \<le> x"
  from this assms have "k * b div b \<le> x div b" by (rule zdiv_mono1)
  with assms show "k \<le> x div b" by simp
qed

lemma shift_mod:
  fixes u :: int
  assumes "0 \<le> u" and "u < 86400"
  shows "(u + 25200) mod 86400 = (if u < 61200 then u + 25200 else u - 61200)"
proof (cases "u < 61200")
  case True
  with assms show ?thesis by simp
next
  case False
  with assms have "(u - 61200) mod 86400 = u - 61200" by simp
  moreover have e: "u + 25200 = (u - 61200) + 86400" by simp
  have "(u + 25200) mod 86400 = (u - 61200) mod 86400"
    by (subst e) (rule mod_add_self2)
  ultimately show ?thesis using False by simp
qed

lemma late_hour_iff:
  "16 \<le> int (hour_of (s + 7 * 3600)) \<longleftrightarrow> 9 * 3600 \<le> s mod 86400 \<and> s mod 86400 < 17 * 3600"
proof -
  define u where "u = s mod 86400"
  have u: "0 \<le> u" "u < 86400" by (simp_all add: u_def)
  have "(s + 25200) mod 86400 = (u + 25200) mod 86400"
    by (simp add: u_def mod_add_left_eq)
  with shift_mod [OF u]
  have v: "(s + 25200) mod 86400 = (if u < 61200 then u + 25200 else u - 61200)" by simp
  have "16 \<le> int (hour_of (s + 7 * 3600)) \<longleftrightarrow> 16 \<le> (s + 25200) mod 86400 div 3600"
    by (simp add: hour_of_def)
  also have "\<dots> \<longleftrightarrow> 57600 \<le> (s + 25200) mod 86400"
    using le_div_iff_int [of 3600 16 "(s + 25200) mod 86400"] by simp
  also have "\<dots> \<longleftrightarrow> 32400 \<le> u \<and> u < 61200" using u by (simp add: v)
  finally show ?thesis by (simp add: u_def)
qed

subsection \<open>Durations\<close>

lemma sdiv_nonneg:
  fixes d b :: int
  assumes "0 \<le> d" and "0 < b"
  shows "d sdiv b = d div b" and "d smod b = d mod b"
  using assms by (simp_all add: signed_divide_int_def signed_modulo_int_def sgn_if)

lemma sdiv_negative:
  fixes d b :: int
  assumes "d < 0" and "0 < b"
  shows "d sdiv b = - (- d div b)" and "d smod b = - (- d mod b)"
  using assms by (simp_all add: signed_divide_int_def signed_modulo_int_def sgn_if)

lemma duration_text_nonneg:
  assumes "0 \<le> d"
  shows "duration_text d =
     show_int (d div 3600) @ ''h '' @ show_int (d mod 3600 div 60) @ ''m ''
       @ show_int (d mod 60) @ ''s''"
proof -
  from assms have "0 \<le> d mod 3600" by simp
  with assms show ?thesis by (simp add: duration_text_def sdiv_nonneg)
qed

lemma duration_parts:
  fixes d :: int
  shows "d div 3600 * 3600 + d mod 3600 div 60 * 60 + d mod 60 = d"
proof -
  have "d mod 3600 mod 60 = d mod 60" by (simp add: mod_mod_cancel)
  then have "d mod 3600 = d mod 3600 div 60 * 60 + d mod 60" by (metis div_mult_mod_eq)
  moreover have "d div 3600 * 3600 + d mod 3600 = d" by simp
  ultimately show ?thesis by linarith
qed

lemma no_tie:
  fixes d k :: int
  shows "rat_of_int d * 100 / 60 \<noteq> of_int k + 1 / 2"
proof
  assume "rat_of_int d * 100 / 60 = of_int k + 1 / 2"
  then have "rat_of_int (10 * d) = of_int (6 * k + 3)" by (simp add: field_simps)
  then have "10 * d = 6 * k + 3" by (simp only: of_int_eq_iff)
  then have "even (6 * k + 3)" by (metis even_mult_iff even_numeral)
  then show False by simp
qed

subsection \<open>The queries\<close>

record hour_report_row =
  hr_id :: ident
  hr_project_id :: ident
  hr_title :: string
  hr_created_at_utc :: string
  hr_created_at_gmt7 :: int
  hr_time_gmt7 :: string
  hr_author_username :: string
  hr_squad :: "string option"
  hr_first_comment_at :: "string option"
  hr_minutes_until_first_comment :: "rat option"
  hr_duration_until_first_comment :: string

record hour_distribution_row =
  hd_hour_gmt7 :: string
  hd_mr_count :: nat
  hd_squad :: "string option"
  hd_avg_minutes_until_comment :: "rat option"

definition report_row :: "(int \<Rightarrow> string) \<Rightarrow> MergeRequestData \<Rightarrow> hour_report_row" where
  "report_row time_column r =
     \<lparr>hr_id = mr_id r, hr_project_id = project_id r, hr_title = title r,
      hr_created_at_utc = iso (created_at r),
      hr_created_at_gmt7 = shifted_seconds (created_at r),
      hr_time_gmt7 = time_column (shifted_seconds (created_at r)),
      hr_author_username = author_username r, hr_squad = squad r,
      hr_first_comment_at = map_option iso (first_comment_at r),
      hr_minutes_until_first_comment =
        (case seconds_until first_comment_at r of
           Some d \<Rightarrow> Some (sql_round2 (of_int d / 60)) | None \<Rightarrow> None),
      hr_duration_until_first_comment =
        (case seconds_until first_comment_at r of
           Some d \<Rightarrow> duration_text d | None \<Rightarrow> ''No comment yet'')\<rparr>"

definition order_by_desc :: "('a \<Rightarrow> int) \<Rightarrow> 'a list \<Rightarrow> 'a list" where
  "order_by_desc key rows = sort_key (\<lambda>r. - key r) rows"

definition late_hour_report :: "database \<Rightarrow> hour_report_row list" where
  "late_hour_report database =
     order_by_desc hr_created_at_gmt7
       (map (report_row hour_text) (filter created_late (merge_requests database)))"

definition late_hour_report_detailed :: "database \<Rightarrow> hour_report_row list" where
  "late_hour_report_detailed database =
     order_by_desc hr_created_at_gmt7
       (map (report_row time_text) (filter created_late (merge_requests database)))"

definition hour_key :: "MergeRequestData \<Rightarrow> string option \<times> string" where
  "hour_key r = (squad r, hour_text (shifted_seconds (created_at r)))"

definition distribution_of :: "MergeRequestData list \<Rightarrow> string option \<times> string \<Rightarrow> hour_distribution_row"
  where
  "distribution_of rows k =
     \<lparr>hd_hour_gmt7 = snd k,
      hd_mr_count = count_where (\<lambda>r. hour_key r = k) rows,
      hd_squad = fst k,
      hd_avg_minutes_until_comment =
        sql_avg (map (minutes_to first_comment_at) (filter (\<lambda>r. hour_key r = k) rows))\<rparr>"

definition hour_distribution :: "database \<Rightarrow> hour_distribution_row list" where
  "hour_distribution database =
     (let rows = filter (\<lambda>r. squad r \<noteq> None) (merge_requests database)
      in map (distribution_of rows) (sort (remdups (map hour_key rows))))"

definition since_april :: "MergeRequestData \<Rightarrow> bool" where
  "since_april r \<longleftrightarrow> ''2025-04-01 00:00:00'' \<le> iso (created_at r) \<and> squad r = Some ''WEB''"

definition web_since_april :: "database \<Rightarrow> (ident \<times> string option) list" where
  "web_since_april database =
     map (\<lambda>r. (mr_id r, description r))
       (sort_key (\<lambda>r. iso (created_at r)) (filter since_april (merge_requests database)))"

lemma order_by_desc_mset [simp]: "mset (order_by_desc key rows) = mset rows"
  by (simp add: order_by_desc_def)

lemma order_by_desc_sorted: "sorted (rev (map key (order_by_desc key rows)))"
proof -
  have "sorted (map (\<lambda>r. - key r) (order_by_desc key rows))"
    by (simp add: order_by_desc_def)
  then have "sorted (rev (map (\<lambda>x. - x) (map (\<lambda>r. - key r) (order_by_desc key rows))))"
    by (simp add: sorted_wrt_rev sorted_map sorted_wrt_map flip: rev_map)
  then show ?thesis by (simp add: comp_def)
qed

lemma report_row_simps [simp]:
  "hr_id (report_row c r) = mr_id r"
  "hr_created_at_gmt7 (report_row c r) = shifted_seconds (created_at r)"
  "hr_time_gmt7 (report_row c r) = c (shifted_seconds (created_at r))"
  "hr_squad (report_row c r) = squad r"
  by (simp_all add: report_row_def)

lemma created_late_iff:
  "created_late r \<longleftrightarrow>
     9 * 3600 \<le> epoch_seconds (created_at r) mod 86400
     \<and> epoch_seconds (created_at r) mod 86400 < 17 * 3600"
  using late_hour_iff [of "epoch_seconds (created_at r)"]
  by (simp add: created_late_def shifted_seconds_def)

lemma created_late_window:
  "created_late = (\<lambda>r. 9 * 3600 \<le> epoch_seconds (created_at r) mod 86400
     \<and> epoch_seconds (created_at r) mod 86400 < 17 * 3600)"
  by (rule ext) (rule created_late_iff)

lemma created_late_hour:
  "created_late r \<Longrightarrow>
   16 \<le> cast_integer (hour_text (shifted_seconds (created_at r)))
   \<and> cast_integer (hour_text (shifted_seconds (created_at r))) < 24"
  using hour_of_less [of "shifted_seconds (created_at r)"] by (simp add: created_late_def)

lemma same_length_append_le:
  "length a = length b \<Longrightarrow> a @ x \<le> b @ y \<longleftrightarrow> a < b \<or> (a = b \<and> x \<le> (y :: string))"
  by (induction a b rule: list_induct2) auto

subsection \<open>Example\<close>

definition afternoon_row :: MergeRequestData where
  "afternoon_row = (sample_row 7 ''opened'' (Some ''WEB'') None)
     \<lparr>created_at := at_minute 600, first_comment_at := Some (at_minute 615)\<rparr>"

definition report_db :: database where
  "report_db = \<lparr>projects = [], merge_requests = [sample_row 1 ''opened'' (Some ''WEB'') None,
     afternoon_row]\<rparr>"

lemma afternoon_late: "created_late afternoon_row" "\<not> created_late (sample_row 1 st sq fc)"
  by (simp_all add: created_late_iff afternoon_row_def sample_row_def at_minute_def
      epoch_seconds_def)

subsection \<open>Properties of the reports\<close>

text \<open>
  C36: the late-hour report shows the merge requests created between 09:00 and 17:00
  UTC. Its rows are those of the records whose creation time of day in UTC is at
  least 09:00 and before 17:00, each once, newest first, and every hour shown is
  between 16 and 23.
\<close>
theorem late_hour_report_window:
  "mset (map hr_id (late_hour_report database))
     = mset (map mr_id
         (filter (\<lambda>r. 9 * 3600 \<le> epoch_seconds (created_at r) mod 86400
                     \<and> epoch_seconds (created_at r) mod 86400 < 17 * 3600)
            (merge_requests database)))
   \<and> sorted (rev (map hr_created_at_gmt7 (late_hour_report database)))
   \<and> list_all (\<lambda>row. 16 \<le> cast_integer (hr_time_gmt7 row) \<and> cast_integer (hr_time_gmt7 row) < 24)
       (late_hour_report database)"
proof -
  have eq: "filter (\<lambda>r. 9 * 3600 \<le> epoch_seconds (created_at r) mod 86400
      \<and> epoch_seconds (created_at r) mod 86400 < 17 * 3600) (merge_requests database)
    = filter created_late (merge_requests database)"
    by (simp only: created_late_window)
  have "mset (map hr_id (late_hour_report database))
      = mset (map mr_id (filter created_late (merge_requests database)))"
    by (simp add: late_hour_report_def multiset.map_comp comp_def)
  moreover have "sorted (rev (map hr_created_at_gmt7 (late_hour_report database)))"
    by (simp add: late_hour_report_def order_by_desc_sorted)
  moreover have "set (late_hour_report database)
      = report_row hour_text ` set (filter created_late (merge_requests database))"
    unfolding late_hour_report_def by (simp add: order_by_desc_def)
  then have "list_all (\<lambda>row. 16 \<le> cast_integer (hr_time_gmt7 row)
      \<and> cast_integer (hr_time_gmt7 row) < 24) (late_hour_report database)"
    using created_late_hour by (auto simp: list_all_iff)
  ultimately show ?thesis unfolding eq by blast
qed

theorem late_hour_report_window_witness:
  "map hr_id (late_hour_report report_db) = [7]
   \<and> map hr_time_gmt7 (late_hour_report report_db) = [''17'']
   \<and> map hr_time_gmt7 (late_hour_report_detailed report_db) = [''17:00:00'']
   \<and> map hr_duration_until_first_comment (late_hour_report report_db) = [''0h 15m 0s'']
   \<and> map hr_minutes_until_first_comment (late_hour_report report_db) = [Some 15]"
proof -
  have rows: "filter created_late (merge_requests report_db) = [afternoon_row]"
    by (simp add: report_db_def afternoon_late)
  have s: "shifted_seconds (created_at afternoon_row) = 61200"
    "seconds_until first_comment_at afternoon_row = Some 900"
    by (simp_all add: afternoon_row_def shifted_seconds_def seconds_until_def at_minute_def
        epoch_seconds_def)
  have t: "hour_text 61200 = ''17''" "time_text 61200 = ''17:00:00''"
    "duration_text 900 = ''0h 15m 0s''" "sql_round2 15 = 15"
    by (simp_all add: hour_text_def time_text_def hour_of_def minute_of_def second_of_def
        pad2_def show_nat_big show_nat_small duration_text_nonneg show_int_def sql_round2_def)
  have i: "mr_id afternoon_row = 7" by (simp add: afternoon_row_def sample_row_def)
  from late_hour_report_window [of report_db] show ?thesis
    by (simp add: late_hour_report_def late_hour_report_detailed_def order_by_desc_def rows
        report_row_def s t i)
qed

lemma half_up_eq_half_away:
  fixes y :: rat
  assumes "y < 0" and "\<And>k :: int. y \<noteq> of_int k + 1 / 2"
  shows "- \<lfloor>- y + 1 / 2\<rfloor> = \<lfloor>y + 1 / 2\<rfloor>"
proof -
  have "y - 1 / 2 \<noteq> of_int \<lfloor>y - 1 / 2\<rfloor>"
    using assms(2) [of "\<lfloor>y - 1 / 2\<rfloor>"] by (simp add: algebra_simps)
  then have c: "\<lceil>y - 1 / 2\<rceil> = \<lfloor>y - 1 / 2\<rfloor> + 1" by (simp add: ceiling_altdef)
  have "- \<lfloor>- y + 1 / 2\<rfloor> = \<lceil>y - 1 / 2\<rceil>" by (simp add: ceiling_def)
  also have "\<dots> = \<lfloor>y - 1 / 2\<rfloor> + 1" by (fact c)
  also have "\<dots> = \<lfloor>y - 1 / 2 + of_int 1\<rfloor>" by (rule floor_add_int)
  also have "y - 1 / 2 + of_int 1 = y + 1 / 2" by simp
  finally show ?thesis .
qed

text \<open>
  The rounding of the report is rounding to the nearest hundredth, with no tie.
  For every number of seconds \<open>d\<close>, \<open>round(d / 60.0, 2)\<close> as SQLite computes it (ties
  away from zero) equals rounding half up, because \<open>d / 60\<close> is never halfway
  between two hundredths; the result differs from \<open>d / 60\<close> by less than 0.005.
\<close>
theorem sql_round2_nearest:
  "sql_round2 (of_int d / 60) = of_int (round (rat_of_int d / 60 * 100)) / 100
   \<and> \<bar>sql_round2 (of_int d / 60) - of_int d / 60\<bar> < 1 / 200"
proof -
  define x where "x = rat_of_int d / 60"
  define y where "y = x * 100"
  have tie: "y \<noteq> of_int k + 1 / 2" for k using no_tie [of d k] by (simp add: y_def x_def)
  have r: "sql_round2 x = of_int (round y) / 100"
  proof (cases "0 \<le> x")
    case True
    then show ?thesis by (simp add: sql_round2_def round_def y_def)
  next
    case False
    then have "y < 0" by (simp add: y_def)
    from half_up_eq_half_away [OF this tie] False show ?thesis
      by (simp add: sql_round2_def round_def y_def)
  qed
  have "\<bar>of_int (round y) - y\<bar> \<le> 1 / 2" by (rule of_int_round_abs_le)
  moreover have "of_int (round y) - y \<noteq> 1 / 2"
    using tie [of "round y - 1"] by (simp add: algebra_simps)
  moreover have "of_int (round y) - y \<noteq> - (1 / 2)"
    using tie [of "round y"] by (simp add: algebra_simps)
  ultimately have b: "\<bar>of_int (round y) - y\<bar> < 1 / 2" by linarith
  have "sql_round2 x - x = (of_int (round y) - y) / 100"
    by (simp add: r y_def diff_divide_distrib)
  then have "\<bar>sql_round2 x - x\<bar> = \<bar>(of_int (round y) - y) / 100\<bar>" by (simp only:)
  also have "\<dots> = \<bar>of_int (round y) - y\<bar> / 100" by (simp add: abs_divide)
  also from b have "\<dots> < 1 / 2 / 100" by (rule divide_strict_right_mono) simp
  finally have "\<bar>sql_round2 x - x\<bar> < 1 / 200" by simp
  with r show ?thesis unfolding y_def x_def by blast
qed

text \<open>
  The query of \<open>part_001\<close> selects by calendar day. For a record whose creation
  time is the text of a day followed by \<open>T\<close> and a time, the comparison of texts with
  \<open>'2025-04-01 00:00:00'\<close> holds exactly when the day is 1 April 2025 or later, so
  the record is selected exactly then and when its squad is \<open>WEB\<close>; the rows come in
  the order of their creation texts.
\<close>
theorem web_since_april_by_day:
  assumes "iso (created_at r) = day @ CHR ''T'' # time" and "date_regex day"
  shows "(since_april r \<longleftrightarrow> 20250401 \<le> date_number day \<and> squad r = Some ''WEB'')
    \<and> sorted (map (\<lambda>r. iso (created_at r))
         (sort_key (\<lambda>r. iso (created_at r)) (filter since_april (merge_requests database))))"
proof -
  have april: "date_regex ''2025-04-01''" "date_number ''2025-04-01'' = 20250401"
    by (simp_all add: date_regex_def date_number_def is_digit_iff digits_value_def
        digit_value_def)
  with assms(2) have len: "length ''2025-04-01'' = length day"
    by (simp only: length_date_regex)
  have "''2025-04-01 00:00:00'' = ''2025-04-01'' @ '' 00:00:00''" by simp
  then have "''2025-04-01 00:00:00'' \<le> iso (created_at r)
      \<longleftrightarrow> ''2025-04-01'' < day \<or> ''2025-04-01'' = day"
    using same_length_append_le [OF len, of "'' 00:00:00''" "CHR ''T'' # time"]
    by (simp only: assms(1)) simp
  also have "\<dots> \<longleftrightarrow> ''2025-04-01'' \<le> day" by auto
  also have "\<dots> \<longleftrightarrow> 20250401 \<le> date_number day"
    using date_le_iff [OF april(1) assms(2)] by (simp only: april(2))
  finally show ?thesis by (simp add: since_april_def)
qed

theorem web_since_april_by_day_witness:
  "iso (created_at april_30_row) = ''2025-04-30'' @ CHR ''T'' # ''08:00:00.000Z''
   \<and> date_regex ''2025-04-30'' \<and> since_april april_30_row
   \<and> web_since_april \<lparr>projects = [], merge_requests = [april_30_row]\<rparr> = [(6, None)]"
proof -
  have i: "iso (created_at april_30_row) = ''2025-04-30'' @ CHR ''T'' # ''08:00:00.000Z''"
    by (simp add: april_30_row_def)
  have d: "date_regex ''2025-04-30''" "date_number ''2025-04-30'' = 20250430"
    by (simp_all add: date_regex_def date_number_def is_digit_iff digits_value_def
        digit_value_def)
  have w: "squad april_30_row = Some ''WEB''" "mr_id april_30_row = 6"
    "description april_30_row = None"
    by (simp_all add: april_30_row_def sample_row_def)
  from web_since_april_by_day [OF i d(1)] d w have "since_april april_30_row" by simp
  with i d w show ?thesis by (simp add: web_since_april_def)
qed

lemma distribution_keys:
  "map (\<lambda>row. (hd_squad row, hd_hour_gmt7 row)) (hour_distribution database)
     = sort (remdups (map hour_key (filter (\<lambda>r. squad r \<noteq> None) (merge_requests database))))"
  by (simp add: hour_distribution_def Let_def distribution_of_def comp_def)

lemma distribution_counts:
  "map hd_mr_count (hour_distribution database)
     = map (\<lambda>k. count_where (\<lambda>r. hour_key r = k)
              (filter (\<lambda>r. squad r \<noteq> None) (merge_requests database)))
         (sort (remdups (map hour_key (filter (\<lambda>r. squad r \<noteq> None) (merge_requests database)))))"
  by (simp add: hour_distribution_def Let_def distribution_of_def comp_def)

lemma distribution_row:
  assumes "row \<in> set (hour_distribution database)"
  obtains r where "r \<in> set (merge_requests database)" and "squad r \<noteq> None"
    and "hd_squad row = squad r"
    and "hd_hour_gmt7 row = hour_text (shifted_seconds (created_at r))"
    and "0 < hd_mr_count row"
proof -
  let ?rows = "filter (\<lambda>r. squad r \<noteq> None) (merge_requests database)"
  from assms have "row \<in> distribution_of ?rows ` set (map hour_key ?rows)"
    by (simp add: hour_distribution_def Let_def)
  then obtain k where k: "k \<in> set (map hour_key ?rows)" and "row = distribution_of ?rows k" ..
  then have row: "hd_squad row = fst k" "hd_hour_gmt7 row = snd k"
    "hd_mr_count row = count_where (\<lambda>r. hour_key r = k) ?rows"
    by (simp_all add: distribution_of_def)
  from k obtain r where r: "r \<in> set ?rows" "hour_key r = k" by auto
  then have "r \<in> set (filter (\<lambda>r. hour_key r = k) ?rows)" by simp
  then have "0 < length (filter (\<lambda>r. hour_key r = k) ?rows)"
    by (rule length_pos_if_in_set)
  with r row that [of r] show thesis by (auto simp: hour_key_def count_where_def)
qed

text \<open>
  The distribution by hour accounts for every labelled record. The counts of its
  rows add up to the number of merge requests that have a squad; the rows are ordered
  by squad and hour and no pair occurs twice; every row has a squad, counts at least
  one record, and shows an hour below 24.
\<close>
theorem hour_distribution_counts:
  "sum_list (map hd_mr_count (hour_distribution database))
     = count_where (\<lambda>r. squad r \<noteq> None) (merge_requests database)
   \<and> sorted (map (\<lambda>row. (hd_squad row, hd_hour_gmt7 row)) (hour_distribution database))
   \<and> distinct (map (\<lambda>row. (hd_squad row, hd_hour_gmt7 row)) (hour_distribution database))
   \<and> list_all (\<lambda>row. hd_squad row \<noteq> None \<and> 0 < hd_mr_count row
                  \<and> cast_integer (hd_hour_gmt7 row) < 24)
       (hour_distribution database)"
proof -
  let ?rows = "filter (\<lambda>r. squad r \<noteq> None) (merge_requests database)"
  have "(\<Sum>k\<leftarrow>sort (remdups (map hour_key ?rows)). count_where (\<lambda>r. hour_key r = k) ?rows)
      = length ?rows"
    by (rule sum_list_count_all_keys) auto
  moreover have "hd_squad row \<noteq> None \<and> 0 < hd_mr_count row \<and> cast_integer (hd_hour_gmt7 row) < 24"
    if "row \<in> set (hour_distribution database)" for row
    using that hour_of_less by (elim distribution_row) simp
  ultimately show ?thesis
    by (simp add: distribution_keys distribution_counts count_where_def list_all_iff)
qed

theorem hour_distribution_counts_witness:
  "hour_distribution report_db
     = [\<lparr>hd_hour_gmt7 = ''07'', hd_mr_count = 1, hd_squad = Some ''WEB'',
         hd_avg_minutes_until_comment = None\<rparr>,
        \<lparr>hd_hour_gmt7 = ''17'', hd_mr_count = 1, hd_squad = Some ''WEB'',
         hd_avg_minutes_until_comment = Some 15\<rparr>]
   \<and> count_where (\<lambda>r. squad r \<noteq> None) (merge_requests report_db) = 2"
proof -
  have k: "hour_key (sample_row 1 ''opened'' (Some ''WEB'') None) = (Some ''WEB'', ''07'')"
    "hour_key afternoon_row = (Some ''WEB'', ''17'')"
    by (simp_all add: hour_key_def sample_row_def afternoon_row_def shifted_seconds_def
        at_minute_def epoch_seconds_def hour_text_def hour_of_def pad2_def show_nat_small
        show_nat_big)
  have a: "minutes_to first_comment_at (sample_row 1 ''opened'' (Some ''WEB'') None) = None"
    "minutes_to first_comment_at afternoon_row = Some 15"
    "squad (sample_row 1 ''opened'' (Some ''WEB'') None) = Some ''WEB''"
    "squad afternoon_row = Some ''WEB''"
    by (simp_all add: minutes_to_def sample_row_def afternoon_row_def minutes_between_def
        at_minute_def epoch_seconds_def)
  from hour_distribution_counts [of report_db] show ?thesis
    by (simp add: hour_distribution_def Let_def distribution_of_def report_db_def k a
        count_where_def sql_avg_def average_def)
qed

text \<open>
  The duration text of the report. For a duration of \<open>d\<close> seconds that is not
  negative the text shows hours, minutes below 60 and seconds below 60 that add up to
  \<open>d\<close>.
\<close>
theorem duration_text_parts:
  assumes "0 \<le> d"
  shows "duration_text d =
       show_int (d div 3600) @ ''h '' @ show_int (d mod 3600 div 60) @ ''m ''
         @ show_int (d mod 60) @ ''s''
    \<and> d div 3600 * 3600 + d mod 3600 div 60 * 60 + d mod 60 = d
    \<and> 0 \<le> d mod 3600 div 60 \<and> d mod 3600 div 60 < 60 \<and> 0 \<le> d mod 60 \<and> d mod 60 < 60"
proof -
  have "d mod 3600 div 60 < 60" using le_div_iff_int [of 60 60 "d mod 3600"] by simp
  with duration_text_nonneg [OF assms] duration_parts [of d] show ?thesis by simp
qed

theorem duration_text_parts_witness:
  "duration_text 3725 = ''1h 2m 5s'' \<and> duration_text (- 90) = ''0h -1m -30s''"
proof -
  have "duration_text (- 90) = ''0h -1m -30s''"
    by (simp add: duration_text_def sdiv_negative show_int_def show_nat_small show_nat_big)
  with duration_text_parts [of 3725] show ?thesis
    by (simp add: show_int_def show_nat_small show_nat_big)
qed

end
