(* ===== verification/Requests.thy ===== *)
theory Requests
  imports Pagination
begin

text \<open>
  The requests that the walk of \<open>fetchMergeRequests\<close> (\<open>src/src/index.ts\<close>, lines 59-111)
  issues. The loop requests the pages 1, 2, 3, ... in this order, one request for each
  pass, so the requests of a walk are given by the number of the last page it asks for.

  \<^item> \<open>requests_loop\<close> is the \<open>while\<close> loop with the collected items left out: it returns
    the page number of the last request. Like the loop it is a partial function in the
    option monad.
  \<^item> \<open>requests_issued\<close> is the number of requests of a whole walk.
  \<^item> \<open>same_pages\<close> says that two sources answer the pages up to a number alike.

  The lemmas show that the walk returns exactly when it issues finitely many requests,
  that its result depends on the answers to these requests only, and that against a
  source that serves \<open>n\<close> items and does not overstate its page count the walk issues
  \<open>n div 100 + 1\<close> requests: one trailing request for an empty page exactly when \<open>n\<close> is
  a multiple of 100, as the specification (section 4.1) allows.
\<close>

partial_function (option) requests_loop :: "'a paged \<Rightarrow> nat \<Rightarrow> nat option" where
  "requests_loop remote page =
     (case remote page of
        None \<Rightarrow> Some page
      | Some response \<Rightarrow>
          (let mergeRequests = items response in
           if length mergeRequests = 0 then Some page
           else if hasMorePages (header_number (x_total_pages response)) page
                     (length mergeRequests)
           then requests_loop remote (page + 1)
           else Some page))"

definition requests_issued :: "'a paged \<Rightarrow> nat option" where
  "requests_issued remote = requests_loop remote 1"

definition same_pages :: "nat \<Rightarrow> nat \<Rightarrow> 'a paged \<Rightarrow> 'a paged \<Rightarrow> bool" where
  "same_pages page k remote remote' \<longleftrightarrow>
     list_all (\<lambda>p. remote p = remote' p) [page..<Suc k]"

definition modest_headers :: "'a paged \<Rightarrow> nat \<Rightarrow> bool" where
  "modest_headers remote n \<longleftrightarrow>
     list_all
       (\<lambda>page. case remote page of
                 None \<Rightarrow> True
               | Some response \<Rightarrow> header_number (x_total_pages response) * per_page < n + per_page)
       [1..<n div per_page + 2]"

section \<open>Characteristic equations\<close>

lemma requests_stop:
  "remote page = None \<Longrightarrow> requests_loop remote page = Some page"
  "remote page = Some response \<Longrightarrow> items response = [] \<Longrightarrow>
   requests_loop remote page = Some page"
  "remote page = Some response \<Longrightarrow> items response \<noteq> [] \<Longrightarrow>
   \<not> hasMorePages (header_number (x_total_pages response)) page (length (items response)) \<Longrightarrow>
   requests_loop remote page = Some page"
  by (subst requests_loop.simps, simp add: Let_def)+

lemma requests_more:
  "remote page = Some response \<Longrightarrow> items response \<noteq> [] \<Longrightarrow>
   hasMorePages (header_number (x_total_pages response)) page (length (items response)) \<Longrightarrow>
   requests_loop remote page = requests_loop remote (Suc page)"
  by (subst requests_loop.simps) (simp add: Let_def)

lemma requests_cases:
  assumes "requests_loop remote page = Some k"
  obtains (stop) "k = page"
      and "fetchMergeRequests_loop remote acc page \<noteq> None"
      and "\<forall>response. remote page = Some response \<longrightarrow> items response = []
             \<or> \<not> hasMorePages (header_number (x_total_pages response)) page
                   (length (items response))"
  | (more) response where "remote page = Some response" and "items response \<noteq> []"
      and "hasMorePages (header_number (x_total_pages response)) page (length (items response))"
      and "requests_loop remote (Suc page) = Some k"
proof (cases "remote page")
  case None
  with assms have "k = page" by (simp add: requests_stop)
  with None show ?thesis by (intro stop) (simp_all add: loop_failed)
next
  case (Some response)
  show ?thesis
  proof (cases "items response \<noteq> []
      \<and> hasMorePages (header_number (x_total_pages response)) page (length (items response))")
    case True
    with Some assms show ?thesis by (intro more [of response]) (simp_all add: requests_more)
  next
    case False
    with Some assms have "k = page"
      by (cases "items response = []") (auto simp: requests_stop)
    with Some False show ?thesis
      by (cases "items response = []"; intro stop) (auto simp: loop_empty_page loop_last)
  qed
qed

section \<open>The requests and the walk\<close>

lemma requests_from:
  assumes "requests_loop remote page = Some k"
  shows "page \<le> k"
proof (rule requests_loop.raw_induct [where P = "\<lambda>remote page k. page \<le> k", OF _ assms])
  fix f :: "'a paged \<Rightarrow> nat \<Rightarrow> nat option" and remote :: "'a paged" and page k
  assume "\<And>remote page k. f remote page = Some k \<Longrightarrow> page \<le> k"
    and "(case remote page of
        None \<Rightarrow> Some page
      | Some response \<Rightarrow>
          (let mergeRequests = items response in
           if length mergeRequests = 0 then Some page
           else if hasMorePages (header_number (x_total_pages response)) page
                     (length mergeRequests)
           then f remote (page + 1)
           else Some page)) = Some k"
  then show "page \<le> k"
    by (fastforce simp: Let_def split: option.splits if_splits dest: Suc_leD)
qed

lemma same_pages_iff:
  "same_pages page k remote remote' \<longleftrightarrow> (\<forall>p. page \<le> p \<and> p \<le> k \<longrightarrow> remote p = remote' p)"
  by (auto simp: same_pages_def list_all_iff)

lemma last_pass_same:
  assumes "remote' page = remote page"
    and "\<forall>response. remote page = Some response \<longrightarrow> items response = []
           \<or> \<not> hasMorePages (header_number (x_total_pages response)) page
                 (length (items response))"
  shows "fetchMergeRequests_loop remote' acc page = fetchMergeRequests_loop remote acc page
    \<and> requests_loop remote' page = Some page"
proof (cases "remote page")
  case None
  with assms(1) show ?thesis by (simp add: loop_failed requests_stop(1))
next
  case (Some r)
  with assms(1) have r': "remote' page = Some r" by simp
  show ?thesis
  proof (cases "items r = []")
    case True
    with Some r' show ?thesis
      by (simp add: loop_empty_page [of _ page r] requests_stop(2) [of _ page r])
  next
    case False
    with Some assms(2)
    have "\<not> hasMorePages (header_number (x_total_pages r)) page (length (items r))" by simp
    with Some r' False show ?thesis
      by (simp add: loop_last [of _ page r] requests_stop(3) [of _ page r])
  qed
qed

lemma walk_depends_on_requests:
  assumes "requests_loop remote page = Some k" and "same_pages page k remote remote'"
  shows "fetchMergeRequests_loop remote' acc page = fetchMergeRequests_loop remote acc page
    \<and> fetchMergeRequests_loop remote acc page \<noteq> None
    \<and> requests_loop remote' page = Some k"
  using assms
proof (induction "k - page" arbitrary: page acc)
  case 0
  from "0.prems"(1) have "page \<le> k" by (rule requests_from)
  with 0 have eq: "k = page" by simp
  from "0.prems"(2) have same: "remote' page = remote page"
    by (simp add: same_pages_iff eq)
  from "0.prems"(1) show ?case
  proof (cases rule: requests_cases [where acc = acc])
    case stop
    from last_pass_same [of remote' page remote acc] same stop show ?thesis by simp
  next
    case (more response)
    from more(4) have "Suc page \<le> k" by (rule requests_from)
    with eq show ?thesis by simp
  qed
next
  case (Suc d)
  from Suc.hyps(2) have lt: "page < k" by simp
  with Suc.prems(2) have same: "remote' page = remote page"
    and rest: "same_pages (Suc page) k remote remote'"
    by (auto simp: same_pages_iff)
  from Suc.prems(1) show ?case
  proof (cases rule: requests_cases [where acc = acc])
    case stop
    with lt show ?thesis by simp
  next
    case (more response)
    from Suc.hyps(2) have "d = k - Suc page" by simp
    from Suc.hyps(1) [OF this more(4) rest, of "acc @ items response"] more(1-3) same
    show ?thesis by (simp add: loop_more requests_more)
  qed
qed

lemma walk_issues_requests:
  assumes ret: "fetchMergeRequests_loop remote acc page = Some y"
  shows "\<exists>k. requests_loop remote page = Some k"
proof (rule fetchMergeRequests_loop.raw_induct
    [where P = "\<lambda>remote acc page y. \<exists>k. requests_loop remote page = Some k", OF _ ret])
  fix f :: "'a paged \<Rightarrow> 'a list \<Rightarrow> nat \<Rightarrow> (fetch_error + 'a list) option"
    and remote :: "'a paged" and acc page y
  assume IH: "\<And>remote acc page y. f remote acc page = Some y \<Longrightarrow>
      \<exists>k. requests_loop remote page = Some k"
  assume "(case remote page of
        None \<Rightarrow> Some (Inl RequestFailed)
      | Some response \<Rightarrow>
          (let mergeRequests = items response in
           if length mergeRequests = 0 then Some (Inr acc)
           else if hasMorePages (header_number (x_total_pages response)) page
                     (length mergeRequests)
           then f remote (acc @ mergeRequests) (page + 1)
           else Some (Inr (acc @ mergeRequests)))) = Some y"
  then show "\<exists>k. requests_loop remote page = Some k"
  proof (cases rule: loop_body_cases)
    case (more r)
    from IH [OF more(4)] more(1-3) show ?thesis by (simp add: requests_more [of _ _ r])
  qed (simp_all add: requests_stop)
qed

lemma walk_returns_iff:
  "(\<exists>y. fetchMergeRequests_loop remote acc page = Some y)
     \<longleftrightarrow> (\<exists>k. requests_loop remote page = Some k)"
proof
  assume "\<exists>k. requests_loop remote page = Some k"
  then obtain k where k: "requests_loop remote page = Some k" ..
  have "same_pages page k remote remote" by (simp add: same_pages_iff)
  from walk_depends_on_requests [OF k this, of acc]
  show "\<exists>y. fetchMergeRequests_loop remote acc page = Some y" by auto
qed (auto dest: walk_issues_requests)

section \<open>A source that serves a finite collection\<close>

lemma modest_headers_page:
  assumes "modest_headers remote n" and "remote (Suc k) = Some r" and "k \<le> n div per_page"
  shows "header_number (x_total_pages r) * per_page < n + per_page"
proof -
  from assms(3) have "Suc k \<in> {1..<n div per_page + 2}" by simp
  then have "Suc k \<in> set [1..<n div per_page + 2]" by (simp only: set_upt)
  with assms(1) have "case remote (Suc k) of None \<Rightarrow> True
      | Some response \<Rightarrow> header_number (x_total_pages response) * per_page < n + per_page"
    unfolding modest_headers_def list_all_iff by (rule bspec)
  with assms(2) show ?thesis by simp
qed

lemma requests_serves:
  assumes "serves remote xs" and "modest_headers remote (length xs)"
  shows "k \<le> length xs div per_page \<Longrightarrow>
    requests_loop remote (Suc k) = Some (length xs div per_page + 1)"
proof (induction "length xs div per_page - k" arbitrary: k)
  case 0
  then have k: "k = length xs div per_page" by simp
  from assms(1) obtain r where r: "remote (Suc k) = Some r"
    and items: "items r = chunk per_page k xs"
    by (rule serves_page)
  have short: "length xs < per_page * Suc k"
    using dividend_less_times_div [of per_page "length xs"] by (simp add: k)
  then have not_full: "length (items r) \<noteq> per_page"
    unfolding items chunk_full_iff by simp
  from modest_headers_page [OF assms(2) r] k short
  have "header_number (x_total_pages r) * per_page < per_page * Suc k + per_page" by simp
  also have "\<dots> = Suc (Suc k) * per_page" by simp
  finally have "header_number (x_total_pages r) < Suc (Suc k)"
    by (simp only: mult_less_cancel2)
  with not_full
  have "\<not> hasMorePages (header_number (x_total_pages r)) (Suc k) (length (items r))"
    by (simp add: hasMorePages_def)
  with r show ?case
    by (cases "items r = []") (simp_all add: requests_stop(2,3) [of _ _ r] k)
next
  case (Suc d)
  then have "Suc k \<le> length xs div per_page" by simp
  then have "per_page * Suc k \<le> per_page * (length xs div per_page)"
    by (simp only: mult_le_mono2)
  also have "\<dots> \<le> length xs" by simp
  finally have full: "per_page * Suc k \<le> length xs" .
  from assms(1) obtain r where r: "remote (Suc k) = Some r"
    and items: "items r = chunk per_page k xs"
    by (rule serves_page)
  from full have len: "length (items r) = per_page"
    unfolding items chunk_full_iff .
  then have ne: "items r \<noteq> []" by (auto simp: per_page_def)
  from Suc have "requests_loop remote (Suc (Suc k)) = Some (length xs div per_page + 1)"
    by (intro Suc.hyps(1)) simp_all
  with r ne len show ?case by (simp add: requests_more [of _ _ r])
qed

section \<open>Properties\<close>

text \<open>
  C26: the number of requests of a complete walk. Against a source that serves \<open>n\<close>
  items in pages of 100 and whose page-count header, where present, does not exceed
  the number of pages that hold items, the walk issues exactly \<open>n div 100 + 1\<close>
  requests; the last of them returns an empty page exactly when \<open>n\<close> is a multiple of
  100, and the result of the walk depends on no other page of the source.
\<close>
theorem requests_of_complete_walk:
  assumes "serves remote xs" and "modest_headers remote (length xs)"
    and "same_pages 1 (length xs div per_page + 1) remote remote'"
  shows "requests_issued remote = Some (length xs div per_page + 1)
    \<and> (page_items remote (length xs div per_page + 1) = [] \<longleftrightarrow> length xs mod per_page = 0)
    \<and> fetchMergeRequests remote' = fetchMergeRequests remote"
proof -
  let ?q = "length xs div per_page"
  have count: "requests_loop remote (Suc 0) = Some (?q + 1)"
    using requests_serves [OF assms(1,2), of 0] by simp
  from assms(1) obtain r where "remote (Suc ?q) = Some r" and "items r = chunk per_page ?q xs"
    by (rule serves_page)
  then have "page_items remote (?q + 1) = [] \<longleftrightarrow> length xs \<le> per_page * ?q"
    by (simp add: chunk_Nil_iff)
  also have "\<dots> \<longleftrightarrow> length xs mod per_page = 0"
    using mult_div_mod_eq [of per_page "length xs"] by (intro iffI) linarith+
  finally have last: "page_items remote (?q + 1) = [] \<longleftrightarrow> length xs mod per_page = 0" .
  from walk_depends_on_requests [OF count, of remote' "[]"] assms(3)
  have "fetchMergeRequests remote' = fetchMergeRequests remote"
    by (simp add: fetchMergeRequests_def)
  with count last show ?thesis by (simp add: requests_issued_def)
qed

theorem requests_of_complete_walk_witness:
  "modest_headers (paged_remote (\<lambda>_. Some 2) (replicate 200 (0::nat))) 200
   \<and> same_pages 1 3 (paged_remote (\<lambda>_. Some 2) (replicate 200 (0::nat)))
        (paged_remote (\<lambda>_. Some 2) (replicate 200 (0::nat)))
   \<and> requests_issued (paged_remote (\<lambda>_. Some 2) (replicate 200 (0::nat))) = Some 3
   \<and> page_items (paged_remote (\<lambda>_. Some 2) (replicate 200 (0::nat))) 3 = []"
proof -
  let ?remote = "paged_remote (\<lambda>_. Some 2) (replicate 200 (0::nat))"
  have m: "modest_headers ?remote (length (replicate 200 (0::nat)))"
    by (simp add: modest_headers_def paged_remote_def per_page_def header_number_def
        list_all_iff)
  have s: "same_pages 1 (length (replicate 200 (0::nat)) div per_page + 1) ?remote ?remote"
    by (simp add: same_pages_def list_all_iff)
  from requests_of_complete_walk [OF paged_remote_serves m s] m s show ?thesis
    by (simp add: per_page_def)
qed

end
