(* ===== verification/Connection.thy ===== *)
theory Connection
  imports Reconciler
begin

text \<open>
  The promisified \<open>Database\<close> class of \<open>src/src/index.ts\<close> (lines 449-515) and the
  store operations and the synchronisation run over a connection that can fail.

  \<^item> \<open>Database_run\<close>, \<open>Database_get\<close>, \<open>Database_all\<close>, \<open>Database_exec\<close> and
    \<open>Database_close\<close> are the callbacks of the five methods: a promise is a sum, rejected
    (\<open>Inl\<close>) with the error of the driver or resolved (\<open>Inr\<close>) with the value.
  \<^item> The sqlite3 driver is a library that the sources only call. It is modelled by the
    arguments it passes to the callbacks: \<open>callback\<close> holds the error and the statement
    object bound to \<open>this\<close>, and a connection is the stored rows together with the
    callbacks of the calls to come (\<open>quiet\<close>, no error, once the list is used up).
  \<^item> \<open>saveProject_io\<close>, \<open>saveMergeRequest_io\<close> and \<open>getMergeRequest_io\<close> are the store
    operations of lines 574-608 with their error handling: the two writes reject with
    the error of the driver, the read catches it and returns null.
  \<^item> \<open>process_mr_io\<close>, \<open>process_all_io\<close> and \<open>processAndStoreMergeRequests_io\<close> are the
    loop body, the loop and the function of lines 159-258 over such a connection. An
    outcome holds the error that rejected the run, if any, the state of the loop at that
    moment and the callbacks left.

  The lemmas show that on a connection without errors these definitions are the ones of
  the theories \<open>Store\<close> and \<open>Reconciler\<close>, what a rejected write and a failed read do to
  the run, and that the primary keys stay unique in every case.
\<close>

section \<open>The promisified class\<close>

datatype sqlite_error = SqliteError string

record run_result =
  lastID :: int
  changes :: nat

record callback =
  cb_err :: "sqlite_error option"
  cb_this :: run_result

type_synonym 'a promise = "sqlite_error + 'a"

definition Database_run :: "sqlite_error option \<Rightarrow> 'a run_result_scheme \<Rightarrow> run_result promise" where
  "Database_run err this =
     (case err of
        Some e \<Rightarrow> Inl e
      | None \<Rightarrow> Inr \<lparr>lastID = lastID this, changes = changes this\<rparr>)"

definition Database_get :: "sqlite_error option \<Rightarrow> 'row option \<Rightarrow> 'row option promise" where
  "Database_get err row = (case err of Some e \<Rightarrow> Inl e | None \<Rightarrow> Inr row)"

definition Database_all :: "sqlite_error option \<Rightarrow> 'row list \<Rightarrow> 'row list promise" where
  "Database_all err rows = (case err of Some e \<Rightarrow> Inl e | None \<Rightarrow> Inr rows)"

definition Database_exec :: "sqlite_error option \<Rightarrow> unit promise" where
  "Database_exec err = (case err of Some e \<Rightarrow> Inl e | None \<Rightarrow> Inr ())"

definition Database_close :: "sqlite_error option \<Rightarrow> unit promise" where
  "Database_close err = (case err of Some e \<Rightarrow> Inl e | None \<Rightarrow> Inr ())"

section \<open>The connection\<close>

definition quiet :: callback where
  "quiet = \<lparr>cb_err = None, cb_this = \<lparr>lastID = 0, changes = 0\<rparr>\<rparr>"

fun next_callback :: "callback list \<Rightarrow> callback \<times> callback list" where
  "next_callback [] = (quiet, [])"
| "next_callback (cb # pending) = (cb, pending)"

definition no_faults :: "callback list \<Rightarrow> bool" where
  "no_faults pending \<longleftrightarrow> list_all (\<lambda>cb. cb_err cb = None) pending"

definition next_err :: "callback list \<Rightarrow> sqlite_error option" where
  "next_err pending = cb_err (fst (next_callback pending))"

type_synonym connection = "database \<times> callback list"

definition saveProject_io :: "project \<Rightarrow> connection \<Rightarrow> unit promise \<times> connection" where
  "saveProject_io p = (\<lambda>(database, pending).
     case next_callback pending of (cb, rest) \<Rightarrow>
       (case Database_run (cb_err cb) (cb_this cb) of
          Inl e \<Rightarrow> (Inl e, database, rest)
        | Inr _ \<Rightarrow> (Inr (), saveProject p database, rest)))"

definition saveMergeRequest_io ::
  "MergeRequestData \<Rightarrow> connection \<Rightarrow> unit promise \<times> connection" where
  "saveMergeRequest_io mr = (\<lambda>(database, pending).
     case next_callback pending of (cb, rest) \<Rightarrow>
       (case Database_run (cb_err cb) (cb_this cb) of
          Inl e \<Rightarrow> (Inl e, database, rest)
        | Inr _ \<Rightarrow> (Inr (), saveMergeRequest mr database, rest)))"

definition getMergeRequest_io ::
  "ident \<Rightarrow> ident \<Rightarrow> connection \<Rightarrow> MergeRequestData option \<times> connection" where
  "getMergeRequest_io projectId mrId = (\<lambda>(database, pending).
     case next_callback pending of (cb, rest) \<Rightarrow>
       (case Database_get (cb_err cb) (getMergeRequest projectId mrId database) of
          Inl e \<Rightarrow> (None, database, rest)
        | Inr mr \<Rightarrow> (mr, database, rest)))"

section \<open>The synchronisation run over a connection\<close>

type_synonym run_state = "sync_state \<times> callback list"
type_synonym run_outcome = "sqlite_error option \<times> sync_state \<times> callback list"

definition enrich_and_save_io ::
  "remote_env \<Rightarrow> ident \<Rightarrow> remote_mr \<Rightarrow> run_state \<Rightarrow> run_outcome option" where
  "enrich_and_save_io env projectId mr = (\<lambda>(s, pending).
     map_option
       (\<lambda>d. let s1 = s\<lparr>detail_calls := detail_calls s @ [(projectId, r_iid mr)]\<rparr> in
            case saveMergeRequest_io (mrData projectId mr d) (db s1, pending) of
              (Inl e, database, rest) \<Rightarrow> (Some e, s1, rest)
            | (Inr _, database, rest) \<Rightarrow> (None, s1\<lparr>db := database\<rparr>, rest))
       (fetchMergeRequestDetails (notes_endpoint env projectId (r_iid mr))
          (approval_events_endpoint env projectId (r_iid mr))))"

definition process_mr_io ::
  "remote_env \<Rightarrow> ident \<Rightarrow> remote_mr \<Rightarrow> run_state \<Rightarrow> run_outcome option" where
  "process_mr_io env projectId mr = (\<lambda>(s, pending).
     case getMergeRequest_io projectId (r_id mr) (db s, pending) of
       (Some existingMR, database, rest) \<Rightarrow>
          if r_state mr = ''merged'' \<and> state existingMR = ''merged'' then Some (None, skip s, rest)
          else if \<not> needsUpdate existingMR mr then Some (None, skip s, rest)
          else enrich_and_save_io env projectId mr (s\<lparr>updatedCount := updatedCount s + 1\<rparr>, rest)
     | (None, database, rest) \<Rightarrow>
          enrich_and_save_io env projectId mr (s\<lparr>newCount := newCount s + 1\<rparr>, rest))"

fun process_all_io ::
  "remote_env \<Rightarrow> ident \<Rightarrow> remote_mr list \<Rightarrow> run_state \<Rightarrow> run_outcome option" where
  "process_all_io env projectId [] (s, pending) = Some (None, s, pending)"
| "process_all_io env projectId (mr # mergeRequests) (s, pending) =
     (case process_mr_io env projectId mr (s, pending) of
        None \<Rightarrow> None
      | Some (Some e, s', rest) \<Rightarrow> Some (Some e, s', rest)
      | Some (None, s', rest) \<Rightarrow> process_all_io env projectId mergeRequests (s', rest))"

definition processAndStoreMergeRequests_io ::
  "remote_env \<Rightarrow> ident \<Rightarrow> project \<Rightarrow> connection \<Rightarrow> run_outcome option" where
  "processAndStoreMergeRequests_io env projectId proj = (\<lambda>(database, pending).
     Option.bind (fetchMergeRequests (merge_requests_endpoint env projectId))
       (\<lambda>mergeRequests.
          if length mergeRequests = 0 then Some (None, initial_state database, pending)
          else case saveProject_io proj (database, pending) of
                 (Inl e, database', rest) \<Rightarrow> Some (Some e, initial_state database', rest)
               | (Inr _, database', rest) \<Rightarrow>
                   process_all_io env projectId mergeRequests (initial_state database', rest)))"

definition outcome_state :: "run_outcome \<Rightarrow> sqlite_error option \<times> sync_state" where
  "outcome_state out = (fst out, fst (snd out))"

section \<open>The callbacks\<close>

lemma Database_run_simps [simp]:
  "Database_run None this = Inr \<lparr>lastID = lastID this, changes = changes this\<rparr>"
  "Database_run (Some e) this = Inl e"
  by (simp_all add: Database_run_def)

lemma Database_get_simps [simp]:
  "Database_get None row = Inr row" "Database_get (Some e) row = Inl e"
  by (simp_all add: Database_get_def)

lemma Database_all_simps [simp]:
  "Database_all None rows = Inr rows" "Database_all (Some e) rows = Inl e"
  by (simp_all add: Database_all_def)

lemma Database_exec_simps [simp]:
  "Database_exec None = Inr ()" "Database_exec (Some e) = Inl e"
  by (simp_all add: Database_exec_def)

lemma Database_close_simps [simp]:
  "Database_close None = Inr ()" "Database_close (Some e) = Inl e"
  by (simp_all add: Database_close_def)

lemma cb_err_quiet [simp]: "cb_err quiet = None"
  by (simp add: quiet_def)

lemma no_faults_simps [simp]:
  "no_faults []" "no_faults (cb # pending) \<longleftrightarrow> cb_err cb = None \<and> no_faults pending"
  by (simp_all add: no_faults_def)

lemma next_callback_tl [simp]: "snd (next_callback pending) = tl pending"
  by (cases pending) simp_all

lemma next_err_no_faults [simp]: "no_faults pending \<Longrightarrow> next_err pending = None"
  by (cases pending) (simp_all add: next_err_def)

lemma next_err_simps [simp]:
  "next_err [] = None" "next_err (cb # pending) = cb_err cb"
  by (simp_all add: next_err_def)

lemma saveProject_io_cases:
  "saveProject_io p (database, pending)
     = (case next_err pending of
          None \<Rightarrow> (Inr (), saveProject p database, tl pending)
        | Some e \<Rightarrow> (Inl e, database, tl pending))"
  by (cases pending) (simp_all add: saveProject_io_def next_err_def split: option.splits)

lemma saveMergeRequest_io_cases:
  "saveMergeRequest_io mr (database, pending)
     = (case next_err pending of
          None \<Rightarrow> (Inr (), saveMergeRequest mr database, tl pending)
        | Some e \<Rightarrow> (Inl e, database, tl pending))"
  by (cases pending) (simp_all add: saveMergeRequest_io_def next_err_def split: option.splits)

lemma getMergeRequest_io_cases:
  "getMergeRequest_io projectId mrId (database, pending)
     = (case next_err pending of
          None \<Rightarrow> (getMergeRequest projectId mrId database, database, tl pending)
        | Some e \<Rightarrow> (None, database, tl pending))"
  by (cases pending) (simp_all add: getMergeRequest_io_def next_err_def split: option.splits)

lemma enrich_and_save_io_cases:
  "enrich_and_save_io env projectId mr (s, pending)
     = map_option
         (\<lambda>d. case next_err pending of
                None \<Rightarrow> (None, s\<lparr>db := saveMergeRequest (mrData projectId mr d) (db s),
                                   detail_calls := detail_calls s @ [(projectId, r_iid mr)]\<rparr>,
                         tl pending)
              | Some e \<Rightarrow> (Some e, s\<lparr>detail_calls := detail_calls s @ [(projectId, r_iid mr)]\<rparr>,
                           tl pending))
         (fetchMergeRequestDetails (notes_endpoint env projectId (r_iid mr))
            (approval_events_endpoint env projectId (r_iid mr)))"
  by (cases s)
    (auto simp: enrich_and_save_io_def saveMergeRequest_io_cases split: option.splits
      intro!: option.map_cong)

lemma no_faults_drop [simp]: "no_faults pending \<Longrightarrow> no_faults (drop k pending)"
  by (simp add: no_faults_def list_all_iff) (meson in_set_dropD)

lemma no_faults_tl [simp]: "no_faults pending \<Longrightarrow> no_faults (tl pending)"
  by (cases pending) simp_all

section \<open>A connection without errors\<close>

lemma saveProject_io_quiet:
  "no_faults pending \<Longrightarrow>
   saveProject_io p (database, pending) = (Inr (), saveProject p database, tl pending)"
  by (simp add: saveProject_io_cases)

lemma saveMergeRequest_io_quiet:
  "no_faults pending \<Longrightarrow>
   saveMergeRequest_io mr (database, pending) = (Inr (), saveMergeRequest mr database, tl pending)"
  by (simp add: saveMergeRequest_io_cases)

lemma getMergeRequest_io_quiet:
  "no_faults pending \<Longrightarrow>
   getMergeRequest_io projectId mrId (database, pending)
     = (getMergeRequest projectId mrId database, database, tl pending)"
  by (simp add: getMergeRequest_io_cases)

lemma enrich_and_save_io_quiet:
  "no_faults pending \<Longrightarrow>
   enrich_and_save_io env projectId mr (s, pending)
     = map_option (\<lambda>s'. (None, s', tl pending)) (enrich_and_save env projectId mr s)"
  by (simp add: enrich_and_save_io_cases enrich_and_save_def option.map_comp comp_def)

lemma process_mr_io_quiet:
  assumes "no_faults pending"
  shows "\<exists>k. process_mr_io env projectId mr (s, pending)
     = map_option (\<lambda>s'. (None, s', drop k pending)) (process_mr env projectId mr s)"
proof (cases "process_mr env projectId mr s = Some (skip s)
    \<and> process_mr_io env projectId mr (s, pending) = Some (None, skip s, tl pending)")
  case True
  then show ?thesis by (auto simp: drop_Suc intro!: exI [of _ 1])
next
  case False
  with assms have "process_mr_io env projectId mr (s, pending)
     = map_option (\<lambda>s'. (None, s', tl (tl pending))) (process_mr env projectId mr s)"
    by (auto simp: process_mr_io_def process_mr_def getMergeRequest_io_quiet
        enrich_and_save_io_quiet split: option.splits)
  then show ?thesis by (auto simp: tl_tl_drop intro!: exI [of _ 2])
qed

lemma process_all_io_quiet:
  "no_faults pending \<Longrightarrow>
   \<exists>k. process_all_io env projectId mergeRequests (s, pending)
     = map_option (\<lambda>s'. (None, s', drop k pending)) (process_all env projectId mergeRequests s)"
proof (induction mergeRequests arbitrary: s pending)
  case Nil
  show ?case by (auto intro!: exI [of _ 0])
next
  case (Cons mr mergeRequests)
  from process_mr_io_quiet [OF Cons.prems] obtain k where
    k: "process_mr_io env projectId mr (s, pending)
      = map_option (\<lambda>s'. (None, s', drop k pending)) (process_mr env projectId mr s)"
    by blast
  show ?case
  proof (cases "process_mr env projectId mr s")
    case None
    with k show ?thesis by simp
  next
    case (Some s1)
    from Cons.IH [of "drop k pending" s1] Cons.prems obtain j where
      "process_all_io env projectId mergeRequests (s1, drop k pending)
        = map_option (\<lambda>s'. (None, s', drop j (drop k pending)))
            (process_all env projectId mergeRequests s1)"
      by auto
    with k Some show ?thesis by (auto intro!: exI [of _ "j + k"])
  qed
qed

lemma processAndStore_io_quiet:
  assumes "no_faults pending"
  shows "\<exists>k. processAndStoreMergeRequests_io env projectId proj (database, pending)
     = map_option (\<lambda>s'. (None, s', drop k pending))
         (processAndStoreMergeRequests env projectId proj database)"
proof (cases "fetchMergeRequests (merge_requests_endpoint env projectId)")
  case None
  then show ?thesis
    by (simp add: processAndStoreMergeRequests_io_def processAndStoreMergeRequests_def)
next
  case (Some mergeRequests)
  from process_all_io_quiet [OF no_faults_tl [OF assms]] obtain k where
    "process_all_io env projectId mergeRequests (initial_state (saveProject proj database), tl pending)
      = map_option (\<lambda>s'. (None, s', drop k (tl pending)))
          (process_all env projectId mergeRequests (initial_state (saveProject proj database)))"
    by blast
  with Some assms show ?thesis
    by (cases "mergeRequests = []")
      (auto simp: processAndStoreMergeRequests_io_def processAndStoreMergeRequests_def
        saveProject_io_quiet drop_Suc [symmetric] intro: exI [of _ 0] exI [of _ "Suc k"])
qed

section \<open>Rejected writes and failed reads\<close>

lemma enrich_and_save_io_rejected:
  assumes "enrich_and_save_io env projectId mr (s, pending) = Some (Some e, s', rest)"
  shows "s' = s\<lparr>detail_calls := detail_calls s @ [(projectId, r_iid mr)]\<rparr>
    \<and> next_err pending = Some e \<and> rest = tl pending"
  using assms by (auto simp: enrich_and_save_io_cases split: option.splits)

lemma process_mr_io_rejected:
  assumes "process_mr_io env projectId mr (s, pending) = Some (Some e, s', rest)"
  shows "db s' = db s \<and> skippedCount s' = skippedCount s
    \<and> detail_calls s' = detail_calls s @ [(projectId, r_iid mr)]"
  using assms
  by (auto simp: process_mr_io_def getMergeRequest_io_cases
      split: option.splits if_splits dest!: enrich_and_save_io_rejected)

lemma enrich_and_save_io_db:
  assumes "enrich_and_save_io env projectId mr (s, pending) = Some (err, s', rest)"
  shows "db s' = db s \<or> (\<exists>d. db s' = saveMergeRequest (mrData projectId mr d) (db s))"
  using assms by (auto simp: enrich_and_save_io_cases split: option.splits)

lemma process_mr_io_db:
  assumes "process_mr_io env projectId mr (s, pending) = Some (err, s', rest)"
  shows "db s' = db s \<or> (\<exists>d. db s' = saveMergeRequest (mrData projectId mr d) (db s))"
  using assms
  by (auto simp: process_mr_io_def getMergeRequest_io_cases skip_def
      split: option.splits if_splits dest!: enrich_and_save_io_db)

lemma process_all_io_invariant:
  assumes "process_all_io env projectId mergeRequests (s, pending) = Some (err, s', rest)"
    and "P (db s)"
    and "\<And>database mr d. P database \<Longrightarrow> P (saveMergeRequest (mrData projectId mr d) database)"
  shows "P (db s')"
  using assms(1,2)
proof (induction mergeRequests arbitrary: s pending)
  case Nil
  then show ?case by simp
next
  case (Cons mr mergeRequests)
  from Cons.prems(1) obtain err1 s1 rest1 where
    step: "process_mr_io env projectId mr (s, pending) = Some (err1, s1, rest1)"
    and rest: "err1 \<noteq> None \<and> s' = s1
      \<or> process_all_io env projectId mergeRequests (s1, rest1) = Some (err, s', rest)"
    by (auto split: option.splits)
  from process_mr_io_db [OF step] Cons.prems(2) assms(3) have "P (db s1)" by auto
  with rest Cons.IH show ?case by auto
qed

lemma process_all_io_keys_unique:
  "process_all_io env projectId mergeRequests (s, pending) = Some (err, s', rest) \<Longrightarrow>
   keys_unique (db s) \<Longrightarrow> keys_unique (db s')"
  by (erule process_all_io_invariant) simp_all

lemma processAndStore_io_SomeD:
  assumes "processAndStoreMergeRequests_io env projectId proj (database, pending)
      = Some (err, s', rest)"
  shows "db s' = database
    \<or> (\<exists>mergeRequests pending'.
         process_all_io env projectId mergeRequests
           (initial_state (saveProject proj database), pending') = Some (err, s', rest))"
  using assms
  by (auto simp: processAndStoreMergeRequests_io_def saveProject_io_cases initial_state_def
      split: option.splits if_splits Option.bind_splits)

section \<open>Example data\<close>

definition busy :: callback where
  "busy = \<lparr>cb_err = Some (SqliteError ''SQLITE_BUSY''), cb_this = \<lparr>lastID = 0, changes = 0\<rparr>\<rparr>"

definition second_remote_mr :: remote_mr where
  "second_remote_mr = example_remote_mr\<lparr>r_id := 502, r_iid := 13\<rparr>"

lemma cb_err_busy [simp]: "cb_err busy = Some (SqliteError ''SQLITE_BUSY'')"
  by (simp add: busy_def)

lemma example_rejected:
  "process_mr_io example_env 9 example_remote_mr (initial_state empty_database, [quiet, busy])
     = Some (Some (SqliteError ''SQLITE_BUSY''),
             (initial_state empty_database)\<lparr>newCount := 1, detail_calls := [(9, 12)]\<rparr>, [])"
  by (simp add: process_mr_io_def getMergeRequest_io_cases enrich_and_save_io_cases
      example_details initial_state_def example_remote_mr_def)

section \<open>Properties\<close>

text \<open>
  C12: on a connection whose driver reports no error, the run over the connection is the
  run of the theory \<open>Reconciler\<close>: it is never rejected, it returns exactly when that
  run returns, and it ends in the same state of the loop and the same stored rows.
\<close>
theorem faultless_run_equivalent:
  assumes "no_faults pending"
  shows "map_option outcome_state
           (processAndStoreMergeRequests_io env projectId proj (database, pending))
       = map_option (Pair None) (processAndStoreMergeRequests env projectId proj database)"
proof -
  from processAndStore_io_quiet [OF assms] obtain k where
    "processAndStoreMergeRequests_io env projectId proj (database, pending)
       = map_option (\<lambda>s'. (None, s', drop k pending))
           (processAndStoreMergeRequests env projectId proj database)"
    by blast
  then show ?thesis by (simp add: option.map_comp comp_def outcome_state_def)
qed

theorem faultless_run_equivalent_witness:
  "no_faults [quiet, quiet, quiet]
   \<and> map_option outcome_state
       (processAndStoreMergeRequests_io example_env 9 example_project
          (empty_database, [quiet, quiet, quiet]))
     = map_option (Pair None)
         (processAndStoreMergeRequests example_env 9 example_project empty_database)"
  using faultless_run_equivalent [of "[quiet, quiet, quiet]" example_env 9 example_project
      empty_database]
  by simp

text \<open>
  C11: a rejected write ends the run. When \<open>saveMergeRequest\<close> rejects for a record, the
  loop is left with that error: the record is not stored, the details have been fetched
  for nothing, and none of the records after it is looked at, whatever they are.
\<close>
theorem rejected_save_aborts_run:
  assumes "process_mr_io env projectId mr (s, pending) = Some (Some e, s', rest)"
  shows "process_all_io env projectId (mr # mergeRequests) (s, pending) = Some (Some e, s', rest)
    \<and> db s' = db s
    \<and> detail_calls s' = detail_calls s @ [(projectId, r_iid mr)]"
  using assms process_mr_io_rejected [OF assms] by simp

theorem rejected_save_aborts_run_witness:
  "process_all_io example_env 9 [example_remote_mr, second_remote_mr]
      (initial_state empty_database, [quiet, busy])
     = Some (Some (SqliteError ''SQLITE_BUSY''),
             (initial_state empty_database)\<lparr>newCount := 1, detail_calls := [(9, 12)]\<rparr>, [])
   \<and> merge_requests (db ((initial_state empty_database)
        \<lparr>newCount := 1, detail_calls := [(9, 12)]\<rparr>)) = []"
  using rejected_save_aborts_run [OF example_rejected, of "[second_remote_mr]"]
  by (simp add: initial_state_def empty_database_def)

text \<open>
  C23: a failed read is taken for a missing record. When the lookup of
  \<open>getMergeRequest\<close> fails, a record that is stored and merged on both sides is counted
  as new, its details are fetched again and the stored row is replaced by the fresh
  one, which has no squad; without the failure the record is skipped.
\<close>
theorem failed_read_overwrites_merged:
  assumes "getMergeRequest projectId (r_id mr) (db s) = Some existingMR"
    and "r_state mr = ''merged''" and "state existingMR = ''merged''"
    and "fetchMergeRequestDetails (notes_endpoint env projectId (r_iid mr))
           (approval_events_endpoint env projectId (r_iid mr)) = Some d"
    and "cb_err cb = Some e" and "no_faults pending"
  shows "process_mr_io env projectId mr (s, cb # pending)
       = Some (None, s\<lparr>db := saveMergeRequest (mrData projectId mr d) (db s),
                       newCount := newCount s + 1,
                       detail_calls := detail_calls s @ [(projectId, r_iid mr)]\<rparr>, tl pending)
    \<and> process_mr env projectId mr s = Some (skip s)"
  using assms
  by (simp add: process_mr_io_def getMergeRequest_io_cases enrich_and_save_io_cases
      process_mr_terminal)

theorem failed_read_overwrites_merged_witness:
  "process_mr_io example_env 9 merged_remote_mr (merged_state, [busy])
     = Some (None, merged_state
          \<lparr>db := saveMergeRequest (mrData 9 merged_remote_mr
                  \<lparr>mr_notes = example_notes, approvalEvents = example_events\<rparr>) (db merged_state),
            newCount := 1, detail_calls := [(9, 12)]\<rparr>, [])
   \<and> squad merged_row = Some ''CMS''
   \<and> process_mr example_env 9 merged_remote_mr merged_state = Some (skip merged_state)"
proof -
  have "getMergeRequest 9 (r_id merged_remote_mr) (db merged_state) = Some merged_row"
    by (simp add: merged_state_def merged_row_def merged_remote_mr_def initial_state_def
        getMergeRequest_def example_row_def example_remote_mr_def)
  from failed_read_overwrites_merged [OF this _ _ example_details, of busy _ "[]"]
  show ?thesis
    by (simp add: merged_remote_mr_def merged_row_def merged_state_def initial_state_def
        example_row_def example_remote_mr_def)
qed

text \<open>
  A write followed by a read. After \<open>saveMergeRequest\<close> the lookup by the key of
  the record returns the record that was written when the write resolved, and what was
  stored before when the write was rejected.
\<close>
theorem save_then_get:
  assumes "saveMergeRequest_io mr (database, pending) = (result, c)" and "no_faults (snd c)"
  shows "fst (getMergeRequest_io (project_id mr) (mr_id mr) c)
       = (case result of
            Inr _ \<Rightarrow> Some mr
          | Inl e \<Rightarrow> getMergeRequest (project_id mr) (mr_id mr) database)"
proof (cases c)
  case (Pair database' rest)
  with assms show ?thesis
    by (auto simp: saveMergeRequest_io_cases getMergeRequest_io_cases
        getMergeRequest_saveMergeRequest split: option.splits)
qed

theorem save_then_get_witness:
  "saveMergeRequest_io example_row (empty_database, [busy])
     = (Inl (SqliteError ''SQLITE_BUSY''), empty_database, [])
   \<and> fst (getMergeRequest_io 9 501 (empty_database, [])) = None
   \<and> saveMergeRequest_io example_row (empty_database, [])
     = (Inr (), saveMergeRequest example_row empty_database, [])
   \<and> fst (getMergeRequest_io 9 501 (saveMergeRequest example_row empty_database, []))
     = Some example_row"
proof -
  have a: "saveMergeRequest_io example_row (empty_database, [busy])
      = (Inl (SqliteError ''SQLITE_BUSY''), empty_database, [])"
    and b: "saveMergeRequest_io example_row (empty_database, [])
      = (Inr (), saveMergeRequest example_row empty_database, [])"
    by (simp_all add: saveMergeRequest_io_cases)
  from save_then_get [OF a] save_then_get [OF b] a b show ?thesis
    by (simp add: example_row_def)
qed

end
