(* ===== verification/Session.thy ===== *)
theory Session
  imports Menu Connection
begin

text \<open>
  The whole program of \<open>src/src/index.ts\<close> over a connection that can fail:
  \<open>initDatabase\<close> (lines 519-572), the two statistics queries (lines 610-700),
  \<open>displayMergeRequestStats\<close> (lines 277-311) and \<open>main\<close> (lines 326-424), with the
  rejections of the driver as values.

  \<^item> A statement given to \<open>exec\<close> fails with the error of the driver or, when the
    driver has none, with the error of the statement itself (\<open>add_column\<close> of the
    theory \<open>Schema\<close>); \<open>statement_error\<close> is the latter as an error of the driver.
  \<^item> \<open>initDatabase_io\<close> awaits the \<open>CREATE TABLE\<close> statements without a handler and
    each \<open>ALTER TABLE\<close> statement inside \<open>try\<close>/\<open>catch\<close>.
  \<^item> The two queries read the rows and change nothing, so the rows that
    \<open>displayMergeRequestStats_io\<close> prints from are those of the connection it is
    given; it is rejected when one of its queries is.
  \<^item> \<open>main_io\<close> has no handler: the first rejection ends it. Its result is the
    rejection or the outcome, with the schema, the rows and the callbacks left.

  The lemmas show that without errors \<open>main_io\<close> is \<open>main\<close>, which failures reject it
  and what they leave behind, and that every failure of an \<open>ALTER TABLE\<close> statement is
  taken for an existing column.
\<close>

section \<open>Schema initialisation\<close>

definition statement_error :: "sql_error \<Rightarrow> sqlite_error" where
  "statement_error err =
     (case err of
        NoSuchTable \<Rightarrow> SqliteError ''no such table''
      | DuplicateColumn \<Rightarrow> SqliteError ''duplicate column name'')"

definition exec_create_tables :: "schema \<times> callback list \<Rightarrow> unit promise \<times> schema \<times> callback list"
  where
  "exec_create_tables = (\<lambda>(sch, pending).
     case next_callback pending of (cb, rest) \<Rightarrow>
       (case Database_exec (cb_err cb) of
          Inl e \<Rightarrow> (Inl e, sch, rest)
        | Inr _ \<Rightarrow>
            (Inr (),
             create_table_if_not_exists ''merge_requests'' merge_requests_columns
               (create_table_if_not_exists ''projects'' projects_columns sch),
             rest)))"

definition exec_add_column ::
  "string \<Rightarrow> string \<Rightarrow> schema \<times> callback list \<Rightarrow> unit promise \<times> schema \<times> callback list" where
  "exec_add_column table column = (\<lambda>(sch, pending).
     case next_callback pending of (cb, rest) \<Rightarrow>
       (case cb_err cb of
          Some e \<Rightarrow> (Database_exec (Some e), sch, rest)
        | None \<Rightarrow>
            (case add_column table column sch of
               Inl err \<Rightarrow> (Database_exec (Some (statement_error err)), sch, rest)
             | Inr sch' \<Rightarrow> (Database_exec None, sch', rest))))"

definition try_add_column_io ::
  "string \<Rightarrow> string \<Rightarrow> schema \<times> callback list \<Rightarrow> schema \<times> callback list" where
  "try_add_column_io table column file =
     (case exec_add_column table column file of
        (Inl e, sch, rest) \<Rightarrow> (sch, rest)
      | (Inr _, sch, rest) \<Rightarrow> (sch, rest))"

definition initDatabase_io ::
  "bool \<Rightarrow> schema \<times> callback list \<Rightarrow> unit promise \<times> schema \<times> callback list" where
  "initDatabase_io opened file =
     (if opened then (Inr (), file)
      else case exec_create_tables file of
             (Inl e, sch, rest) \<Rightarrow> (Inl e, sch, rest)
           | (Inr _, sch, rest) \<Rightarrow>
               (Inr (),
                try_add_column_io ''merge_requests'' ''description''
                  (try_add_column_io ''merge_requests'' ''squad'' (sch, rest))))"

section \<open>Statistics\<close>

definition getMergeRequestStats_io ::
  "ident \<Rightarrow> string option \<Rightarrow> string option \<Rightarrow> connection
     \<Rightarrow> stats_row list promise \<times> callback list" where
  "getMergeRequestStats_io projectId startDate endDate = (\<lambda>(database, pending).
     case next_callback pending of (cb, rest) \<Rightarrow>
       (Database_all (cb_err cb) (getMergeRequestStats projectId startDate endDate database), rest))"

definition countMrsWithLateFirstComment_io ::
  "ident \<Rightarrow> rat \<Rightarrow> string option \<Rightarrow> string option \<Rightarrow> connection
     \<Rightarrow> late_row list promise \<times> callback list" where
  "countMrsWithLateFirstComment_io projectId thresholdMinutes startDate endDate =
     (\<lambda>(database, pending).
        case next_callback pending of (cb, rest) \<Rightarrow>
          (Database_all (cb_err cb)
             (countMrsWithLateFirstComment projectId thresholdMinutes startDate endDate database),
           rest))"

definition displayMergeRequestStats_io ::
  "ident \<Rightarrow> string option \<Rightarrow> string option \<Rightarrow> rat option \<Rightarrow> connection
     \<Rightarrow> string list promise \<times> callback list" where
  "displayMergeRequestStats_io projectId startDate endDate commentThreshold = (\<lambda>(database, pending).
     case getMergeRequestStats_io projectId startDate endDate (database, pending) of
       (Inl e, rest) \<Rightarrow> (Inl e, rest)
     | (Inr stats, rest) \<Rightarrow>
         (case commentThreshold of
            None \<Rightarrow>
              (Inr (displayMergeRequestStats projectId startDate endDate commentThreshold database),
               rest)
          | Some threshold \<Rightarrow>
              (case countMrsWithLateFirstComment_io projectId threshold startDate endDate
                      (database, rest) of
                 (Inl e, rest') \<Rightarrow> (Inl e, rest')
               | (Inr lateCommentCount, rest') \<Rightarrow>
                   (Inr (displayMergeRequestStats projectId startDate endDate commentThreshold
                           database),
                    rest'))))"

section \<open>The entry point\<close>

type_synonym session = "schema \<times> database \<times> callback list"

definition show_stats_io ::
  "world \<Rightarrow> answers \<Rightarrow> connection \<Rightarrow> (string list promise \<times> callback list) option" where
  "show_stats_io w a c =
     (if answers_accepted w a then
        (let startDate = (if ans_useDateFilter a then date_filter (ans_startDate a) else None);
             endDate = (if ans_useDateFilter a then date_filter (ans_endDate a) else None);
             commentThreshold =
               (if ans_commentThreshold a \<noteq> [] then w_number w (ans_commentThreshold a)
                else None)
         in Some (displayMergeRequestStats_io (ans_selectedRepo a) startDate endDate
                    commentThreshold c))
      else None)"

definition main_io ::
  "world \<Rightarrow> answers \<Rightarrow> session \<Rightarrow> ((sqlite_error + outcome) \<times> session) option" where
  "main_io w a = (\<lambda>(sch0, database, pending0).
     case initDatabase_io False (sch0, pending0) of
       (Inl e, sch, pending) \<Rightarrow> Some (Inl e, sch, database, pending)
     | (Inr _, sch, pending) \<Rightarrow>
         (case getGroupId (w_groups w) GROUP_NAME of
            None \<Rightarrow> Some (Inr (Exited 1), sch, database, pending)
          | Some groupId \<Rightarrow>
              if groupId = 0 then Some (Inr (Exited 1), sch, database, pending)
              else
                (let repos = listRepositories (w_projects w groupId) in
                 if length repos = 0 then Some (Inr NoRepositories, sch, database, pending)
                 else
                   (case find (\<lambda>c. proj_id (repo_project c) = ans_selectedRepo a) repos of
                      None \<Rightarrow> Some (Inr (Exited 1), sch, database, pending)
                    | Some selectedChoice \<Rightarrow>
                        if ans_actionType a = ''fetch'' then
                          map_option
                            (\<lambda>(err, s, rest).
                               (case err of Some e \<Rightarrow> Inl e | None \<Rightarrow> Inr Fetched,
                                sch, db s, rest))
                            (processAndStoreMergeRequests_io (w_remote w) (ans_selectedRepo a)
                               (repo_project selectedChoice) (database, pending))
                        else if ans_actionType a = ''stats'' then
                          map_option
                            (\<lambda>(printed, rest).
                               (case printed of Inl e \<Rightarrow> Inl e | Inr ls \<Rightarrow> Inr (Displayed ls),
                                sch, database, rest))
                            (show_stats_io w a (database, pending))
                        else Some (Inr NoAction, sch, database, pending)))))"

definition session_result ::
  "(sqlite_error + outcome) \<times> session \<Rightarrow> (sqlite_error + outcome) \<times> schema \<times> database" where
  "session_result r = (fst r, fst (snd r), fst (snd (snd r)))"

section \<open>Statements over a connection\<close>

lemma exec_create_tables_cases:
  "exec_create_tables (sch, pending)
     = (case next_err pending of
          None \<Rightarrow>
            (Inr (),
             create_table_if_not_exists ''merge_requests'' merge_requests_columns
               (create_table_if_not_exists ''projects'' projects_columns sch),
             tl pending)
        | Some e \<Rightarrow> (Inl e, sch, tl pending))"
  by (cases pending) (simp_all add: exec_create_tables_def next_err_def split: option.splits)

lemma try_add_column_io_cases:
  "try_add_column_io table column (sch, pending)
     = (case next_err pending of
          None \<Rightarrow> (try_add_column table column sch, tl pending)
        | Some e \<Rightarrow> (sch, tl pending))"
  by (cases pending)
    (simp_all add: try_add_column_io_def exec_add_column_def try_add_column_def next_err_def
      split: option.splits sum.splits)

lemma initDatabase_io_opened [simp]: "initDatabase_io True file = (Inr (), file)"
  by (simp add: initDatabase_io_def)

lemma initDatabase_io_rejected:
  "next_err pending = Some e \<Longrightarrow>
   initDatabase_io False (sch, pending) = (Inl e, sch, tl pending)"
  by (simp add: initDatabase_io_def exec_create_tables_cases)

lemma initDatabase_io_quiet:
  "no_faults pending \<Longrightarrow>
   initDatabase_io False (sch, pending) = (Inr (), initDatabase False sch, drop 3 pending)"
  by (simp add: initDatabase_io_def exec_create_tables_cases try_add_column_io_cases
      initDatabase_def drop_Suc numeral_3_eq_3 tl_drop)

lemma getMergeRequestStats_io_cases:
  "getMergeRequestStats_io projectId startDate endDate (database, pending)
     = (case next_err pending of
          None \<Rightarrow> (Inr (getMergeRequestStats projectId startDate endDate database), tl pending)
        | Some e \<Rightarrow> (Inl e, tl pending))"
  by (cases pending) (simp_all add: getMergeRequestStats_io_def next_err_def split: option.splits)

lemma countMrsWithLateFirstComment_io_cases:
  "countMrsWithLateFirstComment_io projectId thresholdMinutes startDate endDate (database, pending)
     = (case next_err pending of
          None \<Rightarrow>
            (Inr (countMrsWithLateFirstComment projectId thresholdMinutes startDate endDate
                    database),
             tl pending)
        | Some e \<Rightarrow> (Inl e, tl pending))"
  by (cases pending)
    (simp_all add: countMrsWithLateFirstComment_io_def next_err_def split: option.splits)

lemmas io_cases = saveProject_io_cases saveMergeRequest_io_cases getMergeRequest_io_cases
  exec_create_tables_cases try_add_column_io_cases getMergeRequestStats_io_cases
  countMrsWithLateFirstComment_io_cases

lemma displayMergeRequestStats_io_quiet:
  "no_faults pending \<Longrightarrow>
   fst (displayMergeRequestStats_io projectId startDate endDate commentThreshold
          (database, pending))
     = Inr (displayMergeRequestStats projectId startDate endDate commentThreshold database)"
  by (simp add: displayMergeRequestStats_io_def io_cases split: option.splits)

lemma displayMergeRequestStats_io_rejected:
  "next_err pending = Some e \<Longrightarrow>
   displayMergeRequestStats_io projectId startDate endDate commentThreshold (database, pending)
     = (Inl e, tl pending)"
  by (simp add: displayMergeRequestStats_io_def io_cases)

section \<open>The entry point over a connection\<close>

lemma main_io_rejected_at_start:
  "next_err pending = Some e \<Longrightarrow>
   main_io w a (sch, database, pending) = Some (Inl e, sch, database, tl pending)"
  by (simp add: main_io_def initDatabase_io_rejected)

lemma processAndStore_io_result:
  assumes "no_faults pending"
  shows "map_option
           (session_result \<circ>
            (\<lambda>(err, s, rest). (case err of Some e \<Rightarrow> Inl e | None \<Rightarrow> Inr Fetched, sch, db s, rest)))
           (processAndStoreMergeRequests_io env projectId proj (database, pending))
       = map_option ((\<lambda>(out, file). (Inr out, file)) \<circ> (\<lambda>s. (Fetched, sch, db s)))
           (processAndStoreMergeRequests env projectId proj database)"
proof -
  from processAndStore_io_quiet [OF assms] obtain k where
    "processAndStoreMergeRequests_io env projectId proj (database, pending)
       = map_option (\<lambda>s'. (None, s', drop k pending))
           (processAndStoreMergeRequests env projectId proj database)"
    by blast
  then show ?thesis by (simp add: option.map_comp comp_def session_result_def)
qed

lemma show_stats_io_result:
  assumes "no_faults pending"
  shows "map_option
           (session_result \<circ>
            (\<lambda>(printed, rest).
               (case printed of Inl e \<Rightarrow> Inl e | Inr ls \<Rightarrow> Inr (Displayed ls), sch, database, rest)))
           (show_stats_io w a (database, pending))
       = map_option ((\<lambda>(out, file). (Inr out, file)) \<circ> (\<lambda>printed. (Displayed printed, sch, database)))
           (show_stats w a database)"
  using displayMergeRequestStats_io_quiet [OF assms]
  by (simp add: show_stats_io_def show_stats_def Let_def split_beta session_result_def)

lemma main_io_SomeD:
  assumes "main_io w a (sch, database, pending) = Some (result, sch', database', rest)"
  shows "database' = database
    \<or> (\<exists>(c :: repository) err s pending'.
          proj_id (repo_project c) = ans_selectedRepo a
          \<and> processAndStoreMergeRequests_io (w_remote w) (ans_selectedRepo a) (repo_project c)
                (database, pending') = Some (err, s, rest)
          \<and> database' = db s)"
proof (cases "database' = database")
  case False
  with assms obtain groupId c where
    found: "find (\<lambda>c. proj_id (repo_project c) = ans_selectedRepo a)
       (listRepositories (w_projects w groupId)) = Some c"
    and run: "\<exists>err s pending'.
       processAndStoreMergeRequests_io (w_remote w) (ans_selectedRepo a) (repo_project c)
         (database, pending') = Some (err, s, rest) \<and> database' = db s"
    by (fastforce simp: main_io_def Let_def
        split: prod.splits sum.splits option.splits if_splits)
  from found have "proj_id (repo_project c) = ans_selectedRepo a" by (rule find_Some_holds)
  with run show ?thesis by blast
qed simp

lemma try_add_column_lacks:
  "column \<noteq> other \<Longrightarrow> sch table = Some columns \<Longrightarrow> other \<notin> set columns \<Longrightarrow>
   \<exists>columns'. try_add_column table column sch table = Some columns' \<and> other \<notin> set columns'"
  by (simp add: try_add_column_def add_column_def)

section \<open>Properties\<close>

text \<open>
  C22: without errors of the driver the program over a connection is the program over
  the total store: \<open>main_io\<close> is never rejected, returns exactly when \<open>main\<close> returns,
  with the same outcome, the same schema and the same rows.
\<close>
theorem main_io_refines_main:
  assumes "no_faults pending"
  shows "map_option session_result (main_io w a (sch, database, pending))
       = map_option (\<lambda>(out, file). (Inr out, file)) (main w a (sch, database))"
proof -
  let ?rest = "drop 3 pending"
  from assms have rest: "no_faults ?rest" by simp
  have init: "initDatabase_io False (sch, pending) = (Inr (), initDatabase False sch, ?rest)"
    using assms by (rule initDatabase_io_quiet)
  show ?thesis
    by (simp add: main_io_def main_def init Let_def option.map_comp
        processAndStore_io_result [OF rest] show_stats_io_result [OF rest] session_result_def
        split: option.splits)
qed

theorem main_io_refines_main_witness:
  "no_faults [quiet, quiet, quiet, quiet]
   \<and> map_option session_result
       (main_io example_world stats_answers (first_version_schema, sample_db, [quiet, quiet, quiet, quiet]))
     = map_option (\<lambda>(out, file). (Inr out, file))
         (main example_world stats_answers (first_version_schema, sample_db))"
  using main_io_refines_main [of "[quiet, quiet, quiet, quiet]" example_world stats_answers
      first_version_schema sample_db]
  by simp

text \<open>
  C39: every failure of an \<open>ALTER TABLE\<close> statement is taken for an existing column.
  When the driver fails on the statement that adds \<open>squad\<close> to a table that lacks it,
  \<open>initDatabase\<close> still resolves, and the schema it leaves does not have the columns
  that the \<open>INSERT\<close> statement of \<open>saveMergeRequest\<close> names.
\<close>
theorem alter_failure_taken_for_existing_column:
  assumes "cb_err cb1 = None" and "cb_err cb2 = Some e"
    and "sch ''merge_requests'' = Some columns" and "''squad'' \<notin> set columns"
  shows "\<exists>sch' rest. initDatabase_io False (sch, cb1 # cb2 # pending) = (Inr (), sch', rest)
           \<and> \<not> insert_accepted ''merge_requests'' saveMergeRequest_columns sch'"
proof -
  let ?sch1 = "create_table_if_not_exists ''merge_requests'' merge_requests_columns
      (create_table_if_not_exists ''projects'' projects_columns sch)"
  from assms(3) have "?sch1 ''merge_requests'' = Some columns" by simp
  then have "\<And>sch2. sch2 = ?sch1 \<or> sch2 = try_add_column ''merge_requests'' ''description'' ?sch1 \<Longrightarrow>
      \<exists>columns'. sch2 ''merge_requests'' = Some columns' \<and> ''squad'' \<notin> set columns'"
    using assms(4) try_add_column_lacks [of "''description''" "''squad''" ?sch1] by auto
  then have "\<And>sch2. sch2 = ?sch1 \<or> sch2 = try_add_column ''merge_requests'' ''description'' ?sch1 \<Longrightarrow>
      \<not> insert_accepted ''merge_requests'' saveMergeRequest_columns sch2"
    by (fastforce simp: insert_accepted_def saveMergeRequest_columns_def)
  with assms(1,2) show ?thesis
    by (cases pending)
      (auto simp: initDatabase_io_def exec_create_tables_cases try_add_column_io_cases
        split: option.splits)
qed

theorem alter_failure_taken_for_existing_column_witness:
  "initDatabase_io False (first_version_schema, [quiet, busy, quiet])
     = (Inr (), first_version_schema(''merge_requests'' \<mapsto> merge_requests_columns @ [''description'']), [])
   \<and> insert_accepted ''merge_requests'' saveMergeRequest_columns
        (first_version_schema(''merge_requests'' \<mapsto> merge_requests_columns @ [''description'']))
     = False"
proof -
  let ?sch = "first_version_schema(''merge_requests'' \<mapsto> merge_requests_columns @ [''description''])"
  have "first_version_schema ''merge_requests'' = Some merge_requests_columns"
    and "''squad'' \<notin> set merge_requests_columns"
    by (simp_all add: first_version_schema_def merge_requests_columns_def)
  with alter_failure_taken_for_existing_column [of quiet busy "SqliteError ''SQLITE_BUSY''"
      first_version_schema merge_requests_columns "[quiet]"]
  obtain sch' rest where
    r: "initDatabase_io False (first_version_schema, [quiet, busy, quiet]) = (Inr (), sch', rest)"
    and n: "\<not> insert_accepted ''merge_requests'' saveMergeRequest_columns sch'"
    by auto
  have c: "initDatabase_io False (first_version_schema, [quiet, busy, quiet]) = (Inr (), ?sch, [])"
    by (simp add: initDatabase_io_def exec_create_tables_cases try_add_column_io_cases
        try_add_column_def add_column_def first_version_schema_def create_table_existing
        merge_requests_columns_def)
  with r have "sch' = ?sch" by simp
  with n c show ?thesis by simp
qed

end
