(* ===== verification/Recovery.thy ===== *)
theory Recovery
  imports Connection
begin

text \<open>
  What a run of \<open>processAndStoreMergeRequests\<close> (\<open>src/src/index.ts\<close>, lines 159-258) that
  was ended by a failure of the store leaves behind, and what the next run makes of it.

  The specification (section 5) says that partial progress is durable and that a run
  started again converges to the state that the uninterrupted run reaches. The lemmas
  here show this for a connection with a single failing call: the rows at the moment
  of the rejection are those of the run over the records before the failing one, and a
  second run over the same records, without failure, ends with the rows of the
  uninterrupted run.

  \<^item> \<open>io_run\<close> is the loop over a connection as a relation, with a rule for the record
    whose write is rejected; \<open>process_all_io\<close> implements it.
  \<^item> \<open>single_fault\<close> is a connection on which one call fails: the callbacks before it
    report no error, and after it the driver is quiet.
\<close>

inductive io_run :: "remote_env \<Rightarrow> ident \<Rightarrow> remote_mr list \<Rightarrow> run_state \<Rightarrow> run_outcome \<Rightarrow> bool"
  for env projectId where
  finished: "io_run env projectId [] (s, pending) (None, s, pending)"
| rejected:
    "process_mr_io env projectId mr (s, pending) = Some (Some e, s', rest) \<Longrightarrow>
     io_run env projectId (mr # mergeRequests) (s, pending) (Some e, s', rest)"
| step:
    "process_mr_io env projectId mr (s, pending) = Some (None, s1, pending1) \<Longrightarrow>
     io_run env projectId mergeRequests (s1, pending1) out \<Longrightarrow>
     io_run env projectId (mr # mergeRequests) (s, pending) out"

code_pred (modes: i \<Rightarrow> i \<Rightarrow> i \<Rightarrow> i \<Rightarrow> o \<Rightarrow> bool, i \<Rightarrow> i \<Rightarrow> i \<Rightarrow> i \<Rightarrow> i \<Rightarrow> bool) io_run .

inductive_cases io_run_NilE [elim!]: "io_run env projectId [] c out"
inductive_cases io_run_ConsE [elim]: "io_run env projectId (mr # mergeRequests) c out"

definition single_fault :: "callback list \<Rightarrow> bool" where
  "single_fault pending \<longleftrightarrow> pending \<noteq> [] \<and> no_faults (butlast pending)"

section \<open>The loop as a relation\<close>

lemma process_all_io_run:
  "process_all_io env projectId mergeRequests (s, pending) = Some out
     \<longleftrightarrow> io_run env projectId mergeRequests (s, pending) out"
proof (induction mergeRequests arbitrary: s pending)
  case Nil
  show ?case by (auto intro: io_run.finished)
next
  case (Cons mr mergeRequests)
  show ?case
  proof
    assume "process_all_io env projectId (mr # mergeRequests) (s, pending) = Some out"
    then show "io_run env projectId (mr # mergeRequests) (s, pending) out"
      by (auto split: option.splits simp: Cons.IH intro: io_run.intros)
  next
    assume "io_run env projectId (mr # mergeRequests) (s, pending) out"
    then show "process_all_io env projectId (mr # mergeRequests) (s, pending) = Some out"
      by (auto simp: Cons.IH)
  qed
qed

lemma io_run_rejected_prefix:
  assumes "io_run env projectId mergeRequests c out" and "fst out \<noteq> None"
  shows "\<exists>processed mr todo c1.
           mergeRequests = processed @ mr # todo
           \<and> io_run env projectId processed c (None, c1)
           \<and> process_mr_io env projectId mr c1 = Some out"
  using assms
proof (induction rule: io_run.induct)
  case (finished s pending)
  then show ?case by simp
next
  case (rejected mr s pending e s' rest mergeRequests)
  then show ?case by (fastforce intro: io_run.finished)
next
  case (step mr s pending s1 pending1 mergeRequests out)
  from step.IH [OF step.prems] obtain processed mr' todo c1 where
    "mergeRequests = processed @ mr' # todo"
    and "io_run env projectId processed (s1, pending1) (None, c1)"
    and "process_mr_io env projectId mr' c1 = Some out"
    by blast
  with step.hyps(1) have "mr # mergeRequests = (mr # processed) @ mr' # todo
      \<and> io_run env projectId (mr # processed) (s, pending) (None, c1)
      \<and> process_mr_io env projectId mr' c1 = Some out"
    by (auto intro: io_run.step)
  then show ?case by blast
qed

section \<open>A single failing call\<close>

lemma single_fault_simps [simp]:
  "\<not> single_fault []" "single_fault [cb]"
  "single_fault (q # cb # pending) \<longleftrightarrow> cb_err q = None \<and> single_fault (cb # pending)"
  by (simp_all add: single_fault_def)

lemma process_all_io_exhausted:
  "process_all_io env projectId mergeRequests (s, []) \<noteq> Some (Some e, s', rest)"
  using process_all_io_quiet [of "[]" env projectId mergeRequests s]
  by (auto simp: map_option_case split: option.splits)

lemma process_mr_io_single_fault:
  assumes "single_fault pending"
    and "process_mr_io env projectId mr (s, pending) = Some (err, s1, rest)"
  shows "(err = None \<and> process_mr env projectId mr s = Some s1 \<and> single_fault rest)
       \<or> (err = None \<and> rest = [])
       \<or> (err \<noteq> None \<and> db s1 = db s)"
proof (cases pending)
  case Nil
  with assms(1) show ?thesis by simp
next
  case first: (Cons q pending1)
  show ?thesis
  proof (cases pending1)
    case Nil
    with first assms(2) show ?thesis
      by (auto simp: process_mr_io_def getMergeRequest_io_cases enrich_and_save_io_cases
          split: option.splits if_splits)
  next
    case second: (Cons q2 pending2)
    with first assms(1) have q: "cb_err q = None" by simp
    show ?thesis
    proof (cases pending2)
      case Nil
      with first second q assms(2) show ?thesis
        by (auto simp: process_mr_io_def process_mr_def getMergeRequest_io_cases
            enrich_and_save_io_cases enrich_and_save_def split: option.splits if_splits)
    next
      case (Cons q3 pending3)
      with first second assms(1) have "cb_err q2 = None" by simp
      with first second Cons q assms show ?thesis
        by (auto simp: process_mr_io_def process_mr_def getMergeRequest_io_cases
            enrich_and_save_io_cases enrich_and_save_def split: option.splits if_splits)
    qed
  qed
qed

lemma rejected_single_fault_prefix:
  assumes "single_fault pending"
    and "process_all_io env projectId mergeRequests (s, pending) = Some (Some e, s', rest)"
  shows "\<exists>processed mr todo s1.
           mergeRequests = processed @ mr # todo
           \<and> process_all env projectId processed s = Some s1 \<and> db s' = db s1"
  using assms
proof (induction mergeRequests arbitrary: s pending)
  case Nil
  then show ?case by simp
next
  case (Cons mr mergeRequests)
  from Cons.prems(2) obtain err s1 rest1 where
    head: "process_mr_io env projectId mr (s, pending) = Some (err, s1, rest1)"
    and tail: "err \<noteq> None \<and> s' = s1
      \<or> err = None
        \<and> process_all_io env projectId mergeRequests (s1, rest1) = Some (Some e, s', rest)"
    by (auto split: option.splits)
  from process_mr_io_single_fault [OF Cons.prems(1) head] tail process_all_io_exhausted
  consider (rejected) "err \<noteq> None" "s' = s1" "db s1 = db s"
    | (further) "process_mr env projectId mr s = Some s1" "single_fault rest1"
        "process_all_io env projectId mergeRequests (s1, rest1) = Some (Some e, s', rest)"
    by blast
  then show ?case
  proof cases
    case rejected
    then have "mr # mergeRequests = [] @ mr # mergeRequests
        \<and> process_all env projectId [] s = Some s \<and> db s' = db s"
      by simp
    then show ?thesis by blast
  next
    case further
    from Cons.IH [OF further(2,3)] obtain processed mr' todo s2 where
      "mergeRequests = processed @ mr' # todo"
      and "process_all env projectId processed s1 = Some s2" and "db s' = db s2"
      by blast
    with further(1) have "mr # mergeRequests = (mr # processed) @ mr' # todo
        \<and> process_all env projectId (mr # processed) s = Some s2 \<and> db s' = db s2"
      by simp
    then show ?thesis by blast
  qed
qed

section \<open>The rows decide\<close>

lemma process_mr_db_cong:
  "db s = db t \<Longrightarrow>
   map_option db (process_mr env projectId mr s) = map_option db (process_mr env projectId mr t)"
  by (simp add: process_mr_def enrich_and_save_def skip_def option.map_comp comp_def
      split: option.splits)

lemma process_all_db_cong:
  "db s = db t \<Longrightarrow>
   map_option db (process_all env projectId mergeRequests s)
     = map_option db (process_all env projectId mergeRequests t)"
proof (induction mergeRequests arbitrary: s t)
  case Nil
  then show ?case by simp
next
  case (Cons mr mergeRequests)
  from process_mr_db_cong [OF Cons.prems, of env projectId mr] show ?case
    by (cases "process_mr env projectId mr s"; cases "process_mr env projectId mr t")
      (auto intro: Cons.IH)
qed

lemma process_all_append:
  "process_all env projectId (xs @ ys) s
     = Option.bind (process_all env projectId xs s) (process_all env projectId ys)"
proof (induction xs arbitrary: s)
  case Nil
  show ?case by simp
next
  case (Cons x xs)
  show ?case by (cases "process_mr env projectId x s") (simp_all add: Cons.IH)
qed

section \<open>Example data\<close>

lemma example_rejected_run:
  "process_all_io example_env 9 [example_remote_mr, second_remote_mr]
      (initial_state empty_database, [quiet, busy])
     = Some (Some (SqliteError ''SQLITE_BUSY''),
             (initial_state empty_database)\<lparr>newCount := 1, detail_calls := [(9, 12)]\<rparr>, [])"
  by (simp add: example_rejected)

lemma example_uninterrupted:
  "\<exists>uninterrupted. process_all example_env 9 [example_remote_mr, second_remote_mr]
      (initial_state empty_database) = Some uninterrupted"
  by (simp add: process_mr_def enrich_and_save_def example_details
      getMergeRequest_saveMergeRequest second_remote_mr_def example_remote_mr_def)

section \<open>Properties\<close>

text \<open>
  C14: a run that a failure of the store has ended can be repeated. On a connection on
  which one call fails, let the loop be rejected; if the records have different ids
  and the uninterrupted loop would have returned, then the loop run again from the
  rows that were left, without failure, returns and ends with exactly the rows of the
  uninterrupted loop.
\<close>
theorem rerun_after_rejection_converges:
  assumes "single_fault pending"
    and "process_all_io env projectId mergeRequests (s, pending) = Some (Some e, s', rest)"
    and "distinct (map r_id mergeRequests)"
    and "process_all env projectId mergeRequests s = Some uninterrupted"
  shows "\<exists>again. process_all env projectId mergeRequests (initial_state (db s')) = Some again
           \<and> db again = db uninterrupted"
proof -
  from rejected_single_fault_prefix [OF assms(1,2)] obtain processed mr todo s1 where
    split: "mergeRequests = processed @ mr # todo"
    and s1: "process_all env projectId processed s = Some s1" and rows: "db s' = db s1"
    by blast
  from s1 assms(3) have "all_settled projectId processed (db s1)"
    by (auto simp: split intro: sync_run_settles process_all_run)
  then have "process_all env projectId processed (initial_state (db s'))
      = Some ((initial_state (db s'))\<lparr>skippedCount := length processed\<rparr>)"
    by (simp add: process_all_settled rows)
  then have "map_option db (process_all env projectId mergeRequests (initial_state (db s')))
      = map_option db (process_all env projectId (mr # todo) s1)"
    unfolding split process_all_append
    by (simp add: rows del: process_all.simps) (rule process_all_db_cong, simp)
  also from s1 assms(4) have "process_all env projectId (mr # todo) s1 = Some uninterrupted"
    by (simp add: split process_all_append del: process_all.simps)
  finally show ?thesis by auto
qed

theorem rerun_after_rejection_converges_witness:
  "single_fault [quiet, busy]
   \<and> distinct (map r_id [example_remote_mr, second_remote_mr])
   \<and> (\<exists>uninterrupted again.
         process_all example_env 9 [example_remote_mr, second_remote_mr]
           (initial_state empty_database) = Some uninterrupted
         \<and> process_all example_env 9 [example_remote_mr, second_remote_mr]
             (initial_state empty_database) = Some again
         \<and> db again = db uninterrupted)"
proof -
  have d: "distinct (map r_id [example_remote_mr, second_remote_mr])"
    by (simp add: second_remote_mr_def example_remote_mr_def)
  from example_uninterrupted obtain uninterrupted where
    u: "process_all example_env 9 [example_remote_mr, second_remote_mr]
          (initial_state empty_database) = Some uninterrupted"
    by blast
  from rerun_after_rejection_converges [OF _ example_rejected_run d u] obtain again where
    "process_all example_env 9 [example_remote_mr, second_remote_mr]
       (initial_state empty_database) = Some again"
    and "db again = db uninterrupted"
    by (auto simp del: process_all.simps)
  with d u show ?thesis
    by (intro conjI exI [of _ uninterrupted] exI [of _ again]) (simp_all del: process_all.simps)
qed

end
