(* ===== verification/Integrity.thy ===== *)
theory Integrity
  imports Menu Squads Connection Session
begin

text \<open>
  The well-formedness of the stored data that the schema of \<open>initDatabase\<close> declares
  (\<open>src/src/index.ts\<close>, lines 526-549) and that every operation of the program keeps.

  \<^item> \<open>keys_unique\<close> is the two \<open>PRIMARY KEY\<close> constraints; \<open>foreign_keys_ok\<close> is
    \<open>FOREIGN KEY (project_id) REFERENCES projects(id)\<close>. SQLite does not enforce
    foreign keys unless asked to, so the constraint holds only because of the order
    in which the program writes.
  \<^item> The \<open>NOT NULL\<close> columns are the fields of \<open>MergeRequestData\<close> and \<open>project\<close> that
    are not optional.
  \<^item> \<open>well_formed\<close> is the conjunction; the lemmas show that each store operation,
    the synchronisation run, the squad script and \<open>main\<close> preserve it, also over a
    connection that fails (\<open>processAndStoreMergeRequests_io\<close>, \<open>main_io\<close>), and that the
    run breaks the foreign key when it is given a project other than the one it
    fetches.
\<close>

definition foreign_keys_ok :: "database \<Rightarrow> bool" where
  "foreign_keys_ok database \<longleftrightarrow>
     list_all (\<lambda>r. project_id r \<in> set (map proj_id (projects database)))
       (merge_requests database)"

definition well_formed :: "database \<Rightarrow> bool" where
  "well_formed database \<longleftrightarrow> keys_unique database \<and> foreign_keys_ok database"

subsection \<open>Store operations\<close>

lemma project_ids_saveProject:
  "set (map proj_id (projects (saveProject p database)))
     = insert (proj_id p) (set (map proj_id (projects database)))"
  by (auto simp: saveProject_def set_insert_or_replace)

lemma foreign_keys_ok_empty [simp]: "foreign_keys_ok empty_database"
  by (simp add: foreign_keys_ok_def empty_database_def)

lemma foreign_keys_ok_saveProject:
  "foreign_keys_ok database \<Longrightarrow> foreign_keys_ok (saveProject p database)"
  unfolding foreign_keys_ok_def project_ids_saveProject by (simp add: list_all_iff)

lemma foreign_keys_ok_saveMergeRequest:
  assumes "foreign_keys_ok database"
    and "project_id mr \<in> set (map proj_id (projects database))"
  shows "foreign_keys_ok (saveMergeRequest mr database)"
  using assms by (auto simp: foreign_keys_ok_def list_all_iff set_merge_requests_save)

lemma foreign_keys_ok_update_squads [simp]:
  "foreign_keys_ok (update_squads database) \<longleftrightarrow> foreign_keys_ok database"
  by (simp add: foreign_keys_ok_def merge_requests_update_squads list_all_iff)

lemma well_formed_empty [simp]: "well_formed empty_database"
  by (simp add: well_formed_def keys_unique_empty)

lemma well_formed_saveProject: "well_formed database \<Longrightarrow> well_formed (saveProject p database)"
  by (simp add: well_formed_def foreign_keys_ok_saveProject)

lemma well_formed_saveMergeRequest:
  "well_formed database \<Longrightarrow> project_id mr \<in> set (map proj_id (projects database)) \<Longrightarrow>
   well_formed (saveMergeRequest mr database)"
  by (simp add: well_formed_def foreign_keys_ok_saveMergeRequest)

lemma well_formed_update_squads [simp]:
  "well_formed (update_squads database) \<longleftrightarrow> well_formed database"
  by (simp add: well_formed_def)

subsection \<open>The synchronisation run\<close>

lemma sync_step_well_formed:
  assumes "sync_step env projectId mr s s'"
    and "well_formed (db s) \<and> projectId \<in> set (map proj_id (projects (db s)))"
  shows "well_formed (db s') \<and> projectId \<in> set (map proj_id (projects (db s')))"
  using assms by (auto elim!: sync_stepE intro!: well_formed_saveMergeRequest)

lemma processAndStore_well_formed:
  assumes "processAndStoreMergeRequests env projectId proj database = Some s'"
    and "well_formed database" and "proj_id proj = projectId"
  shows "well_formed (db s')"
  using assms(1)
proof (cases rule: processAndStore_cases)
  case nothing
  with assms(2) show ?thesis by simp
next
  case (run mergeRequests)
  let ?P = "\<lambda>s. well_formed (db s) \<and> projectId \<in> set (map proj_id (projects (db s)))"
  from assms(2,3) have "?P (initial_state (saveProject proj database))"
    by (simp add: well_formed_saveProject project_ids_saveProject del: set_map)
  with run(3) have "?P s'"
    by (rule sync_run_invariant) (rule sync_step_well_formed)
  then show ?thesis ..
qed

lemma processAndStore_io_well_formed:
  assumes "processAndStoreMergeRequests_io env projectId proj (database, pending)
      = Some (err, s', rest)"
    and "well_formed database" and "proj_id proj = projectId"
  shows "well_formed (db s')"
  using processAndStore_io_SomeD [OF assms(1)]
proof (elim disjE exE)
  assume "db s' = database"
  with assms(2) show ?thesis by simp
next
  fix mergeRequests pending'
  assume "process_all_io env projectId mergeRequests
      (initial_state (saveProject proj database), pending') = Some (err, s', rest)"
  then have "well_formed (db s') \<and> projectId \<in> set (map proj_id (projects (db s')))"
    by (rule process_all_io_invariant)
      (simp_all add: initial_state_def assms well_formed_saveProject
        well_formed_saveMergeRequest project_ids_saveProject del: set_map)
  then show ?thesis ..
qed

lemma mismatched_project_breaks_foreign_key:
  "\<exists>s' :: sync_state.
     processAndStoreMergeRequests example_env 9 (example_project\<lparr>proj_id := 8\<rparr>)
            empty_database = Some s'
     \<and> \<not> foreign_keys_ok (db s')"
proof -
  have "\<exists>s'. processAndStoreMergeRequests example_env 9 (example_project\<lparr>proj_id := 8\<rparr>)
      empty_database = Some s'
    \<and> merge_requests (db s') = [mrData 9 example_remote_mr
          \<lparr>mr_notes = example_notes, approvalEvents = example_events\<rparr>]
    \<and> map proj_id (projects (db s')) = [8]"
    by (simp add: processAndStoreMergeRequests_def example_fetch process_mr_new
        enrich_and_save_def example_details saveProject_def saveMergeRequest_def
        insert_or_replace_def empty_database_def getMergeRequest_def)
  then show ?thesis by (auto simp: foreign_keys_ok_def)
qed

subsection \<open>The whole program\<close>

lemma main_io_well_formed:
  assumes "main_io w a (sch, database, pending) = Some (result, sch', database', rest)"
    and "well_formed database"
  shows "well_formed database'"
  using main_io_SomeD [OF assms(1)] assms(2)
  by (auto dest: processAndStore_io_well_formed)

text \<open>
  C13: the program keeps the stored data well formed. If the primary keys are unique
  and every merge request belongs to a stored project, the same holds after \<open>main\<close>
  returns, whatever the remote API answered and whichever action was chosen, and it
  still holds after the squad script has run.
\<close>
theorem main_keeps_store_well_formed:
  assumes "well_formed database"
    and "main w a (sch, database) = Some (out, sch', database')"
  shows "well_formed database' \<and> well_formed (update_squads database')"
proof (cases "out = Fetched")
  case True
  with assms(2) have "main w a (sch, database) = Some (Fetched, sch', database')" by simp
  then obtain c :: repository and s :: sync_state
    where "proj_id (repo_project c) = ans_selectedRepo a"
    and "processAndStoreMergeRequests (w_remote w) (ans_selectedRepo a) (repo_project c) database
           = Some s"
    and "database' = db s"
    by (rule main_Fetched) blast
  with assms(1) show ?thesis by (simp add: processAndStore_well_formed)
next
  case False
  with assms(2) have "database' = database" by (rule main_database)
  with assms(1) show ?thesis by simp
qed

theorem main_keeps_store_well_formed_witness:
  "well_formed empty_database
   \<and> (\<exists>s :: sync_state. main example_world (stats_answers\<lparr>ans_actionType := ''fetch''\<rparr>)
              (first_version_schema, empty_database)
            = Some (Fetched, initDatabase False first_version_schema, db s)
          \<and> well_formed (db s) \<and> well_formed (update_squads (db s)))"
proof -
  let ?a = "stats_answers\<lparr>ans_actionType := ''fetch''\<rparr>"
  from example_run_returns obtain s where
    s: "processAndStoreMergeRequests example_env 9 example_project_row empty_database = Some s"
    by (auto simp: example_project_def)
  have "find (\<lambda>c. proj_id (repo_project c) = ans_selectedRepo ?a)
      (listRepositories (w_projects example_world 3))
    = Some \<lparr>repo_project = example_project_row, name_with_namespace = ''murid / web''\<rparr>"
    using example_world_choice by (simp add: stats_answers_def)
  from main_selected [OF example_world_group _ this, of first_version_schema empty_database] s
  have m: "main example_world ?a (first_version_schema, empty_database)
      = Some (Fetched, initDatabase False first_version_schema, db s)"
    by (simp add: stats_answers_def example_world_def)
  from main_keeps_store_well_formed [OF well_formed_empty m] have "well_formed (db s)" by simp
  with m show ?thesis by (auto simp: well_formed_empty intro!: exI [of _ s])
qed

end
