(* ===== verification/Client.thy ===== *)
theory Client
  imports Menu
begin

text \<open>
  The remote resource client of \<open>src/src/index.ts\<close>: the \<open>ky\<close> instance \<open>api\<close> (lines
  25-32) and the five requests that the program sends with it (lines 36-38, 50, 71-79,
  123-128 and 145-147).

  \<^item> \<open>options\<close> are the options of the instance and of a request: the headers, the
    timeout in milliseconds (\<open>None\<close> for \<open>timeout: false\<close>) and the number of retries.
    \<open>api\<close> is \<open>ky.extend\<close> applied to the token; \<open>api_get\<close> is \<open>api.get\<close>, where the options
    given with a request replace those of the instance.
  \<^item> \<open>call\<close> names the five call sites with their arguments, \<open>request_of\<close> builds the
    request of a call: the URL as the template literal gives it, the search parameters
    in the order of the object literal.
  \<^item> The HTTP client itself is a library. Of its behaviour the model has what the
    specification (sections 5 and 6) states: a request is tried again after a failure,
    up to the fixed number of retries, and a request whose attempts all fail throws.
    A \<open>service\<close> answers each attempt of a request, \<open>None\<close> for a failed attempt; \<open>send\<close>
    is the answer the program sees.
  \<^item> \<open>client_env\<close> and \<open>client_world\<close> are the remote API and the world of the theories
    \<open>Reconciler\<close> and \<open>Menu\<close> as this client presents a server to the program; \<open>start\<close>
    is the module (lines 14-32 and 426): the token check, the instance and \<open>main\<close>.

  The lemmas show that the options of every request are those of the instance, except
  that the listing of merge requests switches the timeout off, that different calls give
  different requests, and that the walks succeed against a server whose failures are
  transient and return nothing when the attempts of a page are used up.
\<close>

section \<open>Requests\<close>

definition GITLAB_API_URL :: string where
  "GITLAB_API_URL = ''https://gitlab.com/api/v4''"

record options =
  opt_headers :: "(string \<times> string) list"
  opt_timeout :: "nat option"
  opt_retry :: nat

record request =
  req_url :: string
  req_searchParams :: "(string \<times> string) list"
  req_options :: options

definition api :: "string \<Rightarrow> options" where
  "api GITLAB_TOKEN =
     \<lparr>opt_headers = [(''PRIVATE-TOKEN'', GITLAB_TOKEN)], opt_timeout = Some 30000, opt_retry = 2\<rparr>"

definition api_get ::
  "options \<Rightarrow> string \<Rightarrow> (string \<times> string) list \<Rightarrow> nat option option \<Rightarrow> request" where
  "api_get instance address searchParams timeout =
     \<lparr>req_url = address, req_searchParams = searchParams,
      req_options = (case timeout of None \<Rightarrow> instance | Some t \<Rightarrow> instance\<lparr>opt_timeout := t\<rparr>)\<rparr>"

datatype call =
    Groups string
  | Projects ident
  | MergeRequests ident nat
  | Notes ident ident nat
  | ApprovalEvents ident ident

definition groups_request :: "string \<Rightarrow> string \<Rightarrow> request" where
  "groups_request token groupName =
     api_get (api token) (GITLAB_API_URL @ ''/groups'') [(''search'', groupName)] None"

definition projects_request :: "string \<Rightarrow> ident \<Rightarrow> request" where
  "projects_request token groupId =
     api_get (api token) (GITLAB_API_URL @ ''/groups/'' @ show_int groupId @ ''/projects'') [] None"

definition merge_requests_request :: "string \<Rightarrow> ident \<Rightarrow> nat \<Rightarrow> request" where
  "merge_requests_request token projectId page =
     api_get (api token) (GITLAB_API_URL @ ''/projects/'' @ show_int projectId @ ''/merge_requests'')
       [(''state'', ''all''), (''per_page'', ''100''), (''page'', show_nat page)] (Some None)"

definition notes_request :: "string \<Rightarrow> ident \<Rightarrow> ident \<Rightarrow> nat \<Rightarrow> request" where
  "notes_request token projectId mrIid page =
     api_get (api token)
       (GITLAB_API_URL @ ''/projects/'' @ show_int projectId @ ''/merge_requests/''
          @ show_int mrIid @ ''/notes'')
       [(''per_page'', show_nat 100), (''page'', show_nat page)] None"

definition approval_events_request :: "string \<Rightarrow> ident \<Rightarrow> ident \<Rightarrow> request" where
  "approval_events_request token projectId mrIid =
     api_get (api token)
       (GITLAB_API_URL @ ''/projects/'' @ show_int projectId @ ''/merge_requests/''
          @ show_int mrIid @ ''/resource_approval_events'')
       [] None"

fun request_of :: "string \<Rightarrow> call \<Rightarrow> request" where
  "request_of token (Groups groupName) = groups_request token groupName"
| "request_of token (Projects groupId) = projects_request token groupId"
| "request_of token (MergeRequests projectId page) = merge_requests_request token projectId page"
| "request_of token (Notes projectId mrIid page) = notes_request token projectId mrIid page"
| "request_of token (ApprovalEvents projectId mrIid) = approval_events_request token projectId mrIid"

section \<open>Sending\<close>

type_synonym 'a service = "request \<Rightarrow> nat \<Rightarrow> 'a option"

fun first_answer :: "'a option list \<Rightarrow> 'a option" where
  "first_answer [] = None"
| "first_answer (None # attempts) = first_answer attempts"
| "first_answer (Some x # attempts) = Some x"

definition send :: "'a service \<Rightarrow> request \<Rightarrow> 'a option" where
  "send service r = first_answer (map (service r) [0..<Suc (opt_retry (req_options r))])"

record server =
  srv_groups :: "gitlab_group list service"
  srv_projects :: "repository list service"
  srv_merge_requests :: "remote_mr page_response service"
  srv_notes :: "gitlab_note page_response service"
  srv_approval_events :: "approval_event list service"

definition client_env :: "server \<Rightarrow> string \<Rightarrow> remote_env" where
  "client_env srv token =
     \<lparr>merge_requests_endpoint =
        (\<lambda>projectId page. send (srv_merge_requests srv) (request_of token (MergeRequests projectId page))),
      notes_endpoint =
        (\<lambda>projectId mrIid page. send (srv_notes srv) (request_of token (Notes projectId mrIid page))),
      approval_events_endpoint =
        (\<lambda>projectId mrIid.
           send (srv_approval_events srv) (request_of token (ApprovalEvents projectId mrIid)))\<rparr>"

definition client_world ::
  "server \<Rightarrow> string \<Rightarrow> (string \<Rightarrow> rat option) \<Rightarrow> (string \<Rightarrow> int option) \<Rightarrow> world" where
  "client_world srv token number date =
     \<lparr>w_groups = send (srv_groups srv) (request_of token (Groups GROUP_NAME)),
      w_projects = (\<lambda>groupId. send (srv_projects srv) (request_of token (Projects groupId))),
      w_remote = client_env srv token, w_number = number, w_date = date\<rparr>"

definition start ::
  "string option \<Rightarrow> server \<Rightarrow> (string \<Rightarrow> rat option) \<Rightarrow> (string \<Rightarrow> int option) \<Rightarrow> answers
     \<Rightarrow> schema \<times> database \<Rightarrow> (outcome \<times> schema \<times> database) option" where
  "start GITLAB_TOKEN srv number date a file =
     (case GITLAB_TOKEN of
        None \<Rightarrow> Some (Exited 1, file)
      | Some token \<Rightarrow>
          if token = [] then Some (Exited 1, file)
          else main (client_world srv token number date) a file)"

section \<open>The text of a request\<close>

lemma slash_notin_show_int [simp]: "CHR ''/'' \<notin> set (show_int i)"
  by (auto dest!: show_int_chars simp: is_digit_iff)

lemma show_int_slash_inject [simp]:
  "show_int i @ CHR ''/'' # ys = show_int j @ CHR ''/'' # zs \<longleftrightarrow> i = j \<and> ys = zs"
  by (simp add: append_sep_inject)

lemmas request_defs =
  request_of.simps groups_request_def projects_request_def merge_requests_request_def
  notes_request_def approval_events_request_def api_get_def

lemma request_of_simps [simp]:
  "req_options (request_of token c)
     = (case c of MergeRequests projectId page \<Rightarrow> (api token)\<lparr>opt_timeout := None\<rparr> | _ \<Rightarrow> api token)"
  "length (req_searchParams (request_of token c))
     = (case c of Groups n \<Rightarrow> 1 | MergeRequests p page \<Rightarrow> 3 | Notes p i page \<Rightarrow> 2 | _ \<Rightarrow> 0)"
  by (cases c; simp add: request_defs)+

lemma api_simps [simp]:
  "opt_headers (api token) = [(''PRIVATE-TOKEN'', token)]"
  "opt_timeout (api token) = Some 30000" "opt_retry (api token) = 2"
  by (simp_all add: api_def)

lemma api_inject [simp]: "api token = api token' \<longleftrightarrow> token = token'"
  by (auto simp: api_def)

declare request_of.simps [simp del]

section \<open>Attempts\<close>

lemma first_in_range_skip:
  assumes "f i = None"
  shows "(\<exists>k. Suc i \<le> k \<and> k < n \<and> f k = Some x \<and> (\<forall>j. Suc i \<le> j \<and> j < k \<longrightarrow> f j = None))
    \<longleftrightarrow> (\<exists>k. i \<le> k \<and> k < n \<and> f k = Some x \<and> (\<forall>j. i \<le> j \<and> j < k \<longrightarrow> f j = None))"
    (is "?l \<longleftrightarrow> ?r")
proof
  assume ?l
  then obtain k where k: "Suc i \<le> k" "k < n" "f k = Some x"
    and before: "\<forall>j. Suc i \<le> j \<and> j < k \<longrightarrow> f j = None"
    by blast
  have "f j = None" if "i \<le> j" "j < k" for j
    using that before assms by (cases "j = i") auto
  with k show ?r by (intro exI [of _ k]) auto
next
  assume ?r
  then obtain k where k: "i \<le> k" "k < n" "f k = Some x"
    and before: "\<forall>j. i \<le> j \<and> j < k \<longrightarrow> f j = None"
    by blast
  from k(3) assms have "k \<noteq> i" by auto
  with k before show ?l by (intro exI [of _ k]) auto
qed

lemma first_in_range_here:
  assumes "f i = Some y" and "i < (n :: nat)"
  shows "y = x
    \<longleftrightarrow> (\<exists>k. i \<le> k \<and> k < n \<and> f k = Some x \<and> (\<forall>j. i \<le> j \<and> j < k \<longrightarrow> f j = None))"
    (is "_ \<longleftrightarrow> ?r")
proof
  assume "y = x"
  with assms have "i \<le> i \<and> i < n \<and> f i = Some x \<and> (\<forall>j. i \<le> j \<and> j < i \<longrightarrow> f j = None)"
    by auto
  then show ?r ..
next
  assume ?r
  then obtain k where k: "i \<le> k" "f k = Some x"
    and before: "\<forall>j. i \<le> j \<and> j < k \<longrightarrow> f j = None"
    by blast
  have "k = i"
  proof (rule ccontr)
    assume "k \<noteq> i"
    with k(1) before have "f i = None" by simp
    with assms(1) show False by simp
  qed
  with k(2) assms(1) show "y = x" by simp
qed

lemma first_answer_upt:
  "first_answer (map f [i..<n]) = Some x
     \<longleftrightarrow> (\<exists>k. i \<le> k \<and> k < n \<and> f k = Some x \<and> (\<forall>j. i \<le> j \<and> j < k \<longrightarrow> f j = None))"
proof (induction "n - i" arbitrary: i)
  case 0
  then show ?case by simp
next
  case (Suc d)
  then have lt: "i < n" and d: "d = n - Suc i" by simp_all
  show ?case
  proof (cases "f i")
    case None
    with Suc.hyps(1) [OF d] first_in_range_skip [of f i n x] lt show ?thesis
      by (simp add: upt_conv_Cons)
  next
    case (Some y)
    with first_in_range_here [of f i y n x] lt show ?thesis by (simp add: upt_conv_Cons)
  qed
qed

lemma first_answer_None_iff: "first_answer attempts = None \<longleftrightarrow> list_all (\<lambda>a. a = None) attempts"
  by (induction attempts rule: first_answer.induct) simp_all

lemma send_None_iff:
  "send service r = None \<longleftrightarrow> (\<forall>k\<le>opt_retry (req_options r). service r k = None)"
  by (auto simp: send_def first_answer_None_iff list_all_iff less_Suc_eq_le simp del: upt_Suc)

lemma send_Some_iff:
  "send service r = Some x
     \<longleftrightarrow> (\<exists>k\<le>opt_retry (req_options r). service r k = Some x \<and> (\<forall>j<k. service r j = None))"
  unfolding send_def first_answer_upt by (simp add: less_Suc_eq_le)

section \<open>A server with transient failures\<close>

definition answers_page :: "'a page_response service \<Rightarrow> (nat \<Rightarrow> request) \<Rightarrow> 'a list \<Rightarrow> nat \<Rightarrow> bool"
  where
  "answers_page service page_request xs page \<longleftrightarrow>
     (\<exists>k\<le>2. service (page_request page) k \<noteq> None)
     \<and> (\<forall>k response. service (page_request page) k = Some response
           \<longrightarrow> items response = page_slice page xs)"

definition exhausted :: "'a service \<Rightarrow> request \<Rightarrow> bool" where
  "exhausted service r \<longleftrightarrow> list_all (\<lambda>k. service r k = None) [0..<Suc (opt_retry (req_options r))]"

definition transient :: "'a page_response service \<Rightarrow> (nat \<Rightarrow> request) \<Rightarrow> 'a list \<Rightarrow> bool" where
  "transient service page_request xs \<longleftrightarrow>
     (\<forall>page\<ge>1. answers_page service page_request xs page)"

lemma send_exhausted: "send service r = None \<longleftrightarrow> exhausted service r"
  by (simp add: send_def exhausted_def first_answer_None_iff list_all_iff del: upt_Suc)

lemma send_answers_page:
  assumes "answers_page service page_request xs page"
    and "\<And>page. opt_retry (req_options (page_request page)) = 2"
  obtains response where "send service (page_request page) = Some response"
    and "items response = page_slice page xs"
proof -
  from assms have "send service (page_request page) \<noteq> None"
    by (auto simp: answers_page_def send_None_iff)
  then obtain response where r: "send service (page_request page) = Some response" by auto
  then obtain k where "service (page_request page) k = Some response"
    by (auto simp: send_Some_iff)
  with assms(1) have "items response = page_slice page xs" by (simp add: answers_page_def)
  with r show ?thesis by (rule that)
qed

lemma merge_requests_endpoint_client [simp]:
  "merge_requests_endpoint (client_env srv token) projectId page
     = send (srv_merge_requests srv) (request_of token (MergeRequests projectId page))"
  by (simp add: client_env_def)

lemma start_program:
  "start GITLAB_TOKEN srv number date a file
     = program GITLAB_TOKEN (client_world srv (case GITLAB_TOKEN of None \<Rightarrow> [] | Some t \<Rightarrow> t) number date)
         a file"
  by (simp add: start_def program_def truthy_def split: option.splits)

lemma transient_serves:
  assumes "\<forall>page\<ge>1. page \<noteq> failing \<longrightarrow>
      answers_page (srv_merge_requests srv) (\<lambda>page. request_of token (MergeRequests projectId page))
        xs page"
  shows "serves
     (\<lambda>page. if page = failing then Some \<lparr>items = page_slice page xs, x_total_pages = None\<rparr>
             else merge_requests_endpoint (client_env srv token) projectId page) xs"
  unfolding serves_def
proof (intro allI impI)
  fix page :: nat
  assume page: "1 \<le> page"
  show "\<exists>response.
      (if page = failing then Some \<lparr>items = page_slice page xs, x_total_pages = None\<rparr>
       else merge_requests_endpoint (client_env srv token) projectId page) = Some response
      \<and> items response = page_slice page xs"
  proof (cases "page = failing")
    case True
    then show ?thesis by simp
  next
    case False
    with assms page
    have "answers_page (srv_merge_requests srv)
        (\<lambda>page. request_of token (MergeRequests projectId page)) xs page"
      by simp
    then have "\<exists>response.
        send (srv_merge_requests srv) (request_of token (MergeRequests projectId page)) = Some response
        \<and> items response = page_slice page xs"
      by (rule send_answers_page) (simp, blast)
    with False show ?thesis by simp
  qed
qed

section \<open>Example data\<close>

definition slow_server :: server where
  "slow_server =
     \<lparr>srv_groups = (\<lambda>r k. None), srv_projects = (\<lambda>r k. None),
      srv_merge_requests =
        (\<lambda>r k. if k < 2 then None
               else Some \<lparr>items = (if map_of (req_searchParams r) ''page'' = Some ''1''
                                    then [example_remote_mr] else []),
                           x_total_pages = None\<rparr>),
      srv_notes = (\<lambda>r k. None), srv_approval_events = (\<lambda>r k. None)\<rparr>"

lemma show_nat_one_iff [simp]: "show_nat page = ''1'' \<longleftrightarrow> page = 1"
  using show_nat_inject [of page 1] by (simp add: show_nat_small)

lemma slow_server_transient:
  "transient (srv_merge_requests slow_server)
     (\<lambda>page. request_of token (MergeRequests projectId page)) [example_remote_mr]"
  by (auto simp: transient_def answers_page_def slow_server_def request_defs
      page_slice_def chunk_def per_page_def intro: exI [of _ 2])

definition down_server :: server where
  "down_server =
     \<lparr>srv_groups = (\<lambda>r k. None), srv_projects = (\<lambda>r k. None),
      srv_merge_requests =
        (\<lambda>r k. if map_of (req_searchParams r) ''page'' = Some ''1'' then None
               else Some \<lparr>items = [], x_total_pages = None\<rparr>),
      srv_notes = (\<lambda>r k. None), srv_approval_events = (\<lambda>r k. None)\<rparr>"

definition half_server :: server where
  "half_server =
     \<lparr>srv_groups = (\<lambda>r k. None), srv_projects = (\<lambda>r k. None),
      srv_merge_requests =
        (\<lambda>r k. if map_of (req_searchParams r) ''page'' = Some ''2'' then None
               else Some \<lparr>items = (if map_of (req_searchParams r) ''page'' = Some ''1''
                                    then replicate 100 example_remote_mr else []),
                           x_total_pages = None\<rparr>),
      srv_notes = (\<lambda>r k. None), srv_approval_events = (\<lambda>r k. None)\<rparr>"

lemma show_nat_two_iff [simp]: "show_nat page = ''2'' \<longleftrightarrow> page = 2"
  using show_nat_inject [of page 2] by (simp add: show_nat_small)

lemma half_server_answers:
  "\<forall>page\<ge>1. page \<noteq> Suc 1 \<longrightarrow>
     answers_page (srv_merge_requests half_server)
       (\<lambda>page. request_of token (MergeRequests projectId page))
       (replicate 100 example_remote_mr) page"
  by (auto simp: answers_page_def half_server_def request_defs page_slice_def chunk_def
      per_page_def)

lemma half_server_exhausted:
  "exhausted (srv_merge_requests half_server)
     (request_of token (MergeRequests projectId (Suc 1)))"
  by (simp add: exhausted_def half_server_def request_defs list_all_iff)

lemma half_server_first:
  "send (srv_merge_requests half_server) (request_of token (MergeRequests projectId 1))
     = Some \<lparr>items = replicate 100 example_remote_mr, x_total_pages = None\<rparr>"
  by (simp add: send_Some_iff half_server_def request_defs) (rule exI [of _ 0], simp)

section \<open>Properties\<close>

text \<open>
  C35: a request determines its call. Two calls of the program give the same request
  only if they are the same call with the same token: the group, project, merge
  request and page can be read off the request.
\<close>
theorem request_of_inject:
  "request_of token c = request_of token' c' \<longleftrightarrow> token = token' \<and> c = c'"
  by (cases c; cases c'; simp add: request_defs api_def; blast)

text \<open>
  C29: retries mask transient failures. If the server answers every page of a project's
  merge requests at the third attempt at the latest, and every answer holds the items
  of that page of the collection, then the walk returns the whole collection.
\<close>
theorem walk_masks_transient_failures:
  assumes "transient (srv_merge_requests srv)
     (\<lambda>page. request_of token (MergeRequests projectId page)) xs"
  shows "fetchMergeRequests (merge_requests_endpoint (client_env srv token) projectId) = Some xs"
proof -
  from assms have "serves
     (\<lambda>page. if page = 0 then Some \<lparr>items = page_slice page xs, x_total_pages = None\<rparr>
             else merge_requests_endpoint (client_env srv token) projectId page) xs"
    by (intro transient_serves) (simp add: transient_def)
  then have "serves (merge_requests_endpoint (client_env srv token) projectId) xs"
    by (auto simp: serves_def)
  then show ?thesis by (simp add: fetchMergeRequests_def loop_serves_from_first)
qed

theorem walk_masks_transient_failures_witness:
  "srv_merge_requests slow_server (request_of ''t'' (MergeRequests 9 1)) 0 = None
   \<and> srv_merge_requests slow_server (request_of ''t'' (MergeRequests 9 1)) 1 = None
   \<and> fetchMergeRequests (merge_requests_endpoint (client_env slow_server ''t'') 9)
     = Some [example_remote_mr]"
  using walk_masks_transient_failures [OF slow_server_transient, of "''t''" 9]
  by (simp add: slow_server_def request_defs)

text \<open>
  C34: used-up retries lose the pages already fetched. If the three attempts of the
  request for page \<open>k + 1\<close> fail after \<open>k\<close> full pages, the walk through the client
  returns the empty list, however the server answers the other pages: the items of the
  first \<open>k\<close> pages, which were received, are not returned.
\<close>
theorem exhausted_retries_discard_all:
  assumes "\<forall>page\<ge>1. page \<noteq> Suc k \<longrightarrow>
      answers_page (srv_merge_requests srv) (\<lambda>page. request_of token (MergeRequests projectId page))
        xs page"
    and "exhausted (srv_merge_requests srv) (request_of token (MergeRequests projectId (Suc k)))"
    and "per_page * k \<le> length xs"
  shows "fetchMergeRequests (merge_requests_endpoint (client_env srv token) projectId) = Some []"
proof -
  let ?remote = "\<lambda>page. if page = Suc k then Some \<lparr>items = page_slice page xs, x_total_pages = None\<rparr>
      else merge_requests_endpoint (client_env srv token) projectId page"
  from assms(1) have "serves ?remote xs" by (rule transient_serves)
  from loop_failing_at [OF this assms(3), of 0 "[]"]
  have "fetchMergeRequests (failing_at (Suc k) ?remote) = Some []"
    by (simp add: fetchMergeRequests_def)
  moreover from assms(2)
  have "failing_at (Suc k) ?remote = merge_requests_endpoint (client_env srv token) projectId"
    by (auto simp: failing_at_def fun_eq_iff send_exhausted [symmetric])
  ultimately show ?thesis by simp
qed

theorem exhausted_retries_discard_all_witness:
  "send (srv_merge_requests half_server) (request_of ''t'' (MergeRequests 9 1))
     = Some \<lparr>items = replicate 100 example_remote_mr, x_total_pages = None\<rparr>
   \<and> exhausted (srv_merge_requests half_server) (request_of ''t'' (MergeRequests 9 2))
   \<and> fetchMergeRequests (merge_requests_endpoint (client_env half_server ''t'') 9) = Some []"
proof -
  have "fetchMergeRequests (merge_requests_endpoint (client_env half_server ''t'') 9) = Some []"
    by (rule exhausted_retries_discard_all [OF half_server_answers half_server_exhausted])
      (simp add: per_page_def)
  moreover from half_server_exhausted [of "''t''" 9]
  have "exhausted (srv_merge_requests half_server) (request_of ''t'' (MergeRequests 9 2))"
    by (simp add: numeral_2_eq_2)
  ultimately show ?thesis using half_server_first [of "''t''" 9] by (intro conjI)
qed

text \<open>
  An unreachable API ends the program. With a token, when the three attempts of the
  request for the group fail, \<open>start\<close> initialises the schema and exits with code 1: no
  other request is sent and no row is written.
\<close>
theorem start_unreachable:
  assumes "token \<noteq> []"
    and "exhausted (srv_groups srv) (request_of token (Groups GROUP_NAME))"
  shows "start (Some token) srv number date a file
     = Some (Exited 1, initDatabase False (fst file), snd file)"
  using assms by (simp add: start_def main_def client_world_def send_exhausted [symmetric])

theorem start_unreachable_witness:
  "start (Some ''t'') down_server (\<lambda>_. None) (\<lambda>_. None)
     \<lparr>ans_actionType = ''fetch'', ans_selectedRepo = 9, ans_useDateFilter = False,
      ans_startDate = [], ans_endDate = [], ans_commentThreshold = []\<rparr>
     (Map.empty, empty_database)
     = Some (Exited 1, initDatabase False Map.empty, empty_database)"
  using start_unreachable [of "''t''" down_server "\<lambda>_. None" "\<lambda>_. None" _
      "(Map.empty, empty_database)"]
  by (simp add: exhausted_def down_server_def list_all_iff)

end
