(* ===== verification/Row_Order.thy ===== *)
theory Row_Order
  imports Recovery Analytics Squads "HOL-Library.Multiset"
begin

text \<open>
  The order of rows and the order of records. A table of the store is modelled as the
  list of its rows, and \<open>INSERT OR REPLACE\<close> puts the written row at the end of that
  list (theory \<open>Store\<close>); the loop of \<open>processAndStoreMergeRequests\<close> (\<open>src/src/index.ts\<close>,
  lines 176-254) takes the records in the order in which the remote lists them. SQL
  gives no order to the rows of a table, and the remote gives none to its records, so
  nothing that the program computes may depend on either.

  \<^item> \<open>same_rows\<close> relates two databases that hold the same rows, as multisets;
    \<open>same_state\<close> relates two states of the loop with the same rows, the same counters
    and the same calls of the enricher; \<open>agree\<close> adds that the primary keys are unique.
  \<^item> The lemmas show that one iteration of the loop maps agreeing states to agreeing
    states, that two iterations for records with different ids commute up to the
    order of rows, and that therefore the loop over a rearranged list of records ends
    in an agreeing state.
  \<^item> The aggregates of the statistics queries (\<open>COUNT\<close>, \<open>SUM\<close>, \<open>AVG\<close>, \<open>GROUP BY\<close>)
    and the statements of the squad script are functions of the multiset of rows.
\<close>

definition same_rows :: "database \<Rightarrow> database \<Rightarrow> bool" where
  "same_rows d d' \<longleftrightarrow>
     mset (projects d) = mset (projects d') \<and> mset (merge_requests d) = mset (merge_requests d')"

definition same_state :: "sync_state \<Rightarrow> sync_state \<Rightarrow> bool" where
  "same_state s t \<longleftrightarrow>
     same_rows (db s) (db t) \<and> skippedCount s = skippedCount t
     \<and> updatedCount s = updatedCount t \<and> newCount s = newCount t
     \<and> mset (detail_calls s) = mset (detail_calls t)"

definition agree :: "sync_state \<Rightarrow> sync_state \<Rightarrow> bool" where
  "agree s t \<longleftrightarrow> same_state s t \<and> keys_unique (db s)"

definition reversed_db :: database where
  "reversed_db = sample_db\<lparr>merge_requests := rev (merge_requests sample_db)\<rparr>"

section \<open>Relations on optional results\<close>

lemma rel_option_bind:
  "rel_option R m m' \<Longrightarrow> (\<And>x y. R x y \<Longrightarrow> rel_option S (f x) (g y)) \<Longrightarrow>
   rel_option S (Option.bind m f) (Option.bind m' g)"
  by (cases m; cases m') auto

lemma rel_option_trans:
  "rel_option R x y \<Longrightarrow> rel_option R y z \<Longrightarrow> (\<And>a b c. R a b \<Longrightarrow> R b c \<Longrightarrow> R a c) \<Longrightarrow>
   rel_option R x z"
  by (cases x; cases y; cases z) auto

lemma rel_option_sym:
  "rel_option R x y \<Longrightarrow> (\<And>a b. R a b \<Longrightarrow> R b a) \<Longrightarrow> rel_option R y x"
  by (cases x; cases y) auto

section \<open>Rows as a multiset\<close>

lemma mset_insert_or_replace:
  "mset (insert_or_replace key x rows) = add_mset x (filter_mset (\<lambda>r. key r \<noteq> key x) (mset rows))"
  by (simp add: insert_or_replace_def)

lemma same_rows_refl [simp]: "same_rows d d"
  by (simp add: same_rows_def)

lemma same_rows_sym: "same_rows d d' \<Longrightarrow> same_rows d' d"
  by (simp add: same_rows_def)

lemma same_rows_trans: "same_rows d d' \<Longrightarrow> same_rows d' d'' \<Longrightarrow> same_rows d d''"
  by (simp add: same_rows_def)

lemma same_rows_keys_unique: "same_rows d d' \<Longrightarrow> keys_unique d \<longleftrightarrow> keys_unique d'"
  unfolding same_rows_def keys_unique_def
  by (metis mset_eq_imp_distinct_iff mset_map)

lemma same_rows_getMergeRequest:
  assumes "same_rows d d'" and "keys_unique d"
  shows "getMergeRequest projectId mrId d = getMergeRequest projectId mrId d'"
proof -
  from assms have "keys_unique d'" by (simp add: same_rows_keys_unique)
  moreover from assms(1) have "set (merge_requests d) = set (merge_requests d')"
    by (auto simp: same_rows_def dest: mset_eq_setD)
  ultimately have "mr_table d = mr_table d'"
    using assms(2) unfolding mr_table_def keys_unique_def
    by (intro map_of_inject_set [THEN iffD2]) (simp_all add: comp_def)
  then show ?thesis by (simp add: getMergeRequest_mr_table)
qed

lemma same_rows_saveMergeRequest:
  "same_rows d d' \<Longrightarrow> same_rows (saveMergeRequest x d) (saveMergeRequest x d')"
  by (simp add: same_rows_def saveMergeRequest_def mset_insert_or_replace)

lemma same_state_refl [simp]: "same_state s s"
  by (simp add: same_state_def)

lemma same_state_sym: "same_state s t \<Longrightarrow> same_state t s"
  by (simp add: same_state_def same_rows_sym)

lemma same_state_trans: "same_state s t \<Longrightarrow> same_state t u \<Longrightarrow> same_state s u"
  by (auto simp: same_state_def intro: same_rows_trans)

section \<open>One iteration\<close>

lemma process_mr_closed_form:
  "process_mr env projectId mr s =
     (let existing = getMergeRequest projectId (r_id mr) (db s) in
      if \<exists>e. existing = Some e \<and> settled e mr then Some (skip s)
      else map_option
        (\<lambda>d. s\<lparr>db := saveMergeRequest (mrData projectId mr d) (db s),
                detail_calls := detail_calls s @ [(projectId, r_iid mr)],
                updatedCount := updatedCount s + (if existing = None then 0 else 1),
                newCount := newCount s + (if existing = None then 1 else 0)\<rparr>)
        (fetchMergeRequestDetails (notes_endpoint env projectId (r_iid mr))
           (approval_events_endpoint env projectId (r_iid mr))))"
  by (cases s)
    (auto simp: process_mr_def enrich_and_save_def settled_def Let_def split: option.splits)

lemma process_mr_keys_unique:
  "process_mr env projectId mr s = Some s' \<Longrightarrow> keys_unique (db s) \<Longrightarrow> keys_unique (db s')"
  by (blast intro: sync_step_keys_unique process_mr_step)

lemma process_mr_other_key:
  "process_mr env projectId mr s = Some s' \<Longrightarrow> r_id mr \<noteq> i \<Longrightarrow>
   getMergeRequest projectId i (db s') = getMergeRequest projectId i (db s)"
  by (rule sync_step_other_key [OF process_mr_step]) auto

lemma agree_trans: "agree s t \<Longrightarrow> agree t u \<Longrightarrow> agree s u"
  by (auto simp: agree_def intro: same_state_trans)

lemma agree_sym: "agree s t \<Longrightarrow> agree t s"
  by (auto simp: agree_def same_state_def same_rows_sym same_rows_keys_unique)

lemma agree_refl: "keys_unique (db s) \<Longrightarrow> agree s s"
  by (simp add: agree_def)

lemma process_mr_agree:
  assumes "agree s t"
  shows "rel_option agree (process_mr env projectId mr s) (process_mr env projectId mr t)"
proof -
  from assms have rows: "same_rows (db s) (db t)" and keys: "keys_unique (db s)"
    by (simp_all add: agree_def same_state_def)
  then have "getMergeRequest projectId (r_id mr) (db t) = getMergeRequest projectId (r_id mr) (db s)"
    by (simp add: same_rows_getMergeRequest)
  with assms show ?thesis
    unfolding process_mr_closed_form
    by (auto simp: Let_def option.rel_map agree_def same_state_def same_rows_saveMergeRequest
        intro!: option.rel_refl)
qed

lemma process_all_agree:
  "agree s t \<Longrightarrow>
   rel_option agree (process_all env projectId mergeRequests s)
     (process_all env projectId mergeRequests t)"
proof (induction mergeRequests arbitrary: s t)
  case Nil
  then show ?case by simp
next
  case (Cons mr mergeRequests)
  from process_mr_agree [OF Cons.prems, of env projectId mr] show ?case
    unfolding process_all.simps by (rule rel_option_bind) (rule Cons.IH)
qed

section \<open>Two iterations for different records\<close>

lemma save_save_commute:
  assumes "key_of x \<noteq> key_of y"
  shows "same_rows (saveMergeRequest y (saveMergeRequest x d))
     (saveMergeRequest x (saveMergeRequest y d))"
proof -
  have "(\<lambda>r. key_of r \<noteq> key_of x \<and> key_of r \<noteq> key_of y)
      = (\<lambda>r. key_of r \<noteq> key_of y \<and> key_of r \<noteq> key_of x)"
    by auto
  with assms show ?thesis
    by (simp add: same_rows_def saveMergeRequest_def mset_insert_or_replace filter_filter_mset)
qed

lemma process_mr_commute:
  assumes "r_id a \<noteq> r_id b"
  shows "rel_option same_state
     (Option.bind (process_mr env projectId a s) (process_mr env projectId b))
     (Option.bind (process_mr env projectId b s) (process_mr env projectId a))"
proof -
  have b_after: "getMergeRequest projectId (r_id b) (db s1) = getMergeRequest projectId (r_id b) (db s)"
    if "process_mr env projectId a s = Some s1" for s1
    using that assms by (rule process_mr_other_key)
  have a_after: "getMergeRequest projectId (r_id a) (db s2) = getMergeRequest projectId (r_id a) (db s)"
    if "process_mr env projectId b s = Some s2" for s2
    using that assms [symmetric] by (rule process_mr_other_key)
  show ?thesis
  proof (cases "process_mr env projectId a s"; cases "process_mr env projectId b s")
    fix s1 s2
    assume *: "process_mr env projectId a s = Some s1" "process_mr env projectId b s = Some s2"
    with b_after [OF *(1)] a_after [OF *(2)] assms show ?thesis
      unfolding process_mr_closed_form [of env projectId b s1]
        process_mr_closed_form [of env projectId a s2]
      by (auto simp: process_mr_closed_form Let_def same_state_def save_save_commute
          split: if_splits)
  next
    fix s1
    assume *: "process_mr env projectId a s = Some s1" "process_mr env projectId b s = None"
    with b_after [OF *(1)] show ?thesis
      unfolding process_mr_closed_form [of env projectId b s1]
      by (auto simp: process_mr_closed_form Let_def split: if_splits)
  next
    fix s2
    assume *: "process_mr env projectId a s = None" "process_mr env projectId b s = Some s2"
    with a_after [OF *(2)] show ?thesis
      unfolding process_mr_closed_form [of env projectId a s2]
      by (auto simp: process_mr_closed_form Let_def split: if_splits)
  qed simp
qed

lemma process_mr_commute_agree:
  assumes "r_id a \<noteq> r_id b" and "keys_unique (db s)"
  shows "rel_option agree
     (Option.bind (process_mr env projectId a s) (process_mr env projectId b))
     (Option.bind (process_mr env projectId b s) (process_mr env projectId a))"
proof -
  have "keys_unique (db s2)"
    if "Option.bind (process_mr env projectId a s) (process_mr env projectId b) = Some s2" for s2
    using that assms(2) by (auto simp: bind_eq_Some_conv dest: process_mr_keys_unique)
  with process_mr_commute [OF assms(1), of env projectId s] show ?thesis
    by (auto simp: option_rel_Some1 agree_def elim!: option.rel_mono_strong)
qed

section \<open>The loop over a rearranged list\<close>

lemma process_all_keys_unique:
  "process_all env projectId mergeRequests s = Some s' \<Longrightarrow> keys_unique (db s) \<Longrightarrow>
   keys_unique (db s')"
  by (blast intro: sync_run_keys_unique process_all_run)

lemma process_all_two:
  "process_all env projectId (x # y # zs) s
     = Option.bind (Option.bind (process_mr env projectId x s) (process_mr env projectId y))
         (process_all env projectId zs)"
  by (cases "process_mr env projectId x s") simp_all

lemma process_all_move_front:
  assumes "r_id x \<notin> r_id ` set ys" and "keys_unique (db s)"
  shows "rel_option agree (process_all env projectId (ys @ x # zs) s)
     (process_all env projectId (x # ys @ zs) s)"
  using assms
proof (induction ys arbitrary: s)
  case Nil
  then show ?case by (simp del: process_all.simps add: process_all_agree agree_refl)
next
  case (Cons y ys)
  let ?run = "process_all env projectId"
  let ?one = "process_mr env projectId"
  have "rel_option agree (Option.bind (?one y s) (?run (ys @ x # zs)))
      (Option.bind (?one y s) (?run (x # ys @ zs)))"
  proof (rule rel_option_bind [where R = "\<lambda>s1 s2. s1 = s2 \<and> keys_unique (db s1)"])
    from Cons.prems(2) show "rel_option (\<lambda>s1 s2. s1 = s2 \<and> keys_unique (db s1)) (?one y s) (?one y s)"
      by (auto intro!: option.rel_refl_strong dest: process_mr_keys_unique)
  next
    fix s1 s2 :: sync_state
    assume "s1 = s2 \<and> keys_unique (db s1)"
    with Cons.IH [of s1] Cons.prems(1)
    show "rel_option agree (?run (ys @ x # zs) s1) (?run (x # ys @ zs) s2)" by auto
  qed
  also have "Option.bind (?one y s) (?run (x # ys @ zs))
      = Option.bind (Option.bind (?one y s) (?one x)) (?run (ys @ zs))"
    by (cases "?one y s") simp_all
  finally have first: "rel_option agree (?run ((y # ys) @ x # zs) s)
      (Option.bind (Option.bind (?one y s) (?one x)) (?run (ys @ zs)))"
    by simp
  from Cons.prems have "r_id y \<noteq> r_id x" by auto
  then have "rel_option agree (Option.bind (?one y s) (?one x)) (Option.bind (?one x s) (?one y))"
    using Cons.prems(2) by (rule process_mr_commute_agree)
  then have "rel_option agree (Option.bind (Option.bind (?one y s) (?one x)) (?run (ys @ zs)))
      (Option.bind (Option.bind (?one x s) (?one y)) (?run (ys @ zs)))"
    by (rule rel_option_bind) (rule process_all_agree)
  with first have "rel_option agree (?run ((y # ys) @ x # zs) s)
      (Option.bind (Option.bind (?one x s) (?one y)) (?run (ys @ zs)))"
    by (rule rel_option_trans) (rule agree_trans)
  then show ?case by (simp only: process_all_two append_Cons)
qed

lemma process_all_permuted:
  assumes "mset xs = mset ys" and "distinct (map r_id xs)" and "keys_unique (db s)"
  shows "rel_option agree (process_all env projectId xs s) (process_all env projectId ys s)"
  using assms
proof (induction xs arbitrary: ys s)
  case Nil
  then show ?case by (simp add: agree_refl)
next
  case (Cons x xs)
  let ?run = "process_all env projectId"
  from Cons.prems(1) have "x \<in> set ys" by (metis list.set_intros(1) mset_eq_setD)
  then obtain ys1 ys2 where ys: "ys = ys1 @ x # ys2" by (auto dest: split_list)
  with Cons.prems(1) have rest: "mset xs = mset (ys1 @ ys2)" by simp
  from Cons.prems(1,2) have "distinct (map r_id ys)"
    by (metis mset_eq_imp_distinct_iff mset_map)
  with ys have fresh: "r_id x \<notin> r_id ` set ys1" by auto
  have "rel_option agree (?run (x # xs) s) (?run (x # ys1 @ ys2) s)"
    unfolding process_all.simps
  proof (rule rel_option_bind [where R = "\<lambda>s1 s2. s1 = s2 \<and> keys_unique (db s1)"])
    from Cons.prems(3)
    show "rel_option (\<lambda>s1 s2. s1 = s2 \<and> keys_unique (db s1))
        (process_mr env projectId x s) (process_mr env projectId x s)"
      by (auto intro!: option.rel_refl_strong dest: process_mr_keys_unique)
  next
    fix s1 s2 :: sync_state
    assume "s1 = s2 \<and> keys_unique (db s1)"
    with Cons.IH [OF rest, of s1] Cons.prems(2)
    show "rel_option agree (?run xs s1) (?run (ys1 @ ys2) s2)" by auto
  qed
  moreover from process_all_move_front [OF fresh Cons.prems(3), of env projectId ys2]
  have "rel_option agree (?run (x # ys1 @ ys2) s) (?run (ys1 @ x # ys2) s)"
    by (rule rel_option_sym) (rule agree_sym)
  ultimately show ?case
    unfolding ys by (rule rel_option_trans) (rule agree_trans)
qed

section \<open>Aggregates of a multiset of rows\<close>

lemma mset_non_null:
  "mset (non_null vs) = image_mset the (filter_mset (\<lambda>v. v \<noteq> None) (mset vs))"
  by (induction vs rule: non_null.induct) simp_all

lemma sum_list_mset_cong: "mset xs = mset ys \<Longrightarrow> sum_list xs = sum_list (ys :: rat list)"
  by (metis sum_mset_sum_list)

lemma average_mset_cong: "mset xs = mset ys \<Longrightarrow> average xs = average ys"
  using mset_eq_length [of xs ys] sum_list_mset_cong [of xs ys] by (auto simp: average_def)

lemma sql_avg_mset_cong: "mset rs = mset rs' \<Longrightarrow> sql_avg (map f rs) = sql_avg (map f rs')"
  unfolding sql_avg_def by (rule average_mset_cong) (simp add: mset_non_null)

lemma count_where_mset_cong: "mset rs = mset rs' \<Longrightarrow> count_where P rs = count_where P rs'"
  unfolding count_where_def by (rule mset_eq_length) simp

lemma stats_of_group_mset_cong:
  "mset rs = mset rs' \<Longrightarrow> stats_of_group g rs = stats_of_group g rs'"
  using mset_eq_length [of rs rs']
  by (simp add: stats_of_group_def sql_avg_mset_cong [of rs rs'] count_where_mset_cong [of rs rs'])

lemma group_keys_mset_cong:
  assumes "mset rows = mset rows'"
  shows "sort (remdups (non_null (map key rows))) = sort (remdups (non_null (map key rows')))"
proof -
  from assms have "set rows = set rows'" by (rule mset_eq_setD)
  then have "set (non_null (map key rows)) = set (non_null (map key rows'))"
    by (simp add: set_non_null_map)
  then show ?thesis by (simp add: sorted_list_of_set_sort_remdups [symmetric])
qed

lemma group_by_mset_cong:
  assumes "mset rows = mset rows'"
    and "\<And>g rs rs'. mset rs = mset rs' \<Longrightarrow> F g rs = F g rs'"
  shows "map (\<lambda>(g, rs). F g rs) (group_by key rows) = map (\<lambda>(g, rs). F g rs) (group_by key rows')"
proof -
  have "F g (filter (\<lambda>r. key r = Some g) rows) = F g (filter (\<lambda>r. key r = Some g) rows')" for g
    using assms(1) by (intro assms(2)) simp
  then show ?thesis
    by (simp add: group_by_def group_keys_mset_cong [OF assms(1)] comp_def)
qed

lemma stats_mset_cong:
  assumes "mset (merge_requests d) = mset (merge_requests d')"
  shows "getMergeRequestStats projectId startDate endDate d
      = getMergeRequestStats projectId startDate endDate d'"
proof -
  let ?P = "stats_where projectId startDate endDate"
  from assms have "mset (filter ?P (merge_requests d)) = mset (filter ?P (merge_requests d'))"
    by simp
  then show ?thesis
    unfolding getMergeRequestStats_def
    by (rule group_by_mset_cong [where F = stats_of_group]) (rule stats_of_group_mset_cong)
qed

lemma late_mset_cong:
  assumes "mset (merge_requests d) = mset (merge_requests d')"
  shows "countMrsWithLateFirstComment projectId thresholdMinutes startDate endDate d
      = countMrsWithLateFirstComment projectId thresholdMinutes startDate endDate d'"
proof -
  let ?P = "late_where projectId thresholdMinutes startDate endDate"
  from assms have "mset (filter ?P (merge_requests d)) = mset (filter ?P (merge_requests d'))"
    by simp
  then show ?thesis
    unfolding countMrsWithLateFirstComment_def
    by (rule group_by_mset_cong [where F = "\<lambda>g rs. \<lparr>late_squad = g, late_count = length rs\<rparr>"])
      (auto dest: mset_eq_length)
qed

section \<open>The squad script on a multiset of rows\<close>

lemma update_where_same_rows:
  "same_rows d d' \<Longrightarrow> same_rows (update_where cond assign d) (update_where cond assign d')"
  by (simp add: same_rows_def update_where_def)

lemma update_squads_same_rows: "same_rows d d' \<Longrightarrow> same_rows (update_squads d) (update_squads d')"
  by (simp add: update_squads_def set_web_def set_cms_def update_where_same_rows)

lemma squad_report_mset_cong:
  assumes "mset (merge_requests d) = mset (merge_requests d')"
  shows "squad_report d = squad_report d'"
proof -
  let ?key = "\<lambda>r. (squad r, author_username r)"
  from assms have "set (merge_requests d) = set (merge_requests d')" by (rule mset_eq_setD)
  then have "sort (remdups (map ?key (merge_requests d))) = sort (remdups (map ?key (merge_requests d')))"
    by (simp add: sorted_list_of_set_sort_remdups [symmetric])
  with assms show ?thesis
    by (simp add: squad_report_def count_where_mset_cong [of "merge_requests d" "merge_requests d'"])
qed

section \<open>Example data\<close>

lemma reversed_db_same_rows: "same_rows sample_db reversed_db"
  by (simp add: same_rows_def reversed_db_def)

lemma sample_db_keys_unique: "keys_unique sample_db"
  by (simp add: keys_unique_def sample_db_def sample_row_def key_of_def)

lemma example_forward:
  "map_option (\<lambda>s. map mr_id (merge_requests (db s)))
     (process_all example_env 9 [example_remote_mr, second_remote_mr] (initial_state empty_database))
     = Some [501, 502]"
  by (simp add: process_mr_def enrich_and_save_def example_details second_remote_mr_def
      example_remote_mr_def initial_state_def empty_database_def getMergeRequest_def
      saveMergeRequest_def insert_or_replace_def key_of_def mrData_def)

lemma example_backward:
  "map_option (\<lambda>s. map mr_id (merge_requests (db s)))
     (process_all example_env 9 [second_remote_mr, example_remote_mr] (initial_state empty_database))
     = Some [502, 501]"
  by (simp add: process_mr_def enrich_and_save_def example_details second_remote_mr_def
      example_remote_mr_def initial_state_def empty_database_def getMergeRequest_def
      saveMergeRequest_def insert_or_replace_def key_of_def mrData_def)

section \<open>Properties\<close>

text \<open>
  C15: the order in which the remote lists the merge requests does not matter. When
  the fetched records have different ids and the primary keys of the store are unique,
  the loop over the records in any other order returns exactly when the loop over the
  given order returns, and the two final states hold the same rows, the same counters
  and the same calls of the enricher; only the positions of the rows differ.
\<close>
theorem order_of_records_irrelevant:
  assumes "mset mergeRequests = mset rearranged"
    and "distinct (map r_id mergeRequests)"
    and "keys_unique (db s)"
  shows "rel_option same_state (process_all env projectId mergeRequests s)
     (process_all env projectId rearranged s)"
  using process_all_permuted [OF assms, of env projectId]
  by (rule option.rel_mono_strong) (simp add: agree_def)

theorem order_of_records_irrelevant_witness:
  "map_option (\<lambda>s. map mr_id (merge_requests (db s)))
     (process_all example_env 9 [example_remote_mr, second_remote_mr] (initial_state empty_database))
     = Some [501, 502]
   \<and> map_option (\<lambda>s. map mr_id (merge_requests (db s)))
     (process_all example_env 9 [second_remote_mr, example_remote_mr] (initial_state empty_database))
     = Some [502, 501]
   \<and> rel_option same_state
     (process_all example_env 9 [example_remote_mr, second_remote_mr] (initial_state empty_database))
     (process_all example_env 9 [second_remote_mr, example_remote_mr] (initial_state empty_database))"
proof -
  from order_of_records_irrelevant
    [of "[example_remote_mr, second_remote_mr]" "[second_remote_mr, example_remote_mr]"
      "initial_state empty_database" example_env 9]
  have "rel_option same_state
     (process_all example_env 9 [example_remote_mr, second_remote_mr] (initial_state empty_database))
     (process_all example_env 9 [second_remote_mr, example_remote_mr] (initial_state empty_database))"
    by (simp add: second_remote_mr_def example_remote_mr_def initial_state_def)
  with example_forward example_backward show ?thesis by (intro conjI)
qed

text \<open>
  C16: nothing that is read from the store depends on the order of its rows. For two
  databases with the same rows in different positions the two statistics queries and
  the report of the squad script give the same result, the squad script leaves the
  same rows, and with unique primary keys \<open>getMergeRequest\<close> finds the same record.
\<close>
theorem queries_ignore_row_order:
  assumes "same_rows d d'"
  shows "getMergeRequestStats projectId startDate endDate d
       = getMergeRequestStats projectId startDate endDate d'
     \<and> countMrsWithLateFirstComment projectId thresholdMinutes startDate endDate d
       = countMrsWithLateFirstComment projectId thresholdMinutes startDate endDate d'
     \<and> squad_report d = squad_report d'
     \<and> same_rows (update_squads d) (update_squads d')
     \<and> (keys_unique d \<longrightarrow> getMergeRequest projectId mrId d = getMergeRequest projectId mrId d')"
proof -
  from assms have "mset (merge_requests d) = mset (merge_requests d')"
    by (simp add: same_rows_def)
  then show ?thesis
    using assms same_rows_getMergeRequest [OF assms, of projectId mrId]
    by (simp add: update_squads_same_rows stats_mset_cong [of d d'] late_mset_cong [of d d']
        squad_report_mset_cong [of d d'])
qed

theorem queries_ignore_row_order_witness:
  "merge_requests reversed_db \<noteq> merge_requests sample_db
   \<and> keys_unique sample_db
   \<and> getMergeRequestStats 9 None None sample_db = getMergeRequestStats 9 None None reversed_db
   \<and> getMergeRequest 9 3 sample_db = getMergeRequest 9 3 reversed_db"
  using queries_ignore_row_order
    [OF reversed_db_same_rows, where projectId = 9 and startDate = None and endDate = None
      and mrId = 3]
    sample_db_keys_unique
  by (simp add: reversed_db_def sample_db_def sample_row_def)

end
