(* ===== verification/Traffic.thy ===== *)
theory Traffic
  imports Client Requests
begin

text \<open>
  The requests of a synchronisation run, in the order in which they are sent: the
  calls of \<open>api.get\<close> in \<open>fetchMergeRequests\<close>, \<open>fetchMergeRequestDetails\<close> and the loop of
  \<open>processAndStoreMergeRequests\<close> (\<open>src/src/index.ts\<close>, lines 59-111, 114-156 and 159-258).
  A request is a \<open>call\<close> of theory \<open>Client\<close>; the functions here are the functions of the
  run with the data left out and the calls kept.

  \<^item> \<open>notes_requests_loop\<close> is the \<open>while\<close> loop over the pages of notes: it returns the
    number of the last page requested. \<open>details_calls\<close> are the requests of one call of
    \<open>fetchMergeRequestDetails\<close>: the pages of notes and, unless a request for notes has
    failed, the approval events.
  \<^item> \<open>process_mr_calls\<close> are the requests of one iteration of the \<open>for\<close> loop: none when
    the record is skipped. \<open>process_all_calls\<close> are those of the loop, \<open>walk_calls\<close> those
    of the listing, \<open>sync_calls\<close> those of the run.
  \<^item> \<open>enriched\<close> recognises the first request of an enrichment, \<open>details_call\<close> a request
    of the enricher for a project; \<open>uniform_notes\<close> says that all notes are served with
    the same page count.

  The lemmas show that these functions return exactly when the functions of the run
  return, that the notes come from the pages requested, that the enrichments seen in
  the requests are the calls recorded in \<open>detail_calls\<close>, and how many requests a run
  sends.
\<close>

partial_function (option) notes_requests_loop :: "'a paged \<Rightarrow> nat \<Rightarrow> nat option" where
  "notes_requests_loop remote page =
     (case remote page of
        None \<Rightarrow> Some page
      | Some response \<Rightarrow>
          if page < notes_total_pages (x_total_pages response)
          then notes_requests_loop remote (page + 1)
          else Some page)"

definition details_calls :: "remote_env \<Rightarrow> ident \<Rightarrow> ident \<Rightarrow> call list option" where
  "details_calls env projectId mrIid =
     map_option
       (\<lambda>k. map (Notes projectId mrIid) [1..<Suc k]
            @ (case notes_endpoint env projectId mrIid k of
                 None \<Rightarrow> []
               | Some response \<Rightarrow> [ApprovalEvents projectId mrIid]))
       (notes_requests_loop (notes_endpoint env projectId mrIid) 1)"

definition process_mr_calls ::
  "remote_env \<Rightarrow> ident \<Rightarrow> remote_mr \<Rightarrow> sync_state \<Rightarrow> call list option" where
  "process_mr_calls env projectId mr s =
     (case getMergeRequest projectId (r_id mr) (db s) of
        Some existingMR \<Rightarrow>
          if r_state mr = ''merged'' \<and> state existingMR = ''merged'' then Some []
          else if \<not> needsUpdate existingMR mr then Some []
          else details_calls env projectId (r_iid mr)
      | None \<Rightarrow> details_calls env projectId (r_iid mr))"

fun process_all_calls ::
  "remote_env \<Rightarrow> ident \<Rightarrow> remote_mr list \<Rightarrow> sync_state \<Rightarrow> call list option" where
  "process_all_calls env projectId [] s = Some []"
| "process_all_calls env projectId (mr # mergeRequests) s =
     Option.bind (process_mr_calls env projectId mr s)
       (\<lambda>calls. Option.bind (process_mr env projectId mr s)
          (\<lambda>s'. map_option ((@) calls) (process_all_calls env projectId mergeRequests s')))"

definition walk_calls :: "ident \<Rightarrow> 'a paged \<Rightarrow> call list option" where
  "walk_calls projectId remote =
     map_option (\<lambda>k. map (MergeRequests projectId) [1..<Suc k]) (requests_issued remote)"

definition sync_calls :: "remote_env \<Rightarrow> ident \<Rightarrow> project \<Rightarrow> database \<Rightarrow> call list option" where
  "sync_calls env projectId proj database =
     Option.bind (walk_calls projectId (merge_requests_endpoint env projectId))
       (\<lambda>listing. Option.bind (fetchMergeRequests (merge_requests_endpoint env projectId))
          (\<lambda>mergeRequests.
             if length mergeRequests = 0 then Some listing
             else map_option ((@) listing)
                    (process_all_calls env projectId mergeRequests
                       (initial_state (saveProject proj database)))))"

fun enriched :: "call \<Rightarrow> (ident \<times> ident) option" where
  "enriched (Notes projectId mrIid page) = (if page = 1 then Some (projectId, mrIid) else None)"
| "enriched _ = None"

definition uniform_notes :: "nat option \<Rightarrow> remote_env \<Rightarrow> bool" where
  "uniform_notes h env \<longleftrightarrow>
     (\<forall>projectId mrIid. \<exists>ns. notes_endpoint env projectId mrIid = paged_remote (\<lambda>_. h) ns)"

fun details_call :: "ident \<Rightarrow> call \<Rightarrow> bool" where
  "details_call projectId (Notes p mrIid page) \<longleftrightarrow> p = projectId"
| "details_call projectId (ApprovalEvents p mrIid) \<longleftrightarrow> p = projectId"
| "details_call projectId _ \<longleftrightarrow> False"

section \<open>The requests of the notes loop\<close>

lemma notes_requests_stop:
  "remote page = None \<Longrightarrow> notes_requests_loop remote page = Some page"
  "remote page = Some response \<Longrightarrow> \<not> page < notes_total_pages (x_total_pages response) \<Longrightarrow>
   notes_requests_loop remote page = Some page"
  by (subst notes_requests_loop.simps, simp)+

lemma notes_requests_more:
  "remote page = Some response \<Longrightarrow> page < notes_total_pages (x_total_pages response) \<Longrightarrow>
   notes_requests_loop remote page = notes_requests_loop remote (Suc page)"
  by (subst notes_requests_loop.simps) simp

lemma notes_requests_from:
  assumes "notes_requests_loop remote page = Some k"
  shows "page \<le> k"
proof (rule notes_requests_loop.raw_induct [where P = "\<lambda>remote page k. page \<le> k", OF _ assms])
  fix f :: "'a paged \<Rightarrow> nat \<Rightarrow> nat option" and remote :: "'a paged" and page k
  assume "\<And>remote page k. f remote page = Some k \<Longrightarrow> page \<le> k"
    and "(case remote page of
        None \<Rightarrow> Some page
      | Some response \<Rightarrow>
          if page < notes_total_pages (x_total_pages response) then f remote (page + 1)
          else Some page) = Some k"
  then show "page \<le> k"
    by (fastforce split: option.splits if_splits dest: Suc_leD)
qed

lemma notes_requests_cases:
  assumes "notes_requests_loop remote page = Some k"
  obtains (failed) "remote page = None" and "k = page"
  | (last_page) response where "remote page = Some response"
      and "\<not> page < notes_total_pages (x_total_pages response)" and "k = page"
  | (more) response where "remote page = Some response"
      and "page < notes_total_pages (x_total_pages response)"
      and "notes_requests_loop remote (Suc page) = Some k"
  using assms
  by (cases "remote page"; cases "page < notes_total_pages (x_total_pages (the (remote page)))")
    (auto simp: notes_requests_stop notes_requests_more)

lemma notes_walk_result:
  assumes "notes_requests_loop remote page = Some k"
  shows "fetchNotes_loop remote acc page
     = Some (case remote k of
               None \<Rightarrow> Inl RequestFailed
             | Some response \<Rightarrow>
                 Inr (acc @ concat (map (\<lambda>j. case remote j of None \<Rightarrow> [] | Some r \<Rightarrow> items r)
                                      [page..<Suc k])))"
  using assms
proof (induction "k - page" arbitrary: page acc rule: less_induct)
  case less
  from less.prems show ?case
  proof (cases rule: notes_requests_cases)
    case failed
    then show ?thesis by (simp add: notes_loop_failed)
  next
    case (last_page response)
    then show ?thesis by (simp add: notes_loop_last)
  next
    case (more response)
    from more(3) have le: "Suc page \<le> k" by (rule notes_requests_from)
    then have "k - Suc page < k - page" by simp
    from less.hyps [OF this more(3), of "acc @ items response"] more(1,2) le show ?thesis
      by (simp add: notes_loop_more upt_conv_Cons split: option.split)
  qed
qed

lemma notes_walk_issues_requests:
  assumes ret: "fetchNotes_loop remote acc page = Some y"
  shows "\<exists>k. notes_requests_loop remote page = Some k"
proof (rule fetchNotes_loop.raw_induct
    [where P = "\<lambda>remote acc page y. \<exists>k. notes_requests_loop remote page = Some k", OF _ ret])
  fix f :: "'a paged \<Rightarrow> 'a list \<Rightarrow> nat \<Rightarrow> (fetch_error + 'a list) option"
    and remote :: "'a paged" and acc page y
  assume IH: "\<And>remote acc page y. f remote acc page = Some y \<Longrightarrow>
      \<exists>k. notes_requests_loop remote page = Some k"
  assume body: "(case remote page of
        None \<Rightarrow> Some (Inl RequestFailed)
      | Some response \<Rightarrow>
          (let totalPages = notes_total_pages (x_total_pages response);
               pageNotes = items response
           in if page < totalPages then f remote (acc @ pageNotes) (page + 1)
              else Some (Inr (acc @ pageNotes)))) = Some y"
  show "\<exists>k. notes_requests_loop remote page = Some k"
  proof (cases "remote page")
    case None
    then show ?thesis by (simp add: notes_requests_stop)
  next
    case (Some r)
    with body IH show ?thesis
      by (cases "page < notes_total_pages (x_total_pages r)")
        (auto simp: Let_def notes_requests_stop notes_requests_more [of _ _ r])
  qed
qed

lemma notes_walk_returns_iff:
  "(\<exists>y. fetchNotes_loop remote acc page = Some y)
     \<longleftrightarrow> (\<exists>k. notes_requests_loop remote page = Some k)"
  by (auto dest: notes_walk_issues_requests notes_walk_result)

section \<open>The requests of one enrichment\<close>

lemma details_calls_returns:
  "details_calls env projectId mrIid = None
     \<longleftrightarrow> fetchMergeRequestDetails (notes_endpoint env projectId mrIid)
           (approval_events_endpoint env projectId mrIid) = None"
  using notes_walk_returns_iff [of "notes_endpoint env projectId mrIid" "[]" 1]
  by (auto simp: details_calls_def fetchMergeRequestDetails_def)

lemma enriched_notes_pages:
  "List.map_filter enriched (map (Notes projectId mrIid) [page..<k])
     = (if page \<le> 1 \<and> 1 < k then [(projectId, mrIid)] else [])"
  by (induction k) (auto simp: map_filter_append)

lemma details_calls_enriched:
  assumes "details_calls env projectId mrIid = Some calls"
  shows "List.map_filter enriched calls = [(projectId, mrIid)]"
proof -
  from assms obtain k where k: "notes_requests_loop (notes_endpoint env projectId mrIid) 1 = Some k"
    and calls: "calls = map (Notes projectId mrIid) [1..<Suc k]
        @ (case notes_endpoint env projectId mrIid k of
             None \<Rightarrow> [] | Some response \<Rightarrow> [ApprovalEvents projectId mrIid])"
    by (auto simp: details_calls_def)
  from k have "1 \<le> k" by (rule notes_requests_from)
  then show ?thesis
    unfolding calls
    by (simp add: map_filter_append enriched_notes_pages split: option.split del: upt_Suc)
qed

section \<open>The requests of the loop\<close>

lemma process_mr_calls_returns:
  "process_mr_calls env projectId mr s = None \<longleftrightarrow> process_mr env projectId mr s = None"
  by (simp add: process_mr_calls_def process_mr_def enrich_and_save_def details_calls_returns
      split: option.split)

lemma process_mr_calls_enriched:
  assumes "process_mr env projectId mr s = Some s'"
    and "process_mr_calls env projectId mr s = Some calls"
  shows "detail_calls s' = detail_calls s @ List.map_filter enriched calls"
  using assms
  by (auto simp: process_mr_calls_def process_mr_def enrich_and_save_def details_calls_enriched
      split: option.splits if_splits)

lemma process_all_calls_returns:
  "process_all_calls env projectId mergeRequests s = None
     \<longleftrightarrow> process_all env projectId mergeRequests s = None"
proof (induction mergeRequests arbitrary: s)
  case Nil
  show ?case by simp
next
  case (Cons mr mergeRequests)
  from process_mr_calls_returns [of env projectId mr s] show ?case
    by (cases "process_mr_calls env projectId mr s"; cases "process_mr env projectId mr s")
      (simp_all add: Cons.IH)
qed

lemma details_calls_targets:
  "details_calls env projectId mrIid = Some calls \<Longrightarrow>
   list_all (details_call projectId) calls"
  by (auto simp: details_calls_def list_all_iff split: option.splits)

lemma process_all_calls_targets:
  "process_all_calls env projectId mergeRequests s = Some calls \<Longrightarrow>
   list_all (details_call projectId) calls"
proof (induction mergeRequests arbitrary: s calls)
  case Nil
  then show ?case by simp
next
  case (Cons mr mergeRequests)
  from Cons.prems obtain s1 first rest where
    first: "process_mr_calls env projectId mr s = Some first"
    and rest: "process_all_calls env projectId mergeRequests s1 = Some rest"
    and calls: "calls = first @ rest"
    by (auto simp: bind_eq_Some_conv)
  from first have "list_all (details_call projectId) first"
    by (auto simp: process_mr_calls_def split: option.splits if_splits dest: details_calls_targets)
  with Cons.IH [OF rest] show ?case by (simp add: calls)
qed

lemma process_all_calls_enriched:
  assumes "process_all env projectId mergeRequests s = Some s'"
    and "process_all_calls env projectId mergeRequests s = Some calls"
  shows "detail_calls s' = detail_calls s @ List.map_filter enriched calls"
  using assms
proof (induction mergeRequests arbitrary: s calls)
  case Nil
  then show ?case by simp
next
  case (Cons mr mergeRequests)
  from Cons.prems obtain s1 first rest where
    s1: "process_mr env projectId mr s = Some s1"
    and first: "process_mr_calls env projectId mr s = Some first"
    and run: "process_all env projectId mergeRequests s1 = Some s'"
    and rest: "process_all_calls env projectId mergeRequests s1 = Some rest"
    and calls: "calls = first @ rest"
    by (auto simp: bind_eq_Some_conv)
  from process_mr_calls_enriched [OF s1 first] Cons.IH [OF run rest] show ?case
    by (simp add: calls map_filter_append)
qed

section \<open>The requests of a run\<close>

lemma sync_calls_run:
  assumes "processAndStoreMergeRequests env projectId proj database = Some s'"
  obtains k rest where "requests_issued (merge_requests_endpoint env projectId) = Some k"
    and "sync_calls env projectId proj database = Some (map (MergeRequests projectId) [1..<Suc k] @ rest)"
    and "detail_calls s' = List.map_filter enriched rest"
    and "list_all (details_call projectId) rest"
    and "\<exists>mergeRequests s. process_all_calls env projectId mergeRequests s = Some rest"
proof -
  let ?remote = "merge_requests_endpoint env projectId"
  from assms obtain mergeRequests where fetched: "fetchMergeRequests ?remote = Some mergeRequests"
    by (auto simp: processAndStoreMergeRequests_def bind_eq_Some_conv)
  then obtain k where k: "requests_issued ?remote = Some k"
    using walk_returns_iff [of ?remote "[]" 1]
    by (auto simp: fetchMergeRequests_def requests_issued_def split: option.splits)
  show ?thesis
  proof (cases "mergeRequests = []")
    case True
    with assms fetched k show ?thesis
      by (intro that [of k "[]"] exI [of _ "[]"]) (auto simp: sync_calls_def walk_calls_def
          processAndStoreMergeRequests_def)
  next
    case False
    let ?s = "initial_state (saveProject proj database)"
    from False assms fetched have run: "process_all env projectId mergeRequests ?s = Some s'"
      by (simp add: processAndStoreMergeRequests_def)
    then obtain rest where rest: "process_all_calls env projectId mergeRequests ?s = Some rest"
      using process_all_calls_returns [of env projectId mergeRequests ?s] by auto
    from process_all_calls_enriched [OF run rest] process_all_calls_targets [OF rest]
      False fetched k rest
    show ?thesis
      by (intro that [of k rest] exI [of _ mergeRequests] exI [of _ ?s])
        (simp_all add: sync_calls_def walk_calls_def)
  qed
qed

section \<open>Notes served with a constant page count\<close>

lemma notes_requests_uniform:
  "k < notes_total_pages h \<Longrightarrow>
   notes_requests_loop (paged_remote (\<lambda>_. h) ns) (Suc k) = Some (notes_total_pages h)"
proof (induction "notes_total_pages h - k" arbitrary: k)
  case 0
  then show ?case by simp
next
  case (Suc d)
  let ?r = "\<lparr>items = page_slice (Suc k) ns, x_total_pages = h\<rparr>"
  let ?R = "paged_remote (\<lambda>_. h) ns"
  have r: "?R (Suc k) = Some ?r" by (simp add: paged_remote_def)
  show ?case
  proof (cases "Suc k < notes_total_pages h")
    case True
    with Suc.hyps(2) have "d = notes_total_pages h - Suc k" by simp
    from Suc.hyps(1) [OF this True] True r show ?thesis
      by (simp add: notes_requests_more [of ?R "Suc k" ?r])
  next
    case False
    with Suc.prems have eq: "notes_total_pages h = Suc k" by simp
    from False r have "notes_requests_loop ?R (Suc k) = Some (Suc k)"
      by (intro notes_requests_stop(2) [of ?R "Suc k" ?r]) simp_all
    then show ?thesis by (simp only: eq)
  qed
qed

lemma details_calls_uniform:
  assumes "uniform_notes h env"
  shows "details_calls env projectId mrIid
     = Some (map (Notes projectId mrIid) [1..<Suc (notes_total_pages h)]
             @ [ApprovalEvents projectId mrIid])"
proof -
  from assms obtain ns where "notes_endpoint env projectId mrIid = paged_remote (\<lambda>_. h) ns"
    unfolding uniform_notes_def by blast
  with notes_requests_uniform [of 0 h ns] show ?thesis
    by (simp add: details_calls_def paged_remote_def del: upt_Suc)
qed

lemma process_mr_calls_length:
  assumes "uniform_notes h env" and "process_mr_calls env projectId mr s = Some calls"
  shows "length calls = length (List.map_filter enriched calls) * Suc (notes_total_pages h)"
proof (cases "calls = []")
  case True
  then show ?thesis by simp
next
  case False
  with assms(2) have calls: "details_calls env projectId (r_iid mr) = Some calls"
    by (auto simp: process_mr_calls_def split: option.splits if_splits)
  with details_calls_uniform [OF assms(1), of projectId "r_iid mr"] details_calls_enriched [OF calls]
  show ?thesis by auto
qed

lemma process_all_calls_length:
  assumes "uniform_notes h env"
  shows "process_all_calls env projectId mergeRequests s = Some calls \<Longrightarrow>
   length calls = length (List.map_filter enriched calls) * Suc (notes_total_pages h)"
proof (induction mergeRequests arbitrary: s calls)
  case Nil
  then show ?case by simp
next
  case (Cons mr mergeRequests)
  from Cons.prems obtain s1 first rest where
    first: "process_mr_calls env projectId mr s = Some first"
    and rest: "process_all_calls env projectId mergeRequests s1 = Some rest"
    and calls: "calls = first @ rest"
    by (auto simp: bind_eq_Some_conv)
  from process_mr_calls_length [OF assms first] Cons.IH [OF rest] show ?case
    by (simp add: calls map_filter_append algebra_simps)
qed

lemma enriched_count:
  assumes "processAndStoreMergeRequests env projectId proj database = Some s'"
  shows "length (detail_calls s') = newCount s' + updatedCount s'"
  using assms
proof (cases rule: processAndStore_cases)
  case nothing
  then show ?thesis by simp
next
  case (run mergeRequests)
  from sync_run_counters [OF run(3)] show ?thesis by simp
qed

section \<open>Example data\<close>

lemma example_uniform_notes: "uniform_notes (Some 1) example_env"
  unfolding uniform_notes_def example_env_def by auto

lemma example_requests_issued: "requests_issued (merge_requests_endpoint example_env 9) = Some 1"
  by (simp add: requests_issued_def example_env_def paged_remote_def page_slice_def chunk_def
      requests_stop(3) hasMorePages_def header_number_def per_page_def)

lemma example_sync_calls:
  "sync_calls example_env 9 example_project empty_database
     = Some [MergeRequests 9 1, Notes 9 12 1, ApprovalEvents 9 12]"
  by (simp add: sync_calls_def walk_calls_def example_requests_issued example_fetch
      process_mr_calls_def process_mr_def enrich_and_save_def example_details
      details_calls_uniform [OF example_uniform_notes] example_remote_mr_def)

section \<open>Properties\<close>

text \<open>
  C27: the requests of a run, in their order. A run that returns has sent the requests
  for the pages 1 to \<open>k\<close> of the listing first, \<open>k\<close> being the number of requests of the
  walk, and after them only requests for notes and approval events of the project;
  the merge requests whose first page of notes is requested are, in this order, the
  calls of the enricher that the run has made.
\<close>
theorem requests_follow_enrichment:
  assumes "processAndStoreMergeRequests env projectId proj database = Some s'"
  shows "\<exists>k rest. requests_issued (merge_requests_endpoint env projectId) = Some k
     \<and> sync_calls env projectId proj database
         = Some (map (MergeRequests projectId) [1..<Suc k] @ rest)
     \<and> list_all (details_call projectId) rest
     \<and> List.map_filter enriched rest = detail_calls s'"
  using assms by (rule sync_calls_run) (intro exI conjI, simp_all)

theorem requests_follow_enrichment_witness:
  "sync_calls example_env 9 example_project empty_database
     = Some [MergeRequests 9 1, Notes 9 12 1, ApprovalEvents 9 12]
   \<and> (\<exists>s'. processAndStoreMergeRequests example_env 9 example_project empty_database = Some s'
         \<and> detail_calls s' = [(9, 12)])"
proof -
  from example_run_returns obtain s'
    where s': "processAndStoreMergeRequests example_env 9 example_project empty_database = Some s'"
    by blast
  from requests_follow_enrichment [OF s'] have "detail_calls s' = [(9, 12)]"
    by (auto simp: example_sync_calls example_requests_issued)
  with s' example_sync_calls show ?thesis by blast
qed

text \<open>
  C28: the number of requests of a run. When every merge request has its notes served
  with the same page count \<open>T\<close> (1 when the header is missing or zero), a run that
  returns has sent the requests of the walk and \<open>T + 1\<close> requests for each record that it
  counts as new or updated: \<open>T\<close> for the notes and one for the approval events.
\<close>
theorem requests_of_run:
  assumes "uniform_notes h env"
    and "processAndStoreMergeRequests env projectId proj database = Some s'"
  shows "\<exists>k. requests_issued (merge_requests_endpoint env projectId) = Some k
     \<and> map_option length (sync_calls env projectId proj database)
         = Some (k + (newCount s' + updatedCount s') * Suc (notes_total_pages h))"
  using assms(2)
proof (rule sync_calls_run)
  fix k rest
  assume k: "requests_issued (merge_requests_endpoint env projectId) = Some k"
    and calls: "sync_calls env projectId proj database
        = Some (map (MergeRequests projectId) [1..<Suc k] @ rest)"
    and enriched: "detail_calls s' = List.map_filter enriched rest"
    and "\<exists>mergeRequests s. process_all_calls env projectId mergeRequests s = Some rest"
  then have "length rest = length (List.map_filter enriched rest) * Suc (notes_total_pages h)"
    by (auto dest: process_all_calls_length [OF assms(1)])
  with k calls enriched enriched_count [OF assms(2)] show ?thesis by simp
qed

theorem requests_of_run_witness:
  "uniform_notes (Some 1) example_env
   \<and> (\<exists>s'. processAndStoreMergeRequests example_env 9 example_project empty_database = Some s'
         \<and> newCount s' + updatedCount s' = 1)
   \<and> map_option length (sync_calls example_env 9 example_project empty_database) = Some 3"
proof -
  from example_run_returns obtain s'
    where s': "processAndStoreMergeRequests example_env 9 example_project empty_database = Some s'"
    by blast
  from requests_of_run [OF example_uniform_notes s']
  have "newCount s' + updatedCount s' = 1"
    by (simp add: example_sync_calls example_requests_issued)
  with s' example_uniform_notes example_sync_calls show ?thesis by auto
qed

end
