(* ===== verification/Spec2Isabelle.thy ===== *)
theory Spec2Isabelle
  imports Reconciler Analytics Display Squads Schema Menu Reports Requests Connection Session
    Recovery Integrity Client Row_Order Traffic
begin

text \<open>
  \<^bold>\<open>What is verified.\<close> The program (\<open>src/src/index.ts\<close>) mirrors the merge requests of
  a GitLab project into a SQLite database and computes review-latency statistics
  from the mirror. Its parts, and the theories that model them:

  \<^item> \<^bold>\<open>Pagination walker\<close> (\<open>fetchMergeRequests\<close>, lines 59-111): theory \<open>Pagination\<close>.
    The remote collection is a function from page numbers to responses, \<open>None\<close> for
    a request that throws. The \<open>while\<close> loop is \<open>fetchMergeRequests_loop\<close>. Theory
    \<open>Requests\<close> counts the requests of a walk (\<open>requests_loop\<close>, \<open>requests_issued\<close>).
  \<^item> \<^bold>\<open>Detail enricher\<close> (\<open>fetchMergeRequestDetails\<close>, lines 114-156, and the
    derivation of \<open>firstComment\<close> and \<open>approvedAt\<close>, lines 212-236): theory
    \<open>Enricher\<close>. The notes loop is \<open>fetchNotes_loop\<close>.
  \<^item> \<^bold>\<open>Persistent store\<close> (\<open>MergeRequestData\<close>, \<open>saveProject\<close>, \<open>saveMergeRequest\<close>,
    \<open>getMergeRequest\<close>, lines 432-446 and 574-608): theory \<open>Store\<close>. A table is the
    list of its rows; \<open>mr_table\<close> and \<open>project_table\<close> are the finite maps it
    implements.
  \<^item> \<^bold>\<open>Change-detection reconciler and the synchronisation run\<close>
    (\<open>processAndStoreMergeRequests\<close>, lines 159-258): theory \<open>Reconciler\<close>. The loop
    body is \<open>process_mr\<close>, the loop \<open>process_all\<close>; \<open>sync_step\<close> and \<open>sync_run\<close> are
    the step and run relations they implement; \<open>reconcile\<close> is the decision of the
    specification.
  \<^item> \<^bold>\<open>Analytics aggregator\<close> (\<open>getMergeRequestStats\<close>,
    \<open>countMrsWithLateFirstComment\<close>, lines 610-700): theory \<open>Analytics\<close>.
  \<^item> \<^bold>\<open>Display layer\<close> (\<open>formatTime\<close>, \<open>displayMergeRequestStats\<close>, \<open>isValidDate\<close>,
    lines 261-324, and the date answers of \<open>main\<close>, lines 403-404): theory \<open>Display\<close>.
    What is printed is the list of the lines given to \<open>console.log\<close>.
  \<^item> \<^bold>\<open>Schema initialisation\<close> (\<open>initDatabase\<close>, lines 519-572): theory \<open>Schema\<close>. A
    schema maps a table to its column names.
  \<^item> \<^bold>\<open>Squad assignment script\<close> (\<open>src/update_squads.sql\<close>): theory \<open>Squads\<close>. An
    \<open>UPDATE\<close> statement is a map over the rows of the table.
  \<^item> \<^bold>\<open>Entry point\<close> (\<open>getGroupId\<close>, \<open>listRepositories\<close>, \<open>main\<close>, lines 34-56 and 326-424,
    and the token check of the module, lines 14-23 and 426): theory \<open>Menu\<close>. The
    answers entered at the prompts are an argument of \<open>main\<close>; \<open>program\<close> is the module.
  \<^item> \<^bold>\<open>Remote resource client\<close> (the \<open>ky\<close> instance \<open>api\<close>, lines 25-32, and the five
    requests sent with it, lines 36-38, 50, 71-79, 123-128 and 145-147): theory
    \<open>Client\<close>. \<open>request_of\<close> builds the request of a call site, \<open>send\<close> is the answer
    the program sees after the retries of the library, \<open>client_env\<close> and \<open>client_world\<close>
    present a server to the other theories, \<open>start\<close> is the module with this client.
  \<^item> \<^bold>\<open>Promisified database class and store failures\<close> (class \<open>Database\<close>, lines 449-515,
    and the error handling of \<open>saveProject\<close>, \<open>saveMergeRequest\<close>, \<open>getMergeRequest\<close> and
    of the loop that calls them): theory \<open>Connection\<close>. The driver is the list of the
    callbacks it will make; \<open>processAndStoreMergeRequests_io\<close> is the run over such a
    connection. Theory \<open>Session\<close> holds the rest of the program over a connection:
    \<open>initDatabase_io\<close>, the two statistics queries, \<open>displayMergeRequestStats_io\<close> and
    \<open>main_io\<close>. Theory \<open>Recovery\<close> holds the loop over a connection as the relation
    \<open>io_run\<close> and the run that is started again after a rejection.
  \<^item> \<^bold>\<open>Report queries\<close> (\<open>src/unnamed/part_001\<close> and \<open>src/unnamed/part_002\<close>): theory
    \<open>Reports\<close>. The four queries are \<open>web_since_april\<close>, \<open>late_hour_report\<close>,
    \<open>late_hour_report_detailed\<close> and \<open>hour_distribution\<close>.
  \<^item> \<^bold>\<open>Constraints of the schema\<close> (the primary keys and the foreign key declared at
    lines 528 and 546-547): theory \<open>Integrity\<close>, with the invariant \<open>well_formed\<close>.
  \<^item> \<^bold>\<open>Requests of a run\<close> (the calls of \<open>api.get\<close> in lines 59-111, 114-156 and
    159-258, in the order in which a run makes them): theory \<open>Traffic\<close>. \<open>sync_calls\<close>
    is the list of the requests of a run, \<open>details_calls\<close> that of one enrichment,
    \<open>notes_requests_loop\<close> the notes loop with the notes left out.
  \<^item> \<^bold>\<open>Order of rows and of records\<close> (the \<open>for\<close> loop, lines 176-254, over the rows
    written by \<open>INSERT OR REPLACE\<close>, lines 583-587): theory \<open>Row_Order\<close>, with the
    relations \<open>same_rows\<close> and \<open>same_state\<close> between stores and loop states that differ
    only in the positions of their rows.
  \<^item> \<open>MR_Prelude\<close> holds what the components share: timestamps, truthiness, list
    chunks, counting, averaging and grouping.
  \<^item> This theory holds the properties that span components: convergence of repeated
    runs, termination of a whole run, what a run does to the statistics, and what the
    squad script restores after a run.

  \<^bold>\<open>How the model corresponds to the code.\<close>
  \<^item> Asynchronous functions run sequentially (every call is awaited), so a function
    that reads and writes the database is a function from the database to the new
    database. Console output is not modelled.
  \<^item> The remote API is data: \<open>remote_env\<close> gives for each project the paged merge
    requests, for each merge request the paged notes and the approval events. A
    request that throws is \<open>None\<close>. Within one walk each page is requested once, so a
    function of the page number is as general as a sequence of answers.
  \<^item> In \<open>Client\<close> a server answers every attempt of a request, \<open>None\<close> for an
    attempt that fails. The library's retry is modelled from the specification
    (sections 5 and 6): a failed attempt is repeated up to \<open>retry\<close> times, and the
    request throws when all attempts have failed. A failure that the library would
    not retry (a status such as 404) is a server that fails every attempt. Delays
    between attempts and the timeout of a single attempt are not events of the model:
    the timeout is kept as a field of the request (30 seconds, and none for the
    listing of merge requests, which passes \<open>timeout: false\<close>).
  \<^item> \<open>try\<close>/\<open>catch\<close> is a sum type inside the loops and a case distinction at the
    function that catches.
  \<^item> The store is modelled twice. In \<open>Store\<close> and \<open>Reconciler\<close> the driver never
    fails and the operations are total functions on the rows. In \<open>Connection\<close> every
    call of the driver takes the next callback of the connection; a promise is a sum
    with the error on the left, and an outcome of the run carries the error that
    rejected it. The first model is the second on a connection without errors.
  \<^item> A table is the list of its rows in the order of insertion, and a replaced row
    moves to the end. This is the order of SQLite for \<open>merge_requests\<close>; the rows of
    \<open>projects\<close>, whose key is \<open>id INTEGER PRIMARY KEY\<close>, SQLite keeps in the order of
    their ids. The program has no query that fixes an order of the rows it
    reads from the two tables, so this choice must not matter: theory \<open>Row_Order\<close>
    shows that it does not.
  \<^item> The step relations \<open>sync_step\<close> and \<open>io_run\<close> are executable (\<open>code_pred\<close>): the
    first as a check of a given step, the second also as the computation of the
    outcome.
  \<^item> In the report queries the text of \<open>datetime(t, '+7 hours')\<close> is represented by
    its value in seconds; integer division and remainder of SQLite are \<open>sdiv\<close> and
    \<open>smod\<close>; \<open>round(x, 2)\<close> is exact on rationals.
  \<^item> Both pagination loops are unbounded. They are \<open>partial_function\<close>s in the option
    monad, where \<open>None\<close> means that the call does not return; every function that
    contains a walk is option-valued for this reason. No fuel is used. Theorems that
    state a result are equations with \<open>Some\<close>, so they include termination.
  \<^item> A timestamp is its ISO text together with the millisecond value that
    \<open>new Date\<close> assigns to it. SQLite's \<open>strftime('%s', \<dots>)\<close> is that value in whole
    seconds. The date parsers themselves belong to the platform and are not modelled.
  \<^item> Identifiers and counts are unbounded integers and naturals: the program uses
    JavaScript numbers far below \<open>2^53\<close>. Durations in minutes are exact rationals;
    floating-point rounding is not modelled.

  \<^bold>\<open>What the lemmas show.\<close>
  \<^item> \<open>Pagination\<close>: the walker returns the whole collection, in order, against every
    source that serves a finite collection in pages, whatever its headers say; every
    result is a concatenation of leading pages; a failed request discards the pages
    already fetched; a source of endless full pages makes the walk diverge.
  \<^item> \<open>Requests\<close>: the walk returns exactly when it issues finitely many requests; its
    result depends only on the pages it requested; for \<open>n\<close> items and headers that do
    not overstate the page count it issues \<open>n div 100 + 1\<close> requests, the last one for
    an empty page exactly when \<open>n\<close> is a multiple of 100.
  \<^item> \<open>Client\<close>: a request determines its call site and arguments; the walk returns
    the whole collection when every page is answered at the third attempt at the
    latest, and nothing, not even the pages already received, when the attempts of
    one page are used up; an API that does not answer the request for the group ends
    the program with exit code 1 before any row is written.
  \<^item> \<open>Enricher\<close>: the derived timestamps are the earliest non-system note and the
    earliest approval; the notes loop returns the first \<open>100 * T\<close> notes for a
    reported page count \<open>T\<close>, hence only 100 when the header is missing; a failed notes
    request empties notes and approvals.
  \<^item> \<open>Store\<close>: the list operations refine finite-map update and lookup; primary keys
    stay unique.
  \<^item> \<open>Reconciler\<close>: the loop body implements the four-way decision; merged records are
    never fetched again; an update writes \<open>squad\<close> and \<open>description\<close> as null; the run
    keeps keys unique, touches only fetched keys and accounts for every record in its
    counters.
  \<^item> \<open>Analytics\<close>: groups partition the selected records; averages ignore missing
    timestamps; the lateness threshold is strict; the end date excludes its own day.
  \<^item> \<open>Display\<close>: \<open>formatTime\<close> shows the whole minutes as days, hours and minutes and
    loses the hours of a negative duration; the summary prints \<open>undefined\<close> and \<open>N/A\<close>
    whatever the database holds, because it reads properties of an array; a bound
    accepted by \<open>isValidDate\<close> filters by calendar day, the start day included and the
    end day excluded. Decimal text and its value are inverse to each other.
  \<^item> \<open>Schema\<close>: \<open>initDatabase\<close> is idempotent, drops no column, and leaves a schema
    in which the two \<open>INSERT\<close> statements find their columns.
  \<^item> \<open>Menu\<close>: \<open>main\<close> initialises the schema on every path, writes rows only through
    the synchronisation run, and shows the summary exactly for accepted answers.
  \<^item> \<open>Connection\<close>: without errors the run over a connection is the run of
    \<open>Reconciler\<close>; a rejected write ends the run before the remaining records are
    looked at; a failed read makes a stored merged record count as new and be
    overwritten; a read after a write returns the written record; keys stay unique
    under every sequence of errors.
  \<^item> \<open>Recovery\<close>: a rejected loop has processed a prefix of the records; on a
    connection with a single failing call the rows it leaves are those of the loop
    over that prefix, and the loop run again without failure ends with the rows of the
    uninterrupted loop.
  \<^item> \<open>Traffic\<close>: a run sends the requests of the listing first and then, for each
    record it counts as new or updated and for no other, the requests for the pages
    of notes followed by the request for the approval events; the enrichments seen in
    the requests are the calls recorded in \<open>detail_calls\<close>; with a page count \<open>T\<close> of
    the notes a run sends \<open>T + 1\<close> requests for each such record.
  \<^item> \<open>Row_Order\<close>: the loop over the fetched records in another order returns in
    the same cases and leaves the same rows, counters and calls of the enricher,
    provided the records have different ids; the statistics queries, the report of
    the squad script and (with unique keys) \<open>getMergeRequest\<close> give the same results
    on stores that hold the same rows in different positions.
  \<^item> \<open>Session\<close>: without errors \<open>main_io\<close> is \<open>main\<close>; a failure of the \<open>CREATE TABLE\<close>
    statements rejects \<open>main_io\<close> before any request is made; a failure of an
    \<open>ALTER TABLE\<close> statement is taken for an existing column, and the schema is then
    left without a column that \<open>saveMergeRequest\<close> writes.
  \<^item> \<open>Reports\<close>: the late-hour report holds exactly the records created between
    09:00 and 17:00 UTC, latest first; \<open>round(x, 2)\<close> is within half a hundredth and
    the minutes of a whole number of seconds never tie; the duration text is the
    hours, minutes and seconds of a non-negative duration; the distribution counts
    every labelled record once; the April query filters by day and squad.
  \<^item> \<open>Integrity\<close>: every operation of the store, the run (with or without errors),
    \<open>main\<close> and the squad script keep the primary keys unique and every merge request
    attached to a stored project, provided the run is given the project it fetches.
  \<^item> \<open>Squads\<close>: the script labels by author, overwrites only for the CMS authors, is
    idempotent, and its report accounts for every record.
  \<^item> Here: a second run against an unchanged remote changes nothing; a run against a
    well-behaved remote returns; a closed record is invisible to the statistics; a
    record written by a run is invisible to the statistics until it is labelled
    again; the script run after an update labels by author alone; \<open>main\<close> returns
    against a well-behaved remote.

  \<^bold>\<open>Bounds.\<close> No fuel and no bound on the number of pages, records or rows is used.
  \<open>show_int\<close> is the text of a JavaScript number only below \<open>10^21\<close>; durations and
  identifiers of the program are far below that.

  \<^bold>\<open>Not modelled.\<close> The rendering of the prompts by \<open>inquirer\<close>; the transport of the
  HTTP client \<open>ky\<close> (connections, status codes, the delay between attempts, the
  clock of the timeout), of which the model has the number of attempts and the final
  answer; the loading of \<open>.env\<close> by \<open>dotenv\<close> (line 14), whose result is the token
  given to \<open>start\<close>; the imports; the setup instructions (\<open>src/unnamed/part_000\<close>),
  which are prose about creating the token and running the program. The sqlite3 driver is a library: why a
  call fails (I/O, a violated \<open>NOT NULL\<close>) is not modelled, only that it does; a
  failure happens before the statement has any effect, and \<open>Database.close\<close> is never
  called by the program. The calendar date inside the text of \<open>datetime\<close> and the
  platform's date parser (a parameter of \<open>isValidDate\<close>) are not modelled.

  \<^bold>\<open>Plan.\<close> Next: recovery after more than one failing call; the attempts behind
  the requests of a run; the client in front of \<open>main_io\<close>.
\<close>

definition paged_notes :: "remote_env \<Rightarrow> bool" where
  "paged_notes env \<longleftrightarrow>
     (\<forall>projectId iid. \<exists>h ns. notes_endpoint env projectId iid = paged_remote (\<lambda>_. h) ns)"

definition unlabelled :: "ident \<Rightarrow> database \<Rightarrow> bool" where
  "unlabelled projectId database \<longleftrightarrow>
     list_all (\<lambda>r. project_id r = projectId \<longrightarrow> squad r = None) (merge_requests database)"

subsection \<open>Termination of a whole run\<close>

lemma paged_notes_details:
  "paged_notes env \<Longrightarrow>
   \<exists>d. fetchMergeRequestDetails (notes_endpoint env projectId iid)
          (approval_events_endpoint env projectId iid) = Some d"
proof -
  assume "paged_notes env"
  then obtain h ns where "notes_endpoint env projectId iid = paged_remote (\<lambda>_. h) ns"
    unfolding paged_notes_def by blast
  then show ?thesis by (simp add: details_paged)
qed

lemma paged_notes_process_mr:
  "paged_notes env \<Longrightarrow> \<exists>s'. process_mr env projectId mr s = Some s'"
  using paged_notes_details [of env projectId "r_iid mr"]
  by (auto simp: process_mr_def enrich_and_save_def split: option.splits)

lemma paged_notes_process_all:
  "paged_notes env \<Longrightarrow> \<exists>s'. process_all env projectId mergeRequests s = Some s'"
proof (induction mergeRequests arbitrary: s)
  case Nil
  then show ?case by simp
next
  case (Cons mr mergeRequests)
  from paged_notes_process_mr [OF Cons.prems] obtain s1
    where "process_mr env projectId mr s = Some s1" by blast
  with Cons.IH [OF Cons.prems, of s1] show ?case by simp
qed

lemma processAndStore_returns:
  assumes "serves (merge_requests_endpoint env projectId) mergeRequests"
    and "paged_notes env"
  shows "\<exists>s'. processAndStoreMergeRequests env projectId proj database = Some s'"
  using loop_serves_from_first [OF assms(1)] paged_notes_process_all [OF assms(2)]
  by (simp add: processAndStoreMergeRequests_def fetchMergeRequests_def)

text \<open>
  A run against a well-behaved remote returns. If the merge requests of the
  project are a finite collection served in pages and every notes collection is
  served in pages with a constant page-count header, \<open>processAndStoreMergeRequests\<close>
  returns.
\<close>
theorem sync_returns:
  assumes "serves (merge_requests_endpoint env projectId) mergeRequests"
    and "paged_notes env"
  shows "\<exists>s'. processAndStoreMergeRequests env projectId proj database = Some s'"
  using assms by (rule processAndStore_returns)

lemma example_env_paged_notes: "paged_notes example_env"
  unfolding paged_notes_def example_env_def by auto

theorem sync_returns_witness:
  "serves (merge_requests_endpoint example_env 9) [example_remote_mr]
   \<and> paged_notes example_env
   \<and> (\<exists>s'. processAndStoreMergeRequests example_env 9 example_project empty_database = Some s')"
  using sync_returns [of example_env 9 "[example_remote_mr]" example_project empty_database]
  by (simp add: example_env_paged_notes) (simp add: example_env_def)

subsection \<open>Convergence of repeated runs\<close>

lemma all_settled_saveProject [simp]:
  "all_settled projectId mergeRequests (saveProject proj database)
     = all_settled projectId mergeRequests database"
  by (simp add: all_settled_def)

lemma project_table_cong:
  "projects database = projects database' \<Longrightarrow> project_table database = project_table database'"
  by (simp add: project_table_def)

lemma project_table_saveProject_again:
  assumes "projects database' = projects (saveProject proj database)"
  shows "project_table (saveProject proj database') = project_table database'"
proof -
  from assms have "project_table database' = (project_table database)(proj_id proj \<mapsto> proj)"
    by (simp add: project_table_cong [OF assms] project_table_saveProject)
  then show ?thesis by (simp add: project_table_saveProject)
qed

text \<open>
  C5: idempotent convergence. After a run that fetched merge requests with distinct
  ids, a second run against the same remote returns, skips every record, calls the
  enricher for none, and leaves the merge-request table and the project map as the
  first run left them.
\<close>
theorem second_run_changes_nothing:
  assumes first: "processAndStoreMergeRequests env projectId proj database = Some s1"
    and fetch: "fetchMergeRequests (merge_requests_endpoint env projectId) = Some mergeRequests"
    and dist: "distinct (map r_id mergeRequests)"
  shows "\<exists>s2. processAndStoreMergeRequests env projectId proj (db s1) = Some s2
     \<and> merge_requests (db s2) = merge_requests (db s1)
     \<and> project_table (db s2) = project_table (db s1)
     \<and> detail_calls s2 = [] \<and> skippedCount s2 = length mergeRequests"
  using first
proof (cases rule: processAndStore_cases)
  case nothing
  with fetch have "mergeRequests = []" by simp
  with nothing fetch show ?thesis by (simp add: processAndStoreMergeRequests_def)
next
  case (run mrs)
  with fetch have mrs: "mrs = mergeRequests" by simp
  let ?s = "initial_state (saveProject proj (db s1))"
  from run(3) dist have "all_settled projectId mergeRequests (db s1)"
    unfolding mrs by (rule sync_run_settles)
  then have "all_settled projectId mergeRequests (db ?s)" by simp
  then have again: "process_all env projectId mergeRequests ?s
      = Some (?s\<lparr>skippedCount := skippedCount ?s + length mergeRequests\<rparr>)"
    by (rule process_all_settled)
  from sync_run_projects [OF run(3)]
  have "project_table (saveProject proj (db s1)) = project_table (db s1)"
    by (intro project_table_saveProject_again) simp
  with again run(2) fetch mrs show ?thesis
    by (simp add: processAndStoreMergeRequests_def)
qed

theorem second_run_changes_nothing_witness:
  "\<exists>s1. processAndStoreMergeRequests example_env 9 example_project empty_database = Some s1
     \<and> fetchMergeRequests (merge_requests_endpoint example_env 9) = Some [example_remote_mr]
     \<and> distinct (map r_id [example_remote_mr])
     \<and> (\<exists>s2. processAndStoreMergeRequests example_env 9 example_project (db s1) = Some s2
          \<and> merge_requests (db s2) = merge_requests (db s1)
          \<and> detail_calls s2 = [] \<and> skippedCount s2 = 1)"
proof -
  from example_run_returns obtain s1 where
    s1: "processAndStoreMergeRequests example_env 9 example_project empty_database = Some s1" ..
  from second_run_changes_nothing [OF s1 example_fetch] s1 example_fetch
  show ?thesis by auto
qed

subsection \<open>The run and the statistics\<close>

lemma stats_where_closed [simp]: "state r = ''closed'' \<Longrightarrow> \<not> stats_where p s e r"
  by (simp add: stats_where_def)

lemma late_where_closed [simp]: "state r = ''closed'' \<Longrightarrow> \<not> late_where p t s e r"
  by (simp add: late_where_def)

lemma merge_requests_insert:
  "getMergeRequest (project_id r) (mr_id r) database = None \<Longrightarrow>
   merge_requests (saveMergeRequest r database) = merge_requests database @ [r]"
proof -
  assume "getMergeRequest (project_id r) (mr_id r) database = None"
  then have "key_of r \<notin> key_of ` set (merge_requests database)"
    by (simp add: getMergeRequest_None_iff key_of_def)
  then show ?thesis by (simp add: saveMergeRequest_def insert_or_replace_fresh)
qed

text \<open>
  Closed-state exclusion. Inserting a record whose state is \<open>closed\<close> changes the
  result of neither query, whatever its squad, dates and timestamps.
\<close>
theorem closed_insert_invisible:
  assumes "state r = ''closed''"
    and "getMergeRequest (project_id r) (mr_id r) database = None"
  shows "getMergeRequestStats p s e (saveMergeRequest r database)
      = getMergeRequestStats p s e database
    \<and> countMrsWithLateFirstComment p t s e (saveMergeRequest r database)
      = countMrsWithLateFirstComment p t s e database"
  using assms
  by (simp add: getMergeRequestStats_def countMrsWithLateFirstComment_def merge_requests_insert)

theorem closed_insert_invisible_witness:
  "state (sample_row 8 ''closed'' (Some ''WEB'') (Some 500)) = ''closed''
   \<and> getMergeRequest (project_id (sample_row 8 ''closed'' (Some ''WEB'') (Some 500)))
        (mr_id (sample_row 8 ''closed'' (Some ''WEB'') (Some 500))) sample_db = None
   \<and> getMergeRequestStats 9 None None
        (saveMergeRequest (sample_row 8 ''closed'' (Some ''WEB'') (Some 500)) sample_db)
       = getMergeRequestStats 9 None None sample_db"
  using closed_insert_invisible [of "sample_row 8 ''closed'' (Some ''WEB'') (Some 500)"
      sample_db 9 None None 0]
  by (simp add: sample_row_def sample_db_def getMergeRequest_def)

lemma unlabelled_stats:
  "unlabelled projectId database \<Longrightarrow>
   filter (stats_where projectId s e) (merge_requests database) = []
   \<and> filter (late_where projectId t s e) (merge_requests database) = []"
  by (auto simp: unlabelled_def list_all_iff filter_empty_conv stats_where_def late_where_def)

lemma unlabelled_saveProject [simp]:
  "unlabelled projectId (saveProject proj database) = unlabelled projectId database"
  by (simp add: unlabelled_def)

lemma unlabelled_step:
  assumes "sync_step env projectId mr s s'" and "unlabelled projectId (db s)"
  shows "unlabelled projectId (db s')"
  using assms(1)
proof (cases rule: sync_step.cases)
  case (skipped existingMR)
  with assms(2) show ?thesis by simp
next
  case (saved d)
  with assms(2) show ?thesis
    by (auto simp: unlabelled_def list_all_iff set_merge_requests_save)
qed

text \<open>
  The run never labels a record. Starting from a store in which no record of the
  project carries a squad, for instance an empty one, the store after the run has no
  labelled record of the project either, so both queries return no rows: the
  statistics see a record only after the squad was assigned from outside.
\<close>
theorem synced_records_are_unlabelled:
  assumes "unlabelled projectId database"
    and "processAndStoreMergeRequests env projectId proj database = Some s'"
  shows "unlabelled projectId (db s')
    \<and> getMergeRequestStats projectId s e (db s') = []
    \<and> countMrsWithLateFirstComment projectId t s e (db s') = []"
proof -
  from assms(2) have "unlabelled projectId (db s')"
  proof (cases rule: processAndStore_cases)
    case nothing
    with assms(1) show ?thesis by simp
  next
    case (run mergeRequests)
    from run(3) show ?thesis
      by (rule sync_run_invariant) (use assms(1) in \<open>auto intro: unlabelled_step\<close>)
  qed
  with unlabelled_stats [of projectId "db s'" s e t] show ?thesis
    by (simp add: getMergeRequestStats_def countMrsWithLateFirstComment_def group_by_def)
qed

theorem synced_records_are_unlabelled_witness:
  "unlabelled 9 empty_database
   \<and> (\<exists>s'. processAndStoreMergeRequests example_env 9 example_project empty_database = Some s'
        \<and> merge_requests (db s') \<noteq> []
        \<and> getMergeRequestStats 9 None None (db s') = [])"
proof -
  have u: "unlabelled 9 empty_database" by (simp add: unlabelled_def empty_database_def)
  from example_run_returns obtain s' where
    s': "processAndStoreMergeRequests example_env 9 example_project empty_database = Some s'" ..
  then have "merge_requests (db s') \<noteq> []"
    by (auto simp: processAndStoreMergeRequests_def example_fetch process_mr_new
        enrich_and_save_def example_details saveMergeRequest_def insert_or_replace_def)
  with synced_records_are_unlabelled [OF u s', of None None 0] u s' show ?thesis by auto
qed

subsection \<open>The squad script after a run\<close>

lemma updated_record_relabelled:
  assumes "enrich_and_save env projectId mr s = Some s'"
  shows "\<exists>row. getMergeRequest projectId (r_id mr) (update_squads (db s')) = Some row
    \<and> squad row = default_squad (a_username (r_author mr))"
  using assms
  by (elim enrich_and_save_SomeD)
    (simp add: getMergeRequest_update_squads getMergeRequest_saveMergeRequest squad_relabel
      mrData_def)

text \<open>
  C20: after an update the script labels by author alone. When the run has updated a
  stored record and the squad script runs afterwards, the squad of the record is the
  one the script gives its author (\<open>CMS\<close>, \<open>WEB\<close> or none): a label that was set by
  hand is not restored.
\<close>
theorem script_after_update_labels_by_author:
  assumes "getMergeRequest projectId (r_id mr) (db s) = Some existingMR"
    and "reconcile mr (Some existingMR) = Update"
    and "process_mr env projectId mr s = Some s'"
  shows "\<exists>row. getMergeRequest projectId (r_id mr) (update_squads (db s')) = Some row
    \<and> squad row = default_squad (a_username (r_author mr))"
proof -
  from assms(2) have "\<not> (r_state mr = ''merged'' \<and> state existingMR = ''merged'')"
    and "needsUpdate existingMR mr"
    by (auto simp: needsUpdate_def split: if_splits)
  with assms(1,3)
  have "enrich_and_save env projectId mr (s\<lparr>updatedCount := updatedCount s + 1\<rparr>) = Some s'"
    by (simp add: process_mr_update)
  then show ?thesis by (rule updated_record_relabelled)
qed

theorem script_after_update_labels_by_author_witness:
  "getMergeRequest 9 (r_id example_remote_mr) (db example_state) = Some example_row
   \<and> reconcile example_remote_mr (Some example_row) = Update
   \<and> (\<exists>s'. process_mr example_env 9 example_remote_mr example_state = Some s'
        \<and> (\<exists>row. getMergeRequest 9 (r_id example_remote_mr) (update_squads (db s')) = Some row
              \<and> squad row = Some ''CMS''))"
proof -
  have u: "reconcile example_remote_mr (Some example_row) = Update"
    by (simp add: example_row_def example_remote_mr_def at_minute_def)
  have "process_mr example_env 9 example_remote_mr example_state
      = enrich_and_save example_env 9 example_remote_mr
          (example_state\<lparr>updatedCount := updatedCount example_state + 1\<rparr>)"
    by (rule process_mr_update [OF example_existing])
      (simp_all add: needsUpdate_def example_row_def example_remote_mr_def at_minute_def)
  then obtain s' where s': "process_mr example_env 9 example_remote_mr example_state = Some s'"
    by (simp add: enrich_and_save_def example_details)
  from script_after_update_labels_by_author [OF example_existing u s'] example_existing u s'
  show ?thesis by (auto simp: example_remote_mr_def cms_authors_def)
qed

subsection \<open>The whole program\<close>

definition fetch_answers :: answers where
  "fetch_answers = stats_answers\<lparr>ans_actionType := ''fetch''\<rparr>"

text \<open>
  C19: the program returns. If the prompts accept the answers, the merge requests of
  every project are a finite collection served in pages and the notes are served in
  pages with page-count headers, then \<open>main\<close> returns, whatever the group and
  project requests answer and whichever action is chosen.
\<close>
theorem main_returns:
  assumes "answers_accepted w a"
    and "\<forall>projectId. \<exists>mergeRequests. serves (merge_requests_endpoint (w_remote w) projectId) mergeRequests"
    and "paged_notes (w_remote w)"
  shows "\<exists>result. main w a file = Some result"
proof -
  have run: "\<exists>s'. processAndStoreMergeRequests (w_remote w) projectId proj database = Some s'"
    for projectId proj database
    using assms(2,3) processAndStore_returns by blast
  from assms(1) obtain printed where "show_stats w a (snd file) = Some printed"
    using show_stats_Some_iff by blast
  with run show ?thesis
    by (auto simp: main_def Let_def split: option.splits)
qed

theorem main_returns_witness:
  "answers_accepted example_world fetch_answers
   \<and> (\<exists>s. processAndStoreMergeRequests example_env 9 example_project_row empty_database = Some s
        \<and> main example_world fetch_answers (first_version_schema, empty_database)
            = Some (Fetched, initDatabase False first_version_schema, db s))"
proof -
  have acc: "answers_accepted example_world fetch_answers"
    using stats_answers_accepted by (simp add: answers_accepted_def fetch_answers_def)
  have "\<forall>projectId. \<exists>mergeRequests.
      serves (merge_requests_endpoint (w_remote example_world) projectId) mergeRequests"
    by (auto simp: example_world_def example_env_def intro: paged_remote_serves)
  moreover have "paged_notes (w_remote example_world)"
    using example_env_paged_notes by (simp add: example_world_def)
  ultimately obtain result where
    r: "main example_world fetch_answers (first_version_schema, empty_database) = Some result"
    using main_returns [OF acc] by blast
  have "find (\<lambda>c. proj_id (repo_project c) = ans_selectedRepo fetch_answers)
      (listRepositories (w_projects example_world 3))
    = Some \<lparr>repo_project = example_project_row, name_with_namespace = ''murid / web''\<rparr>"
    using example_world_choice by (simp add: fetch_answers_def stats_answers_def)
  from main_selected [OF example_world_group _ this, of first_version_schema empty_database] r acc
  show ?thesis
    by (auto simp: fetch_answers_def stats_answers_def example_world_def)
qed

end
